(* ===== verification/Prelude.thy ===== *)
theory Prelude
  imports Complex_Main "HOL-Library.AList" "HOL-Library.Char_ord" "HOL-Library.List_Lexorder"
    "HOL-Library.Product_Lexorder"
begin

text \<open>
  Shared vocabulary of the development: insertion-ordered dictionaries (the Python \<open>dict\<close> of the
  in-memory store), decimal printing and parsing of generated ids, the state-and-exception
  programs the request handlers are written in, and the proof rules for them.
\<close>

named_theorems dict_simps \<open>lookup and key facts of insertion-ordered dictionaries\<close>
named_theorems prog_simps \<open>symbolic execution of handler programs\<close>
named_theorems keeps_rules \<open>structural rules: a program keeps a state predicate\<close>

section \<open>Dictionaries\<close>

type_synonym 'v dict = "(string \<times> 'v) list"

text \<open>
  A Python \<open>dict\<close> keeps insertion order and the code iterates over \<open>values()\<close>, so a dictionary
  is an association list: \<^const>\<open>map_of\<close> is \<open>get\<close>, \<^const>\<open>AList.update\<close> is item assignment (in
  place for an old key, at the end for a new one), \<^const>\<open>AList.delete\<close> is \<open>pop\<close>, and
  \<open>dict_mod\<close> is the mutation of the object stored under a key.
\<close>

definition dict_values :: "'v dict \<Rightarrow> 'v list" where
  "dict_values d = map snd d"

definition dict_mod :: "string \<Rightarrow> ('v \<Rightarrow> 'v) \<Rightarrow> 'v dict \<Rightarrow> 'v dict" where
  "dict_mod k f d = map (\<lambda>(k', v). (k', if k' = k then f v else v)) d"

definition has_key :: "'v dict \<Rightarrow> string \<Rightarrow> bool" where
  "has_key d k \<longleftrightarrow> map_of d k \<noteq> None"

definition dict_wf :: "'v dict \<Rightarrow> bool" where
  "dict_wf d \<longleftrightarrow> distinct (map fst d)"

text \<open>The entries of \<open>d\<close> under the keys of \<open>ks\<close>, in the order of \<open>ks\<close>, skipping absent keys.\<close>

fun dict_pick :: "'v dict \<Rightarrow> string list \<Rightarrow> 'v list" where
  "dict_pick d [] = []"
| "dict_pick d (k # ks) =
     (case map_of d k of None \<Rightarrow> dict_pick d ks | Some v \<Rightarrow> v # dict_pick d ks)"

section \<open>Decimal numbers, padding and splitting\<close>

definition digit_char :: "nat \<Rightarrow> char" where
  "digit_char n = char_of (48 + n)"

fun dec :: "nat \<Rightarrow> string" where
  "dec n = (if n < 10 then [digit_char n] else dec (n div 10) @ [digit_char (n mod 10)])"

declare dec.simps [simp del]

definition is_digit :: "char \<Rightarrow> bool" where
  "is_digit c \<longleftrightarrow> 48 \<le> (of_char c :: nat) \<and> (of_char c :: nat) \<le> 57"

definition digit_val :: "char \<Rightarrow> nat" where
  "digit_val c = (of_char c :: nat) - 48"

text \<open>Python's \<open>int\<close> on a string of ASCII digits; any other string raises \<open>ValueError\<close>.\<close>

definition undec :: "string \<Rightarrow> nat option" where
  "undec s = (if s \<noteq> [] \<and> list_all is_digit s
              then Some (foldl (\<lambda>a c. 10 * a + digit_val c) 0 s) else None)"

text \<open>\<open>str(n).zfill(w)\<close>, and the format \<open>{n:02d}\<close> at width 2.\<close>

definition zfill :: "nat \<Rightarrow> string \<Rightarrow> string" where
  "zfill w s = replicate (w - length s) CHR ''0'' @ s"

text \<open>\<open>s.rsplit(c, 1)[1]\<close>: what follows the last \<open>c\<close>; \<open>None\<close> where the index is out of range.\<close>

definition after_last :: "char \<Rightarrow> string \<Rightarrow> string option" where
  "after_last c s = (if c \<in> set s then Some (rev (takeWhile (\<lambda>x. x \<noteq> c) (rev s))) else None)"

section \<open>Python list helpers\<close>

text \<open>\<open>xs[:i]\<close>, with a negative \<open>i\<close> counting from the end.\<close>

definition py_take :: "int \<Rightarrow> 'a list \<Rightarrow> 'a list" where
  "py_take i xs = (if 0 \<le> i then take (nat i) xs else take (length xs - nat (- i)) xs)"

text \<open>\<open>min(xs, key=f)\<close>: the first element whose key is least; \<open>None\<close> for the empty list.\<close>

fun min_by :: "('a \<Rightarrow> 'b::linorder) \<Rightarrow> 'a list \<Rightarrow> 'a option" where
  "min_by f [] = None"
| "min_by f (x # xs) =
     (case min_by f xs of None \<Rightarrow> Some x | Some y \<Rightarrow> Some (if f x \<le> f y then x else y))"

text \<open>\<open>sorted(xs, key=f, reverse=True)\<close>: descending, equal keys in their original order.\<close>

definition sort_desc :: "('a \<Rightarrow> 'b::linorder) \<Rightarrow> 'a list \<Rightarrow> 'a list" where
  "sort_desc f xs = rev (sort_key f (rev xs))"

text \<open>\<open>next((x for x in xs if p(x)), None)\<close> is the library's \<^const>\<open>List.find\<close>.\<close>

section \<open>Handler programs\<close>

text \<open>
  A handler may raise in the middle of its work and what it wrote before stays written, so an
  outcome pairs a result with the state reached. \<open>HTTPException\<close> carries the status code and an
  ASCII tag of its detail text; \<open>PyError\<close> is any other exception (a missing key, a failed
  conversion), which no \<open>except HTTPException\<close> of the code catches.
\<close>

datatype err = HTTPException nat string | PyError string

type_synonym ('s, 'a) prog = "'s \<Rightarrow> (err + 'a) \<times> 's"

definition returnE :: "'a \<Rightarrow> ('s, 'a) prog" where
  "returnE x s = (Inr x, s)"

definition raiseE :: "err \<Rightarrow> ('s, 'a) prog" where
  "raiseE e s = (Inl e, s)"

definition bindE :: "('s, 'a) prog \<Rightarrow> ('a \<Rightarrow> ('s, 'b) prog) \<Rightarrow> ('s, 'b) prog" where
  "bindE m f s = (case m s of (Inl e, s') \<Rightarrow> (Inl e, s') | (Inr x, s') \<Rightarrow> f x s')"

definition thenE :: "('s, 'a) prog \<Rightarrow> ('s, 'b) prog \<Rightarrow> ('s, 'b) prog" where
  "thenE m k = bindE m (\<lambda>_. k)"

definition getsE :: "('s \<Rightarrow> 'a) \<Rightarrow> ('s, 'a) prog" where
  "getsE f s = (Inr (f s), s)"

definition modifyE :: "('s \<Rightarrow> 's) \<Rightarrow> ('s, unit) prog" where
  "modifyE f s = (Inr (), f s)"

text \<open>\<open>if bad: raise e\<close>.\<close>

definition raise_if :: "bool \<Rightarrow> err \<Rightarrow> ('s, unit) prog" where
  "raise_if bad e = (if bad then raiseE e else returnE ())"

text \<open>An option read as \<open>d[k]\<close> or \<open>d.get(k)\<close> followed by a raise.\<close>

definition someE :: "err \<Rightarrow> 'a option \<Rightarrow> ('s, 'a) prog" where
  "someE e x = (case x of None \<Rightarrow> raiseE e | Some v \<Rightarrow> returnE v)"

text \<open>\<open>try: m  except HTTPException as exc: h(exc)\<close>.\<close>

definition catchE :: "('s, 'a) prog \<Rightarrow> (nat \<Rightarrow> string \<Rightarrow> ('s, 'a) prog) \<Rightarrow> ('s, 'a) prog" where
  "catchE m h s =
     (case m s of (Inl (HTTPException c d), s') \<Rightarrow> h c d s'
                | (Inl (PyError x), s') \<Rightarrow> (Inl (PyError x), s')
                | (Inr v, s') \<Rightarrow> (Inr v, s'))"

text \<open>A \<open>try\<close> whose handler and continuation both need the outcome: the detail tag, or the result.\<close>

definition tryE :: "('s, 'a) prog \<Rightarrow> ('s, string + 'a) prog" where
  "tryE m = catchE (bindE m (\<lambda>x. returnE (Inr x))) (\<lambda>c d. returnE (Inl d))"

text \<open>\<open>try: m  except Exception: h\<close>.\<close>

definition catch_all :: "('s, 'a) prog \<Rightarrow> ('s, 'a) prog \<Rightarrow> ('s, 'a) prog" where
  "catch_all m h s = (case m s of (Inl _, s') \<Rightarrow> h s' | (Inr v, s') \<Rightarrow> (Inr v, s'))"

text \<open>\<open>[f(x) for x in xs]\<close> with effects, in order.\<close>

fun collectE :: "'a list \<Rightarrow> ('a \<Rightarrow> ('s, 'b) prog) \<Rightarrow> ('s, 'b list) prog" where
  "collectE [] f = returnE []"
| "collectE (x # xs) f = bindE (f x) (\<lambda>y. bindE (collectE xs f) (\<lambda>ys. returnE (y # ys)))"

text \<open>A call made for its effect.\<close>

definition doE :: "('s, 'a) prog \<Rightarrow> ('s, unit) prog" where
  "doE m = thenE m (returnE ())"

text \<open>\<open>for x in xs: f(x)\<close>.\<close>

fun forE :: "'a list \<Rightarrow> ('a \<Rightarrow> ('s, unit) prog) \<Rightarrow> ('s, unit) prog" where
  "forE [] f = returnE ()"
| "forE (x # xs) f = thenE (f x) (forE xs f)"

text \<open>A program on a part of the state, run on the whole state.\<close>

definition focusE :: "('w \<Rightarrow> 's) \<Rightarrow> ('s \<Rightarrow> 'w \<Rightarrow> 'w) \<Rightarrow> ('s, 'a) prog \<Rightarrow> ('w, 'a) prog" where
  "focusE get put m w = (case m (get w) of (r, s') \<Rightarrow> (r, put s' w))"

text \<open>\<open>keeps I m\<close>: the program keeps the predicate, whether it returns or raises.\<close>

definition keeps :: "('s \<Rightarrow> bool) \<Rightarrow> ('s, 'a) prog \<Rightarrow> bool" where
  "keeps I m \<longleftrightarrow> (\<forall>s. I s \<longrightarrow> I (snd (m s)))"

text \<open>
  \<open>triple P m Q E\<close>: from a state satisfying \<open>P\<close> the program ends, with a result and a state
  satisfying \<open>Q\<close> or with an exception and a state satisfying \<open>E\<close>.
\<close>

definition triple :: "('s \<Rightarrow> bool) \<Rightarrow> ('s, 'a) prog \<Rightarrow> ('a \<Rightarrow> 's \<Rightarrow> bool) \<Rightarrow> (err \<Rightarrow> 's \<Rightarrow> bool) \<Rightarrow> bool"
  where
  "triple P m Q E \<longleftrightarrow>
     (\<forall>s. P s \<longrightarrow> (case m s of (Inr x, s') \<Rightarrow> Q x s' | (Inl e, s') \<Rightarrow> E e s'))"

section \<open>Dictionary lemmas\<close>

lemma map_of_update [simp, dict_simps]:
  "map_of (AList.update k v d) k' = (if k' = k then Some v else map_of d k')"
  by (simp add: AList.update_conv')

lemma map_of_delete [simp, dict_simps]:
  "map_of (AList.delete k d) k' = (if k' = k then None else map_of d k')"
  by (simp add: AList.delete_conv')

lemma map_of_dict_mod [simp, dict_simps]:
  "map_of (dict_mod k f d) k' = (if k' = k then map_option f (map_of d k) else map_of d k')"
  by (induction d) (auto simp: dict_mod_def)

lemma keys_dict_mod [simp, dict_simps]: "map fst (dict_mod k f d) = map fst d"
  by (induction d) (auto simp: dict_mod_def)

lemma has_key_update [simp, dict_simps]: "has_key (AList.update k v d) k' \<longleftrightarrow> k' = k \<or> has_key d k'"
  by (simp add: has_key_def)

lemma has_key_delete [simp, dict_simps]: "has_key (AList.delete k d) k' \<longleftrightarrow> k' \<noteq> k \<and> has_key d k'"
  by (simp add: has_key_def)

lemma has_key_mod [simp, dict_simps]: "has_key (dict_mod k f d) k' \<longleftrightarrow> has_key d k'"
  by (simp add: has_key_def)

lemma has_key_fst: "has_key d k \<longleftrightarrow> k \<in> fst ` set d"
  by (simp add: has_key_def map_of_eq_None_iff)

lemma dict_wf_update [simp, intro, dict_simps]: "dict_wf d \<Longrightarrow> dict_wf (AList.update k v d)"
  by (simp add: dict_wf_def distinct_update)

lemma dict_wf_delete [simp, intro, dict_simps]: "dict_wf d \<Longrightarrow> dict_wf (AList.delete k d)"
  by (simp add: dict_wf_def distinct_delete)

lemma dict_wf_mod [simp, dict_simps]: "dict_wf (dict_mod k f d) \<longleftrightarrow> dict_wf d"
  by (simp add: dict_wf_def)

lemma dict_wf_Nil [simp]: "dict_wf []"
  by (simp add: dict_wf_def)

lemma in_dict_values: "dict_wf d \<Longrightarrow> v \<in> set (dict_values d) \<longleftrightarrow> (\<exists>k. map_of d k = Some v)"
  by (force simp: dict_wf_def dict_values_def map_of_eq_Some_iff)

lemma dict_values_map_of: "v \<in> set (dict_values d) \<Longrightarrow> dict_wf d \<Longrightarrow> \<exists>k. map_of d k = Some v"
  by (simp add: in_dict_values)

lemma map_of_dict_values: "map_of d k = Some v \<Longrightarrow> v \<in> set (dict_values d)"
  by (force simp: dict_values_def dest: map_of_SomeD)

lemma set_dict_pick: "set (dict_pick d ks) = {v. \<exists>k \<in> set ks. map_of d k = Some v}"
  by (induction ks) (auto split: option.splits)

lemma dict_pick_append [simp]: "dict_pick d (xs @ ys) = dict_pick d xs @ dict_pick d ys"
  by (induction xs) (auto split: option.splits)

text \<open>Entries pairwise unrelated unless equal stay so when an unrelated entry is added.\<close>

lemma unique_upd:
  assumes "\<And>k l p q. m k = Some p \<Longrightarrow> m l = Some q \<Longrightarrow> R p q \<Longrightarrow> k = l"
    and "\<And>l q. m l = Some q \<Longrightarrow> \<not> R v q \<and> \<not> R q v"
    and "(if k = x then Some v else m k) = Some p" "(if l = x then Some v else m l) = Some q" "R p q"
  shows "k = l"
proof -
  have "k = x \<Longrightarrow> l \<noteq> x \<Longrightarrow> False" using assms(2) [of l q] assms(3-5) by simp
  moreover have "k \<noteq> x \<Longrightarrow> l = x \<Longrightarrow> False" using assms(2) [of k p] assms(3-5) by simp
  moreover have "k \<noteq> x \<Longrightarrow> l \<noteq> x \<Longrightarrow> k = l" using assms(1) [of k p l q] assms(3-5) by simp
  ultimately show ?thesis by blast
qed

section \<open>Decimal lemmas\<close>

lemma of_char_digit: "n < 10 \<Longrightarrow> (of_char (digit_char n) :: nat) = 48 + n"
  by (simp add: digit_char_def of_char_of)

lemma digit_val_digit [simp]: "n < 10 \<Longrightarrow> digit_val (digit_char n) = n"
  by (simp add: digit_val_def of_char_digit)

lemma is_digit_digit [simp]: "n < 10 \<Longrightarrow> is_digit (digit_char n)"
  by (simp add: is_digit_def of_char_digit)

lemma dec_nonempty [simp]: "dec n \<noteq> []"
  by (subst dec.simps) simp

lemma dec_digits: "list_all is_digit (dec n)"
proof (induction n rule: dec.induct)
  case (1 n)
  then show ?case by (subst dec.simps) simp
qed

lemma foldl_dec: "foldl (\<lambda>a c. 10 * a + digit_val c) 0 (dec n) = n"
proof (induction n rule: dec.induct)
  case (1 n)
  show ?case
  proof (cases "n < 10")
    case True
    then show ?thesis by (simp add: dec.simps [of n])
  next
    case False
    with 1 show ?thesis by (simp add: dec.simps [of n])
  qed
qed

lemma undec_dec [simp]: "undec (dec n) = Some n"
  by (simp add: undec_def dec_digits foldl_dec)

lemma dec_inject [simp]: "dec m = dec n \<longleftrightarrow> m = n"
  by (metis undec_dec option.inject)

lemma dec_no_char: "\<not> is_digit c \<Longrightarrow> c \<notin> set (dec n)"
  using dec_digits [of n] by (auto simp: list_all_iff)

lemma after_last_append: "c \<notin> set t \<Longrightarrow> after_last c (s @ c # t) = Some t"
  by (simp add: after_last_def takeWhile_append)

section \<open>List helper lemmas\<close>

lemma min_by_None [simp]: "min_by f xs = None \<longleftrightarrow> xs = []"
  by (cases xs) (auto split: option.splits)

lemma min_by_Some: "min_by f xs = Some x \<Longrightarrow> x \<in> set xs \<and> (\<forall>y \<in> set xs. f x \<le> f y)"
proof (induction xs arbitrary: x)
  case Nil
  then show ?case by simp
next
  case (Cons a xs)
  show ?case
  proof (cases "min_by f xs")
    case None
    with Cons.prems show ?thesis by simp
  next
    case (Some y)
    with Cons.IH [of y] Cons.prems show ?thesis by (auto split: if_splits)
  qed
qed

lemma set_py_take: "set (py_take i xs) \<subseteq> set xs"
  by (auto simp: py_take_def dest: in_set_takeD)

lemma set_sort_desc [simp]: "set (sort_desc f xs) = set xs"
  by (simp add: sort_desc_def)

lemma length_sort_desc [simp]: "length (sort_desc f xs) = length xs"
  by (simp add: sort_desc_def)

lemma find_SomeD: "List.find p xs = Some x \<Longrightarrow> x \<in> set xs \<and> p x"
  by (induction xs) (auto split: if_splits)

section \<open>Program lemmas\<close>

lemma returnE_run [simp, prog_simps]: "returnE x s = (Inr x, s)"
  by (simp add: returnE_def)

lemma raiseE_run [simp, prog_simps]: "raiseE e s = (Inl e, s)"
  by (simp add: raiseE_def)

lemma getsE_run [simp, prog_simps]: "getsE f s = (Inr (f s), s)"
  by (simp add: getsE_def)

lemma modifyE_run [simp, prog_simps]: "modifyE f s = (Inr (), f s)"
  by (simp add: modifyE_def)

lemma raise_if_run [simp, prog_simps]: "raise_if b e s = (if b then (Inl e, s) else (Inr (), s))"
  by (simp add: raise_if_def)

lemma someE_run [prog_simps]:
  "someE e x s = (case x of None \<Rightarrow> (Inl e, s) | Some v \<Rightarrow> (Inr v, s))"
  by (simp add: someE_def split: option.splits)

lemma someE_Some [simp]: "someE e (Some v) = returnE v"
  by (simp add: someE_def)

lemma someE_None [simp]: "someE e None = raiseE e"
  by (simp add: someE_def)

lemma bindE_Inr: "m s = (Inr x, s') \<Longrightarrow> bindE m f s = f x s'"
  by (simp add: bindE_def)

lemma bindE_Inl: "m s = (Inl e, s') \<Longrightarrow> bindE m f s = (Inl e, s')"
  by (simp add: bindE_def)

lemma thenE_Inr: "m s = (Inr x, s') \<Longrightarrow> thenE m k s = k s'"
  by (simp add: thenE_def bindE_def)

lemma thenE_Inl: "m s = (Inl e, s') \<Longrightarrow> thenE m k s = (Inl e, s')"
  by (simp add: thenE_def bindE_def)

lemma bindE_ok: "bindE m f s = (Inr y, t) \<Longrightarrow> \<exists>x s'. m s = (Inr x, s') \<and> f x s' = (Inr y, t)"
  by (auto simp: bindE_def split: prod.splits sum.splits)

lemma thenE_ok: "thenE m k s = (Inr y, t) \<Longrightarrow> \<exists>x s'. m s = (Inr x, s') \<and> k s' = (Inr y, t)"
  by (auto simp: thenE_def dest: bindE_ok)

lemma bindE_run:
  "bindE m f s = (case m s of (Inl e, s') \<Rightarrow> (Inl e, s') | (Inr x, s') \<Rightarrow> f x s')"
  by (simp add: bindE_def)

lemma thenE_run:
  "thenE m k s = (case m s of (Inl e, s') \<Rightarrow> (Inl e, s') | (Inr x, s') \<Rightarrow> k s')"
  by (simp add: thenE_def bindE_def)

lemma bindE_returnE [simp]: "bindE (returnE x) f = f x"
  by (rule ext) (simp add: bindE_def)

lemma bindE_getsE [simp]: "bindE (getsE g) f s = f (g s) s"
  by (simp add: bindE_def)

lemma bindE_raiseE [simp]: "bindE (raiseE e) f = raiseE e"
  by (rule ext) (simp add: bindE_def)

lemma thenE_returnE [simp]: "thenE (returnE x) k = k"
  by (simp add: thenE_def)

lemma thenE_raiseE [simp]: "thenE (raiseE e) k = raiseE e"
  by (simp add: thenE_def)

lemma thenE_modifyE [simp]: "thenE (modifyE g) k s = k (g s)"
  by (simp add: thenE_def bindE_def)

lemma tryE_run:
  "tryE m s = (case m s of (Inr x, s') \<Rightarrow> (Inr (Inr x), s')
     | (Inl (HTTPException c d), s') \<Rightarrow> (Inr (Inl d), s') | (Inl (PyError e), s') \<Rightarrow> (Inl (PyError e), s'))"
  by (simp add: tryE_def catchE_def bindE_def split: prod.splits sum.splits err.splits)

lemma catchE_run:
  "catchE m h s = (case m s of (Inl (HTTPException c d), s') \<Rightarrow> h c d s'
     | (Inl (PyError x), s') \<Rightarrow> (Inl (PyError x), s') | (Inr v, s') \<Rightarrow> (Inr v, s'))"
  by (simp add: catchE_def)

lemma doE_run: "doE m s = (case m s of (Inl e, s') \<Rightarrow> (Inl e, s') | (Inr x, s') \<Rightarrow> (Inr (), s'))"
  by (simp add: doE_def thenE_run split: prod.splits sum.splits)

lemma focusE_run: "m (get w) = (r, s') \<Longrightarrow> focusE get put m w = (r, put s' w)"
  by (simp add: focusE_def)

lemma fst_focusE [simp]: "fst (focusE get put m w) = fst (m (get w))"
  by (simp add: focusE_def split: prod.splits)

lemma snd_focusE [simp]: "snd (focusE get put m w) = put (snd (m (get w))) w"
  by (simp add: focusE_def split: prod.splits)

text \<open>A loop of checks that read the state: it raises at the first failing check and writes nothing.\<close>

lemma forE_guard:
  assumes "\<And>x. f x s = (if P x then (Inl e, s) else (Inr (), s))"
  shows "forE xs f s = (if \<exists>x \<in> set xs. P x then (Inl e, s) else (Inr (), s))"
proof (induction xs)
  case Nil
  then show ?case by simp
next
  case (Cons x xs)
  then show ?case using assms [of x] by (auto simp: thenE_run)
qed

subsection \<open>Keeping a predicate\<close>

lemma keepsI: "(\<And>s. I s \<Longrightarrow> I (snd (m s))) \<Longrightarrow> keeps I m"
  by (simp add: keeps_def)

lemma keepsD: "keeps I m \<Longrightarrow> I s \<Longrightarrow> I (snd (m s))"
  by (simp add: keeps_def)

lemma keepsD_eq: "keeps I m \<Longrightarrow> m s = (r, t) \<Longrightarrow> I s \<Longrightarrow> I t"
  by (metis keeps_def snd_conv)

lemma keeps_returnE [keeps_rules]: "keeps I (returnE x)"
  by (simp add: keeps_def)

lemma keeps_raiseE [keeps_rules]: "keeps I (raiseE e)"
  by (simp add: keeps_def)

lemma keeps_getsE [keeps_rules]: "keeps I (getsE f)"
  by (simp add: keeps_def)

lemma keeps_raise_if [keeps_rules]: "keeps I (raise_if b e)"
  by (simp add: keeps_def)

lemma keeps_someE [keeps_rules]: "keeps I (someE e x)"
  by (cases x) (simp_all add: keeps_def)

lemma keeps_modifyE: "(\<And>s. I s \<Longrightarrow> I (f s)) \<Longrightarrow> keeps I (modifyE f)"
  by (simp add: keeps_def)

lemma keeps_bindE [keeps_rules]:
  assumes "keeps I m" and "\<And>x. keeps I (f x)"
  shows "keeps I (bindE m f)"
proof (rule keepsI)
  fix s
  assume s: "I s"
  obtain r s' where r: "m s = (r, s')" by (cases "m s")
  with assms(1) s have "I s'" by (metis keepsD_eq)
  with r assms(2) show "I (snd (bindE m f s))"
    by (cases r) (auto simp: bindE_def keeps_def)
qed

lemma keeps_thenE [keeps_rules]: "keeps I m \<Longrightarrow> keeps I k \<Longrightarrow> keeps I (thenE m k)"
  by (simp add: thenE_def keeps_bindE)

lemma keeps_catchE [keeps_rules]:
  assumes "keeps I m" and "\<And>c d. keeps I (h c d)"
  shows "keeps I (catchE m h)"
proof (rule keepsI)
  fix s
  assume s: "I s"
  obtain r s' where r: "m s = (r, s')" by (cases "m s")
  with assms(1) s have "I s'" by (metis keepsD_eq)
  with r assms(2) show "I (snd (catchE m h s))"
    by (auto simp: catchE_def keeps_def split: sum.splits err.splits)
qed

lemma keeps_tryE [keeps_rules]: "keeps I m \<Longrightarrow> keeps I (tryE m)"
  unfolding tryE_def by (intro keeps_rules)

lemma keeps_doE [keeps_rules]: "keeps I m \<Longrightarrow> keeps I (doE m)"
  unfolding doE_def by (intro keeps_rules)

lemma keeps_catch_all [keeps_rules]:
  assumes "keeps I m" and "keeps I h"
  shows "keeps I (catch_all m h)"
proof (rule keepsI)
  fix s
  assume s: "I s"
  obtain r s' where r: "m s = (r, s')" by (cases "m s")
  with assms(1) s have "I s'" by (metis keepsD_eq)
  with r assms(2) show "I (snd (catch_all m h s))"
    by (auto simp: catch_all_def keeps_def split: sum.splits)
qed

lemma keeps_collectE [keeps_rules]: "(\<And>x. x \<in> set xs \<Longrightarrow> keeps I (f x)) \<Longrightarrow> keeps I (collectE xs f)"
  by (induction xs) (auto intro!: keeps_rules)

lemma keeps_case_sum [keeps_rules]:
  "(\<And>a. x = Inl a \<Longrightarrow> keeps I (f a)) \<Longrightarrow> (\<And>b. x = Inr b \<Longrightarrow> keeps I (g b)) \<Longrightarrow>
     keeps I (case x of Inl a \<Rightarrow> f a | Inr b \<Rightarrow> g b)"
  by (cases x) simp_all

lemma keeps_forE [keeps_rules]: "(\<And>x. x \<in> set xs \<Longrightarrow> keeps I (f x)) \<Longrightarrow> keeps I (forE xs f)"
  by (induction xs) (auto intro: keeps_rules)

lemma keeps_if [keeps_rules]: "(b \<Longrightarrow> keeps I m) \<Longrightarrow> (\<not> b \<Longrightarrow> keeps I k) \<Longrightarrow> keeps I (if b then m else k)"
  by simp

lemma keeps_case_option [keeps_rules]:
  "(x = None \<Longrightarrow> keeps I m) \<Longrightarrow> (\<And>v. x = Some v \<Longrightarrow> keeps I (f v)) \<Longrightarrow>
     keeps I (case x of None \<Rightarrow> m | Some v \<Rightarrow> f v)"
  by (cases x) simp_all

lemma keeps_case_list [keeps_rules]:
  "(x = [] \<Longrightarrow> keeps I m) \<Longrightarrow> (\<And>v vs. x = v # vs \<Longrightarrow> keeps I (f v vs)) \<Longrightarrow>
     keeps I (case x of [] \<Rightarrow> m | v # vs \<Rightarrow> f v vs)"
  by (cases x) simp_all

lemma keeps_case_prod [keeps_rules]: "(\<And>a b. keeps I (f a b)) \<Longrightarrow> keeps I (case p of (a, b) \<Rightarrow> f a b)"
  by (cases p) simp

lemma keeps_let [keeps_rules]: "keeps I (f x) \<Longrightarrow> keeps I (let y = x in f y)"
  by simp

lemma keeps_focusE:
  assumes "\<And>s w. I w \<Longrightarrow> get w = s \<Longrightarrow> I (put (snd (m s)) w)"
  shows "keeps I (focusE get put m)"
  using assms by (simp add: keeps_def)

end
