(* ===== verification/Catalog.thy ===== *)
theory Catalog
  imports Prelude
begin

text \<open>
  \<open>app/spec.py\<close>: the NVL72 rack blueprints and the topology and network constants every other
  component reads.
\<close>

definition RACKS_PER_SU :: nat where "RACKS_PER_SU = 14"
definition CMX_RACKS_PER_SU :: nat where "CMX_RACKS_PER_SU = 2"

record rack_blueprint =
  bp_key :: string
  bp_model :: string
  mgx_generation :: string
  bp_gpu_arch :: string
  bp_cpu_arch :: string
  compute_trays :: nat
  nvlink_switch_trays :: nat
  nvswitch_asics_per_tray :: nat
  gpu_per_tray :: nat
  cpu_per_tray :: nat
  gpu_hbm_gb :: nat
  gpu_hbm_type :: string
  gpu_dies :: nat
  cpu_cores :: nat
  cpu_mem_tb :: rat
  nvlink_gen :: string
  nvlink_per_gpu_tbps :: rat
  rack_tdp_kw :: nat
  maxq_rack_kw :: nat
  maxp_rack_kw :: nat
  power_shelf_kw :: nat
  power_shelves :: nat
  bp_cooling :: string
  bp_dpu_sku :: string
  dpu_bw_gbps :: nat
  dpu_per_tray :: nat
  connectx_supernics_per_tray :: nat
  racks_per_su :: nat
  hac_tdp_mw :: rat
  preliminary :: bool

definition gpu_per_rack :: "rack_blueprint \<Rightarrow> nat" where
  "gpu_per_rack bp = compute_trays bp * gpu_per_tray bp"

definition cpu_per_rack :: "rack_blueprint \<Rightarrow> nat" where
  "cpu_per_rack bp = compute_trays bp * cpu_per_tray bp"

definition gpu_per_su :: "rack_blueprint \<Rightarrow> nat" where
  "gpu_per_su bp = gpu_per_rack bp * racks_per_su bp"

definition gb200_nvl72 :: rack_blueprint where
  "gb200_nvl72 = \<lparr>bp_key = ''gb200-nvl72'', bp_model = ''GB200 NVL72'',
     mgx_generation = ''MGX Gen 1.1'', bp_gpu_arch = ''Blackwell (B200)'', bp_cpu_arch = ''Grace'',
     compute_trays = 18, nvlink_switch_trays = 9, nvswitch_asics_per_tray = 2,
     gpu_per_tray = 4, cpu_per_tray = 2, gpu_hbm_gb = 192, gpu_hbm_type = ''HBM3e'', gpu_dies = 2,
     cpu_cores = 72, cpu_mem_tb = 48 / 100, nvlink_gen = ''NVLink5'',
     nvlink_per_gpu_tbps = 18 / 10, rack_tdp_kw = 120, maxq_rack_kw = 120, maxp_rack_kw = 120,
     power_shelf_kw = 33, power_shelves = 8, bp_cooling = ''hybrid'', bp_dpu_sku = ''BF3'',
     dpu_bw_gbps = 400, dpu_per_tray = 1, connectx_supernics_per_tray = 4,
     racks_per_su = RACKS_PER_SU, hac_tdp_mw = 0, preliminary = False\<rparr>"

definition gb300_nvl72 :: rack_blueprint where
  "gb300_nvl72 = \<lparr>bp_key = ''gb300-nvl72'', bp_model = ''GB300 NVL72'',
     mgx_generation = ''MGX Gen 1.1'', bp_gpu_arch = ''Blackwell Ultra (B300)'',
     bp_cpu_arch = ''Grace'',
     compute_trays = 18, nvlink_switch_trays = 9, nvswitch_asics_per_tray = 2,
     gpu_per_tray = 4, cpu_per_tray = 2, gpu_hbm_gb = 288, gpu_hbm_type = ''HBM3e'', gpu_dies = 2,
     cpu_cores = 72, cpu_mem_tb = 48 / 100, nvlink_gen = ''NVLink5'',
     nvlink_per_gpu_tbps = 18 / 10, rack_tdp_kw = 135, maxq_rack_kw = 135, maxp_rack_kw = 135,
     power_shelf_kw = 33, power_shelves = 8, bp_cooling = ''liquid'', bp_dpu_sku = ''BF3'',
     dpu_bw_gbps = 800, dpu_per_tray = 1, connectx_supernics_per_tray = 8,
     racks_per_su = RACKS_PER_SU, hac_tdp_mw = 0, preliminary = True\<rparr>"

definition vr_nvl72 :: rack_blueprint where
  "vr_nvl72 = \<lparr>bp_key = ''vr-nvl72'', bp_model = ''Vera Rubin NVL72'',
     mgx_generation = ''MGX Gen 1.2'', bp_gpu_arch = ''Rubin'', bp_cpu_arch = ''Vera'',
     compute_trays = 18, nvlink_switch_trays = 9, nvswitch_asics_per_tray = 4,
     gpu_per_tray = 4, cpu_per_tray = 2, gpu_hbm_gb = 288, gpu_hbm_type = ''HBM4'', gpu_dies = 2,
     cpu_cores = 88, cpu_mem_tb = 144 / 100, nvlink_gen = ''NVLink6'',
     nvlink_per_gpu_tbps = 36 / 10, rack_tdp_kw = 227, maxq_rack_kw = 187, maxp_rack_kw = 227,
     power_shelf_kw = 110, power_shelves = 4, bp_cooling = ''liquid'',
     bp_dpu_sku = ''BF4-B4240V'', dpu_bw_gbps = 800, dpu_per_tray = 1,
     connectx_supernics_per_tray = 8, racks_per_su = 16, hac_tdp_mw = 39 / 10,
     preliminary = False\<rparr>"

definition BLUEPRINTS :: "rack_blueprint dict" where
  "BLUEPRINTS = [(''gb200-nvl72'', gb200_nvl72), (''gb300-nvl72'', gb300_nvl72),
                 (''vr-nvl72'', vr_nvl72)]"

definition DEFAULT_BLUEPRINT :: string where
  "DEFAULT_BLUEPRINT = ''vr-nvl72''"

definition get_blueprint :: "string \<Rightarrow> ('s, rack_blueprint) prog" where
  "get_blueprint key = someE (PyError ''KeyError'') (map_of BLUEPRINTS key)"

text \<open>The VNI pools of the three fabrics.\<close>

datatype fabric = Compute | Converged | Oob

definition VNI_RANGES :: "fabric \<Rightarrow> nat \<times> nat" where
  "VNI_RANGES f = (case f of Compute \<Rightarrow> (10000, 19999) | Converged \<Rightarrow> (20000, 29999)
                           | Oob \<Rightarrow> (30000, 39999))"

section \<open>Facts of the catalogue\<close>

lemma blueprint_cases:
  assumes "map_of BLUEPRINTS key = Some bp"
  shows "bp = gb200_nvl72 \<or> bp = gb300_nvl72 \<or> bp = vr_nvl72"
  using assms by (auto simp: BLUEPRINTS_def split: if_splits)

lemmas blueprint_defs = gb200_nvl72_def gb300_nvl72_def vr_nvl72_def

lemma blueprint_key: "map_of BLUEPRINTS key = Some bp \<Longrightarrow> bp_key bp = key"
  by (auto simp: BLUEPRINTS_def blueprint_defs split: if_splits)

lemma VNI_RANGES_disjoint:
  assumes "f \<noteq> g" "v \<in> {fst (VNI_RANGES f)..snd (VNI_RANGES f)}"
  shows "v \<notin> {fst (VNI_RANGES g)..snd (VNI_RANGES g)}"
  using assms by (cases f; cases g) (auto simp: VNI_RANGES_def)

end
