(* ===== verification/Entities.thy ===== *)
theory Entities
  imports Catalog
begin

text \<open>
  \<open>app/models.py\<close>: the enums as datatypes and the pydantic models as records. A history event
  keeps its state, an ASCII tag of its free text and the clock reading; timestamps are integers.
\<close>

section \<open>Enums\<close>

datatype HwState = Hw_provisioning | Hw_ready | Hw_allocated | Hw_draining | Hw_faulted
  | Hw_maintenance

datatype IsolationTier = bare_metal_dedicated | vm_multitenant | k8s_namespace

datatype DPUMode = Dpu_nic | Dpu_dpu | Dpu_zero_trust

datatype AllocationScope = Scope_scalable_unit | Scope_rack_set | Scope_hac

datatype NodeLifecycleState = N_discovered | N_validating | N_quarantined | N_pool_ready
  | N_reserved | N_provisioning | N_allocated | N_in_service | N_cordoned | N_draining
  | N_releasing | N_sanitizing | N_rma

datatype OrderKind = K_new | K_expand | K_shrink | K_terminate

datatype OrderState = O_received | O_validated | O_reserved | O_provisioning | O_isolating
  | O_storage_binding | O_acceptance | O_k8s_installing | O_delivered | O_reclaiming
  | O_closed | O_rejected | O_compensating | O_failed

section \<open>Inventory\<close>

record gpu =
  gpu_id :: string
  gpu_tray_id :: string
  gpu_index :: nat
  gpu_arch :: string
  hbm_gb :: nat
  hbm_type :: string
  dies :: nat
  gpu_state :: HwState
  gpu_tenant_id :: "string option"

record cpu =
  cpu_id :: string
  cpu_tray_id :: string
  cpu_index :: nat
  cpu_arch :: string
  cores :: nat
  mem_tb :: rat

record dpu =
  dpu_id :: string
  dpu_tray_id :: string
  dpu_sku :: string
  bandwidth_gbps :: nat
  dpu_mode :: DPUMode
  dpu_tenant_id :: "string option"

record compute_tray =
  tray_id :: string
  tray_rack_id :: string
  tray_index :: nat
  tray_gpu_ids :: "string list"
  tray_cpu_ids :: "string list"
  tray_dpu_id :: "string option"
  connectx_supernics :: nat
  tray_state :: HwState
  tray_tenant_id :: "string option"

record nvlink_switch_tray =
  nvsw_id :: string
  nvsw_rack_id :: string
  nvsw_index :: nat
  nvswitch_asics :: nat

record rack =
  rack_id :: string
  rack_su_id :: string
  rack_index :: nat
  rack_blueprint_key :: string
  rack_model :: string
  rack_generation :: string
  rack_gpu_arch :: string
  rack_hac_id :: string
  tdp_kw :: nat
  power_cap_kw :: nat
  rack_cooling :: string
  rack_tray_ids :: "string list"
  nvlink_switch_tray_ids :: "string list"
  rack_state :: HwState
  rack_tenant_id :: "string option"

record scalable_unit =
  su_id :: string
  su_du_id :: "string option"
  su_index :: nat
  su_hac_id :: string
  su_blueprint_key :: string
  su_rack_ids :: "string list"
  cmx_racks :: nat
  su_state :: HwState

record deployment_unit =
  du_id :: string
  du_block_id :: "string option"
  du_index :: nat
  du_su_ids :: "string list"

record compute_block =
  block_id :: string
  block_factory_id :: string
  block_index :: nat
  block_name :: string
  power_mw :: rat
  block_ready :: string
  block_du_ids :: "string list"

record ai_factory =
  factory_id :: string
  factory_name :: string
  factory_site :: string
  design_power_mw :: rat
  factory_block_ids :: "string list"

section \<open>Tenancy\<close>

record tenant =
  tn_id :: string
  tn_name :: string
  isolation_tier :: IsolationTier
  sla_tier :: string
  tn_notes :: "string option"

record network_isolation =
  ni_tenant_id :: string
  compute_l3vni :: nat
  converged_vni :: nat
  oob_vni :: nat
  ni_vrf :: string
  ib_pkey :: "nat option"

record allocation =
  alloc_id :: string
  alloc_tenant_id :: string
  alloc_scope :: AllocationScope
  alloc_su_id :: string
  alloc_rack_ids :: "string list"
  alloc_dpu_mode :: DPUMode
  alloc_state :: HwState

record nvlink_partition =
  part_id :: string
  part_rack_id :: string
  part_no :: nat
  part_tray_ids :: "string list"
  part_tenant_id :: string
  part_state :: HwState

section \<open>Request bodies and reports of the tenancy API\<close>

record tenant_create =
  tc_name :: string
  tc_isolation_tier :: IsolationTier
  tc_sla_tier :: string
  tc_notes :: "string option"

record allocation_create =
  ac_tenant_id :: string
  ac_scope :: AllocationScope
  ac_su_id :: string
  ac_rack_ids :: "string list option"
  ac_dpu_mode :: "DPUMode option"

record partition_create =
  pc_rack_id :: string
  pc_tenant_id :: string
  pc_tray_ids :: "string list"

datatype severity = Pass | Warn | Fail

record isolation_finding =
  if_severity :: severity
  if_layer :: string

record isolation_report =
  ir_tenant_id :: string
  ir_ok :: bool
  ir_findings :: "isolation_finding list"

section \<open>Service lifecycle\<close>

record lifecycle_event =
  ev_state :: string
  ev_detail :: string
  ev_at :: int

record node_instance =
  node_id :: string
  node_tray_id :: string
  node_rack_id :: string
  node_su_id :: string
  node_blueprint_key :: string
  nico_host_id :: string
  nico_instance_id :: "string option"
  node_tenant_id :: "string option"
  node_order_id :: "string option"
  node_state :: NodeLifecycleState
  node_history :: "lifecycle_event list"

record k8s_access =
  ka_cluster_id :: string
  ka_name :: string
  ka_version :: string
  ka_api_server :: string
  ka_oidc_issuer :: string

record access_package =
  ap_issued_at :: int
  ap_client_id :: string
  ap_client_secret :: string
  ap_mounts :: "string list"
  ap_vrf :: "string option"
  ap_l3vni :: "nat option"
  ap_ib_pkey :: "nat option"
  ap_managed_k8s :: "k8s_access option"

record service_order =
  order_id :: string
  order_tenant_id :: string
  order_kind :: OrderKind
  order_blueprint_key :: "string option"
  order_racks :: int
  order_allocation_id :: "string option"
  order_allocation_ids :: "string list"
  approval_mode :: bool
  pending_stage :: "OrderState option"
  storage_mode :: string
  storage_tb :: rat
  storage_gbps :: rat
  managed_k8s :: bool
  k8s_version :: string
  k8s_cluster_id :: "string option"
  order_segment_id :: "string option"
  order_storage_ids :: "string list"
  order_node_ids :: "string list"
  order_state :: OrderState
  order_error :: "string option"
  order_access_package :: "access_package option"
  order_history :: "lifecycle_event list"

record cpu_node =
  cn_id :: string
  cn_dpu_id :: string
  cn_state :: string
  cn_role :: string
  cn_nico_host_id :: "string option"
  cn_tenant_id :: "string option"
  cn_order_id :: "string option"
  cn_host_ip :: string
  cn_segment_id :: "string option"

record stage_row =
  sr_name :: string
  sr_status :: string
  sr_ts :: "int option"

record addon =
  ad_name :: string
  ad_version :: string
  ad_status :: string
  ad_channel :: string

record k8s_cluster =
  kc_id :: string
  kc_tenant_id :: string
  kc_order_id :: string
  kc_allocation_id :: "string option"
  kc_name :: string
  kc_version :: string
  kc_nkd_version :: string
  kc_state :: string
  kc_api_vip :: string
  kc_oidc_issuer :: string
  kc_cp_node_ids :: "string list"
  kc_worker_node_ids :: "string list"
  kc_gpus_total :: nat
  kc_addons :: "addon list"
  kc_dcgm_mode :: string
  kc_conditions :: "string list"
  kc_stage :: string
  kc_stage_history :: "stage_row list"
  kc_progress_pct :: int
  kc_acceptance :: "(string \<times> string) list option"
  kc_quarantined_nodes :: "string list"
  kc_node_versions :: "string dict"
  kc_created_at :: int
  kc_history :: "lifecycle_event list"

record k8s_install =
  ki_install_id :: string
  ki_cluster_id :: "string option"
  ki_tenant_id :: string
  ki_allocation_id :: "string option"
  ki_order_id :: "string option"
  ki_k8s_version :: string
  ki_state :: string
  ki_stage :: string
  ki_stages :: "stage_row list"
  ki_created_at :: int

record storage_allocation =
  sa_id :: string
  sa_tenant_id :: string
  sa_order_id :: string
  sa_allocation_id :: "string option"
  sa_view_path :: string
  sa_capacity_tb :: rat
  sa_qos_gbps :: rat
  sa_state :: string

record order_create =
  oc_tenant_id :: string
  oc_kind :: OrderKind
  oc_blueprint_key :: "string option"
  oc_racks :: int
  oc_allocation_id :: "string option"
  oc_approval_mode :: bool
  oc_storage_mode :: string
  oc_storage_tb :: rat
  oc_storage_gbps :: rat
  oc_managed_k8s :: bool
  oc_k8s_version :: string

datatype finding_kind = GHOST | ORPHAN | STATE_MISMATCH

datatype finding_severity = Sev_info | Sev_major | Sev_critical

record reconcile_finding =
  rf_kind :: finding_kind
  rf_severity :: finding_severity
  rf_node_id :: "string option"
  rf_nico_host_id :: "string option"

record reconcile_report =
  checked_nodes :: nat
  checked_hosts :: nat
  ghosts_registered :: nat
  orphans_cordoned :: nat
  rr_mismatches :: nat
  rr_ok :: bool
  rr_findings :: "reconcile_finding list"

section \<open>Enum values\<close>

text \<open>\<open>.value\<close> of the two lifecycle enums: the strings stored in history events.\<close>

fun node_state_value :: "NodeLifecycleState \<Rightarrow> string" where
  "node_state_value N_discovered = ''discovered''"
| "node_state_value N_validating = ''validating''"
| "node_state_value N_quarantined = ''quarantined''"
| "node_state_value N_pool_ready = ''pool_ready''"
| "node_state_value N_reserved = ''reserved''"
| "node_state_value N_provisioning = ''provisioning''"
| "node_state_value N_allocated = ''allocated''"
| "node_state_value N_in_service = ''in_service''"
| "node_state_value N_cordoned = ''cordoned''"
| "node_state_value N_draining = ''draining''"
| "node_state_value N_releasing = ''releasing''"
| "node_state_value N_sanitizing = ''sanitizing''"
| "node_state_value N_rma = ''rma''"

fun order_state_value :: "OrderState \<Rightarrow> string" where
  "order_state_value O_received = ''received''"
| "order_state_value O_validated = ''validated''"
| "order_state_value O_reserved = ''reserved''"
| "order_state_value O_provisioning = ''provisioning''"
| "order_state_value O_isolating = ''isolating''"
| "order_state_value O_storage_binding = ''storage_binding''"
| "order_state_value O_acceptance = ''acceptance''"
| "order_state_value O_k8s_installing = ''k8s_installing''"
| "order_state_value O_delivered = ''delivered''"
| "order_state_value O_reclaiming = ''reclaiming''"
| "order_state_value O_closed = ''closed''"
| "order_state_value O_rejected = ''rejected''"
| "order_state_value O_compensating = ''compensating''"
| "order_state_value O_failed = ''failed''"

lemma node_state_value_inject [simp]: "node_state_value a = node_state_value b \<longleftrightarrow> a = b"
  by (cases a; cases b) simp_all

lemma order_state_value_inject [simp]: "order_state_value a = order_state_value b \<longleftrightarrow> a = b"
  by (cases a; cases b) simp_all

end
