(* ===== verification/Portal_Entities.thy ===== *)
theory Portal_Entities
  imports Entities
begin

text \<open>
  Entities of the customer and business portals: tickets, kubeconfigs and upgrades (\<open>app/models.py\<close>),
  the dictionaries the scenario API stores (\<open>app/scenario_api.py\<close>) and those of the customer
  operations API (\<open>app/customer_ops.py\<close>). Timestamps are microseconds, the resolution of Python's
  \<open>datetime\<close>; amounts and capacities are rationals.
\<close>

definition HOUR :: int where "HOUR = 3600000000"
definition DAY :: int where "DAY = 24 * HOUR"
definition MINUTE :: int where "MINUTE = 60000000"

section \<open>Tickets\<close>

record ticket_comment =
  tm_at :: int
  tm_author :: string
  tm_text :: string

record ticket =
  tk_id :: string
  tk_tenant_id :: string
  tk_subject :: string
  tk_body :: string
  tk_severity :: string
  tk_status :: string
  tk_type :: string
  tk_routed_to :: string
  tk_change_scope :: "string option"
  tk_policy :: "string option"
  tk_ref :: "string option"
  tk_created_at :: int
  tk_updated_at :: int
  tk_comments :: "ticket_comment list"

record ticket_create =
  tcr_tenant_id :: string
  tcr_subject :: string
  tcr_body :: string
  tcr_severity :: string
  tcr_type :: string
  tcr_change_scope :: "string option"
  tcr_ref :: "string option"

record ticket_update =
  tup_status :: "string option"
  tup_comment :: "string option"
  tup_author :: string

section \<open>Kubeconfigs and upgrades\<close>

record k8s_kubeconfig =
  kcf_id :: string
  kcf_cluster_id :: string
  kcf_tenant_id :: string
  kcf_serial :: string
  kcf_role :: string
  kcf_ttl_h :: int
  kcf_issued_at :: int
  kcf_expires_at :: int
  kcf_revoked :: bool
  kcf_revoked_at :: "int option"
  kcf_yaml :: string

record upgrade_event =
  ue_ts :: int
  ue_node :: string
  ue_step :: string

record k8s_upgrade =
  up_id :: string
  up_cluster_id :: string
  up_tenant_id :: string
  up_from_version :: string
  up_target_version :: string
  up_state :: string
  up_current_node :: "string option"
  up_done :: nat
  up_total :: nat
  up_events :: "upgrade_event list"
  up_created_at :: int

section \<open>Acceptance and termination\<close>

record acceptance_report =
  ar_checks :: "(string \<times> string) list"
  ar_nodes_tested :: nat
  ar_gbps :: rat
  ar_report_ts :: int

record acceptance_rec =
  acc_order_id :: string
  acc_tenant_id :: string
  acc_status :: string
  acc_report :: acceptance_report
  acc_deemed_deadline :: int
  acc_billing_start :: "int option"
  acc_reject_reason :: "string option"
  acc_decided_at :: "int option"
  acc_decided_by :: "string option"

record cert_allocation =
  ct_allocation_id :: string
  ct_racks :: "string list"
  ct_nodes :: nat
  ct_terminate_order_id :: string
  ct_reclaim_state :: string
  ct_erase_steps :: "(string \<times> bool) list"

record wipe_certificate =
  wc_cert_id :: string
  wc_issued_at :: int
  wc_sha256 :: string
  wc_tenant_id :: string
  wc_termination_id :: string
  wc_allocations :: "cert_allocation list"

record termination_rec =
  tr_id :: string
  tr_tenant_id :: string
  tr_state :: string
  tr_requested_at :: int
  tr_checklist :: "(string \<times> bool) list"
  tr_backup_confirmed_at :: "int option"
  tr_progress :: "string \<times> int"
  tr_allocations :: "string list"
  tr_orders :: "string list"
  tr_certificate :: "wipe_certificate option"
  tr_closed_at :: "int option"

section \<open>Incidents, RCA reports, SLA credits and inquiries\<close>

text \<open>
  The key under which a fault is one incident: tray, GPU and start for a fault of the feed, tenant and
  month for the synthetic one.
\<close>

datatype incident_key = Fault_key "string option" "int option" int | Synthetic_key string string

record incident =
  in_id :: string
  in_key :: incident_key
  in_severity :: string
  in_component :: string
  in_title :: string
  in_state :: string
  in_started_at :: int
  in_resolved_at :: "int option"
  in_tenant_id :: "string option"
  in_mttr_min :: "rat option"
  in_updates :: "(int \<times> string) list"

record rca =
  rca_id :: string
  rca_incident_id :: string
  rca_tenant_id :: "string option"
  rca_severity :: string
  rca_published_at :: int
  rca_mttr_min :: "rat option"

record sla_credit =
  cr_id :: string
  cr_key :: string
  cr_tenant_id :: string
  cr_month :: string
  cr_incident_id :: "string option"
  cr_amount_usd :: rat
  cr_pct :: nat
  cr_status :: string
  cr_applied_invoice :: "string option"

record inquiry =
  iq_id :: string
  iq_company :: string
  iq_name :: string
  iq_email :: string
  iq_gpu_scale :: string
  iq_message :: string
  iq_status :: string
  iq_received_at :: int

section \<open>Customer operations\<close>

record volume =
  vol_id :: string
  vol_tenant_id :: string
  vol_path :: "string option"
  vol_cluster :: "string option"
  vol_protocols :: "string list"
  vol_capacity_tb :: rat
  vol_used_tb :: rat
  vol_quota_tb :: rat
  vol_bw_gbps :: rat
  vol_iops_k :: rat
  vol_state :: string
  vol_created_at :: int

record snapshot =
  sn_id :: string
  sn_tenant_id :: string
  sn_volume_id :: string
  sn_path :: "string option"
  sn_size_tb :: rat
  sn_note :: string
  sn_created_at :: int
  sn_state :: string

record api_key =
  ak_id :: string
  ak_tenant_id :: string
  ak_name :: string
  ak_scope :: string
  ak_prefix :: string
  ak_secret :: string
  ak_created_at :: int
  ak_state :: string

record org_member =
  mb_id :: string
  mb_tenant_id :: string
  mb_email :: string
  mb_role :: string
  mb_state :: string
  mb_invited_at :: int
  mb_mfa :: bool

record node_op =
  no_op_id :: "string option"
  no_tenant_id :: string
  no_node_id :: string

end
