(* ===== verification/Store.thy ===== *)
theory Store
  imports Portal_Entities
begin

text \<open>
  \<open>app/store.py\<close>: the process-wide in-memory registry. Each dictionary of the class is a field;
  \<open>st_clock\<close> is the wall clock that \<open>_now()\<close> reads. Every handler runs under the store's
  re-entrant lock, so handlers are atomic steps.
\<close>

record store =
  st_factories :: "ai_factory dict"
  st_blocks :: "compute_block dict"
  st_dus :: "deployment_unit dict"
  st_sus :: "scalable_unit dict"
  st_racks :: "rack dict"
  st_trays :: "compute_tray dict"
  st_nvlink_trays :: "nvlink_switch_tray dict"
  st_gpus :: "gpu dict"
  st_cpus :: "cpu dict"
  st_dpus :: "dpu dict"
  st_tenants :: "tenant dict"
  st_allocations :: "allocation dict"
  st_partitions :: "nvlink_partition dict"
  st_netiso :: "network_isolation dict"
  st_node_instances :: "node_instance dict"
  st_orders :: "service_order dict"
  st_storage_allocs :: "storage_allocation dict"
  st_tickets :: "ticket dict"
  st_cpu_nodes :: "cpu_node dict"
  st_k8s_clusters :: "k8s_cluster dict"
  st_k8s_installs :: "k8s_install dict"
  st_k8s_kubeconfigs :: "k8s_kubeconfig dict"
  st_k8s_upgrades :: "k8s_upgrade dict"
  st_acceptances :: "acceptance_rec dict"
  st_terminations :: "termination_rec dict"
  st_incidents :: "incident dict"
  st_rcas :: "rca dict"
  st_sla_credits :: "sla_credit dict"
  st_inquiries :: "inquiry dict"
  st_storage_volumes :: "volume dict"
  st_storage_snapshots :: "snapshot dict"
  st_api_keys :: "api_key dict"
  st_members :: "org_member dict"
  st_node_ops :: "node_op dict"
  st_counters :: "nat dict"
  st_clock :: int

type_synonym 'a sprog = "(store, 'a) prog"

definition empty_store :: "int \<Rightarrow> store" where
  "empty_store t = \<lparr>st_factories = [], st_blocks = [], st_dus = [], st_sus = [], st_racks = [],
     st_trays = [], st_nvlink_trays = [], st_gpus = [], st_cpus = [], st_dpus = [],
     st_tenants = [], st_allocations = [], st_partitions = [], st_netiso = [],
     st_node_instances = [], st_orders = [], st_storage_allocs = [], st_tickets = [], st_cpu_nodes = [],
     st_k8s_clusters = [], st_k8s_installs = [], st_k8s_kubeconfigs = [], st_k8s_upgrades = [],
     st_acceptances = [], st_terminations = [], st_incidents = [], st_rcas = [], st_sla_credits = [],
     st_inquiries = [], st_storage_volumes = [], st_storage_snapshots = [], st_api_keys = [], st_members = [],
     st_node_ops = [], st_counters = [], st_clock = t\<rparr>"

section \<open>Ids and reset\<close>

definition seq_of :: "store \<Rightarrow> string \<Rightarrow> nat" where
  "seq_of s name = (case map_of (st_counters s) name of None \<Rightarrow> 0 | Some n \<Rightarrow> n)"

definition next_seq :: "string \<Rightarrow> nat sprog" where
  "next_seq name s =
     (let n = seq_of s name + 1 in (Inr n, s\<lparr>st_counters := AList.update name n (st_counters s)\<rparr>))"

definition reset :: "unit sprog" where
  "reset = modifyE (\<lambda>s. empty_store (st_clock s))"

definition now :: "store \<Rightarrow> int" where
  "now s = st_clock s"

section \<open>Lookups\<close>

text \<open>The site of a scalable unit: the first factory with a block with a deployment unit holding it.\<close>

definition du_holds :: "store \<Rightarrow> string \<Rightarrow> string \<Rightarrow> bool" where
  "du_holds s su did = (case map_of (st_dus s) did of None \<Rightarrow> False | Some du \<Rightarrow> su \<in> set (du_su_ids du))"

definition block_holds :: "store \<Rightarrow> string \<Rightarrow> string \<Rightarrow> bool" where
  "block_holds s su bid = (case map_of (st_blocks s) bid of None \<Rightarrow> False
     | Some b \<Rightarrow> list_ex (du_holds s su) (block_du_ids b))"

definition factory_of_su :: "store \<Rightarrow> string \<Rightarrow> ai_factory option" where
  "factory_of_su s su =
     List.find (\<lambda>f. list_ex (block_holds s su) (factory_block_ids f)) (dict_values (st_factories s))"

definition racks_of_su :: "store \<Rightarrow> string \<Rightarrow> rack list" where
  "racks_of_su s su = (case map_of (st_sus s) su of None \<Rightarrow> []
     | Some u \<Rightarrow> dict_pick (st_racks s) (su_rack_ids u))"

definition trays_of_rack :: "store \<Rightarrow> string \<Rightarrow> compute_tray list" where
  "trays_of_rack s rid = (case map_of (st_racks s) rid of None \<Rightarrow> []
     | Some r \<Rightarrow> dict_pick (st_trays s) (rack_tray_ids r))"

definition gpus_of_rack :: "store \<Rightarrow> string \<Rightarrow> gpu list" where
  "gpus_of_rack s rid = concat (map (\<lambda>t. dict_pick (st_gpus s) (tray_gpu_ids t)) (trays_of_rack s rid))"

definition allocations_of_tenant :: "store \<Rightarrow> string \<Rightarrow> allocation list" where
  "allocations_of_tenant s tid = filter (\<lambda>a. alloc_tenant_id a = tid) (dict_values (st_allocations s))"

definition allocation_for_rack :: "store \<Rightarrow> string \<Rightarrow> allocation option" where
  "allocation_for_rack s rid =
     List.find (\<lambda>a. rid \<in> set (alloc_rack_ids a)) (dict_values (st_allocations s))"

definition partitions_of_rack :: "store \<Rightarrow> string \<Rightarrow> nvlink_partition list" where
  "partitions_of_rack s rid = filter (\<lambda>p. part_rack_id p = rid) (dict_values (st_partitions s))"

definition nodes_of_rack :: "store \<Rightarrow> string \<Rightarrow> node_instance list" where
  "nodes_of_rack s rid = filter (\<lambda>n. node_rack_id n = rid) (dict_values (st_node_instances s))"

definition node_by_nico_host :: "store \<Rightarrow> string \<Rightarrow> node_instance option" where
  "node_by_nico_host s h = List.find (\<lambda>n. nico_host_id n = h) (dict_values (st_node_instances s))"

section \<open>Lemmas\<close>

lemma next_seq_run [prog_simps]:
  "next_seq name s = (Inr (Suc (seq_of s name)),
     s\<lparr>st_counters := AList.update name (Suc (seq_of s name)) (st_counters s)\<rparr>)"
  by (simp add: next_seq_def Let_def)

lemma seq_of_next [simp]:
  "seq_of (s\<lparr>st_counters := AList.update name n (st_counters s)\<rparr>) name' =
     (if name' = name then n else seq_of s name')"
  by (simp add: seq_of_def)

lemma allocation_for_rack_None:
  "allocation_for_rack s rid = None \<longleftrightarrow>
     (\<forall>a \<in> set (dict_values (st_allocations s)). rid \<notin> set (alloc_rack_ids a))"
  by (auto simp: allocation_for_rack_def find_None_iff)

lemma partitions_of_rack_in:
  "p \<in> set (partitions_of_rack s rid) \<longleftrightarrow> p \<in> set (dict_values (st_partitions s)) \<and> part_rack_id p = rid"
  by (auto simp: partitions_of_rack_def)

text \<open>Two consecutive ids of one counter differ, whatever happens to other counters in between.\<close>

lemma next_seq_fresh: "next_seq name s = (Inr n, t) \<Longrightarrow> seq_of s name < n \<and> seq_of t name = n"
  by (auto simp: next_seq_def Let_def)

end
