(* ===== verification/Nico.thy ===== *)
theory Nico
  imports Store
begin

text \<open>
  \<open>app/nico_fake.py\<close>: the NICo site controller as the control plane drives it in process. One
  managed host per compute tray (and per general CPU node), asynchronous jobs that finish after a
  number of polls, fault injection, and tenant network segments.
\<close>

section \<open>Addressing\<close>

definition drop_prefix :: "string \<Rightarrow> string \<Rightarrow> string option" where
  "drop_prefix p s = (if take (length p) s = p then Some (drop (length p) s) else None)"

definition eat_number :: "string \<Rightarrow> (nat \<times> string) option" where
  "eat_number s = (case undec (takeWhile is_digit s) of None \<Rightarrow> None
     | Some n \<Rightarrow> Some (n, dropWhile is_digit s))"

text \<open>\<open>re.match\<close> with the tray pattern: a prefix match, the three groups read as numbers.\<close>

definition match_tray :: "string \<Rightarrow> (nat \<times> nat \<times> nat) option" where
  "match_tray t =
     Option.bind (drop_prefix ''su-'' t) (\<lambda>a. Option.bind (eat_number a) (\<lambda>(su, b).
     Option.bind (drop_prefix ''-rack-'' b) (\<lambda>c. Option.bind (eat_number c) (\<lambda>(rk, d).
     Option.bind (drop_prefix ''-tray-'' d) (\<lambda>e. Option.bind (eat_number e) (\<lambda>(tr, _).
     Some (su, rk, tr)))))))"

record tray_ips =
  ip_bmc :: string
  ip_dpu :: string
  ip_host :: string

definition ips_for_tray :: "string \<Rightarrow> tray_ips option" where
  "ips_for_tray t = (case match_tray t of None \<Rightarrow> None
     | Some (su, rk, tr) \<Rightarrow>
         (let net = su * 16 + rk in
          Some \<lparr>ip_bmc = ''10.99.'' @ dec net @ ''.'' @ dec (tr + 1),
                ip_dpu = ''172.16.'' @ dec net @ ''.'' @ dec (tr + 1),
                ip_host = ''10.'' @ dec (100 + su) @ ''.'' @ dec rk @ ''.'' @ dec (tr * 4 + 2)\<rparr>))"

section \<open>State\<close>

datatype NicoHostState = H_discovered | H_quarantined | H_pool_ready | H_reserved
  | H_provisioning | H_provisioned | H_allocated | H_released | H_sanitizing | H_rma

record nico_host =
  nh_host_id :: string
  nh_tray_id :: string
  nh_sku :: string
  nh_site :: string
  nh_state :: NicoHostState
  firmware_ok :: bool
  attested :: bool
  nh_cordoned :: bool
  nh_instance_id :: "string option"
  nh_tenant_ref :: "string option"
  nh_image_ref :: "string option"
  nh_bmc_ip :: string
  nh_dpu_ip :: string
  nh_host_ip :: string
  nh_segment_id :: "string option"

record nico_segment =
  sg_segment_id :: string
  sg_tenant_ref :: string
  sg_vrf :: string
  sg_l3vni :: nat
  sg_converged_vni :: nat
  sg_vrf_dataplane :: string
  sg_host_ids :: "string list"
  sg_allocation_id :: "string option"
  sg_ib_pkey :: "nat option"
  sg_state :: string

datatype job_state = J_running | J_succeeded | J_failed

record nico_job =
  jb_job_id :: string
  jb_op :: string
  jb_host_id :: string
  jb_state :: job_state
  jb_detail :: string
  jb_remaining_polls :: int

definition SANITIZE_STEPS :: "string list" where
  "SANITIZE_STEPS = [''nvme_secure_erase'', ''gpu_memory_wipe'', ''system_memory_wipe'',
     ''tpm_reset'', ''re_attestation'', ''firmware_revalidation'', ''network_state_clear'']"

record sanitize_report =
  rp_host_id :: string
  rp_passed :: bool
  rp_steps :: "(string \<times> bool) list"

record nico =
  nk_hosts :: "nico_host dict"
  nk_jobs :: "nico_job dict"
  nk_segments :: "nico_segment dict"
  nk_sanitize_reports :: "sanitize_report dict"
  nk_job_latency :: int
  nk_fail_flags :: "string list dict"
  nk_seq :: nat

type_synonym 'a nprog = "(nico, 'a) prog"

definition mk_host :: "string \<Rightarrow> string \<Rightarrow> string \<Rightarrow> string \<Rightarrow> string \<Rightarrow> string \<Rightarrow> nico_host" where
  "mk_host hid tid sku site bmc dpu_ip =
     \<lparr>nh_host_id = hid, nh_tray_id = tid, nh_sku = sku, nh_site = site, nh_state = H_pool_ready,
      firmware_ok = True, attested = True, nh_cordoned = False, nh_instance_id = None,
      nh_tenant_ref = None, nh_image_ref = None, nh_bmc_ip = bmc, nh_dpu_ip = dpu_ip,
      nh_host_ip = '''', nh_segment_id = None\<rparr>"

section \<open>Seeding and fault injection\<close>

text \<open>\<open>x or default\<close> on an optional string: \<open>None\<close> and the empty string are false.\<close>

definition str_or :: "string option \<Rightarrow> string \<Rightarrow> string" where
  "str_or x d = (case x of None \<Rightarrow> d | Some s \<Rightarrow> if s = [] then d else s)"

text \<open>\<open>s.rsplit(sep, 1)[0]\<close>: what precedes the last \<open>sep\<close>, all of \<open>s\<close> where it does not occur.\<close>

fun before_last_sub :: "string \<Rightarrow> string \<Rightarrow> string option" where
  "before_last_sub sep [] = None"
| "before_last_sub sep (c # cs) =
     (case before_last_sub sep cs of Some p \<Rightarrow> Some (c # p)
      | None \<Rightarrow> if take (length sep) (c # cs) = sep then Some [] else None)"

definition rsplit_head :: "string \<Rightarrow> string \<Rightarrow> string" where
  "rsplit_head sep s = (case before_last_sub sep s of None \<Rightarrow> s | Some p \<Rightarrow> p)"

text \<open>The site name of every scalable unit, collected in a local dictionary.\<close>

definition build_su_site :: "store \<Rightarrow> (string dict, unit) prog" where
  "build_su_site st =
     forE (dict_values (st_factories st)) (\<lambda>f.
     forE (factory_block_ids f) (\<lambda>bid.
     bindE (someE (PyError ''KeyError'') (map_of (st_blocks st) bid)) (\<lambda>b.
     forE (block_du_ids b) (\<lambda>did.
     bindE (someE (PyError ''KeyError'') (map_of (st_dus st) did)) (\<lambda>du.
     forE (du_su_ids du) (\<lambda>sid. modifyE (AList.update sid (factory_name f))))))))"

definition put_host :: "string \<Rightarrow> nico_host \<Rightarrow> unit nprog" where
  "put_host hid h = modifyE (\<lambda>n. n\<lparr>nk_hosts := AList.update hid h (nk_hosts n)\<rparr>)"

definition seed_tray :: "store \<Rightarrow> string dict \<Rightarrow> compute_tray \<Rightarrow> unit nprog" where
  "seed_tray st su_site t =
     (let hid = ''nh-'' @ tray_id t;
          sku = (case map_of (st_racks st) (tray_rack_id t) of None \<Rightarrow> ''''
                 | Some r \<Rightarrow> rack_blueprint_key r);
          site = (case map_of su_site (rsplit_head ''-rack-'' (tray_rack_id t)) of
                    None \<Rightarrow> '''' | Some x \<Rightarrow> x);
          ips = ips_for_tray (tray_id t)
      in put_host hid (mk_host hid (tray_id t) sku site
           (case ips of None \<Rightarrow> '''' | Some i \<Rightarrow> ip_bmc i)
           (case ips of None \<Rightarrow> '''' | Some i \<Rightarrow> ip_dpu i)))"

text \<open>The number at the end of a CPU node id: \<open>int(id.rsplit("-", 1)[1])\<close>.\<close>

definition trailing_index :: "string \<Rightarrow> ('s, nat) prog" where
  "trailing_index x =
     bindE (someE (PyError ''IndexError'') (after_last CHR ''-'' x)) (\<lambda>d.
     someE (PyError ''ValueError'') (undec d))"

definition seed_cpu_node :: "cpu_node \<Rightarrow> unit nprog" where
  "seed_cpu_node cn =
     bindE (trailing_index (cn_id cn)) (\<lambda>idx.
     let hid = str_or (cn_nico_host_id cn) (''nh-'' @ cn_id cn)
     in put_host hid (mk_host hid (cn_id cn) ''cpu-epyc'' ''''
          (''10.254.1.'' @ dec idx) (''10.255.1.'' @ dec idx)))"

definition seed_from_store :: "store \<Rightarrow> unit nprog" where
  "seed_from_store st =
     thenE (modifyE (\<lambda>n. n\<lparr>nk_hosts := [], nk_jobs := [], nk_segments := [],
        nk_sanitize_reports := [], nk_fail_flags := [], nk_seq := 0\<rparr>))
     (case build_su_site st [] of
        (Inl e, _) \<Rightarrow> raiseE e
      | (Inr _, su_site) \<Rightarrow>
          thenE (forE (dict_values (st_trays st)) (seed_tray st su_site))
                (forE (dict_values (st_cpu_nodes st)) seed_cpu_node))"

definition add_ghost :: "string \<Rightarrow> string \<Rightarrow> unit nprog" where
  "add_ghost hid sku = put_host hid (mk_host hid '''' sku '''' '''' '''')"

definition inject_failure :: "string \<Rightarrow> string \<Rightarrow> unit nprog" where
  "inject_failure hid op = modifyE (\<lambda>n. n\<lparr>nk_fail_flags :=
     AList.update hid (List.insert op (case map_of (nk_fail_flags n) hid of None \<Rightarrow> [] | Some fs \<Rightarrow> fs))
       (nk_fail_flags n)\<rparr>)"

definition consume_failure :: "string \<Rightarrow> string \<Rightarrow> bool nprog" where
  "consume_failure hid op n =
     (case map_of (nk_fail_flags n) hid of None \<Rightarrow> (Inr False, n)
      | Some fs \<Rightarrow> if op \<in> set fs
                  then (Inr True, n\<lparr>nk_fail_flags := AList.update hid (removeAll op fs) (nk_fail_flags n)\<rparr>)
                  else (Inr False, n))"

section \<open>Hosts and jobs\<close>

definition nico_host_or_404 :: "string \<Rightarrow> nico_host nprog" where
  "nico_host_or_404 hid =
     bindE (getsE (\<lambda>n. map_of (nk_hosts n) hid)) (someE (HTTPException 404 ''nico: host not found''))"

definition nico_require :: "nico_host \<Rightarrow> NicoHostState list \<Rightarrow> unit nprog" where
  "nico_require h sts = raise_if (nh_state h \<notin> set sts) (HTTPException 409 ''nico: wrong host state'')"

definition upd_host :: "string \<Rightarrow> (nico_host \<Rightarrow> nico_host) \<Rightarrow> unit nprog" where
  "upd_host hid f = modifyE (\<lambda>n. n\<lparr>nk_hosts := dict_mod hid f (nk_hosts n)\<rparr>)"

definition upd_job :: "string \<Rightarrow> (nico_job \<Rightarrow> nico_job) \<Rightarrow> unit nprog" where
  "upd_job jid f = modifyE (\<lambda>n. n\<lparr>nk_jobs := dict_mod jid f (nk_jobs n)\<rparr>)"

text \<open>The sanitizer stops at the first failed step; only re-attestation can be made to fail.\<close>

fun run_sanitize_steps :: "bool \<Rightarrow> string list \<Rightarrow> (string \<times> bool) list \<times> bool" where
  "run_sanitize_steps fail [] = ([], True)"
| "run_sanitize_steps fail (st # sts) =
     (let ok = \<not> (fail \<and> st = ''re_attestation'') in
      if ok then (let (rest, passed) = run_sanitize_steps fail sts in ((st, True) # rest, passed))
      else ([(st, False)], False))"

definition finish_job :: "nico_job \<Rightarrow> bool \<Rightarrow> unit nprog" where
  "finish_job job fail =
     (let jid = jb_job_id job; hid = jb_host_id job in
      bindE (nico_host_or_404 hid) (\<lambda>host.
      if jb_op job = ''provision'' then
        (if fail then
           thenE (upd_job jid (\<lambda>j. j\<lparr>jb_state := J_failed, jb_detail := ''firmware mismatch during PXE''\<rparr>))
                 (upd_host hid (\<lambda>h. h\<lparr>nh_state := H_quarantined, nh_host_ip := ''''\<rparr>))
         else
           thenE (upd_job jid (\<lambda>j. j\<lparr>jb_state := J_succeeded\<rparr>))
                 (upd_host hid (\<lambda>h. h\<lparr>nh_state := H_provisioned\<rparr>)))
      else if jb_op job = ''release'' then
        thenE (upd_job jid (\<lambda>j. j\<lparr>jb_state := J_succeeded\<rparr>))
              (upd_host hid (\<lambda>h. h\<lparr>nh_state := H_released, nh_instance_id := None, nh_tenant_ref := None\<rparr>))
      else if jb_op job = ''sanitize'' then
        (let (steps, passed) = run_sanitize_steps fail SANITIZE_STEPS in
         thenE (modifyE (\<lambda>n. n\<lparr>nk_sanitize_reports := AList.update hid
                  \<lparr>rp_host_id = hid, rp_passed = passed, rp_steps = steps\<rparr> (nk_sanitize_reports n)\<rparr>))
         (if passed then
            thenE (upd_job jid (\<lambda>j. j\<lparr>jb_state := J_succeeded\<rparr>))
                  (upd_host hid (\<lambda>h. h\<lparr>nh_state := H_pool_ready, attested := True,
                     nh_image_ref := None, nh_host_ip := ''''\<rparr>))
          else
            thenE (upd_job jid (\<lambda>j. j\<lparr>jb_state := J_failed, jb_detail := ''re-attestation failed''\<rparr>))
                  (upd_host hid (\<lambda>h. h\<lparr>nh_state := H_rma\<rparr>))))
      else returnE ()))"

text \<open>The job object under an id, read back after the calls that mutate it.\<close>

definition read_job :: "string \<Rightarrow> nico_job nprog" where
  "read_job jid = bindE (getsE (\<lambda>n. map_of (nk_jobs n) jid)) (someE (HTTPException 404 ''nico: job not found''))"

definition new_job :: "string \<Rightarrow> string \<Rightarrow> bool \<Rightarrow> nico_job nprog" where
  "new_job op hid fail =
     thenE (modifyE (\<lambda>n. n\<lparr>nk_seq := nk_seq n + 1\<rparr>))
     (bindE (getsE (\<lambda>n. \<lparr>jb_job_id = ''job-'' @ dec (nk_seq n), jb_op = op, jb_host_id = hid,
                jb_state = J_running, jb_detail = '''', jb_remaining_polls = nk_job_latency n\<rparr>)) (\<lambda>job.
      thenE (modifyE (\<lambda>n. n\<lparr>nk_jobs := AList.update (jb_job_id job) job (nk_jobs n)\<rparr>))
      (thenE (if jb_remaining_polls job \<le> 0 then finish_job job fail
              else if fail then upd_job (jb_job_id job) (\<lambda>j. j\<lparr>jb_detail := ''will-fail''\<rparr>)
              else returnE ())
             (read_job (jb_job_id job)))))"

section \<open>The host API\<close>

definition nico_list_hosts :: "nico_host list nprog" where
  "nico_list_hosts = getsE (\<lambda>n. dict_values (nk_hosts n))"

definition nico_get_host :: "string \<Rightarrow> nico_host nprog" where
  "nico_get_host hid = nico_host_or_404 hid"

definition nico_validate :: "string \<Rightarrow> nico_host nprog" where
  "nico_validate hid =
     bindE (nico_host_or_404 hid) (\<lambda>h.
     thenE (nico_require h [H_discovered, H_quarantined])
     (thenE (upd_host hid (\<lambda>h. h\<lparr>nh_state := (if firmware_ok h then H_pool_ready else H_quarantined),
                                  attested := firmware_ok h\<rparr>))
            (nico_host_or_404 hid)))"

definition nico_reserve :: "string \<Rightarrow> nico_host nprog" where
  "nico_reserve hid =
     bindE (nico_host_or_404 hid) (\<lambda>h.
     thenE (nico_require h [H_pool_ready])
     (thenE (upd_host hid (\<lambda>h. h\<lparr>nh_state := H_reserved\<rparr>)) (nico_host_or_404 hid)))"

definition nico_unreserve :: "string \<Rightarrow> nico_host nprog" where
  "nico_unreserve hid =
     bindE (nico_host_or_404 hid) (\<lambda>h.
     thenE (nico_require h [H_reserved])
     (thenE (upd_host hid (\<lambda>h. h\<lparr>nh_state := H_pool_ready\<rparr>)) (nico_host_or_404 hid)))"

text \<open>
  Provisioning: the host leaves \<open>reserved\<close>, gets its image and its DHCP address, and a job is
  created that installs the image (at once when the job latency is 0).
\<close>

definition provision_ip :: "nico_host \<Rightarrow> string nprog" where
  "provision_ip h =
     (if nh_sku h = ''cpu-epyc''
      then bindE (trailing_index (nh_tray_id h)) (\<lambda>i. returnE (''10.250.1.'' @ dec i))
      else returnE (case ips_for_tray (nh_tray_id h) of None \<Rightarrow> '''' | Some i \<Rightarrow> ip_host i))"

definition nico_provision :: "string \<Rightarrow> string \<Rightarrow> nico_job nprog" where
  "nico_provision hid img =
     bindE (nico_host_or_404 hid) (\<lambda>h.
     thenE (nico_require h [H_reserved])
     (thenE (upd_host hid (\<lambda>h. h\<lparr>nh_state := H_provisioning, nh_image_ref := Some img\<rparr>))
     (bindE (provision_ip h) (\<lambda>ip.
      thenE (upd_host hid (\<lambda>h. h\<lparr>nh_host_ip := ip\<rparr>))
      (bindE (consume_failure hid ''provision'') (\<lambda>fail. new_job ''provision'' hid fail))))))"

definition nico_allocate :: "string \<Rightarrow> string \<Rightarrow> nico_host nprog" where
  "nico_allocate hid tenant_ref =
     bindE (nico_host_or_404 hid) (\<lambda>h.
     thenE (nico_require h [H_provisioned])
     (thenE (modifyE (\<lambda>n. n\<lparr>nk_seq := nk_seq n + 1\<rparr>))
     (bindE (getsE nk_seq) (\<lambda>sq.
      thenE (upd_host hid (\<lambda>h. h\<lparr>nh_state := H_allocated, nh_instance_id := Some (''inst-'' @ dec sq),
                                 nh_tenant_ref := Some tenant_ref\<rparr>))
            (nico_host_or_404 hid)))))"

definition nico_release :: "string \<Rightarrow> nico_job nprog" where
  "nico_release iid =
     bindE (getsE (\<lambda>n. List.find (\<lambda>(k, h). nh_instance_id h = Some iid) (nk_hosts n))) (\<lambda>found.
     case found of
       None \<Rightarrow> raiseE (HTTPException 404 ''nico: instance not found'')
     | Some (hid, h) \<Rightarrow> thenE (nico_require h [H_allocated]) (new_job ''release'' (nh_host_id h) False))"

definition nico_abort_provision :: "string \<Rightarrow> nico_host nprog" where
  "nico_abort_provision hid =
     bindE (nico_host_or_404 hid) (\<lambda>h.
     thenE (nico_require h [H_provisioned, H_provisioning])
     (thenE (upd_host hid (\<lambda>h. h\<lparr>nh_state := H_released\<rparr>)) (nico_host_or_404 hid)))"

definition nico_sanitize :: "string \<Rightarrow> nico_job nprog" where
  "nico_sanitize hid =
     bindE (nico_host_or_404 hid) (\<lambda>h.
     thenE (nico_require h [H_released])
     (thenE (upd_host hid (\<lambda>h. h\<lparr>nh_state := H_sanitizing\<rparr>))
     (bindE (consume_failure hid ''sanitize'') (\<lambda>fail. new_job ''sanitize'' hid fail))))"

definition nico_get_job :: "string \<Rightarrow> nico_job nprog" where
  "nico_get_job jid =
     bindE (read_job jid) (\<lambda>job.
     thenE (if jb_state job = J_running then
              thenE (upd_job jid (\<lambda>j. j\<lparr>jb_remaining_polls := jb_remaining_polls j - 1\<rparr>))
              (if jb_remaining_polls job - 1 \<le> 0 then finish_job job (jb_detail job = ''will-fail'')
               else returnE ())
            else returnE ())
           (read_job jid))"

definition nico_cordon :: "string \<Rightarrow> nico_host nprog" where
  "nico_cordon hid =
     bindE (nico_host_or_404 hid) (\<lambda>_.
     thenE (upd_host hid (\<lambda>h. h\<lparr>nh_cordoned := True\<rparr>)) (nico_host_or_404 hid))"

section \<open>Segments\<close>

definition nico_create_segment ::
    "string \<Rightarrow> string \<Rightarrow> nat \<Rightarrow> nat \<Rightarrow> string list \<Rightarrow> string option \<Rightarrow> nat option \<Rightarrow> nico_segment nprog" where
  "nico_create_segment tenant_ref vrf l3vni conv hids aid pkey =
     thenE (modifyE (\<lambda>n. n\<lparr>nk_seq := nk_seq n + 1\<rparr>))
     (bindE (getsE (\<lambda>n. \<lparr>sg_segment_id = ''seg-'' @ dec (nk_seq n), sg_tenant_ref = tenant_ref,
                sg_vrf = vrf, sg_l3vni = l3vni, sg_converged_vni = conv,
                sg_vrf_dataplane = ''vpc_'' @ dec l3vni, sg_host_ids = hids, sg_allocation_id = aid,
                sg_ib_pkey = pkey, sg_state = ''active''\<rparr>)) (\<lambda>seg.
      thenE (modifyE (\<lambda>n. n\<lparr>nk_segments := AList.update (sg_segment_id seg) seg (nk_segments n)\<rparr>))
      (thenE (forE hids (\<lambda>hid. upd_host hid (\<lambda>h. h\<lparr>nh_segment_id := Some (sg_segment_id seg)\<rparr>)))
             (returnE seg))))"

definition nico_segment_or_404 :: "string \<Rightarrow> nico_segment nprog" where
  "nico_segment_or_404 sid =
     bindE (getsE (\<lambda>n. map_of (nk_segments n) sid)) (someE (HTTPException 404 ''nico: segment not found''))"

definition nico_attach_hosts :: "string \<Rightarrow> string list \<Rightarrow> nico_segment nprog" where
  "nico_attach_hosts sid hids =
     bindE (nico_segment_or_404 sid) (\<lambda>seg.
     let new_ids = filter (\<lambda>h. h \<notin> set (sg_host_ids seg)) hids in
     thenE (modifyE (\<lambda>n. n\<lparr>nk_segments :=
              dict_mod sid (\<lambda>g. g\<lparr>sg_host_ids := sg_host_ids g @ new_ids\<rparr>) (nk_segments n)\<rparr>))
     (thenE (forE new_ids (\<lambda>hid. upd_host hid (\<lambda>h. h\<lparr>nh_segment_id := Some sid\<rparr>)))
            (nico_segment_or_404 sid)))"

definition nico_delete_segment :: "string \<Rightarrow> nico_segment nprog" where
  "nico_delete_segment sid =
     bindE (nico_segment_or_404 sid) (\<lambda>seg.
     thenE (modifyE (\<lambda>n. n\<lparr>nk_segments := AList.delete sid (nk_segments n)\<rparr>))
     (thenE (forE (sg_host_ids seg) (\<lambda>hid. upd_host hid (\<lambda>h.
               if nh_segment_id h = Some sid then h\<lparr>nh_segment_id := None\<rparr> else h)))
            (returnE (seg\<lparr>sg_state := ''deleted''\<rparr>))))"

definition nico_list_segments :: "nico_segment list nprog" where
  "nico_list_segments = getsE (\<lambda>n. dict_values (nk_segments n))"

definition nico_get_sanitize_report :: "string \<Rightarrow> sanitize_report nprog" where
  "nico_get_sanitize_report hid =
     bindE (getsE (\<lambda>n. map_of (nk_sanitize_reports n) hid))
           (someE (HTTPException 404 ''nico: no sanitize report''))"

section \<open>Demo endpoints\<close>

definition nico_delete_host :: "string \<Rightarrow> unit nprog" where
  "nico_delete_host hid =
     bindE (nico_host_or_404 hid) (\<lambda>_. modifyE (\<lambda>n. n\<lparr>nk_hosts := AList.delete hid (nk_hosts n)\<rparr>))"

definition nico_force_state :: "string \<Rightarrow> NicoHostState \<Rightarrow> nico_host nprog" where
  "nico_force_state hid st =
     bindE (nico_host_or_404 hid) (\<lambda>_.
     thenE (upd_host hid (\<lambda>h. h\<lparr>nh_state := st\<rparr>)) (nico_host_or_404 hid))"

definition nico_set_config :: "int \<Rightarrow> unit nprog" where
  "nico_set_config lat = modifyE (\<lambda>n. n\<lparr>nk_job_latency := max 0 lat\<rparr>)"

end
