(* ===== verification/Vast.thy ===== *)
theory Vast
  imports Prelude
begin

text \<open>
  \<open>app/vast_fake.py\<close>: the VAST management system behind the storage adapter. Views are keyed by
  path; quota and QoS are attributes of a view.
\<close>

record vast_view =
  vv_id :: nat
  vv_path :: string
  vv_tenant_ref :: string
  vv_allocation_id :: "string option"
  vv_capacity_tb :: rat
  vv_qos_gbps :: rat
  vv_qos_iops_k :: rat
  vv_export_subnet :: string
  vv_state :: string

record vast =
  va_views :: "vast_view dict"
  va_seq :: nat

type_synonym 'a vprog = "(vast, 'a) prog"

definition vast_reset :: "unit vprog" where
  "vast_reset = modifyE (\<lambda>v. v\<lparr>va_views := [], va_seq := 0\<rparr>)"

definition vast_view_or_404 :: "string \<Rightarrow> vast_view vprog" where
  "vast_view_or_404 path =
     bindE (getsE (\<lambda>v. map_of (va_views v) path)) (someE (HTTPException 404 ''vast: view not found''))"

definition vast_create_view :: "string \<Rightarrow> string \<Rightarrow> string \<Rightarrow> string option \<Rightarrow> vast_view vprog" where
  "vast_create_view path tenant_ref export_subnet aid =
     bindE (getsE (\<lambda>v. has_key (va_views v) path)) (\<lambda>old.
     thenE (raise_if old (HTTPException 409 ''vast: view already exists''))
     (thenE (modifyE (\<lambda>v. v\<lparr>va_seq := va_seq v + 1\<rparr>))
     (bindE (getsE (\<lambda>v. \<lparr>vv_id = va_seq v, vv_path = path, vv_tenant_ref = tenant_ref,
                vv_allocation_id = aid, vv_capacity_tb = 0, vv_qos_gbps = 0, vv_qos_iops_k = 0,
                vv_export_subnet = export_subnet, vv_state = ''active''\<rparr>)) (\<lambda>view.
      thenE (modifyE (\<lambda>v. v\<lparr>va_views := AList.update path view (va_views v)\<rparr>)) (returnE view)))))"

definition vast_upd_view :: "string \<Rightarrow> (vast_view \<Rightarrow> vast_view) \<Rightarrow> vast_view vprog" where
  "vast_upd_view path f =
     bindE (vast_view_or_404 path) (\<lambda>_.
     thenE (modifyE (\<lambda>v. v\<lparr>va_views := dict_mod path f (va_views v)\<rparr>)) (vast_view_or_404 path))"

definition vast_set_quota :: "string \<Rightarrow> rat \<Rightarrow> vast_view vprog" where
  "vast_set_quota path capacity = vast_upd_view path (\<lambda>v. v\<lparr>vv_capacity_tb := capacity\<rparr>)"

definition vast_set_qos :: "string \<Rightarrow> rat \<Rightarrow> rat \<Rightarrow> vast_view vprog" where
  "vast_set_qos path gbps kiops =
     vast_upd_view path (\<lambda>v. v\<lparr>vv_qos_gbps := gbps, vv_qos_iops_k := kiops\<rparr>)"

definition vast_delete_view :: "string \<Rightarrow> vast_view vprog" where
  "vast_delete_view path =
     bindE (vast_view_or_404 path) (\<lambda>view.
     thenE (modifyE (\<lambda>v. v\<lparr>va_views := AList.delete path (va_views v)\<rparr>))
           (returnE (view\<lparr>vv_state := ''deleted''\<rparr>)))"

definition vast_list_views :: "vast_view list vprog" where
  "vast_list_views = getsE (\<lambda>v. dict_values (va_views v))"

section \<open>The storage contract\<close>

lemma vast_create_view_run:
  "vast_create_view path t e a v =
     (if has_key (va_views v) path then (Inl (HTTPException 409 ''vast: view already exists''), v)
      else let view = \<lparr>vv_id = va_seq v + 1, vv_path = path, vv_tenant_ref = t, vv_allocation_id = a,
               vv_capacity_tb = 0, vv_qos_gbps = 0, vv_qos_iops_k = 0, vv_export_subnet = e,
               vv_state = ''active''\<rparr>
           in (Inr view, v\<lparr>va_seq := va_seq v + 1, va_views := AList.update path view (va_views v)\<rparr>))"
  by (simp add: vast_create_view_def Let_def bindE_def thenE_def)

lemma vast_upd_view_run:
  "vast_upd_view path f v =
     (case map_of (va_views v) path of None \<Rightarrow> (Inl (HTTPException 404 ''vast: view not found''), v)
      | Some w \<Rightarrow> (Inr (f w), v\<lparr>va_views := dict_mod path f (va_views v)\<rparr>))"
  by (simp add: vast_upd_view_def vast_view_or_404_def bindE_def thenE_def someE_run split: option.splits)

lemma vast_delete_view_run:
  "vast_delete_view path v =
     (case map_of (va_views v) path of None \<Rightarrow> (Inl (HTTPException 404 ''vast: view not found''), v)
      | Some w \<Rightarrow> (Inr (w\<lparr>vv_state := ''deleted''\<rparr>), v\<lparr>va_views := AList.delete path (va_views v)\<rparr>))"
  by (simp add: vast_delete_view_def vast_view_or_404_def bindE_def thenE_def someE_run split: option.splits)

text \<open>
  The interface the order pipeline uses: \<open>view s p\<close> is the exported view under a path. A new path is
  bound exactly once, attributes are set on existing views only, deletion removes the export, and
  no call touches another path.
\<close>

locale storage_adapter =
  fixes view :: "'s \<Rightarrow> string \<Rightarrow> 'v option"
    and create_view :: "string \<Rightarrow> string \<Rightarrow> string \<Rightarrow> string option \<Rightarrow> ('s, 'v) prog"
    and upd_view :: "string \<Rightarrow> ('v \<Rightarrow> 'v) \<Rightarrow> ('s, 'v) prog"
    and delete_view :: "string \<Rightarrow> ('s, 'v) prog"
  assumes create_new: "view s p = None \<Longrightarrow>
      \<exists>x s'. create_view p t e a s = (Inr x, s') \<and> view s' = (view s)(p \<mapsto> x)"
    and create_old: "view s p \<noteq> None \<Longrightarrow> \<exists>d. create_view p t e a s = (Inl (HTTPException 409 d), s)"
    and upd_old: "view s p = Some x \<Longrightarrow>
      \<exists>s'. upd_view p f s = (Inr (f x), s') \<and> view s' = (view s)(p \<mapsto> f x)"
    and upd_new: "view s p = None \<Longrightarrow> \<exists>d. upd_view p f s = (Inl (HTTPException 404 d), s)"
    and delete_old: "view s p \<noteq> None \<Longrightarrow> \<exists>x s'. delete_view p s = (Inr x, s') \<and> view s' = (view s)(p := None)"
    and delete_new: "view s p = None \<Longrightarrow> \<exists>d. delete_view p s = (Inl (HTTPException 404 d), s)"
begin

lemma create_delete: "view s p = None \<Longrightarrow> view (snd (thenE (create_view p t e a) (delete_view p) s)) = view s"
proof -
  assume new: "view s p = None"
  then obtain x s1 where c: "create_view p t e a s = (Inr x, s1)" and v1: "view s1 = (view s)(p \<mapsto> x)"
    using create_new by blast
  from v1 have "view s1 p \<noteq> None" by simp
  then obtain y s2 where d: "delete_view p s1 = (Inr y, s2)" and v2: "view s2 = (view s1)(p := None)"
    using delete_old by blast
  from c d v1 v2 new show ?thesis by (auto simp: thenE_Inr)
qed

lemma provision_view:
  assumes "view s p = None"
  shows "\<exists>x s'. thenE (create_view p t e a) (thenE (upd_view p f) (upd_view p g)) s = (Inr x, s') \<and>
           view s' = (view s)(p \<mapsto> x)"
proof -
  from assms obtain x s1 where c: "create_view p t e a s = (Inr x, s1)" and v1: "view s1 = (view s)(p \<mapsto> x)"
    using create_new by blast
  from v1 have "view s1 p = Some x" by simp
  then obtain s2 where u: "upd_view p f s1 = (Inr (f x), s2)" and v2: "view s2 = (view s1)(p \<mapsto> f x)"
    using upd_old by blast
  from v2 have "view s2 p = Some (f x)" by simp
  then obtain s3 where w: "upd_view p g s2 = (Inr (g (f x)), s3)" and v3: "view s3 = (view s2)(p \<mapsto> g (f x))"
    using upd_old by blast
  from c u w v1 v2 v3 show ?thesis by (auto simp: thenE_Inr)
qed

end

interpretation vast_sa: storage_adapter "\<lambda>v. map_of (va_views v)" vast_create_view vast_upd_view vast_delete_view
  by unfold_locales
     (auto simp: vast_create_view_run vast_upd_view_run vast_delete_view_run has_key_def Let_def fun_eq_iff
           split: option.splits)

end
