(* ===== verification/Bounded_Log.thy ===== *)
theory Bounded_Log
  imports Prelude
begin

text \<open>
  The contract of a log with a bound: whatever is appended, it never exceeds its capacity and it is the
  newest part of all that was ever appended. The audit trail and the trace bus provide it.
\<close>

definition pushes :: "('a \<Rightarrow> 'a list \<Rightarrow> 'a list) \<Rightarrow> 'a list \<Rightarrow> 'a list" where
  "pushes push ys = foldl (\<lambda>xs x. push x xs) [] ys"

lemma pushes_snoc: "pushes push (ys @ [x]) = push x (pushes push ys)"
  by (simp add: pushes_def)

locale bounded_log =
  fixes push :: "'a \<Rightarrow> 'a list \<Rightarrow> 'a list"
    and cap :: nat
  assumes push_bound: "length xs \<le> cap \<Longrightarrow> length (push x xs) \<le> cap"
    and push_suffix: "\<exists>ys. xs @ [x] = ys @ push x xs"
begin

lemma pushes_bound: "length (pushes push ys) \<le> cap"
  by (induction ys rule: rev_induct) (simp add: pushes_def, simp add: pushes_snoc push_bound)

lemma pushes_newest: "\<exists>old. ys = old @ pushes push ys"
proof (induction ys rule: rev_induct)
  case Nil
  then show ?case by (simp add: pushes_def)
next
  case (snoc x ys)
  then obtain old where "ys = old @ pushes push ys" by blast
  moreover from push_suffix obtain zs where "pushes push ys @ [x] = zs @ push x (pushes push ys)" by blast
  ultimately have "ys @ [x] = (old @ zs) @ pushes push (ys @ [x])" by (metis append.assoc pushes_snoc)
  then show ?case by blast
qed

text \<open>A property of neighbours, such as rising sequence numbers, survives the bound.\<close>

lemma push_sorted: "sorted_wrt R (xs @ [x]) \<Longrightarrow> sorted_wrt R (push x xs)"
  using push_suffix [of xs x] by (metis sorted_wrt_append)

lemma push_subset: "set (push x xs) \<subseteq> insert x (set xs)"
proof -
  obtain ys where "xs @ [x] = ys @ push x xs" using push_suffix by blast
  then have "set (xs @ [x]) = set ys \<union> set (push x xs)" by (metis set_append)
  then show ?thesis by auto
qed

end

end
