(* ===== verification/Shared.thy ===== *)
theory Shared
  imports Bounded_Log
begin

text \<open>
  \<open>app/shared_services.py\<close>: IAM realms and OIDC clients, the secret vault, PAM sessions and the
  audit trail. The tokens of Python's \<open>secrets\<close> module are an input: \<open>sh_entropy i\<close> is the \<open>i\<close>-th
  token the generator yields and \<open>sh_drawn\<close> counts the draws.
\<close>

definition DEFAULT_ROLES :: "string list" where
  "DEFAULT_ROLES = [''tenant-admin'', ''ops-operator'', ''viewer'']"

record oidc_client =
  cl_client_id :: string
  cl_kind :: string
  cl_scope :: string
  cl_order_id :: "string option"
  cl_mfa :: bool
  cl_tokens_issued :: nat
  cl_secret_masked :: string
  cl_state :: string

record iam_realm =
  rl_realm :: string
  rl_display :: string
  rl_roles :: "string list"
  rl_clients :: "oidc_client list"
  rl_state :: string

record secret_entry =
  se_path :: string
  se_kind :: string
  se_tenant_ref :: string
  se_order_id :: "string option"
  se_version :: nat
  se_value_masked :: string

record pam_session =
  pm_id :: string
  pm_operator :: string
  pm_target :: string
  pm_reason :: string
  pm_ttl_s :: int
  pm_state :: string

record audit_entry =
  au_seq :: nat
  au_actor :: string
  au_action :: string
  au_target :: string
  au_result :: string
  au_tenant_ref :: "string option"

record shared =
  sh_realms :: "iam_realm dict"
  sh_secrets :: "secret_entry dict"
  sh_pam_sessions :: "pam_session dict"
  sh_audit_log :: "audit_entry list"
  sh_sa_secrets :: "string dict"
  sh_seq :: nat
  sh_entropy :: "nat \<Rightarrow> string"
  sh_drawn :: nat

type_synonym 'a shprog = "(shared, 'a) prog"

definition shared_reset :: "unit shprog" where
  "shared_reset = modifyE (\<lambda>s. s\<lparr>sh_realms := [], sh_secrets := [], sh_pam_sessions := [],
     sh_audit_log := [], sh_sa_secrets := [], sh_seq := 0\<rparr>)"

definition token_hex :: "string shprog" where
  "token_hex s = (Inr (sh_entropy s (sh_drawn s)), s\<lparr>sh_drawn := sh_drawn s + 1\<rparr>)"

text \<open>The audit trail keeps at most 2000 entries: past that, the oldest 200 are dropped.\<close>

definition audit_push :: "'a \<Rightarrow> 'a list \<Rightarrow> 'a list" where
  "audit_push e xs = (let log = xs @ [e] in if length log > 2000 then drop 200 log else log)"

definition audit :: "string \<Rightarrow> string \<Rightarrow> string \<Rightarrow> string \<Rightarrow> string option \<Rightarrow> unit shprog" where
  "audit actor action target result tref = modifyE (\<lambda>s. s\<lparr>sh_seq := sh_seq s + 1,
     sh_audit_log := audit_push \<lparr>au_seq = sh_seq s + 1, au_actor = actor, au_action = action, au_target = target,
        au_result = result, au_tenant_ref = tref\<rparr> (sh_audit_log s)\<rparr>)"

interpretation audit_trail: bounded_log audit_push 2000
proof unfold_locales
  show "\<exists>ys. xs @ [x] = ys @ audit_push x xs" for x :: 'a and xs
  proof (cases "2000 < length (xs @ [x])")
    case True
    then have "audit_push x xs = drop 200 (xs @ [x])" by (simp add: audit_push_def)
    then show ?thesis by (metis append_take_drop_id)
  next
    case False
    then have "audit_push x xs = xs @ [x]" by (simp add: audit_push_def)
    then show ?thesis by (metis append_Nil)
  qed
qed (auto simp: audit_push_def Let_def)

definition mk_client :: "string \<Rightarrow> string \<Rightarrow> string \<Rightarrow> string option \<Rightarrow> bool \<Rightarrow> string \<Rightarrow> oidc_client" where
  "mk_client cid kind scope oid mfa masked =
     \<lparr>cl_client_id = cid, cl_kind = kind, cl_scope = scope, cl_order_id = oid, cl_mfa = mfa,
      cl_tokens_issued = 0, cl_secret_masked = masked, cl_state = ''active''\<rparr>"

definition create_realm :: "string \<Rightarrow> string \<Rightarrow> iam_realm shprog" where
  "create_realm tid display =
     bindE (getsE (\<lambda>s. map_of (sh_realms s) tid)) (\<lambda>old.
     case old of Some r \<Rightarrow> returnE r
     | None \<Rightarrow>
        (let realm = \<lparr>rl_realm = tid, rl_display = display, rl_roles = DEFAULT_ROLES,
               rl_clients = [mk_client (tid @ ''-portal'') ''portal'' ''openid profile tenant:self'' None True ''''],
               rl_state = ''active''\<rparr> in
         thenE (modifyE (\<lambda>s. s\<lparr>sh_realms := AList.update tid realm (sh_realms s)\<rparr>))
         (thenE (audit ''neocloud-os'' ''iam.realm.create'' tid ''success'' (Some tid))
                (returnE realm))))"

text \<open>The first client with an id, over realms in order, with its realm.\<close>

definition find_client :: "shared \<Rightarrow> string \<Rightarrow> (string \<times> oidc_client) option" where
  "find_client s cid =
     List.find (\<lambda>(r, c). cl_client_id c = cid)
       (concat (map (\<lambda>r. map (Pair (rl_realm r)) (rl_clients r)) (dict_values (sh_realms s))))"

text \<open>Mutation of the first client with an id, the object \<open>find_client\<close> returns.\<close>

fun upd_first :: "('a \<Rightarrow> bool) \<Rightarrow> ('a \<Rightarrow> 'a) \<Rightarrow> 'a list \<Rightarrow> 'a list" where
  "upd_first p f [] = []"
| "upd_first p f (x # xs) = (if p x then f x # xs else x # upd_first p f xs)"

definition upd_client :: "string \<Rightarrow> string \<Rightarrow> (oidc_client \<Rightarrow> oidc_client) \<Rightarrow> unit shprog" where
  "upd_client realm cid f = modifyE (\<lambda>s. s\<lparr>sh_realms := dict_mod realm (\<lambda>r.
     r\<lparr>rl_clients := upd_first (\<lambda>c. cl_client_id c = cid) f (rl_clients r)\<rparr>) (sh_realms s)\<rparr>)"

definition issue_token :: "string \<Rightarrow> string \<Rightarrow> string shprog" where
  "issue_token cid actor =
     bindE (getsE (\<lambda>s. find_client s cid)) (\<lambda>found.
     case found of
       None \<Rightarrow> thenE (audit actor ''iam.token.issue'' cid ''denied'' None)
                     (raiseE (HTTPException 403 ''iam: client not active''))
     | Some (realm, c) \<Rightarrow>
        (if cl_state c \<noteq> ''active'' then
           thenE (audit actor ''iam.token.issue'' cid ''denied'' None)
                 (raiseE (HTTPException 403 ''iam: client not active''))
         else
           thenE (upd_client realm cid (\<lambda>c. c\<lparr>cl_tokens_issued := cl_tokens_issued c + 1\<rparr>))
           (bindE token_hex (\<lambda>tok.
            thenE (audit actor ''iam.token.issue'' cid ''success'' (Some realm))
                  (returnE (''eyJ.fake.'' @ tok))))))"

definition last4 :: "string \<Rightarrow> string" where
  "last4 x = drop (length x - 4) x"

definition issue_service_account :: "string \<Rightarrow> string \<Rightarrow> oidc_client shprog" where
  "issue_service_account tid oid =
     bindE (create_realm tid tid) (\<lambda>_.
     bindE token_hex (\<lambda>tok.
     let secret = ''nc_'' @ tok;
         client = mk_client (''sa-'' @ oid) ''service-account'' ''nodes:read storage:mount telemetry:write''
                    (Some oid) False (''nc_****'' @ last4 secret) in
     thenE (modifyE (\<lambda>s. s\<lparr>sh_realms := dict_mod tid (\<lambda>r. r\<lparr>rl_clients := rl_clients r @ [client]\<rparr>) (sh_realms s)\<rparr>))
     (thenE (modifyE (\<lambda>s. s\<lparr>sh_sa_secrets := AList.update oid secret (sh_sa_secrets s)\<rparr>))
     (thenE (issue_token (cl_client_id client) ''neocloud-os'') (returnE client)))))"

text \<open>One-time withdrawal of a service-account secret; the fallback token is drawn in any case.\<close>

definition pop_sa_secret :: "string \<Rightarrow> string shprog" where
  "pop_sa_secret oid =
     bindE token_hex (\<lambda>tok.
     bindE (getsE (\<lambda>s. map_of (sh_sa_secrets s) oid)) (\<lambda>x.
     thenE (modifyE (\<lambda>s. s\<lparr>sh_sa_secrets := AList.delete oid (sh_sa_secrets s)\<rparr>))
           (returnE (case x of Some v \<Rightarrow> v | None \<Rightarrow> ''nc_'' @ tok))))"

definition write_secret :: "string \<Rightarrow> string \<Rightarrow> string \<Rightarrow> string option \<Rightarrow> secret_entry shprog" where
  "write_secret path kind tref oid =
     bindE (getsE (\<lambda>s. map_of (sh_secrets s) path)) (\<lambda>prev.
     bindE token_hex (\<lambda>tok.
     let entry = \<lparr>se_path = path, se_kind = kind, se_tenant_ref = tref, se_order_id = oid,
            se_version = (case prev of None \<Rightarrow> 1 | Some p \<Rightarrow> se_version p + 1),
            se_value_masked = take 3 kind @ ''_****'' @ tok\<rparr> in
     thenE (modifyE (\<lambda>s. s\<lparr>sh_secrets := AList.update path entry (sh_secrets s)\<rparr>))
     (thenE (audit ''neocloud-os'' ''vault.secret.write'' path ''success'' (Some tref)) (returnE entry))))"

text \<open>Revocation at reclaim: the order's active clients of the tenant's realm, and its secrets.\<close>

definition revocable :: "string \<Rightarrow> oidc_client \<Rightarrow> bool" where
  "revocable oid c \<longleftrightarrow> cl_order_id c = Some oid \<and> cl_state c = ''active''"

definition revoke_order_credentials :: "string \<Rightarrow> string \<Rightarrow> (string list \<times> string list) shprog" where
  "revoke_order_credentials tid oid =
     bindE (getsE (\<lambda>s. case map_of (sh_realms s) tid of None \<Rightarrow> []
              | Some r \<Rightarrow> map cl_client_id (filter (revocable oid) (rl_clients r)))) (\<lambda>revoked.
     bindE (getsE (\<lambda>s. map fst (filter (\<lambda>(p, e). se_order_id e = Some oid) (sh_secrets s)))) (\<lambda>purged.
     thenE (modifyE (\<lambda>s. s\<lparr>sh_realms := dict_mod tid (\<lambda>r. r\<lparr>rl_clients :=
              map (\<lambda>c. if revocable oid c then c\<lparr>cl_state := ''revoked''\<rparr> else c) (rl_clients r)\<rparr>) (sh_realms s),
              sh_secrets := filter (\<lambda>(p, e). p \<notin> set purged) (sh_secrets s)\<rparr>))
     (thenE (if revoked \<noteq> [] \<or> purged \<noteq> []
             then audit ''neocloud-os'' ''iam.credentials.revoke'' (tid @ ''/'' @ oid) ''success'' (Some tid)
             else returnE ())
            (returnE (revoked, purged)))))"

definition pam_open :: "string \<Rightarrow> string \<Rightarrow> string \<Rightarrow> int \<Rightarrow> pam_session shprog" where
  "pam_open operator target reason ttl =
     thenE (modifyE (\<lambda>s. s\<lparr>sh_seq := sh_seq s + 1\<rparr>))
     (bindE (getsE (\<lambda>s. \<lparr>pm_id = ''pam-'' @ dec (sh_seq s), pm_operator = operator, pm_target = target,
                pm_reason = reason, pm_ttl_s = ttl, pm_state = ''active''\<rparr>)) (\<lambda>sess.
      thenE (modifyE (\<lambda>s. s\<lparr>sh_pam_sessions := AList.update (pm_id sess) sess (sh_pam_sessions s)\<rparr>))
      (thenE (audit operator ''pam.session.open'' target ''success'' None) (returnE sess))))"

definition pam_close :: "string \<Rightarrow> pam_session shprog" where
  "pam_close sid =
     bindE (getsE (\<lambda>s. map_of (sh_pam_sessions s) sid)) (\<lambda>found.
     case found of None \<Rightarrow> raiseE (HTTPException 404 ''pam: session not found'')
     | Some sess \<Rightarrow>
        thenE (modifyE (\<lambda>s. s\<lparr>sh_pam_sessions := dict_mod sid (\<lambda>p. p\<lparr>pm_state := ''closed''\<rparr>) (sh_pam_sessions s)\<rparr>))
        (thenE (audit (pm_operator sess) ''pam.session.close'' (pm_target sess) ''success'' None)
               (returnE (sess\<lparr>pm_state := ''closed''\<rparr>))))"

end
