(* ===== verification/Adapters.thy ===== *)
theory Adapters
  imports Nico Vast Shared
begin

text \<open>
  \<open>app/adapters.py\<close>: the seam between the order pipeline and NICo. A \<open>compute_adapter\<close> is the
  \<open>ComputeAdapter\<close> protocol, a record of programs on a controller state \<open>'n\<close>; \<open>LocalNicoAdapter\<close> is
  the in-process one. The pipeline takes the adapter as an argument, as the code does, so what is
  proved for every adapter holds for the REST one too. \<open>ca_local_segments\<close> is the in-process
  \<open>FAKE_NICO.list_segments()\<close> a reclaim falls back to when the adapter cannot list segments.
\<close>

record 'n compute_adapter =
  ca_list_hosts :: "('n, nico_host list) prog"
  ca_get_host :: "string \<Rightarrow> ('n, nico_host) prog"
  ca_reserve :: "string \<Rightarrow> ('n, nico_host) prog"
  ca_unreserve :: "string \<Rightarrow> ('n, nico_host) prog"
  ca_provision :: "string \<Rightarrow> string \<Rightarrow> ('n, nico_job) prog"
  ca_allocate :: "string \<Rightarrow> string \<Rightarrow> ('n, nico_host) prog"
  ca_release :: "string \<Rightarrow> ('n, nico_job) prog"
  ca_abort_provision :: "string \<Rightarrow> ('n, nico_host) prog"
  ca_sanitize :: "string \<Rightarrow> ('n, nico_job) prog"
  ca_get_sanitize_report :: "string \<Rightarrow> ('n, sanitize_report) prog"
  ca_get_job :: "string \<Rightarrow> ('n, nico_job) prog"
  ca_cordon :: "string \<Rightarrow> ('n, nico_host) prog"
  ca_create_segment :: "string \<Rightarrow> string \<Rightarrow> nat \<Rightarrow> nat \<Rightarrow> string list \<Rightarrow> string option \<Rightarrow> nat option \<Rightarrow>
                          ('n, nico_segment) prog"
  ca_delete_segment :: "string \<Rightarrow> ('n, nico_segment) prog"
  ca_list_segments :: "('n, nico_segment list) prog"
  ca_attach_hosts :: "string \<Rightarrow> string list \<Rightarrow> ('n, nico_segment) prog"
  ca_local_segments :: "('n, nico_segment list) prog"

definition LocalNicoAdapter :: "nico compute_adapter" where
  "LocalNicoAdapter = \<lparr>
     ca_list_hosts = nico_list_hosts, ca_get_host = nico_get_host, ca_reserve = nico_reserve,
     ca_unreserve = nico_unreserve, ca_provision = nico_provision, ca_allocate = nico_allocate,
     ca_release = nico_release, ca_abort_provision = nico_abort_provision,
     ca_sanitize = nico_sanitize, ca_get_sanitize_report = nico_get_sanitize_report,
     ca_get_job = nico_get_job, ca_cordon = nico_cordon, ca_create_segment = nico_create_segment,
     ca_delete_segment = nico_delete_segment, ca_list_segments = nico_list_segments,
     ca_attach_hosts = nico_attach_hosts, ca_local_segments = nico_list_segments\<rparr>"

text \<open>
  Polling a job to a terminal state: at most \<open>k\<close> rounds, each of which checks the job in hand and
  polls it if it still runs. The last poll's answer is not looked at.
\<close>

fun poll_job :: "'n compute_adapter \<Rightarrow> nat \<Rightarrow> nico_job \<Rightarrow> ('n, nico_job) prog" where
  "poll_job A 0 job = raiseE (HTTPException 504 ''nico job still running'')"
| "poll_job A (Suc k) job =
     (if jb_state job \<noteq> J_running then returnE job
      else bindE (ca_get_job A (jb_job_id job)) (poll_job A k))"

definition MAX_POLLS :: nat where "MAX_POLLS = 60"

definition wait_job :: "'n compute_adapter \<Rightarrow> nico_job \<Rightarrow> ('n, nico_job) prog" where
  "wait_job A job = poll_job A MAX_POLLS job"

section \<open>The state of the whole control plane\<close>

text \<open>
  \<open>STORE\<close>, the controller behind the adapter, \<open>FAKE_VAST\<close> and \<open>SHARED\<close>: the four process-wide
  singletons the handlers read and write.
\<close>

record 'n world =
  w_store :: store
  w_nico :: 'n
  w_vast :: vast
  w_shared :: shared

type_synonym ('n, 'a) wprog = "('n world, 'a) prog"

definition onStore :: "'a sprog \<Rightarrow> ('n, 'a) wprog" where
  "onStore = focusE w_store (\<lambda>s w. w\<lparr>w_store := s\<rparr>)"

definition onNico :: "('n, 'a) prog \<Rightarrow> ('n, 'a) wprog" where
  "onNico = focusE w_nico (\<lambda>s w. w\<lparr>w_nico := s\<rparr>)"

definition onVast :: "'a vprog \<Rightarrow> ('n, 'a) wprog" where
  "onVast = focusE w_vast (\<lambda>s w. w\<lparr>w_vast := s\<rparr>)"

definition onShared :: "'a shprog \<Rightarrow> ('n, 'a) wprog" where
  "onShared = focusE w_shared (\<lambda>s w. w\<lparr>w_shared := s\<rparr>)"

abbreviation getsS :: "(store \<Rightarrow> 'a) \<Rightarrow> ('n, 'a) wprog" where
  "getsS f \<equiv> getsE (\<lambda>w. f (w_store w))"

abbreviation modifyS :: "(store \<Rightarrow> store) \<Rightarrow> ('n, unit) wprog" where
  "modifyS f \<equiv> modifyE (\<lambda>w. w\<lparr>w_store := f (w_store w)\<rparr>)"

section \<open>Frame lemmas\<close>

lemma onStore_run: "onStore m w = (fst (m (w_store w)), w\<lparr>w_store := snd (m (w_store w))\<rparr>)"
  by (simp add: onStore_def focusE_def split: prod.splits)

lemma onNico_run: "onNico m w = (fst (m (w_nico w)), w\<lparr>w_nico := snd (m (w_nico w))\<rparr>)"
  by (simp add: onNico_def focusE_def split: prod.splits)

lemma onVast_run: "onVast m w = (fst (m (w_vast w)), w\<lparr>w_vast := snd (m (w_vast w))\<rparr>)"
  by (simp add: onVast_def focusE_def split: prod.splits)

lemma onShared_run: "onShared m w = (fst (m (w_shared w)), w\<lparr>w_shared := snd (m (w_shared w))\<rparr>)"
  by (simp add: onShared_def focusE_def split: prod.splits)

lemmas on_runs = onStore_run onNico_run onVast_run onShared_run

text \<open>A predicate of the store is kept by whatever the controller, the storage system or IAM do.\<close>

lemma keeps_onNico [keeps_rules]: "keeps (\<lambda>w. I (w_store w)) (onNico m)"
  by (simp add: keeps_def onNico_run)

lemma keeps_onVast [keeps_rules]: "keeps (\<lambda>w. I (w_store w)) (onVast m)"
  by (simp add: keeps_def onVast_run)

lemma keeps_onShared [keeps_rules]: "keeps (\<lambda>w. I (w_store w)) (onShared m)"
  by (simp add: keeps_def onShared_run)

lemma keeps_onStore: "keeps I m \<Longrightarrow> keeps (\<lambda>w. I (w_store w)) (onStore m)"
  by (simp add: keeps_def onStore_run)

lemma keeps_modifyS: "(\<And>s. I s \<Longrightarrow> I (f s)) \<Longrightarrow> keeps (\<lambda>w. I (w_store w)) (modifyS f)"
  by (simp add: keeps_def)

end
