(* ===== verification/Tenancy.thy ===== *)
theory Tenancy
  imports Adapters
begin

text \<open>
  \<open>app/tenancy.py\<close>: tenants with their VNI/VRF binding, capacity allocations of racks, NVLink
  partitions and the isolation report. The definitions come first, then the tenancy invariant and
  that every operation keeps it.
\<close>

section \<open>Names\<close>

text \<open>
  Characters are the 256 of \<open>char\<close>. Beyond them Python's \<open>lower\<close> turns exactly two characters into a letter of the slug (the Kelvin sign and the
  dotted capital I); every other one becomes part of a dash, as any character that is no slug character does here.
\<close>

definition to_lower :: "char \<Rightarrow> char" where
  "to_lower c = (if 65 \<le> (of_char c :: nat) \<and> (of_char c :: nat) \<le> 90
                 then char_of ((of_char c :: nat) + 32) else c)"

definition slug_char :: "char \<Rightarrow> bool" where
  "slug_char c \<longleftrightarrow> (97 \<le> (of_char c :: nat) \<and> (of_char c :: nat) \<le> 122) \<or> is_digit c"

text \<open>Every maximal run of other characters becomes one dash, then dashes are stripped at both ends.\<close>

function dash_runs :: "string \<Rightarrow> string" where
  "dash_runs [] = []"
| "dash_runs (c # cs) =
     (if slug_char c then c # dash_runs cs
      else CHR ''-'' # dash_runs (dropWhile (\<lambda>x. \<not> slug_char x) cs))"
  by pat_completeness auto
termination
  by (relation "measure length") (auto simp: le_imp_less_Suc length_dropWhile_le)

definition strip_dash :: "string \<Rightarrow> string" where
  "strip_dash s = rev (dropWhile (\<lambda>c. c = CHR ''-'') (rev (dropWhile (\<lambda>c. c = CHR ''-'') s)))"

definition slug :: "string \<Rightarrow> string" where
  "slug name = strip_dash (dash_runs (map to_lower name))"

section \<open>VNI allocation\<close>

definition vnis :: "network_isolation \<Rightarrow> nat list" where
  "vnis ni = [compute_l3vni ni, converged_vni ni, oob_vni ni]"

definition used_vnis :: "store \<Rightarrow> nat list" where
  "used_vnis s = concat (map vnis (dict_values (st_netiso s)))"

function vni_scan :: "nat \<Rightarrow> nat \<Rightarrow> nat list \<Rightarrow> nat option" where
  "vni_scan v hi used =
     (if v > hi then None else if v \<notin> set used then Some v else vni_scan (v + 1) hi used)"
  by pat_completeness auto
termination
  by (relation "measure (\<lambda>(v, hi, _). Suc hi - v)") auto

declare vni_scan.simps [simp del]

definition alloc_vni :: "fabric \<Rightarrow> nat sprog" where
  "alloc_vni f s = someE (HTTPException 507 ''VNI pool exhausted'')
     (vni_scan (fst (VNI_RANGES f)) (snd (VNI_RANGES f)) (used_vnis s)) s"

definition default_dpu_mode :: "IsolationTier \<Rightarrow> DPUMode" where
  "default_dpu_mode t = (case t of bare_metal_dedicated \<Rightarrow> Dpu_dpu | vm_multitenant \<Rightarrow> Dpu_zero_trust
     | k8s_namespace \<Rightarrow> Dpu_dpu)"

section \<open>Binding hardware to a tenant\<close>

text \<open>
  Binding and release walk the same objects: the rack, its trays, and the DPU and GPUs of each
  tray. Binding writes the tenant, \<open>allocated\<close> and the requested DPU mode; release writes no
  tenant, \<open>ready\<close> and the plain DPU mode. The tray's own hardware state is left alone.
\<close>

definition set_tray_binding :: "string option \<Rightarrow> HwState \<Rightarrow> DPUMode \<Rightarrow> string \<Rightarrow> store \<Rightarrow> store" where
  "set_tray_binding who hw mode t s = (case map_of (st_trays s) t of None \<Rightarrow> s | Some tr \<Rightarrow>
     s\<lparr>st_trays := dict_mod t (\<lambda>x. x\<lparr>tray_tenant_id := who\<rparr>) (st_trays s),
       st_dpus := (case tray_dpu_id tr of None \<Rightarrow> st_dpus s
          | Some d \<Rightarrow> if d = [] then st_dpus s
                     else dict_mod d (\<lambda>x. x\<lparr>dpu_tenant_id := who, dpu_mode := mode\<rparr>) (st_dpus s)),
       st_gpus := fold (\<lambda>g. dict_mod g (\<lambda>x. x\<lparr>gpu_tenant_id := who, gpu_state := hw\<rparr>))
                    (tray_gpu_ids tr) (st_gpus s)\<rparr>)"

definition set_rack_binding :: "string option \<Rightarrow> HwState \<Rightarrow> DPUMode \<Rightarrow> string \<Rightarrow> unit sprog" where
  "set_rack_binding who hw mode rid s = (case map_of (st_racks s) rid of
     None \<Rightarrow> (Inl (PyError ''KeyError''), s)
   | Some r \<Rightarrow> (Inr (), fold (set_tray_binding who hw mode) (rack_tray_ids r)
       (s\<lparr>st_racks := dict_mod rid (\<lambda>x. x\<lparr>rack_tenant_id := who, rack_state := hw\<rparr>) (st_racks s)\<rparr>)))"

definition bind_rack :: "string \<Rightarrow> string \<Rightarrow> DPUMode \<Rightarrow> unit sprog" where
  "bind_rack rid tid mode = set_rack_binding (Some tid) Hw_allocated mode rid"

definition release_rack :: "string \<Rightarrow> unit sprog" where
  "release_rack rid = set_rack_binding None Hw_ready Dpu_dpu rid"

section \<open>Tenants\<close>

definition create_tenant :: "tenant_create \<Rightarrow> ('n, tenant) wprog" where
  "create_tenant body =
     (let sl = slug (tc_name body); tid = ''tnt-'' @ sl;
          tn = \<lparr>tn_id = tid, tn_name = tc_name body, isolation_tier = tc_isolation_tier body,
                sla_tier = tc_sla_tier body, tn_notes = tc_notes body\<rparr> in
      bindE (getsS (\<lambda>s. has_key (st_tenants s) tid)) (\<lambda>old.
      thenE (raise_if old (HTTPException 409 ''tenant already exists''))
      (thenE (modifyS (\<lambda>s. s\<lparr>st_tenants := AList.update tid tn (st_tenants s)\<rparr>))
      (bindE (onStore (alloc_vni Compute)) (\<lambda>a.
       bindE (onStore (alloc_vni Converged)) (\<lambda>b.
       bindE (onStore (alloc_vni Oob)) (\<lambda>c.
       thenE (modifyS (\<lambda>s. s\<lparr>st_netiso := AList.update tid
          \<lparr>ni_tenant_id = tid, compute_l3vni = a, converged_vni = b, oob_vni = c,
           ni_vrf = ''VRF-'' @ sl, ib_pkey = None\<rparr> (st_netiso s)\<rparr>))
       (thenE (onShared (create_realm tid (tc_name body)))
              (returnE tn)))))))))"

section \<open>Allocations\<close>

text \<open>The racks a request names: the whole unit, its hot-aisle containment, or an explicit set.\<close>

definition resolve_racks :: "allocation_create \<Rightarrow> scalable_unit \<Rightarrow> string list sprog" where
  "resolve_racks body su = (case ac_scope body of
     Scope_scalable_unit \<Rightarrow> returnE (su_rack_ids su)
   | Scope_hac \<Rightarrow> getsE (\<lambda>s. map rack_id (filter (\<lambda>r. rack_hac_id r = su_hac_id su) (racks_of_su s (su_id su))))
   | Scope_rack_set \<Rightarrow> (case ac_rack_ids body of
       None \<Rightarrow> raiseE (HTTPException 422 ''rack_set scope requires rack_ids'')
     | Some rids \<Rightarrow>
         thenE (raise_if (rids = []) (HTTPException 422 ''rack_set scope requires rack_ids''))
         (thenE (forE rids (\<lambda>rid. bindE (getsE (\<lambda>s. map_of (st_racks s) rid)) (\<lambda>r.
             raise_if (case r of None \<Rightarrow> True | Some r \<Rightarrow> rack_su_id r \<noteq> su_id su)
                      (HTTPException 422 ''rack not in scalable unit''))))
                (returnE rids))))"

definition check_free :: "string list \<Rightarrow> unit sprog" where
  "check_free rids = forE rids (\<lambda>rid. bindE (getsE (\<lambda>s. allocation_for_rack s rid)) (\<lambda>a.
     raise_if (a \<noteq> None) (HTTPException 409 ''rack already allocated'')))"

text \<open>A dedicated tenant may not join a unit in which another tenant holds a rack.\<close>

definition check_dedicated :: "tenant \<Rightarrow> scalable_unit \<Rightarrow> string list \<Rightarrow> unit sprog" where
  "check_dedicated t su rids = (if isolation_tier t \<noteq> bare_metal_dedicated then returnE () else
     bindE (getsE (\<lambda>s. racks_of_su s (su_id su))) (\<lambda>rs. forE rs (\<lambda>r.
       raise_if (rack_id r \<notin> set rids \<and> rack_tenant_id r \<notin> {None, Some (tn_id t)})
                (HTTPException 409 ''dedicated tenant cannot share SU''))))"

definition create_allocation :: "allocation_create \<Rightarrow> allocation sprog" where
  "create_allocation body =
     bindE (getsE (\<lambda>s. map_of (st_tenants s) (ac_tenant_id body))) (\<lambda>t0.
     bindE (someE (HTTPException 404 ''tenant not found'') t0) (\<lambda>t.
     bindE (getsE (\<lambda>s. map_of (st_sus s) (ac_su_id body))) (\<lambda>su0.
     bindE (someE (HTTPException 404 ''scalable unit not found'') su0) (\<lambda>su.
     bindE (resolve_racks body su) (\<lambda>rids.
     thenE (check_free rids)
     (thenE (check_dedicated t su rids)
     (let mode = (case ac_dpu_mode body of None \<Rightarrow> default_dpu_mode (isolation_tier t) | Some m \<Rightarrow> m) in
      bindE (next_seq ''alloc'') (\<lambda>n.
      let aid = ''alloc-'' @ dec n;
          alloc = \<lparr>alloc_id = aid, alloc_tenant_id = tn_id t, alloc_scope = ac_scope body,
                   alloc_su_id = su_id su, alloc_rack_ids = rids, alloc_dpu_mode = mode,
                   alloc_state = Hw_allocated\<rparr> in
      thenE (forE rids (\<lambda>rid. bind_rack rid (tn_id t) mode))
      (thenE (modifyE (\<lambda>s. s\<lparr>st_allocations := AList.update aid alloc (st_allocations s)\<rparr>))
             (returnE alloc))))))))))"

definition drop_partitions :: "string \<Rightarrow> string \<Rightarrow> unit sprog" where
  "drop_partitions rid tid = bindE (getsE (\<lambda>s. partitions_of_rack s rid)) (\<lambda>ps. forE ps (\<lambda>p.
     if part_tenant_id p = tid
     then modifyE (\<lambda>s. s\<lparr>st_partitions := AList.delete (part_id p) (st_partitions s)\<rparr>)
     else returnE ()))"

definition delete_allocation :: "string \<Rightarrow> (string \<times> string list) sprog" where
  "delete_allocation aid =
     bindE (getsE (\<lambda>s. map_of (st_allocations s) aid)) (\<lambda>a0.
     bindE (someE (HTTPException 404 ''allocation not found'') a0) (\<lambda>a.
     thenE (forE (alloc_rack_ids a) (\<lambda>rid.
              thenE (drop_partitions rid (alloc_tenant_id a)) (release_rack rid)))
     (thenE (modifyE (\<lambda>s. s\<lparr>st_allocations := AList.delete aid (st_allocations s)\<rparr>))
            (returnE (aid, alloc_rack_ids a)))))"

section \<open>NVLink partitions\<close>

definition claimed_trays :: "store \<Rightarrow> string \<Rightarrow> string list" where
  "claimed_trays s rid = concat (map part_tray_ids (partitions_of_rack s rid))"

definition create_partition :: "partition_create \<Rightarrow> nvlink_partition sprog" where
  "create_partition body =
     bindE (getsE (\<lambda>s. map_of (st_racks s) (pc_rack_id body))) (\<lambda>r0.
     bindE (someE (HTTPException 404 ''rack not found'') r0) (\<lambda>r.
     bindE (getsE (\<lambda>s. has_key (st_tenants s) (pc_tenant_id body))) (\<lambda>known.
     thenE (raise_if (\<not> known) (HTTPException 404 ''tenant not found''))
     (thenE (raise_if (rack_tenant_id r \<noteq> Some (pc_tenant_id body)) (HTTPException 409 ''rack not allocated to tenant''))
     (thenE (raise_if (\<not> list_all (\<lambda>t. t \<in> set (rack_tray_ids r)) (pc_tray_ids body))
                      (HTTPException 422 ''tray not in rack''))
     (bindE (getsE (\<lambda>s. claimed_trays s (rack_id r))) (\<lambda>claimed.
      thenE (raise_if (list_ex (\<lambda>t. t \<in> set claimed) (pc_tray_ids body))
                      (HTTPException 409 ''trays already in a partition''))
      (bindE (getsE (\<lambda>s. length (partitions_of_rack s (rack_id r)) + 1)) (\<lambda>pno.
       let pid = rack_id r @ ''-part-'' @ dec pno;
           part = \<lparr>part_id = pid, part_rack_id = rack_id r, part_no = pno,
                   part_tray_ids = pc_tray_ids body, part_tenant_id = pc_tenant_id body,
                   part_state = Hw_allocated\<rparr> in
       thenE (modifyE (\<lambda>s. s\<lparr>st_partitions := AList.update pid part (st_partitions s)\<rparr>))
             (returnE part))))))))))"

definition list_partitions :: "string option \<Rightarrow> string option \<Rightarrow> store \<Rightarrow> nvlink_partition list" where
  "list_partitions rid tid s =
     (let parts = dict_values (st_partitions s);
          by_rack = (case rid of None \<Rightarrow> parts | Some r \<Rightarrow>
             if r = [] then parts else filter (\<lambda>p. part_rack_id p = r) parts)
      in case tid of None \<Rightarrow> by_rack | Some t \<Rightarrow>
           if t = [] then by_rack else filter (\<lambda>p. part_tenant_id p = t) by_rack)"

section \<open>The isolation report\<close>

definition co_tenant_racks :: "store \<Rightarrow> string \<Rightarrow> string list" where
  "co_tenant_racks s tid = concat (map (\<lambda>a. case map_of (st_sus s) (alloc_su_id a) of None \<Rightarrow> []
       | Some su \<Rightarrow> map rack_id (filter (\<lambda>r. rack_tenant_id r \<notin> {None, Some tid}) (racks_of_su s (su_id su))))
     (allocations_of_tenant s tid))"

definition vni_collisions :: "store \<Rightarrow> string \<Rightarrow> network_isolation \<Rightarrow> string list" where
  "vni_collisions s tid ni = concat (map (\<lambda>(k, other). if k = tid then [] else
     (if list_ex (\<lambda>v. v \<in> set (vnis other)) (vnis ni) then [k] else []) @ (if ni_vrf other = ni_vrf ni then [k] else [])) (st_netiso s))"

definition finding :: "severity \<Rightarrow> string \<Rightarrow> isolation_finding" where
  "finding sv layer = \<lparr>if_severity = sv, if_layer = layer\<rparr>"

definition isolation_findings :: "store \<Rightarrow> tenant \<Rightarrow> string \<Rightarrow> isolation_finding list" where
  "isolation_findings s t tid =
     (let allocs = allocations_of_tenant s tid;
          tenant_racks = concat (map alloc_rack_ids allocs);
          parts = filter (\<lambda>p. part_tenant_id p = tid) (dict_values (st_partitions s))
      in [finding Pass ''identity'']
       @ [if isolation_tier t = bare_metal_dedicated
          then finding (if co_tenant_racks s tid \<noteq> [] then Fail else Pass) ''physical''
          else finding Pass ''physical'']
       @ [case map_of (st_netiso s) tid of None \<Rightarrow> finding Fail ''network''
          | Some ni \<Rightarrow> finding (if vni_collisions s tid ni \<noteq> [] then Fail else Pass) ''network'']
       @ concat (map (\<lambda>a. if isolation_tier t = vm_multitenant \<and> alloc_dpu_mode a \<noteq> Dpu_zero_trust
                          then [finding Warn ''process''] else []) allocs)
       @ concat (map (\<lambda>p. if part_rack_id p \<notin> set tenant_racks
                          then [finding Fail ''compute_isolation''] else []) parts)
       @ (if parts \<noteq> [] then [finding Pass ''compute_isolation''] else []))"

definition isolation_report :: "string \<Rightarrow> isolation_report sprog" where
  "isolation_report tid =
     bindE (getsE (\<lambda>s. map_of (st_tenants s) tid)) (\<lambda>t0.
     bindE (someE (HTTPException 404 ''tenant not found'') t0) (\<lambda>t.
     getsE (\<lambda>s. let fs = isolation_findings s t tid in
       \<lparr>ir_tenant_id = tid, ir_ok = (\<not> list_ex (\<lambda>f. if_severity f = Fail) fs), ir_findings = fs\<rparr>)))"

end
