(* ===== verification/Tenancy_Inv.thy ===== *)
theory Tenancy_Inv
  imports Tenancy
begin

text \<open>
  The tenancy invariant of the store and its preservation by the operations of \<open>tenancy.py\<close>: rack
  ownership agrees with the allocations, allocations are disjoint, partitions live on racks of
  their tenant and never overlap, VNI and VRF bindings are unique, generated ids are fresh.
\<close>

section \<open>The invariant\<close>

text \<open>
  Units, racks and tenants are stored under their ids, a unit's racks exist and point back to it, and
  ids are built from the unit's index, which makes the ids of a new unit fresh.
\<close>

definition topo_ok :: "store \<Rightarrow> bool" where
  "topo_ok s \<longleftrightarrow> dict_wf (st_racks s) \<and> dict_wf (st_sus s)
     \<and> (\<forall>k r. map_of (st_racks s) k = Some r \<longrightarrow> rack_id r = k \<and> has_key (st_sus s) (rack_su_id r)
          \<and> (\<exists>sfx. k = rack_su_id r @ ''-rack-'' @ sfx))
     \<and> (\<forall>k u. map_of (st_sus s) k = Some u \<longrightarrow> su_id u = k \<and> k = ''su-'' @ dec (su_index u)
          \<and> distinct (su_rack_ids u)
          \<and> (\<forall>rid \<in> set (su_rack_ids u). \<exists>r. map_of (st_racks s) rid = Some r \<and> rack_su_id r = k))
     \<and> (\<forall>k t. map_of (st_tenants s) k = Some t \<longrightarrow> tn_id t = k \<and> k \<noteq> [])"

text \<open>Ownership: every allocated rack is bound to the allocation's tenant, and only those are bound.\<close>

definition alloc_ok :: "store \<Rightarrow> bool" where
  "alloc_ok s \<longleftrightarrow> dict_wf (st_allocations s)
     \<and> (\<forall>k a. map_of (st_allocations s) k = Some a \<longrightarrow> alloc_id a = k
          \<and> has_key (st_tenants s) (alloc_tenant_id a)
          \<and> (\<exists>n \<le> seq_of s ''alloc''. k = ''alloc-'' @ dec n)
          \<and> (\<forall>rid \<in> set (alloc_rack_ids a). \<exists>r. map_of (st_racks s) rid = Some r
                \<and> rack_tenant_id r = Some (alloc_tenant_id a) \<and> rack_su_id r = alloc_su_id a))
     \<and> (\<forall>k l a b rid. map_of (st_allocations s) k = Some a \<longrightarrow> map_of (st_allocations s) l = Some b \<longrightarrow>
          rid \<in> set (alloc_rack_ids a) \<longrightarrow> rid \<in> set (alloc_rack_ids b) \<longrightarrow> k = l)
     \<and> (\<forall>rid r t. map_of (st_racks s) rid = Some r \<longrightarrow> rack_tenant_id r = Some t \<longrightarrow>
          (\<exists>k a. map_of (st_allocations s) k = Some a \<and> alloc_tenant_id a = t \<and> rid \<in> set (alloc_rack_ids a)))"

text \<open>
  Partitions: numbered \<open>1..n\<close> on their rack, on a rack bound to their tenant, over trays of that
  rack, no tray in two of them.
\<close>

definition part_ok :: "store \<Rightarrow> bool" where
  "part_ok s \<longleftrightarrow> dict_wf (st_partitions s)
     \<and> (\<forall>k p. map_of (st_partitions s) k = Some p \<longrightarrow>
          k = part_rack_id p @ ''-part-'' @ dec (part_no p) \<and> part_id p = k
          \<and> 1 \<le> part_no p \<and> part_no p \<le> length (partitions_of_rack s (part_rack_id p))
          \<and> (\<exists>r. map_of (st_racks s) (part_rack_id p) = Some r
                \<and> rack_tenant_id r = Some (part_tenant_id p)
                \<and> set (part_tray_ids p) \<subseteq> set (rack_tray_ids r)))
     \<and> (\<forall>k l p q t. map_of (st_partitions s) k = Some p \<longrightarrow> map_of (st_partitions s) l = Some q \<longrightarrow>
          part_rack_id p = part_rack_id q \<longrightarrow> t \<in> set (part_tray_ids p) \<longrightarrow> t \<in> set (part_tray_ids q) \<longrightarrow> k = l)"

text \<open>Network bindings: every VNI from its fabric's pool, none shared, the VRF named after the tenant.\<close>

definition in_pool :: "fabric \<Rightarrow> nat \<Rightarrow> bool" where
  "in_pool f v \<longleftrightarrow> fst (VNI_RANGES f) \<le> v \<and> v \<le> snd (VNI_RANGES f)"

definition net_ok :: "store \<Rightarrow> bool" where
  "net_ok s \<longleftrightarrow> dict_wf (st_netiso s)
     \<and> (\<forall>k ni. map_of (st_netiso s) k = Some ni \<longrightarrow> has_key (st_tenants s) k \<and> ni_tenant_id ni = k
          \<and> (\<exists>sl. k = ''tnt-'' @ sl \<and> ni_vrf ni = ''VRF-'' @ sl)
          \<and> in_pool Compute (compute_l3vni ni) \<and> in_pool Converged (converged_vni ni) \<and> in_pool Oob (oob_vni ni))
     \<and> (\<forall>k l ni nj v. map_of (st_netiso s) k = Some ni \<longrightarrow> map_of (st_netiso s) l = Some nj \<longrightarrow>
          v \<in> set (vnis ni) \<longrightarrow> v \<in> set (vnis nj) \<longrightarrow> k = l)"

definition tenancy_inv :: "store \<Rightarrow> bool" where
  "tenancy_inv s \<longleftrightarrow> topo_ok s \<and> alloc_ok s \<and> part_ok s \<and> net_ok s"

lemmas tenancy_inv_defs = tenancy_inv_def topo_ok_def alloc_ok_def part_ok_def net_ok_def

section \<open>What the invariant depends on\<close>

text \<open>The invariant reads eight fields of the store; a change elsewhere cannot break it.\<close>

lemma tenancy_inv_cong:
  assumes "st_racks s' = st_racks s" "st_sus s' = st_sus s" "st_tenants s' = st_tenants s"
    "st_allocations s' = st_allocations s" "st_partitions s' = st_partitions s"
    "st_netiso s' = st_netiso s" "seq_of s ''alloc'' \<le> seq_of s' ''alloc''"
  shows "tenancy_inv s \<Longrightarrow> tenancy_inv s'"
proof -
  assume inv: "tenancy_inv s"
  have "topo_ok s'" using inv assms by (simp add: tenancy_inv_def topo_ok_def)
  moreover have "part_ok s'" using inv assms by (simp add: tenancy_inv_def part_ok_def partitions_of_rack_def)
  moreover have "net_ok s'" using inv assms by (simp add: tenancy_inv_def net_ok_def)
  moreover have "alloc_ok s'"
    using inv assms unfolding tenancy_inv_def alloc_ok_def
    by (simp, meson order.trans)
  ultimately show "tenancy_inv s'" by (simp add: tenancy_inv_def)
qed

lemma tenancy_inv_empty [simp]: "tenancy_inv (empty_store t)"
  by (simp add: tenancy_inv_defs empty_store_def)

section \<open>Binding and releasing racks\<close>

lemma set_tray_binding_frame [simp]:
  "st_racks (set_tray_binding w h m t s) = st_racks s"
  "st_sus (set_tray_binding w h m t s) = st_sus s"
  "st_tenants (set_tray_binding w h m t s) = st_tenants s"
  "st_allocations (set_tray_binding w h m t s) = st_allocations s"
  "st_partitions (set_tray_binding w h m t s) = st_partitions s"
  "st_netiso (set_tray_binding w h m t s) = st_netiso s"
  "st_counters (set_tray_binding w h m t s) = st_counters s"
  "st_node_instances (set_tray_binding w h m t s) = st_node_instances s"
  "st_orders (set_tray_binding w h m t s) = st_orders s"
  by (auto simp: set_tray_binding_def split: option.splits)

lemma fold_tray_binding_frame [simp]:
  "st_racks (fold (set_tray_binding w h m) ts s) = st_racks s"
  "st_sus (fold (set_tray_binding w h m) ts s) = st_sus s"
  "st_tenants (fold (set_tray_binding w h m) ts s) = st_tenants s"
  "st_allocations (fold (set_tray_binding w h m) ts s) = st_allocations s"
  "st_partitions (fold (set_tray_binding w h m) ts s) = st_partitions s"
  "st_netiso (fold (set_tray_binding w h m) ts s) = st_netiso s"
  "st_counters (fold (set_tray_binding w h m) ts s) = st_counters s"
  "st_node_instances (fold (set_tray_binding w h m) ts s) = st_node_instances s"
  "st_orders (fold (set_tray_binding w h m) ts s) = st_orders s"
  by (induction ts arbitrary: s) simp_all

text \<open>
  \<open>hw_only s s'\<close>: the two stores differ only in hardware bindings, and every rack keeps its place.
\<close>

definition hw_only :: "store \<Rightarrow> store \<Rightarrow> bool" where
  "hw_only s s' \<longleftrightarrow> st_sus s' = st_sus s \<and> st_tenants s' = st_tenants s
     \<and> st_allocations s' = st_allocations s \<and> st_netiso s' = st_netiso s \<and> st_counters s' = st_counters s
     \<and> st_node_instances s' = st_node_instances s \<and> st_orders s' = st_orders s
     \<and> map fst (st_racks s') = map fst (st_racks s)"

lemma hw_only_refl [simp]: "hw_only s s"
  by (simp add: hw_only_def)

lemma hw_only_trans: "hw_only s t \<Longrightarrow> hw_only t u \<Longrightarrow> hw_only s u"
  by (simp add: hw_only_def)

definition rebind :: "string option \<Rightarrow> HwState \<Rightarrow> rack \<Rightarrow> rack" where
  "rebind who hw r = r\<lparr>rack_tenant_id := who, rack_state := hw\<rparr>"

lemma rebind_simps [simp]:
  "rack_id (rebind w h r) = rack_id r" "rack_su_id (rebind w h r) = rack_su_id r"
  "rack_tray_ids (rebind w h r) = rack_tray_ids r" "rack_tenant_id (rebind w h r) = w"
  "rack_state (rebind w h r) = h"
  by (simp_all add: rebind_def)

lemma rebind_idem [simp]: "rebind w h (rebind w h r) = rebind w h r"
  by (simp add: rebind_def)

lemma set_rack_binding_effect:
  assumes "has_key (st_racks s) rid"
  shows "\<exists>s'. set_rack_binding who hw m rid s = (Inr (), s') \<and> hw_only s s'
    \<and> st_partitions s' = st_partitions s
    \<and> st_racks s' = dict_mod rid (rebind who hw) (st_racks s)"
proof -
  have "rebind who hw = (\<lambda>r. r\<lparr>rack_tenant_id := who, rack_state := hw\<rparr>)"
    by (rule ext) (simp add: rebind_def)
  with assms show ?thesis by (auto simp: set_rack_binding_def has_key_def hw_only_def)
qed

text \<open>A loop of rebinding over existing racks never raises and rebinds exactly those racks.\<close>

lemma rebind_loop:
  assumes "\<forall>rid \<in> set rids. has_key (st_racks s) rid"
  shows "\<exists>s'. forE rids (\<lambda>rid. set_rack_binding who hw m rid) s = (Inr (), s') \<and> hw_only s s'
    \<and> st_partitions s' = st_partitions s
    \<and> (\<forall>k. map_of (st_racks s') k =
          (if k \<in> set rids then map_option (rebind who hw) (map_of (st_racks s) k) else map_of (st_racks s) k))"
  using assms
proof (induction rids arbitrary: s)
  case Nil
  then show ?case by simp
next
  case (Cons x xs)
  from Cons.prems obtain s1 where s1: "set_rack_binding who hw m x s = (Inr (), s1)" "hw_only s s1"
      "st_partitions s1 = st_partitions s" "st_racks s1 = dict_mod x (rebind who hw) (st_racks s)"
    using set_rack_binding_effect [of s x who hw m] by auto
  with Cons.prems have "\<forall>rid \<in> set xs. has_key (st_racks s1) rid" by simp
  from Cons.IH [OF this] obtain s2 where s2: "forE xs (\<lambda>rid. set_rack_binding who hw m rid) s1 = (Inr (), s2)"
      "hw_only s1 s2" "st_partitions s2 = st_partitions s1"
      "\<forall>k. map_of (st_racks s2) k =
          (if k \<in> set xs then map_option (rebind who hw) (map_of (st_racks s1) k) else map_of (st_racks s1) k)"
    by auto
  have "forE (x # xs) (\<lambda>rid. set_rack_binding who hw m rid) s = (Inr (), s2)"
    using s1(1) s2(1) by (simp add: thenE_Inr)
  moreover have "hw_only s s2" using s1(2) s2(2) by (rule hw_only_trans)
  moreover have "\<forall>k. map_of (st_racks s2) k = (if k \<in> set (x # xs)
      then map_option (rebind who hw) (map_of (st_racks s) k) else map_of (st_racks s) k)"
    using s2(4) s1(4) by (auto simp: option.map_comp comp_def)
  ultimately show ?case using s1(3) s2(3) by auto
qed

section \<open>Allocation\<close>

lemma resolve_racks_pure: "snd (resolve_racks body su s) = s"
proof -
  have "keeps (\<lambda>s'. s' = s) (resolve_racks body su)"
    unfolding resolve_racks_def by (cases "ac_scope body") (auto intro!: keeps_rules)
  then show ?thesis by (simp add: keeps_def)
qed

text \<open>Whatever the scope, the racks resolved exist and belong to the scalable unit.\<close>

lemma resolve_racks_in_su:
  assumes "topo_ok s" and "map_of (st_sus s) k = Some su"
    and "fst (resolve_racks body su s) = Inr rids"
  shows "\<forall>rid \<in> set rids. \<exists>r. map_of (st_racks s) rid = Some r \<and> rack_su_id r = k"
proof -
  from assms(1,2) have k: "su_id su = k" and
      members: "\<forall>rid \<in> set (su_rack_ids su). \<exists>r. map_of (st_racks s) rid = Some r \<and> rack_su_id r = k"
    and ids: "\<And>x r. map_of (st_racks s) x = Some r \<Longrightarrow> rack_id r = x"
    by (auto simp: topo_ok_def)
  show ?thesis
  proof (cases "ac_scope body")
    case Scope_scalable_unit
    with assms(3) members show ?thesis by (auto simp: resolve_racks_def)
  next
    case Scope_hac
    with assms(2,3) k have "set rids \<subseteq> rack_id ` set (dict_pick (st_racks s) (su_rack_ids su))"
      by (auto simp: resolve_racks_def racks_of_su_def)
    with members ids show ?thesis by (fastforce simp: set_dict_pick)
  next
    case Scope_rack_set
    have loop: "\<And>xs. forE xs (\<lambda>rid. bindE (getsE (\<lambda>s. map_of (st_racks s) rid)) (\<lambda>r.
             raise_if (case r of None \<Rightarrow> True | Some r \<Rightarrow> rack_su_id r \<noteq> su_id su)
                      (HTTPException 422 ''rack not in scalable unit''))) s
       = (if \<exists>rid \<in> set xs. (case map_of (st_racks s) rid of None \<Rightarrow> True | Some r \<Rightarrow> rack_su_id r \<noteq> su_id su)
          then (Inl (HTTPException 422 ''rack not in scalable unit''), s) else (Inr (), s))"
      by (rule forE_guard) simp
    from Scope_rack_set assms(3) k show ?thesis
      by (auto simp: resolve_racks_def thenE_run loop split: option.splits if_splits)
  qed
qed

lemma check_free_run:
  "check_free rids s = (if \<exists>rid \<in> set rids. allocation_for_rack s rid \<noteq> None
     then (Inl (HTTPException 409 ''rack already allocated''), s) else (Inr (), s))"
  unfolding check_free_def by (rule forE_guard) simp

definition shares_su :: "store \<Rightarrow> tenant \<Rightarrow> scalable_unit \<Rightarrow> string list \<Rightarrow> bool" where
  "shares_su s t su rids \<longleftrightarrow> isolation_tier t = bare_metal_dedicated \<and>
     (\<exists>r \<in> set (racks_of_su s (su_id su)). rack_id r \<notin> set rids \<and> rack_tenant_id r \<notin> {None, Some (tn_id t)})"

lemma check_dedicated_run:
  "check_dedicated t su rids s = (if shares_su s t su rids
     then (Inl (HTTPException 409 ''dedicated tenant cannot share SU''), s) else (Inr (), s))"
proof -
  have loop: "\<And>rs. forE rs (\<lambda>r. raise_if (rack_id r \<notin> set rids \<and> rack_tenant_id r \<notin> {None, Some (tn_id t)})
                (HTTPException 409 ''dedicated tenant cannot share SU'')) s
     = (if \<exists>r \<in> set rs. rack_id r \<notin> set rids \<and> rack_tenant_id r \<notin> {None, Some (tn_id t)}
        then (Inl (HTTPException 409 ''dedicated tenant cannot share SU''), s) else (Inr (), s))"
    by (rule forE_guard) simp
  show ?thesis
  proof (cases "isolation_tier t = bare_metal_dedicated")
    case True
    have "check_dedicated t su rids s = (if \<exists>r \<in> set (racks_of_su s (su_id su)).
          rack_id r \<notin> set rids \<and> rack_tenant_id r \<notin> {None, Some (tn_id t)}
        then (Inl (HTTPException 409 ''dedicated tenant cannot share SU''), s) else (Inr (), s))"
      by (simp only: check_dedicated_def True if_False not_True_eq_False simp_thms bindE_getsE loop)
    with True show ?thesis by (simp only: shares_su_def simp_thms)
  next
    case False
    then show ?thesis by (simp add: check_dedicated_def shares_su_def)
  qed
qed

definition new_allocation :: "store \<Rightarrow> allocation_create \<Rightarrow> string list \<Rightarrow> DPUMode \<Rightarrow> allocation" where
  "new_allocation s body rids mode =
     \<lparr>alloc_id = ''alloc-'' @ dec (Suc (seq_of s ''alloc'')), alloc_tenant_id = ac_tenant_id body,
      alloc_scope = ac_scope body, alloc_su_id = ac_su_id body, alloc_rack_ids = rids,
      alloc_dpu_mode = mode, alloc_state = Hw_allocated\<rparr>"

lemma new_allocation_simps [simp]:
  "alloc_id (new_allocation s body rids mode) = ''alloc-'' @ dec (Suc (seq_of s ''alloc''))"
  "alloc_tenant_id (new_allocation s body rids mode) = ac_tenant_id body"
  "alloc_su_id (new_allocation s body rids mode) = ac_su_id body"
  "alloc_rack_ids (new_allocation s body rids mode) = rids"
  "alloc_dpu_mode (new_allocation s body rids mode) = mode"
  by (simp_all add: new_allocation_def)

text \<open>\<open>allocated s body rids mode s'\<close>: the store \<open>s'\<close> is \<open>s\<close> with the new allocation of \<open>rids\<close>.\<close>

definition allocated :: "store \<Rightarrow> allocation_create \<Rightarrow> string list \<Rightarrow> DPUMode \<Rightarrow> store \<Rightarrow> bool" where
  "allocated s body rids mode s' \<longleftrightarrow>
     (\<exists>s1. hw_only (s\<lparr>st_counters := AList.update ''alloc'' (Suc (seq_of s ''alloc'')) (st_counters s)\<rparr>) s1
       \<and> st_partitions s1 = st_partitions s
       \<and> (\<forall>k. map_of (st_racks s1) k = (if k \<in> set rids
             then map_option (rebind (Some (ac_tenant_id body)) Hw_allocated) (map_of (st_racks s) k)
             else map_of (st_racks s) k))
       \<and> s' = s1\<lparr>st_allocations := AList.update (''alloc-'' @ dec (Suc (seq_of s ''alloc'')))
                    (new_allocation s body rids mode) (st_allocations s)\<rparr>)"

lemma create_allocation_success:
  assumes "topo_ok s" and t: "map_of (st_tenants s) (ac_tenant_id body) = Some t"
    and su: "map_of (st_sus s) (ac_su_id body) = Some su"
    and res: "resolve_racks body su s = (Inr rids, s)"
    and mem: "\<forall>rid \<in> set rids. has_key (st_racks s) rid"
    and free: "\<forall>rid \<in> set rids. allocation_for_rack s rid = None"
    and alone: "\<not> shares_su s t su rids"
  shows "\<exists>mode s'. create_allocation body s = (Inr (new_allocation s body rids mode), s')
           \<and> allocated s body rids mode s'"
proof -
  define mode where "mode = (case ac_dpu_mode body of None \<Rightarrow> default_dpu_mode (isolation_tier t) | Some m \<Rightarrow> m)"
  let ?s1 = "s\<lparr>st_counters := AList.update ''alloc'' (Suc (seq_of s ''alloc'')) (st_counters s)\<rparr>"
  from mem have "\<forall>rid \<in> set rids. has_key (st_racks ?s1) rid" by simp
  from rebind_loop [OF this, of "Some (ac_tenant_id body)" Hw_allocated mode]
  obtain s1 where s1: "forE rids (\<lambda>rid. bind_rack rid (ac_tenant_id body) mode) ?s1 = (Inr (), s1)"
    "hw_only ?s1 s1" "st_partitions s1 = st_partitions s"
    "\<forall>k. map_of (st_racks s1) k = (if k \<in> set rids
       then map_option (rebind (Some (ac_tenant_id body)) Hw_allocated) (map_of (st_racks s) k)
       else map_of (st_racks s) k)"
    by (auto simp: bind_rack_def)
  have al: "st_allocations s1 = st_allocations s" using s1(2) by (simp add: hw_only_def)
  have ids: "tn_id t = ac_tenant_id body" "su_id su = ac_su_id body"
    using assms(1) t su by (auto simp: topo_ok_def)
  let ?s2 = "s1\<lparr>st_allocations := AList.update (''alloc-'' @ dec (Suc (seq_of s ''alloc'')))
                    (new_allocation s body rids mode) (st_allocations s)\<rparr>"
  have "create_allocation body s = (Inr (new_allocation s body rids mode), ?s2)"
    using t su res free alone s1(1) ids al
    by (simp add: create_allocation_def bindE_Inr thenE_run bindE_run check_free_run
          check_dedicated_run next_seq_run mode_def Let_def new_allocation_def)
  moreover have "allocated s body rids mode ?s2" using s1 by (auto simp: allocated_def)
  ultimately show ?thesis by blast
qed

text \<open>
  Every outcome of an allocation request: it is refused and the store is unchanged, or the racks
  are free, the unit is not shared against a dedicated contract, and the new allocation is stored.
\<close>

lemma create_allocation_outcome:
  assumes "topo_ok s"
  obtains (refused) e where "create_allocation body s = (Inl e, s)"
  | (created) t su rids mode s' where
      "map_of (st_tenants s) (ac_tenant_id body) = Some t"
      "map_of (st_sus s) (ac_su_id body) = Some su"
      "fst (resolve_racks body su s) = Inr rids"
      "\<forall>rid \<in> set rids. \<exists>r. map_of (st_racks s) rid = Some r \<and> rack_su_id r = ac_su_id body"
      "\<forall>rid \<in> set rids. allocation_for_rack s rid = None"
      "\<not> shares_su s t su rids"
      "create_allocation body s = (Inr (new_allocation s body rids mode), s')"
      "allocated s body rids mode s'"
proof (cases "map_of (st_tenants s) (ac_tenant_id body)")
  case None
  then show thesis by (intro refused) (simp add: create_allocation_def)
next
  case t: (Some t)
  show thesis
  proof (cases "map_of (st_sus s) (ac_su_id body)")
    case None
    with t show thesis by (intro refused) (simp add: create_allocation_def)
  next
    case su: (Some su)
    obtain res where res: "resolve_racks body su s = (res, s)"
      using resolve_racks_pure [of body su s] by (cases "resolve_racks body su s") auto
    show thesis
    proof (cases res)
      case (Inl e)
      with t su res show thesis by (intro refused) (simp add: create_allocation_def bindE_Inl)
    next
      case (Inr rids)
      with res have r: "resolve_racks body su s = (Inr rids, s)" by simp
      have mem: "\<forall>rid \<in> set rids. \<exists>r. map_of (st_racks s) rid = Some r \<and> rack_su_id r = ac_su_id body"
        by (rule resolve_racks_in_su [OF assms su, of body]) (simp add: r)
      then have keys: "\<forall>rid \<in> set rids. has_key (st_racks s) rid" by (auto simp: has_key_def)
      show thesis
      proof (cases "(\<exists>rid \<in> set rids. allocation_for_rack s rid \<noteq> None) \<or> shares_su s t su rids")
        case True
        with t su r have "\<exists>e. create_allocation body s = (Inl e, s)"
          by (cases "\<exists>rid \<in> set rids. allocation_for_rack s rid \<noteq> None")
             (simp_all add: create_allocation_def bindE_Inr thenE_run check_free_run check_dedicated_run)
        then show thesis by (auto intro: refused)
      next
        case False
        with create_allocation_success [OF assms t su r keys] t su r mem show thesis
          by (auto intro: created)
      qed
    qed
  qed
qed

text \<open>The invariant in the shape the step proofs use: what is known of one rack or one allocation.\<close>

lemma dict_wf_keys: "map fst d' = map fst d \<Longrightarrow> dict_wf d' \<longleftrightarrow> dict_wf d"
  by (simp add: dict_wf_def)

lemma free_rack_unbound:
  assumes "alloc_ok s" "allocation_for_rack s rid = None" "map_of (st_racks s) rid = Some r"
  shows "rack_tenant_id r = None"
proof (rule ccontr)
  assume "rack_tenant_id r \<noteq> None"
  then obtain t where "rack_tenant_id r = Some t" by blast
  with assms(1,3) obtain k a where "map_of (st_allocations s) k = Some a" "rid \<in> set (alloc_rack_ids a)"
    unfolding alloc_ok_def by blast
  with assms(2) show False by (auto simp: allocation_for_rack_None dest: map_of_dict_values)
qed

lemma allocated_fields:
  assumes "allocated s body rids mode s'"
  shows "st_sus s' = st_sus s" "st_tenants s' = st_tenants s" "st_netiso s' = st_netiso s"
    "st_partitions s' = st_partitions s" "map fst (st_racks s') = map fst (st_racks s)"
    "st_allocations s' = AList.update (''alloc-'' @ dec (Suc (seq_of s ''alloc'')))
                    (new_allocation s body rids mode) (st_allocations s)"
    "seq_of s' ''alloc'' = Suc (seq_of s ''alloc'')"
    "map_of (st_racks s') k = (if k \<in> set rids
             then map_option (rebind (Some (ac_tenant_id body)) Hw_allocated) (map_of (st_racks s) k)
             else map_of (st_racks s) k)"
    "st_node_instances s' = st_node_instances s" "st_orders s' = st_orders s"
  using assms by (auto simp: allocated_def hw_only_def seq_of_def)

lemma rebound_topo_ok:
  assumes "topo_ok s" "st_sus s' = st_sus s" "st_tenants s' = st_tenants s"
    "map fst (st_racks s') = map fst (st_racks s)"
    and racks: "\<And>k. map_of (st_racks s') k = (if k \<in> X then map_option (rebind w h) (map_of (st_racks s) k)
                   else map_of (st_racks s) k)"
  shows "topo_ok s'"
proof -
  have "\<exists>r'. map_of (st_racks s') k = Some r' \<and> rack_su_id r' = rack_su_id r"
    if "map_of (st_racks s) k = Some r" for k r
    using that racks [of k] by auto
  then have "\<exists>r'. map_of (st_racks s') rid = Some r' \<and> rack_su_id r' = k"
    if "map_of (st_sus s) k = Some u" "rid \<in> set (su_rack_ids u)" for k u rid
    using that assms(1) unfolding topo_ok_def by metis
  then show ?thesis
    using assms(1) unfolding topo_ok_def
    by (auto simp: assms(2,3) dict_wf_keys [OF assms(4)] racks split: if_splits)
qed

lemma allocated_part_ok:
  assumes "allocated s body rids mode s'" "alloc_ok s" "part_ok s"
    and free: "\<forall>rid \<in> set rids. allocation_for_rack s rid = None"
  shows "part_ok s'"
proof -
  have unbound: "part_rack_id p \<notin> set rids" if "map_of (st_partitions s) k = Some p" for k p
    using that assms(2,3) free free_rack_unbound [OF assms(2)] unfolding part_ok_def by fastforce
  show ?thesis
    using assms(3) unbound unfolding part_ok_def
    by (auto simp: allocated_fields [OF assms(1)] partitions_of_rack_def)
qed

lemma allocated_alloc_ok:
  assumes "allocated s body rids mode s'" "alloc_ok s" "has_key (st_tenants s) (ac_tenant_id body)"
    and mem: "\<forall>rid \<in> set rids. \<exists>r. map_of (st_racks s) rid = Some r \<and> rack_su_id r = ac_su_id body"
    and free: "\<forall>rid \<in> set rids. allocation_for_rack s rid = None"
  shows "alloc_ok s'"
proof -
  note f = allocated_fields [OF assms(1)]
  let ?new = "''alloc-'' @ dec (Suc (seq_of s ''alloc''))"
  have fresh: "k \<noteq> ?new" if "map_of (st_allocations s) k = Some a" for k a
    using that assms(2) unfolding alloc_ok_def by fastforce
  have off: "rid \<notin> set rids" if "map_of (st_allocations s) k = Some a" "rid \<in> set (alloc_rack_ids a)" for k a rid
    using that free by (auto simp: allocation_for_rack_None dest: map_of_dict_values)
  have "dict_wf (st_allocations s')" using assms(2) by (simp add: f alloc_ok_def)
  moreover have "alloc_id a = k \<and> has_key (st_tenants s') (alloc_tenant_id a)
        \<and> (\<exists>n \<le> seq_of s' ''alloc''. k = ''alloc-'' @ dec n)
        \<and> (\<forall>rid \<in> set (alloc_rack_ids a). \<exists>r. map_of (st_racks s') rid = Some r
              \<and> rack_tenant_id r = Some (alloc_tenant_id a) \<and> rack_su_id r = alloc_su_id a)"
    if a: "map_of (st_allocations s') k = Some a" for k a
  proof (cases "k = ?new")
    case True
    with a assms(3) mem show ?thesis by (fastforce simp: f)
  next
    case False
    with a have old: "map_of (st_allocations s) k = Some a" by (simp add: f)
    with assms(2) off [OF old] show ?thesis
      unfolding alloc_ok_def by (simp add: f) (meson le_Suc_eq)
  qed
  moreover have "k = l" if "map_of (st_allocations s') k = Some a" "map_of (st_allocations s') l = Some b"
      "rid \<in> set (alloc_rack_ids a)" "rid \<in> set (alloc_rack_ids b)" for k l a b rid
  proof -
    have disj: "k = l" if "map_of (st_allocations s) k = Some a" "map_of (st_allocations s) l = Some b"
      using that \<open>rid \<in> set (alloc_rack_ids a)\<close> \<open>rid \<in> set (alloc_rack_ids b)\<close> assms(2)
      unfolding alloc_ok_def by blast
    show ?thesis
      using that off disj by (cases "k = ?new"; cases "l = ?new") (auto simp: f)
  qed
  moreover have "\<exists>k a. map_of (st_allocations s') k = Some a \<and> alloc_tenant_id a = t \<and> rid \<in> set (alloc_rack_ids a)"
    if r: "map_of (st_racks s') rid = Some r" "rack_tenant_id r = Some t" for rid r t
  proof (cases "rid \<in> set rids")
    case True
    with r show ?thesis by (intro exI [of _ ?new]) (auto simp: f)
  next
    case False
    with r have "map_of (st_racks s) rid = Some r" by (simp add: f)
    with r(2) assms(2) obtain k a where "map_of (st_allocations s) k = Some a" "alloc_tenant_id a = t"
        "rid \<in> set (alloc_rack_ids a)"
      unfolding alloc_ok_def by blast
    with fresh show ?thesis by (intro exI [of _ k]) (auto simp: f)
  qed
  ultimately show ?thesis unfolding alloc_ok_def by blast
qed

lemma create_allocation_keeps: "keeps tenancy_inv (create_allocation body)"
proof (rule keepsI)
  fix s
  assume inv: "tenancy_inv s"
  then have topo: "topo_ok s" and al: "alloc_ok s" and pt: "part_ok s" and nt: "net_ok s"
    by (simp_all add: tenancy_inv_def)
  show "tenancy_inv (snd (create_allocation body s))"
    using topo
  proof (cases rule: create_allocation_outcome [of s body])
    case (refused e)
    with inv show ?thesis by simp
  next
    case (created t su rids mode s')
    have "has_key (st_tenants s) (ac_tenant_id body)" using created(1) by (simp add: has_key_def)
    with created topo al pt have "topo_ok s'" "alloc_ok s'" "part_ok s'"
      by (auto intro: rebound_topo_ok [OF topo _ _ _ allocated_fields(8)] allocated_alloc_ok allocated_part_ok
            simp: allocated_fields)
    moreover have "net_ok s'" using nt by (simp add: net_ok_def allocated_fields [OF created(8)])
    ultimately show ?thesis using created(7) by (simp add: tenancy_inv_def)
  qed
qed

section \<open>Reclaim\<close>

definition keyed_parts :: "nvlink_partition dict \<Rightarrow> bool" where
  "keyed_parts d \<longleftrightarrow> dict_wf d \<and> (\<forall>(k, p) \<in> set d. part_id p = k)"

lemma part_ok_keyed: "part_ok s \<Longrightarrow> keyed_parts (st_partitions s)"
  by (auto simp: part_ok_def keyed_parts_def dict_wf_def)

definition of_rack :: "string set \<Rightarrow> string \<Rightarrow> nvlink_partition \<Rightarrow> bool" where
  "of_rack rids tid p \<longleftrightarrow> part_rack_id p \<in> rids \<and> part_tenant_id p = tid"

lemma forE_delete_parts:
  "forE ps (\<lambda>p. if part_tenant_id p = tid
       then modifyE (\<lambda>s. s\<lparr>st_partitions := AList.delete (part_id p) (st_partitions s)\<rparr>)
       else returnE ()) s
   = (Inr (), s\<lparr>st_partitions := filter (\<lambda>(k, _). k \<notin> part_id ` {p \<in> set ps. part_tenant_id p = tid}) (st_partitions s)\<rparr>)"
proof (induction ps arbitrary: s)
  case Nil
  then show ?case by simp
next
  case (Cons p ps)
  show ?case
    by (auto simp: thenE_run Cons.IH AList.delete_eq intro!: filter_cong
             arg_cong [where f = "\<lambda>x. s\<lparr>st_partitions := x\<rparr>"])
qed

lemma drop_partitions_run:
  assumes "keyed_parts (st_partitions s)"
  shows "drop_partitions rid tid s =
     (Inr (), s\<lparr>st_partitions := filter (\<lambda>(_, p). \<not> of_rack {rid} tid p) (st_partitions s)\<rparr>)"
proof -
  have "(k \<in> part_id ` {p \<in> set (partitions_of_rack s rid). part_tenant_id p = tid}) = of_rack {rid} tid p"
    if "(k, p) \<in> set (st_partitions s)" for k p
  proof -
    from assms that have pid: "part_id p = k" by (auto simp: keyed_parts_def)
    have uniq: "q = p" if q: "q \<in> set (dict_values (st_partitions s))" "part_id q = k" for q
    proof -
      from q(1) obtain l where "(l, q) \<in> set (st_partitions s)" by (auto simp: dict_values_def)
      moreover from this assms q(2) have "l = k" by (auto simp: keyed_parts_def)
      ultimately show ?thesis
        using \<open>(k, p) \<in> _\<close> assms by (auto simp: keyed_parts_def dict_wf_def dest: eq_key_imp_eq_value)
    qed
    have "p \<in> set (dict_values (st_partitions s))" using that by (force simp: dict_values_def)
    then have "of_rack {rid} tid p \<Longrightarrow> p \<in> {p \<in> set (partitions_of_rack s rid). part_tenant_id p = tid}"
      by (simp add: partitions_of_rack_in of_rack_def)
    moreover have "of_rack {rid} tid p"
      if "q \<in> {p \<in> set (partitions_of_rack s rid). part_tenant_id p = tid}" "k = part_id q" for q
      using that uniq [of q] by (simp add: partitions_of_rack_in of_rack_def)
    ultimately show ?thesis using pid by blast
  qed
  then have "filter (\<lambda>(k, _). k \<notin> part_id ` {p \<in> set (partitions_of_rack s rid). part_tenant_id p = tid}) (st_partitions s)
      = filter (\<lambda>(_, p). \<not> of_rack {rid} tid p) (st_partitions s)"
    by (intro filter_cong) auto
  then show ?thesis by (simp add: drop_partitions_def forE_delete_parts)
qed

lemma keyed_parts_filter: "keyed_parts d \<Longrightarrow> keyed_parts (filter P d)"
  by (auto simp: keyed_parts_def dict_wf_def distinct_map_filter)

text \<open>The reclaim loop drops the tenant's partitions on the racks and frees exactly those racks.\<close>

lemma release_loop:
  assumes "\<forall>rid \<in> set rids. has_key (st_racks s) rid" "keyed_parts (st_partitions s)"
  shows "\<exists>s'. forE rids (\<lambda>rid. thenE (drop_partitions rid tid) (release_rack rid)) s = (Inr (), s')
    \<and> hw_only s s'
    \<and> st_partitions s' = filter (\<lambda>(_, p). \<not> of_rack (set rids) tid p) (st_partitions s)
    \<and> (\<forall>k. map_of (st_racks s') k =
          (if k \<in> set rids then map_option (rebind None Hw_ready) (map_of (st_racks s) k) else map_of (st_racks s) k))"
  using assms
proof (induction rids arbitrary: s)
  case Nil
  then show ?case by (simp add: of_rack_def)
next
  case (Cons x xs)
  let ?s1 = "s\<lparr>st_partitions := filter (\<lambda>(_, p). \<not> of_rack {x} tid p) (st_partitions s)\<rparr>"
  obtain s2 where s2: "release_rack x ?s1 = (Inr (), s2)" "hw_only ?s1 s2"
      "st_partitions s2 = st_partitions ?s1" "st_racks s2 = dict_mod x (rebind None Hw_ready) (st_racks s)"
    using set_rack_binding_effect [of ?s1 x None Hw_ready Dpu_dpu] Cons.prems(1) by (auto simp: release_rack_def)
  have "\<forall>rid \<in> set xs. has_key (st_racks s2) rid" "keyed_parts (st_partitions s2)"
    using Cons.prems s2 by (auto intro: keyed_parts_filter)
  from Cons.IH [OF this] obtain s3 where s3:
      "forE xs (\<lambda>rid. thenE (drop_partitions rid tid) (release_rack rid)) s2 = (Inr (), s3)" "hw_only s2 s3"
      "st_partitions s3 = filter (\<lambda>(_, p). \<not> of_rack (set xs) tid p) (st_partitions s2)"
      "\<forall>k. map_of (st_racks s3) k = (if k \<in> set xs then map_option (rebind None Hw_ready) (map_of (st_racks s2) k)
           else map_of (st_racks s2) k)"
    by auto
  have "forE (x # xs) (\<lambda>rid. thenE (drop_partitions rid tid) (release_rack rid)) s = (Inr (), s3)"
    using s2(1) s3(1) by (simp add: thenE_run drop_partitions_run [OF Cons.prems(2)])
  moreover have "hw_only s s3" using s2(2) s3(2) by (simp add: hw_only_def)
  moreover have "st_partitions s3 = filter (\<lambda>(_, p). \<not> of_rack (set (x # xs)) tid p) (st_partitions s)"
    using s2(3) s3(3) by (auto simp: of_rack_def intro!: filter_cong)
  moreover have "\<forall>k. map_of (st_racks s3) k = (if k \<in> set (x # xs)
      then map_option (rebind None Hw_ready) (map_of (st_racks s) k) else map_of (st_racks s) k)"
    using s3(4) s2(4) by (auto simp: option.map_comp comp_def)
  ultimately show ?case by auto
qed

end
