(* ===== verification/Tenancy_Safe.thy ===== *)
theory Tenancy_Safe
  imports Tenancy_Inv
begin

text \<open>
  The remaining operations of \<open>tenancy.py\<close> keep the tenancy invariant: reclaim of an allocation,
  creation of an NVLink partition, registration of a tenant. With it, what the isolation report
  says is characterised.
\<close>

section \<open>Deleting an allocation\<close>

definition released :: "store \<Rightarrow> allocation \<Rightarrow> store \<Rightarrow> bool" where
  "released s a s' \<longleftrightarrow> (\<exists>s1. hw_only s s1
     \<and> st_partitions s1 = filter (\<lambda>(_, p). \<not> of_rack (set (alloc_rack_ids a)) (alloc_tenant_id a) p) (st_partitions s)
     \<and> (\<forall>k. map_of (st_racks s1) k = (if k \<in> set (alloc_rack_ids a)
           then map_option (rebind None Hw_ready) (map_of (st_racks s) k) else map_of (st_racks s) k))
     \<and> s' = s1\<lparr>st_allocations := AList.delete (alloc_id a) (st_allocations s)\<rparr>)"

lemma released_fields:
  assumes "released s a s'"
  shows "st_sus s' = st_sus s" "st_tenants s' = st_tenants s" "st_netiso s' = st_netiso s"
    "st_partitions s' = filter (\<lambda>(_, p). \<not> of_rack (set (alloc_rack_ids a)) (alloc_tenant_id a) p) (st_partitions s)"
    "map fst (st_racks s') = map fst (st_racks s)"
    "st_allocations s' = AList.delete (alloc_id a) (st_allocations s)"
    "seq_of s' ''alloc'' = seq_of s ''alloc''"
    "map_of (st_racks s') k = (if k \<in> set (alloc_rack_ids a)
           then map_option (rebind None Hw_ready) (map_of (st_racks s) k) else map_of (st_racks s) k)"
    "st_node_instances s' = st_node_instances s" "st_orders s' = st_orders s"
  using assms by (auto simp: released_def hw_only_def seq_of_def)

lemma delete_allocation_run:
  assumes "alloc_ok s" "part_ok s" "map_of (st_allocations s) aid = Some a"
  shows "\<exists>s'. delete_allocation aid s = (Inr (aid, alloc_rack_ids a), s') \<and> released s a s'"
proof -
  have id: "alloc_id a = aid" and "\<forall>rid \<in> set (alloc_rack_ids a). has_key (st_racks s) rid"
    using assms(1,3) unfolding alloc_ok_def has_key_def by fastforce+
  from release_loop [OF this(2) part_ok_keyed [OF assms(2)], of "alloc_tenant_id a"]
  obtain s1 where s1: "forE (alloc_rack_ids a) (\<lambda>rid. thenE (drop_partitions rid (alloc_tenant_id a)) (release_rack rid)) s = (Inr (), s1)"
    "hw_only s s1"
    "st_partitions s1 = filter (\<lambda>(_, p). \<not> of_rack (set (alloc_rack_ids a)) (alloc_tenant_id a) p) (st_partitions s)"
    "\<forall>k. map_of (st_racks s1) k = (if k \<in> set (alloc_rack_ids a)
           then map_option (rebind None Hw_ready) (map_of (st_racks s) k) else map_of (st_racks s) k)"
    by auto
  have "st_allocations s1 = st_allocations s" using s1(2) by (simp add: hw_only_def)
  with assms(3) s1 id show ?thesis
    by (auto simp: delete_allocation_def thenE_run released_def)
qed

lemma map_of_filter_wf:
  "dict_wf d \<Longrightarrow> map_of (filter (\<lambda>(_, p). P p) d) k = (case map_of d k of None \<Rightarrow> None | Some p \<Rightarrow> if P p then Some p else None)"
proof (induction d)
  case Nil
  then show ?case by simp
next
  case (Cons x d)
  then show ?case
    by (cases x) (auto simp: dict_wf_def map_of_eq_None_iff split: option.splits)
qed

lemma released_part_ok:
  assumes "released s a s'" "alloc_ok s" "part_ok s" "map_of (st_allocations s) aid = Some a"
  shows "part_ok s'"
proof -
  note f = released_fields [OF assms(1)]
  let ?R = "set (alloc_rack_ids a)"
  have wf: "dict_wf (st_partitions s)" using assms(3) by (simp add: part_ok_def)
  have on: "part_tenant_id p = alloc_tenant_id a"
    if "map_of (st_partitions s) k = Some p" "part_rack_id p \<in> ?R" for k p
    using that assms(2,3,4) unfolding part_ok_def alloc_ok_def by fastforce
  have lk: "map_of (st_partitions s') k = Some p \<longleftrightarrow> map_of (st_partitions s) k = Some p \<and> part_rack_id p \<notin> ?R" for k p
    using on [of k] by (auto simp: f map_of_filter_wf [OF wf] of_rack_def split: option.splits if_splits)
  have same: "partitions_of_rack s' rid = partitions_of_rack s rid" if "rid \<notin> ?R" for rid
    using that by (auto simp: partitions_of_rack_def dict_values_def f filter_map comp_def split_def of_rack_def
        intro!: arg_cong [where f = "map snd"] filter_cong)
  have "dict_wf (st_partitions s')" using wf by (simp add: f dict_wf_def distinct_map_filter)
  moreover have "k = part_rack_id p @ ''-part-'' @ dec (part_no p) \<and> part_id p = k
        \<and> 1 \<le> part_no p \<and> part_no p \<le> length (partitions_of_rack s' (part_rack_id p))
        \<and> (\<exists>r. map_of (st_racks s') (part_rack_id p) = Some r \<and> rack_tenant_id r = Some (part_tenant_id p)
              \<and> set (part_tray_ids p) \<subseteq> set (rack_tray_ids r))"
    if "map_of (st_partitions s') k = Some p" for k p
  proof -
    from that have p: "map_of (st_partitions s) k = Some p" "part_rack_id p \<notin> ?R" by (simp_all add: lk)
    with assms(3) show ?thesis unfolding part_ok_def by (simp add: same f)
  qed
  moreover have "k = l" if "map_of (st_partitions s') k = Some p" "map_of (st_partitions s') l = Some q"
      "part_rack_id p = part_rack_id q" "t \<in> set (part_tray_ids p)" "t \<in> set (part_tray_ids q)" for k l p q t
    using that assms(3) unfolding part_ok_def lk by blast
  ultimately show ?thesis unfolding part_ok_def by blast
qed

lemma released_alloc_ok:
  assumes "released s a s'" "alloc_ok s" "map_of (st_allocations s) aid = Some a"
  shows "alloc_ok s'"
proof -
  note f = released_fields [OF assms(1)]
  let ?R = "set (alloc_rack_ids a)"
  have id: "alloc_id a = aid" using assms(2,3) by (simp add: alloc_ok_def)
  have disj: "k = l" if "map_of (st_allocations s) k = Some b" "map_of (st_allocations s) l = Some c"
      "rid \<in> set (alloc_rack_ids b)" "rid \<in> set (alloc_rack_ids c)" for k l b c rid
    using that assms(2) unfolding alloc_ok_def by blast
  have off: "rid \<notin> ?R" if "map_of (st_allocations s) k = Some b" "k \<noteq> aid" "rid \<in> set (alloc_rack_ids b)" for k b rid
    using disj [OF that(1) assms(3) that(3)] that(2) by blast
  have "dict_wf (st_allocations s')" using assms(2) by (simp add: f alloc_ok_def)
  moreover have "alloc_id b = k \<and> has_key (st_tenants s') (alloc_tenant_id b)
        \<and> (\<exists>n \<le> seq_of s' ''alloc''. k = ''alloc-'' @ dec n)
        \<and> (\<forall>rid \<in> set (alloc_rack_ids b). \<exists>r. map_of (st_racks s') rid = Some r
              \<and> rack_tenant_id r = Some (alloc_tenant_id b) \<and> rack_su_id r = alloc_su_id b)"
    if "map_of (st_allocations s') k = Some b" for k b
  proof -
    from that have b: "map_of (st_allocations s) k = Some b" "k \<noteq> aid" by (auto simp: f id split: if_splits)
    with assms(2) off [OF b] show ?thesis unfolding alloc_ok_def by (simp add: f)
  qed
  moreover have "k = l" if "map_of (st_allocations s') k = Some b" "map_of (st_allocations s') l = Some c"
      "rid \<in> set (alloc_rack_ids b)" "rid \<in> set (alloc_rack_ids c)" for k l b c rid
    using that disj [of k b l c rid] by (auto simp: f split: if_splits)
  moreover have "\<exists>k b. map_of (st_allocations s') k = Some b \<and> alloc_tenant_id b = t \<and> rid \<in> set (alloc_rack_ids b)"
    if r: "map_of (st_racks s') rid = Some r" "rack_tenant_id r = Some t" for rid r t
  proof -
    from r have nr: "rid \<notin> ?R" and old: "map_of (st_racks s) rid = Some r" by (auto simp: f split: if_splits)
    with r(2) assms(2) obtain k b where b: "map_of (st_allocations s) k = Some b" "alloc_tenant_id b = t"
        "rid \<in> set (alloc_rack_ids b)"
      unfolding alloc_ok_def by blast
    moreover from b nr assms(3) have "k \<noteq> aid" by auto
    ultimately show ?thesis by (auto simp: f id)
  qed
  ultimately show ?thesis unfolding alloc_ok_def by blast
qed

lemma released_keeps:
  assumes "tenancy_inv s" "map_of (st_allocations s) aid = Some a" "released s a s'"
  shows "tenancy_inv s'"
  using assms unfolding tenancy_inv_def
  by (auto intro: rebound_topo_ok [OF _ _ _ _ released_fields(8)] released_alloc_ok released_part_ok
        simp: released_fields [OF assms(3)] net_ok_def)

lemma delete_allocation_keeps: "keeps tenancy_inv (delete_allocation aid)"
proof (rule keepsI)
  fix s
  assume inv: "tenancy_inv s"
  show "tenancy_inv (snd (delete_allocation aid s))"
  proof (cases "map_of (st_allocations s) aid")
    case None
    with inv show ?thesis by (simp add: delete_allocation_def)
  next
    case (Some a)
    with inv obtain s' where "delete_allocation aid s = (Inr (aid, alloc_rack_ids a), s')" "released s a s'"
      using delete_allocation_run [of s aid a] by (auto simp: tenancy_inv_def)
    with inv Some show ?thesis by (auto intro: released_keeps)
  qed
qed

section \<open>Creating a partition\<close>

lemma part_key_inject:
  "r @ ''-part-'' @ dec n = r' @ ''-part-'' @ dec m \<longleftrightarrow> r = r' \<and> n = m"
proof
  assume eq: "r @ ''-part-'' @ dec n = r' @ ''-part-'' @ dec m"
  have nodash: "CHR ''-'' \<notin> set (dec k)" for k
    by (rule dec_no_char) (simp add: is_digit_def)
  have al: "after_last CHR ''-'' (x @ ''-part-'' @ dec k) = Some (dec k)" for x k
    using after_last_append [OF nodash, of "x @ ''-part''" k] by simp
  have "Some (dec n) = Some (dec m)"
    using al [of r n] al [of r' m] eq by simp
  then have "n = m" by simp
  with eq show "r = r' \<and> n = m" by simp
qed simp

lemma update_new: "\<not> has_key d k \<Longrightarrow> AList.update k v d = d @ [(k, v)]"
  by (induction d) (auto simp: has_key_def split: if_splits)

text \<open>Every outcome of a partition request.\<close>

lemma create_partition_outcome:
  assumes "topo_ok s"
  obtains (refused) e where "create_partition body s = (Inl e, s)"
  | (created) r part where
      "map_of (st_racks s) (pc_rack_id body) = Some r"
      "rack_tenant_id r = Some (pc_tenant_id body)"
      "set (pc_tray_ids body) \<subseteq> set (rack_tray_ids r)"
      "set (pc_tray_ids body) \<inter> set (claimed_trays s (pc_rack_id body)) = {}"
      "part = \<lparr>part_id = pc_rack_id body @ ''-part-'' @ dec (length (partitions_of_rack s (pc_rack_id body)) + 1),
         part_rack_id = pc_rack_id body, part_no = length (partitions_of_rack s (pc_rack_id body)) + 1,
         part_tray_ids = pc_tray_ids body, part_tenant_id = pc_tenant_id body, part_state = Hw_allocated\<rparr>"
      "create_partition body s = (Inr part, s\<lparr>st_partitions := AList.update (part_id part) part (st_partitions s)\<rparr>)"
proof (cases "map_of (st_racks s) (pc_rack_id body)")
  case None
  then show thesis by (intro refused) (simp add: create_partition_def)
next
  case (Some r)
  with assms have rid: "rack_id r = pc_rack_id body" by (simp add: topo_ok_def)
  show thesis
  proof (cases "has_key (st_tenants s) (pc_tenant_id body) \<and> rack_tenant_id r = Some (pc_tenant_id body)
      \<and> list_all (\<lambda>t. t \<in> set (rack_tray_ids r)) (pc_tray_ids body)
      \<and> \<not> list_ex (\<lambda>t. t \<in> set (claimed_trays s (pc_rack_id body))) (pc_tray_ids body)")
    case True
    then show thesis
      using Some rid
      by (intro created [OF Some _ _ _ refl])
         (auto simp: create_partition_def thenE_run Let_def list_all_iff list_ex_iff)
  next
    case False
    with Some rid have "\<exists>e. create_partition body s = (Inl e, s)"
      by (auto simp: create_partition_def thenE_run Let_def)
    then show thesis by (auto intro: refused)
  qed
qed

lemma new_part_ok:
  assumes "part_ok s" "map_of (st_racks s) rid = Some r" "rack_tenant_id r = Some tid"
    "set trays \<subseteq> set (rack_tray_ids r)" "set trays \<inter> set (claimed_trays s rid) = {}"
    and part: "part = \<lparr>part_id = rid @ ''-part-'' @ dec (length (partitions_of_rack s rid) + 1),
         part_rack_id = rid, part_no = length (partitions_of_rack s rid) + 1,
         part_tray_ids = trays, part_tenant_id = tid, part_state = st\<rparr>"
  shows "part_ok (s\<lparr>st_partitions := AList.update (part_id part) part (st_partitions s)\<rparr>)"
    (is "part_ok ?s'")
proof -
  let ?key = "rid @ ''-part-'' @ dec (length (partitions_of_rack s rid) + 1)"
  have old: "k = part_rack_id p @ ''-part-'' @ dec (part_no p)"
      "part_no p \<le> length (partitions_of_rack s (part_rack_id p))"
    if "map_of (st_partitions s) k = Some p" for k p
    using that assms(1) unfolding part_ok_def by blast+
  have fresh: "\<not> has_key (st_partitions s) ?key"
  proof
    assume "has_key (st_partitions s) ?key"
    then obtain p where "map_of (st_partitions s) ?key = Some p" by (auto simp: has_key_def)
    from old(1) [OF this] have "rid = part_rack_id p \<and> length (partitions_of_rack s rid) + 1 = part_no p"
      by (rule part_key_inject [THEN iffD1])
    with old(2) [OF \<open>map_of (st_partitions s) ?key = Some p\<close>] show False by auto
  qed
  have len: "length (partitions_of_rack ?s' x) = length (partitions_of_rack s x) + (if x = rid then 1 else 0)" for x
    using fresh by (simp add: part update_new partitions_of_rack_def dict_values_def)
  have lk: "map_of (st_partitions ?s') k = (if k = ?key then Some part else map_of (st_partitions s) k)" for k
    by (simp add: part)
  have off: "t \<notin> set (part_tray_ids q)"
    if "map_of (st_partitions s) k = Some q" "part_rack_id q = rid" "t \<in> set trays" for k q t
  proof -
    have "q \<in> set (partitions_of_rack s rid)"
      using that by (simp add: partitions_of_rack_in map_of_dict_values)
    with that(3) assms(5) show ?thesis unfolding claimed_trays_def by auto
  qed
  have "dict_wf (st_partitions ?s')" using assms(1) by (simp add: part_ok_def)
  moreover have "k = part_rack_id p @ ''-part-'' @ dec (part_no p) \<and> part_id p = k
        \<and> 1 \<le> part_no p \<and> part_no p \<le> length (partitions_of_rack ?s' (part_rack_id p))
        \<and> (\<exists>r. map_of (st_racks ?s') (part_rack_id p) = Some r \<and> rack_tenant_id r = Some (part_tenant_id p)
              \<and> set (part_tray_ids p) \<subseteq> set (rack_tray_ids r))"
    if "map_of (st_partitions ?s') k = Some p" for k p
  proof (cases "k = ?key")
    case True
    with that assms(2-4) show ?thesis unfolding lk len by (auto simp: part)
  next
    case False
    with that have "map_of (st_partitions s) k = Some p" unfolding lk by simp
    with assms(1) show ?thesis unfolding part_ok_def len by fastforce
  qed
  moreover have "k = l" if "map_of (st_partitions ?s') k = Some p" "map_of (st_partitions ?s') l = Some q"
      "part_rack_id p = part_rack_id q" "t \<in> set (part_tray_ids p)" "t \<in> set (part_tray_ids q)" for k l p q t
  proof (rule unique_upd [where m = "map_of (st_partitions s)" and x = ?key and v = part and p = p and q = q and
        R = "\<lambda>p q. part_rack_id p = part_rack_id q \<and> (\<exists>t. t \<in> set (part_tray_ids p) \<and> t \<in> set (part_tray_ids q))"])
    show "k = l" if "map_of (st_partitions s) k = Some p" "map_of (st_partitions s) l = Some q"
        "part_rack_id p = part_rack_id q \<and> (\<exists>t. t \<in> set (part_tray_ids p) \<and> t \<in> set (part_tray_ids q))" for k l p q
      using that assms(1) unfolding part_ok_def by blast
    have new: "part_rack_id part = rid" "part_tray_ids part = trays" by (simp_all add: part)
    show "\<not> (part_rack_id part = part_rack_id q \<and> (\<exists>t. t \<in> set (part_tray_ids part) \<and> t \<in> set (part_tray_ids q)))
        \<and> \<not> (part_rack_id q = part_rack_id part \<and> (\<exists>t. t \<in> set (part_tray_ids q) \<and> t \<in> set (part_tray_ids part)))"
      if "map_of (st_partitions s) l = Some q" for l q
      unfolding new using off [OF that] by blast
  qed (use that lk in auto)
  ultimately show ?thesis unfolding part_ok_def by blast
qed

lemma create_partition_keeps: "keeps tenancy_inv (create_partition body)"
proof (rule keepsI)
  fix s
  assume inv: "tenancy_inv s"
  then have topo: "topo_ok s" and pt: "part_ok s" by (simp_all add: tenancy_inv_def)
  show "tenancy_inv (snd (create_partition body s))"
    using topo
  proof (cases rule: create_partition_outcome [of s body])
    case (refused e)
    with inv show ?thesis by simp
  next
    case (created r part)
    have "part_ok (s\<lparr>st_partitions := AList.update (part_id part) part (st_partitions s)\<rparr>)"
      by (rule new_part_ok [OF pt created(1-5)])
    with inv created(6) show ?thesis
      by (simp add: tenancy_inv_def topo_ok_def alloc_ok_def net_ok_def seq_of_def)
  qed
qed

section \<open>VNI allocation and registration of tenants\<close>

text \<open>First fit: the scan returns the least free number of the range, and fails only when all are used.\<close>

lemma vni_scan_Some:
  "vni_scan v hi used = Some x \<Longrightarrow> v \<le> x \<and> x \<le> hi \<and> x \<notin> set used \<and> (\<forall>y. v \<le> y \<and> y < x \<longrightarrow> y \<in> set used)"
proof (induction v hi used rule: vni_scan.induct)
  case (1 v hi used)
  show ?case
  proof (cases "v > hi \<or> v \<notin> set used")
    case True
    with "1.prems" show ?thesis by (subst (asm) vni_scan.simps) (auto split: if_splits)
  next
    case False
    with "1.prems" have "vni_scan (v + 1) hi used = Some x" by (subst (asm) vni_scan.simps) simp
    with "1.IH" False have "v + 1 \<le> x \<and> x \<le> hi \<and> x \<notin> set used \<and> (\<forall>y. v + 1 \<le> y \<and> y < x \<longrightarrow> y \<in> set used)"
      by simp
    with False show ?thesis by (metis add_leD1 le_eq_less_or_eq less_eq_Suc_le Suc_eq_plus1)
  qed
qed

lemma vni_scan_None: "vni_scan v hi used = None \<longleftrightarrow> (\<forall>y. v \<le> y \<and> y \<le> hi \<longrightarrow> y \<in> set used)"
proof (induction v hi used rule: vni_scan.induct)
  case (1 v hi used)
  show ?case
  proof (cases "v > hi \<or> v \<notin> set used")
    case True
    then show ?thesis by (subst vni_scan.simps) auto
  next
    case False
    then have "vni_scan v hi used = vni_scan (v + 1) hi used" by (subst vni_scan.simps) simp
    moreover have "(\<forall>y. v \<le> y \<and> y \<le> hi \<longrightarrow> y \<in> set used) \<longleftrightarrow> (\<forall>y. v + 1 \<le> y \<and> y \<le> hi \<longrightarrow> y \<in> set used)"
      using False by (metis add_leD1 le_eq_less_or_eq less_eq_Suc_le Suc_eq_plus1)
    ultimately show ?thesis using "1.IH" False by simp
  qed
qed

lemma alloc_vni_run:
  "alloc_vni f s = (case vni_scan (fst (VNI_RANGES f)) (snd (VNI_RANGES f)) (used_vnis s) of
     None \<Rightarrow> (Inl (HTTPException 507 ''VNI pool exhausted''), s) | Some v \<Rightarrow> (Inr v, s))"
  by (simp add: alloc_vni_def someE_run)

lemma alloc_vni_ok: "alloc_vni f s = (Inr v, s') \<Longrightarrow> s' = s \<and> in_pool f v \<and> v \<notin> set (used_vnis s)"
  by (auto simp: alloc_vni_run in_pool_def dest: vni_scan_Some split: option.splits)

lemma used_vnis_in: "map_of (st_netiso s) k = Some ni \<Longrightarrow> v \<in> set (vnis ni) \<Longrightarrow> v \<in> set (used_vnis s)"
  by (auto simp: used_vnis_def dest: map_of_dict_values)

text \<open>Storing a tenant under a new id, and storing its network binding, keep the invariant.\<close>

lemma add_tenant_keeps:
  assumes "tenancy_inv s" "tn_id tn = tid" "tid \<noteq> []"
  shows "tenancy_inv (s\<lparr>st_tenants := AList.update tid tn (st_tenants s)\<rparr>)"
  using assms unfolding tenancy_inv_def topo_ok_def alloc_ok_def part_ok_def net_ok_def
  by (simp add: seq_of_def partitions_of_rack_def)

lemma add_netiso_keeps:
  assumes inv: "tenancy_inv s" and "has_key (st_tenants s) (''tnt-'' @ sl)" "\<not> has_key (st_netiso s) (''tnt-'' @ sl)"
    and "in_pool Compute a" "a \<notin> set (used_vnis s)" "in_pool Converged b" "b \<notin> set (used_vnis s)"
    "in_pool Oob c" "c \<notin> set (used_vnis s)"
  shows "tenancy_inv (s\<lparr>st_netiso := AList.update (''tnt-'' @ sl) \<lparr>ni_tenant_id = ''tnt-'' @ sl,
     compute_l3vni = a, converged_vni = b, oob_vni = c, ni_vrf = ''VRF-'' @ sl, ib_pkey = None\<rparr> (st_netiso s)\<rparr>)"
    (is "tenancy_inv ?s'")
proof -
  have lk: "map_of (st_netiso ?s') k = (if k = ''tnt-'' @ sl then Some \<lparr>ni_tenant_id = ''tnt-'' @ sl,
      compute_l3vni = a, converged_vni = b, oob_vni = c, ni_vrf = ''VRF-'' @ sl, ib_pkey = None\<rparr>
      else map_of (st_netiso s) k)" for k by simp
  have off: "v \<notin> {a, b, c}" if "map_of (st_netiso s) k = Some ni" "v \<in> set (vnis ni)" for k ni v
    using used_vnis_in [OF that] assms by auto
  have net: "net_ok s" using inv by (simp add: tenancy_inv_def)
  have "k = l" if "map_of (st_netiso ?s') k = Some ni" "map_of (st_netiso ?s') l = Some nj"
      "v \<in> set (vnis ni)" "v \<in> set (vnis nj)" for k l ni nj v
  proof -
    have "k = l" if "map_of (st_netiso s) k = Some ni" "map_of (st_netiso s) l = Some nj"
      using that \<open>v \<in> set (vnis ni)\<close> \<open>v \<in> set (vnis nj)\<close> net unfolding net_ok_def by blast
    with that off [of k ni v] off [of l nj v] show ?thesis
      unfolding lk by (cases "k = ''tnt-'' @ sl"; cases "l = ''tnt-'' @ sl") (auto simp: vnis_def)
  qed
  moreover have "has_key (st_tenants ?s') k \<and> ni_tenant_id ni = k
      \<and> (\<exists>sl. k = ''tnt-'' @ sl \<and> ni_vrf ni = ''VRF-'' @ sl)
      \<and> in_pool Compute (compute_l3vni ni) \<and> in_pool Converged (converged_vni ni) \<and> in_pool Oob (oob_vni ni)"
    if "map_of (st_netiso ?s') k = Some ni" for k ni
  proof (cases "k = ''tnt-'' @ sl")
    case True
    with that assms show ?thesis unfolding lk by auto
  next
    case False
    with that have "map_of (st_netiso s) k = Some ni" unfolding lk by simp
    with net show ?thesis unfolding net_ok_def by simp
  qed
  moreover have "dict_wf (st_netiso ?s')" using net by (simp add: net_ok_def)
  ultimately have "net_ok ?s'" unfolding net_ok_def by blast
  moreover have "topo_ok ?s'" "alloc_ok ?s'" "part_ok ?s'"
    using inv by (simp_all add: tenancy_inv_def topo_ok_def alloc_ok_def part_ok_def seq_of_def partitions_of_rack_def)
  ultimately show ?thesis by (simp add: tenancy_inv_def)
qed

lemma create_tenant_keeps: "keeps (\<lambda>w. tenancy_inv (w_store w)) (create_tenant body)"
proof (rule keepsI)
  fix w :: "'n world"
  assume inv: "tenancy_inv (w_store w)"
  let ?s = "w_store w" and ?tid = "''tnt-'' @ slug (tc_name body)"
  define tn where "tn = \<lparr>tn_id = ?tid, tn_name = tc_name body, isolation_tier = tc_isolation_tier body,
                sla_tier = tc_sla_tier body, tn_notes = tc_notes body\<rparr>"
  let ?s1 = "?s\<lparr>st_tenants := AList.update ?tid tn (st_tenants ?s)\<rparr>"
  have inv1: "tenancy_inv ?s1" using inv by (intro add_tenant_keeps) (simp_all add: tn_def)
  show "tenancy_inv (w_store (snd (create_tenant body w)))"
  proof (cases "has_key (st_tenants ?s) ?tid")
    case True
    with inv show ?thesis by (simp add: create_tenant_def Let_def thenE_run)
  next
    case False
    have "has_key (st_tenants ?s) k" if "map_of (st_netiso ?s) k = Some ni" for k ni
      using that inv unfolding tenancy_inv_def net_ok_def by blast
    with False have fresh: "\<not> has_key (st_netiso ?s1) ?tid"
      unfolding has_key_def by fastforce
    have pools: "in_pool f v \<and> v \<notin> set (used_vnis ?s1)"
      if "vni_scan (fst (VNI_RANGES f)) (snd (VNI_RANGES f)) (used_vnis ?s1) = Some v" for f v
      using vni_scan_Some [OF that] by (simp add: in_pool_def)
    note keep = add_netiso_keeps [OF inv1 _ fresh]
    show ?thesis
      using False inv1 pools keep
      by (auto simp: create_tenant_def Let_def thenE_run bindE_run on_runs alloc_vni_run tn_def
               split: option.splits sum.splits prod.splits)
  qed
qed

section \<open>The isolation report\<close>

text \<open>
  Under the invariant no VNI or VRF collision and no stray partition exists, so the report fails
  only for a tenant without a network binding or a dedicated tenant whose unit is shared.
\<close>

lemma no_vni_collisions:
  assumes "net_ok s" "map_of (st_netiso s) tid = Some ni"
  shows "vni_collisions s tid ni = []"
proof -
  have "\<not> (k \<noteq> tid \<and> (list_ex (\<lambda>v. v \<in> set (vnis other)) (vnis ni) \<or> ni_vrf other = ni_vrf ni))"
    if "(k, other) \<in> set (st_netiso s)" for k other
  proof -
    have o: "map_of (st_netiso s) k = Some other"
      using that assms(1) by (simp add: net_ok_def dict_wf_def)
    have "k = tid" if "v \<in> set (vnis other)" "v \<in> set (vnis ni)" for v
      using that assms o unfolding net_ok_def by blast
    moreover have "k = tid" if "ni_vrf other = ni_vrf ni"
    proof -
      obtain a b where "k = ''tnt-'' @ a" "ni_vrf other = ''VRF-'' @ a" "tid = ''tnt-'' @ b" "ni_vrf ni = ''VRF-'' @ b"
        using assms o unfolding net_ok_def by blast
      with that show ?thesis by simp
    qed
    ultimately show ?thesis by (auto simp: list_ex_iff)
  qed
  then show ?thesis unfolding vni_collisions_def by fastforce
qed

lemma partition_on_allocated_rack:
  assumes "alloc_ok s" "part_ok s" "p \<in> set (dict_values (st_partitions s))"
  shows "part_rack_id p \<in> set (concat (map alloc_rack_ids (allocations_of_tenant s (part_tenant_id p))))"
proof -
  obtain k where "map_of (st_partitions s) k = Some p"
    using assms(2,3) by (auto simp: part_ok_def in_dict_values)
  with assms(2) obtain r where "map_of (st_racks s) (part_rack_id p) = Some r" "rack_tenant_id r = Some (part_tenant_id p)"
    unfolding part_ok_def by blast
  with assms(1) obtain l a where "map_of (st_allocations s) l = Some a" "alloc_tenant_id a = part_tenant_id p"
      "part_rack_id p \<in> set (alloc_rack_ids a)"
    unfolding alloc_ok_def by blast
  then show ?thesis by (auto simp: allocations_of_tenant_def dest!: map_of_dict_values)
qed

lemma isolation_report_ok_iff:
  assumes inv: "tenancy_inv s" and t: "map_of (st_tenants s) tid = Some t"
  shows "\<exists>rep. isolation_report tid s = (Inr rep, s) \<and>
    (ir_ok rep \<longleftrightarrow> has_key (st_netiso s) tid \<and>
       (isolation_tier t = bare_metal_dedicated \<longrightarrow> co_tenant_racks s tid = []))"
proof -
  have parts: "part_rack_id p \<in> set (concat (map alloc_rack_ids (allocations_of_tenant s tid)))"
    if "p \<in> set (dict_values (st_partitions s))" "part_tenant_id p = tid" for p
    using partition_on_allocated_rack [of s p] inv that by (simp add: tenancy_inv_def)
  have "vni_collisions s tid ni = []" if "map_of (st_netiso s) tid = Some ni" for ni
    using no_vni_collisions inv that by (simp add: tenancy_inv_def)
  with t parts show ?thesis
    by (auto simp: isolation_report_def isolation_findings_def Let_def list_ex_iff finding_def has_key_def
             split: option.splits if_splits)
qed

end
