(* ===== verification/Lifecycle_FSM.thy ===== *)
theory Lifecycle_FSM
  imports Tenancy_Safe
begin

text \<open>
  The two state machines of \<open>app/lifecycle.py\<close>: the transition tables of node mirrors and of service
  orders, and the two functions through which every state change goes. The locale states what the
  pipeline relies on; nodes and orders are its two interpretations.
\<close>

section \<open>Transition tables\<close>

fun NODE_TRANSITIONS :: "NodeLifecycleState \<Rightarrow> NodeLifecycleState list" where
  "NODE_TRANSITIONS N_discovered = [N_validating]"
| "NODE_TRANSITIONS N_validating = [N_pool_ready, N_quarantined]"
| "NODE_TRANSITIONS N_quarantined = [N_validating, N_rma]"
| "NODE_TRANSITIONS N_pool_ready = [N_reserved, N_validating, N_cordoned]"
| "NODE_TRANSITIONS N_reserved = [N_provisioning, N_pool_ready, N_cordoned]"
| "NODE_TRANSITIONS N_provisioning = [N_allocated, N_quarantined, N_releasing]"
| "NODE_TRANSITIONS N_allocated = [N_in_service, N_releasing]"
| "NODE_TRANSITIONS N_in_service = [N_cordoned, N_draining]"
| "NODE_TRANSITIONS N_cordoned = [N_draining, N_in_service]"
| "NODE_TRANSITIONS N_draining = [N_releasing]"
| "NODE_TRANSITIONS N_releasing = [N_sanitizing]"
| "NODE_TRANSITIONS N_sanitizing = [N_pool_ready, N_rma]"
| "NODE_TRANSITIONS N_rma = []"

fun ORDER_TRANSITIONS :: "OrderState \<Rightarrow> OrderState list" where
  "ORDER_TRANSITIONS O_received = [O_validated, O_rejected]"
| "ORDER_TRANSITIONS O_validated = [O_reserved, O_reclaiming, O_rejected, O_compensating]"
| "ORDER_TRANSITIONS O_reserved = [O_provisioning, O_compensating]"
| "ORDER_TRANSITIONS O_provisioning = [O_isolating, O_compensating]"
| "ORDER_TRANSITIONS O_isolating = [O_storage_binding, O_compensating]"
| "ORDER_TRANSITIONS O_storage_binding = [O_acceptance, O_compensating]"
| "ORDER_TRANSITIONS O_acceptance = [O_delivered, O_k8s_installing, O_compensating]"
| "ORDER_TRANSITIONS O_k8s_installing = [O_delivered, O_compensating]"
| "ORDER_TRANSITIONS O_delivered = [O_closed, O_k8s_installing]"
| "ORDER_TRANSITIONS O_reclaiming = [O_closed]"
| "ORDER_TRANSITIONS O_compensating = [O_failed]"
| "ORDER_TRANSITIONS O_closed = []"
| "ORDER_TRANSITIONS O_rejected = []"
| "ORDER_TRANSITIONS O_failed = []"

section \<open>Object updates\<close>

definition event :: "string \<Rightarrow> string \<Rightarrow> int \<Rightarrow> lifecycle_event" where
  "event st d t = \<lparr>ev_state = st, ev_detail = d, ev_at = t\<rparr>"

definition upd_node :: "string \<Rightarrow> (node_instance \<Rightarrow> node_instance) \<Rightarrow> unit sprog" where
  "upd_node nid f = modifyE (\<lambda>s. s\<lparr>st_node_instances := dict_mod nid f (st_node_instances s)\<rparr>)"

definition upd_order :: "string \<Rightarrow> (service_order \<Rightarrow> service_order) \<Rightarrow> unit sprog" where
  "upd_order oid f = modifyE (\<lambda>s. s\<lparr>st_orders := dict_mod oid f (st_orders s)\<rparr>)"

definition upd_cpu :: "string \<Rightarrow> (cpu_node \<Rightarrow> cpu_node) \<Rightarrow> unit sprog" where
  "upd_cpu cid f = modifyE (\<lambda>s. s\<lparr>st_cpu_nodes := dict_mod cid f (st_cpu_nodes s)\<rparr>)"

text \<open>The object a handler holds, read where the code reads one of its attributes.\<close>

definition the_node :: "string \<Rightarrow> node_instance sprog" where
  "the_node nid = bindE (getsE (\<lambda>s. map_of (st_node_instances s) nid)) (someE (PyError ''KeyError''))"

definition the_order :: "string \<Rightarrow> service_order sprog" where
  "the_order oid = bindE (getsE (\<lambda>s. map_of (st_orders s) oid)) (someE (PyError ''KeyError''))"

section \<open>Transitions\<close>

definition step_node :: "NodeLifecycleState \<Rightarrow> string \<Rightarrow> int \<Rightarrow> node_instance \<Rightarrow> node_instance option" where
  "step_node to d t n = (if to \<notin> set (NODE_TRANSITIONS (node_state n)) then None
     else Some (n\<lparr>node_state := to, node_history := node_history n @ [event (node_state_value to) d t]\<rparr>))"

definition advance_node :: "string \<Rightarrow> NodeLifecycleState \<Rightarrow> string \<Rightarrow> unit sprog" where
  "advance_node nid to d =
     bindE (the_node nid) (\<lambda>n. bindE (getsE (\<lambda>s. step_node to d (now s) n)) (\<lambda>n'.
     bindE (someE (HTTPException 409 ''node: illegal transition'') n') (\<lambda>n'. upd_node nid (\<lambda>_. n'))))"

definition step_order :: "OrderState \<Rightarrow> string \<Rightarrow> int \<Rightarrow> service_order \<Rightarrow> service_order option" where
  "step_order to d t x = (if to \<notin> set (ORDER_TRANSITIONS (order_state x)) then None
     else Some (x\<lparr>order_state := to, order_history := order_history x @ [event (order_state_value to) d t]\<rparr>))"

definition advance_order :: "string \<Rightarrow> OrderState \<Rightarrow> string \<Rightarrow> unit sprog" where
  "advance_order oid to d =
     bindE (the_order oid) (\<lambda>x. bindE (getsE (\<lambda>s. step_order to d (now s) x)) (\<lambda>x'.
     bindE (someE (HTTPException 409 ''order: illegal transition'') x') (\<lambda>x'. upd_order oid (\<lambda>_. x'))))"

text \<open>A history entry without a transition: the state the node is in, with a note.\<close>

definition note_node :: "string \<Rightarrow> string \<Rightarrow> unit sprog" where
  "note_node nid d = bindE (getsE now) (\<lambda>t. upd_node nid (\<lambda>n.
     n\<lparr>node_history := node_history n @ [event (node_state_value (node_state n)) d t]\<rparr>))"

section \<open>The contract of a tracked state machine\<close>

text \<open>
  A history replays to a state: each entry is a note of the state the object is in, an edge of the
  table, or an aside, an entry that code outside the two functions above writes. An aside is allowed
  by a partial function from the state it is written in and the state it records to the state it
  leaves the object in.
\<close>

fun replays :: "('st \<Rightarrow> 'st \<Rightarrow> bool) \<Rightarrow> ('st \<Rightarrow> 'st \<Rightarrow> 'st option) \<Rightarrow> 'st \<Rightarrow> 'st list \<Rightarrow> 'st \<Rightarrow> bool" where
  "replays e r x [] z = (x = z)"
| "replays e r x (y # ys) z = (((x = y \<or> e x y) \<and> replays e r y ys z)
     \<or> (case r x y of None \<Rightarrow> False | Some x' \<Rightarrow> replays e r x' ys z))"

lemma replays_append: "replays e r x (ys @ zs) z \<longleftrightarrow> (\<exists>w. replays e r x ys w \<and> replays e r w zs z)"
  by (induction ys arbitrary: x) (auto split: option.splits)

lemma replays_snoc:
  "replays e r x ys w \<Longrightarrow> (w = y \<and> z = y) \<or> (e w y \<and> z = y) \<or> r w y = Some z \<Longrightarrow> replays e r x (ys @ [y]) z"
  by (auto simp: replays_append split: option.splits)

text \<open>Without asides a history is a path of the table that ends in the current state.\<close>

fun path :: "('a \<Rightarrow> 'a \<Rightarrow> bool) \<Rightarrow> 'a list \<Rightarrow> bool" where
  "path e [] = True"
| "path e [x] = True"
| "path e (x # y # xs) = ((x = y \<or> e x y) \<and> path e (y # xs))"

definition no_aside :: "'st \<Rightarrow> 'st \<Rightarrow> 'st option" where
  "no_aside x y = None"

lemma replays_path: "replays e no_aside x ys z \<longleftrightarrow> path e (x # ys) \<and> last (x # ys) = z"
  by (induction ys arbitrary: x) (auto simp: no_aside_def)

text \<open>A replay that starts inside a set and ends outside it crosses an edge that leaves the set.\<close>

lemma replays_leaves:
  assumes "replays e r x ys z" "x \<in> A" "z \<notin> A"
    and "\<And>p q. p \<in> A \<Longrightarrow> e p q \<Longrightarrow> q \<in> A \<or> q \<in> B" "\<And>p y q. p \<in> A \<Longrightarrow> r p y = Some q \<Longrightarrow> q \<in> A"
  shows "\<exists>y \<in> set ys. y \<in> B"
  using assms(1,2)
proof (induction ys arbitrary: x)
  case Nil
  with assms(3) show ?case by simp
next
  case (Cons y ys)
  show ?case
  proof (cases "(x = y \<or> e x y) \<and> replays e r y ys z")
    case True
    with Cons assms(4) [of x y] show ?thesis by (cases "y \<in> B") auto
  next
    case False
    with Cons.prems(1) obtain x' where "r x y = Some x'" "replays e r x' ys z" by (auto split: option.splits)
    with Cons.IH [of x'] Cons.prems(2) assms(5) show ?thesis by auto
  qed
qed

text \<open>The object's history replays from a start state to its current state.\<close>

definition tracked :: "('st \<Rightarrow> 'st \<Rightarrow> bool) \<Rightarrow> ('st \<Rightarrow> 'st \<Rightarrow> 'st option) \<Rightarrow> 'st set \<Rightarrow> ('o \<Rightarrow> 'st) \<Rightarrow> ('o \<Rightarrow> lifecycle_event list) \<Rightarrow> ('st \<Rightarrow> string) \<Rightarrow> 'o \<Rightarrow> bool"
  where
  "tracked edge aside starts cur hist val x \<longleftrightarrow>
     (\<exists>a sts. map ev_state (hist x) = val a # map val sts \<and> a \<in> starts \<and> replays edge aside a sts (cur x))"

locale tracked_fsm =
  fixes edge :: "'st \<Rightarrow> 'st \<Rightarrow> bool"
    and aside :: "'st \<Rightarrow> 'st \<Rightarrow> 'st option"
    and starts :: "'st set"
    and cur :: "'o \<Rightarrow> 'st"
    and hist :: "'o \<Rightarrow> lifecycle_event list"
    and val :: "'st \<Rightarrow> string"
    and step :: "'st \<Rightarrow> string \<Rightarrow> int \<Rightarrow> 'o \<Rightarrow> 'o option"
  assumes val_inj: "val a = val b \<Longrightarrow> a = b"
    and step_legal: "edge (cur x) to \<Longrightarrow>
          \<exists>y. step to d t x = Some y \<and> cur y = to \<and> hist y = hist x @ [event (val to) d t]"
    and step_illegal: "\<not> edge (cur x) to \<Longrightarrow> step to d t x = None"
begin

lemma append_tracked:
  assumes "tracked edge aside starts cur hist val x" "hist y = hist x @ [event (val b) d t]"
    and "(b = cur x \<and> cur y = b) \<or> (edge (cur x) b \<and> cur y = b) \<or> aside (cur x) b = Some (cur y)"
  shows "tracked edge aside starts cur hist val y"
proof -
  from assms(1) obtain a sts where s: "map ev_state (hist x) = val a # map val sts" "a \<in> starts" "replays edge aside a sts (cur x)"
    by (auto simp: tracked_def)
  have "replays edge aside a (sts @ [b]) (cur y)" using s(3) assms(3) by (auto intro: replays_snoc)
  moreover have "map ev_state (hist y) = val a # map val (sts @ [b])" using s(1) assms(2) by (simp add: event_def)
  ultimately show ?thesis using s(2) unfolding tracked_def by (intro exI [of _ a] exI [of _ "sts @ [b]"]) simp
qed

lemma step_tracked:
  assumes "tracked edge aside starts cur hist val x" "step to d t x = Some y"
  shows "tracked edge aside starts cur hist val y"
proof -
  from assms(2) have e: "edge (cur x) to" using step_illegal by fastforce
  with assms(2) have "cur y = to" "hist y = hist x @ [event (val to) d t]"
    using step_legal [OF e, of d t] by auto
  with append_tracked [OF assms(1)] e show ?thesis by blast
qed

lemma note_tracked:
  "tracked edge aside starts cur hist val x \<Longrightarrow> cur y = cur x \<Longrightarrow> hist y = hist x @ [event (val (cur x)) d t] \<Longrightarrow>
     tracked edge aside starts cur hist val y"
  by (rule append_tracked) auto

lemma tracked_cong: "cur y = cur x \<Longrightarrow> map ev_state (hist y) = map ev_state (hist x) \<Longrightarrow>
     tracked edge aside starts cur hist val x \<Longrightarrow> tracked edge aside starts cur hist val y"
  by (simp add: tracked_def)

lemma tracked_start: "cur x \<in> starts \<Longrightarrow> hist x = [event (val (cur x)) d t] \<Longrightarrow> tracked edge aside starts cur hist val x"
  unfolding tracked_def by (intro exI [of _ "cur x"] exI [of _ "[]"]) (simp add: event_def)

text \<open>
  Leaving a set of states shows in the history as one of the set's exit states, after any entry that
  puts the object into the set and is no aside.
\<close>

lemma exit_recorded:
  assumes "tracked edge aside starts cur hist val x" "hist x = pre @ ev # post" "ev_state ev = val a" "a \<in> A" "cur x \<notin> A"
    and exits: "\<And>p q. p \<in> A \<Longrightarrow> edge p q \<Longrightarrow> q \<in> A \<or> q \<in> B" "\<And>p y q. p \<in> A \<Longrightarrow> aside p y = Some q \<Longrightarrow> q \<in> A"
    and no_aside: "\<And>p. aside p a = None"
  shows "\<exists>ev' \<in> set post. \<exists>b \<in> B. ev_state ev' = val b"
proof -
  from assms(1) obtain c sts where sts: "map ev_state (hist x) = map val (c # sts)" "replays edge aside c sts (cur x)"
    by (auto simp: tracked_def)
  then obtain us ws where uv: "c # sts = us @ a # ws" "map ev_state post = map val ws"
  proof -
    assume *: "\<And>us ws. c # sts = us @ a # ws \<Longrightarrow> map ev_state post = map val ws \<Longrightarrow> thesis"
    from sts(1) assms(2) have "map ev_state pre @ ev_state ev # map ev_state post = map val (c # sts)" by simp
    then obtain us vs where u: "c # sts = us @ vs" "ev_state ev # map ev_state post = map val vs"
      by (metis (no_types, lifting) append_eq_map_conv)
    then obtain v ws where v: "vs = v # ws" "ev_state ev = val v" "map ev_state post = map val ws" by (cases vs) auto
    with assms(3) have "v = a" using val_inj by simp
    with * u v show thesis by blast
  qed
  have "replays edge aside a ws (cur x)"
  proof (cases us)
    case Nil
    with uv(1) sts(2) show ?thesis by simp
  next
    case (Cons b bs)
    with uv(1) have "sts = bs @ a # ws" by simp
    with sts(2) show ?thesis using no_aside by (auto simp: replays_append)
  qed
  from replays_leaves [OF this assms(4,5), of B] exits obtain q where "q \<in> set ws" "q \<in> B" by metis
  then have "val q \<in> ev_state ` set post" "q \<in> B" using uv(2) by (metis imageI list.set_map, simp)
  then show ?thesis by force
qed

lemma exit_from_start:
  assumes "tracked edge aside starts cur hist val x" "starts \<subseteq> A" "cur x \<notin> A"
    and exits: "\<And>p q. p \<in> A \<Longrightarrow> edge p q \<Longrightarrow> q \<in> A \<or> q \<in> B" "\<And>p y q. p \<in> A \<Longrightarrow> aside p y = Some q \<Longrightarrow> q \<in> A"
  shows "\<exists>ev \<in> set (hist x). \<exists>b \<in> B. ev_state ev = val b"
proof -
  from assms(1) obtain a sts where sts: "map ev_state (hist x) = val a # map val sts" "a \<in> starts" "replays edge aside a sts (cur x)"
    by (auto simp: tracked_def)
  from sts(2) assms(2) have "a \<in> A" by blast
  from replays_leaves [OF sts(3) this assms(3), of B] exits obtain q where "q \<in> set sts" "q \<in> B" by metis
  then have "val q \<in> set (map ev_state (hist x))" unfolding sts(1) by simp
  with \<open>q \<in> B\<close> show ?thesis by force
qed

end

text \<open>
  The customer's rejection of a delivery is the one writer outside the table (\<open>scenario_api.py\<close>): it
  records \<open>acceptance\<close>, and takes a delivered order back to that state.
\<close>

definition retest :: "OrderState \<Rightarrow> OrderState \<Rightarrow> OrderState option" where
  "retest x y = (if y = O_acceptance then Some (if x = O_delivered then O_acceptance else x) else None)"

interpretation node_fsm: tracked_fsm "\<lambda>a b. b \<in> set (NODE_TRANSITIONS a)" no_aside "{N_pool_ready, N_discovered}" node_state node_history
    node_state_value step_node
  by unfold_locales (auto simp: step_node_def)

interpretation order_fsm: tracked_fsm "\<lambda>a b. b \<in> set (ORDER_TRANSITIONS a)" retest "{O_received}" order_state order_history
    order_state_value step_order
  by unfold_locales (auto simp: step_order_def)

definition node_tracked :: "node_instance \<Rightarrow> bool" where
  "node_tracked = tracked (\<lambda>a b. b \<in> set (NODE_TRANSITIONS a)) no_aside {N_pool_ready, N_discovered} node_state node_history node_state_value"

definition order_tracked :: "service_order \<Rightarrow> bool" where
  "order_tracked = tracked (\<lambda>a b. b \<in> set (ORDER_TRANSITIONS a)) retest {O_received} order_state order_history order_state_value"

lemmas node_tracked_rules = node_fsm.step_tracked [folded node_tracked_def]
  node_fsm.note_tracked [folded node_tracked_def] node_fsm.tracked_cong [folded node_tracked_def]
  node_fsm.tracked_start [folded node_tracked_def]

lemmas order_tracked_rules = order_fsm.step_tracked [folded order_tracked_def]
  order_fsm.note_tracked [folded order_tracked_def] order_fsm.tracked_cong [folded order_tracked_def]
  order_fsm.tracked_start [folded order_tracked_def]

section \<open>The lifecycle invariant\<close>

text \<open>Every node mirror and every order is stored under its id and has a tracked history.\<close>

definition life_inv :: "store \<Rightarrow> bool" where
  "life_inv s \<longleftrightarrow> (\<forall>k n. map_of (st_node_instances s) k = Some n \<longrightarrow> node_id n = k \<and> node_tracked n)
     \<and> (\<forall>k x. map_of (st_orders s) k = Some x \<longrightarrow> order_id x = k \<and> order_tracked x)"

lemma life_inv_cong:
  "st_node_instances s' = st_node_instances s \<Longrightarrow> st_orders s' = st_orders s \<Longrightarrow> life_inv s \<Longrightarrow> life_inv s'"
  by (simp add: life_inv_def)

lemma life_inv_empty [simp]: "life_inv (empty_store t)"
  by (simp add: life_inv_def empty_store_def)

text \<open>\<open>safe\<close>: the two invariants the pipeline keeps.\<close>

definition safe :: "store \<Rightarrow> bool" where
  "safe s \<longleftrightarrow> tenancy_inv s \<and> life_inv s"

lemma keeps_safe: "keeps tenancy_inv m \<Longrightarrow> keeps life_inv m \<Longrightarrow> keeps safe m"
  by (simp add: keeps_def safe_def)

lemma safe_cong:
  assumes "st_racks s' = st_racks s" "st_sus s' = st_sus s" "st_tenants s' = st_tenants s"
    "st_allocations s' = st_allocations s" "st_partitions s' = st_partitions s" "st_netiso s' = st_netiso s"
    "seq_of s ''alloc'' \<le> seq_of s' ''alloc''"
    "st_node_instances s' = st_node_instances s" "st_orders s' = st_orders s"
  shows "safe s \<Longrightarrow> safe s'"
  using tenancy_inv_cong [OF assms(1-7)] life_inv_cong [OF assms(8,9)] by (simp add: safe_def)

lemma safe_upd_node:
  assumes "safe s" "\<And>n. map_of (st_node_instances s) nid = Some n \<Longrightarrow> node_tracked n \<Longrightarrow> node_id (f n) = node_id n \<and> node_tracked (f n)"
  shows "safe (s\<lparr>st_node_instances := dict_mod nid f (st_node_instances s)\<rparr>)"
proof -
  have "tenancy_inv (s\<lparr>st_node_instances := dict_mod nid f (st_node_instances s)\<rparr>)"
    using assms(1) by (auto simp: safe_def seq_of_def intro: tenancy_inv_cong [of _ s])
  moreover have "life_inv (s\<lparr>st_node_instances := dict_mod nid f (st_node_instances s)\<rparr>)"
    using assms by (auto simp: safe_def life_inv_def split: if_splits)
  ultimately show ?thesis by (simp add: safe_def)
qed

lemma safe_upd_order:
  assumes "safe s" "\<And>x. map_of (st_orders s) oid = Some x \<Longrightarrow> order_tracked x \<Longrightarrow> order_id (f x) = order_id x \<and> order_tracked (f x)"
  shows "safe (s\<lparr>st_orders := dict_mod oid f (st_orders s)\<rparr>)"
proof -
  have "tenancy_inv (s\<lparr>st_orders := dict_mod oid f (st_orders s)\<rparr>)"
    using assms(1) by (auto simp: safe_def seq_of_def intro: tenancy_inv_cong [of _ s])
  moreover have "life_inv (s\<lparr>st_orders := dict_mod oid f (st_orders s)\<rparr>)"
    using assms by (auto simp: safe_def life_inv_def split: if_splits)
  ultimately show ?thesis by (simp add: safe_def)
qed

section \<open>The primitive updates keep it\<close>

lemma keeps_the_node [keeps_rules]: "keeps I (the_node nid)"
  unfolding the_node_def by (intro keeps_rules)

lemma keeps_the_order [keeps_rules]: "keeps I (the_order oid)"
  unfolding the_order_def by (intro keeps_rules)

text \<open>An attribute write that leaves id, state and the states of the history alone.\<close>

definition node_attr :: "(node_instance \<Rightarrow> node_instance) \<Rightarrow> bool" where
  "node_attr f \<longleftrightarrow> (\<forall>n. node_id (f n) = node_id n \<and> node_state (f n) = node_state n \<and> node_history (f n) = node_history n)"

definition order_attr :: "(service_order \<Rightarrow> service_order) \<Rightarrow> bool" where
  "order_attr f \<longleftrightarrow> (\<forall>x. order_id (f x) = order_id x \<and> order_state (f x) = order_state x
     \<and> map ev_state (order_history (f x)) = map ev_state (order_history x))"

lemma keeps_upd_node: "node_attr f \<Longrightarrow> keeps safe (upd_node nid f)"
  unfolding upd_node_def node_attr_def
  by (rule keeps_modifyE, rule safe_upd_node) (auto intro: node_tracked_rules(3))

lemma keeps_upd_order: "order_attr f \<Longrightarrow> keeps safe (upd_order oid f)"
  unfolding upd_order_def order_attr_def
  by (rule keeps_modifyE, rule safe_upd_order) (auto intro: order_tracked_rules(3))

lemma keeps_upd_cpu [keeps_rules]: "keeps safe (upd_cpu cid f)"
  unfolding upd_cpu_def by (rule keeps_modifyE, erule safe_cong [rotated -1]) (simp_all add: seq_of_def)

lemma advance_node_run:
  "advance_node nid to d s = (case map_of (st_node_instances s) nid of None \<Rightarrow> (Inl (PyError ''KeyError''), s)
     | Some n \<Rightarrow> (case step_node to d (now s) n of None \<Rightarrow> (Inl (HTTPException 409 ''node: illegal transition''), s)
        | Some n' \<Rightarrow> (Inr (), s\<lparr>st_node_instances := dict_mod nid (\<lambda>_. n') (st_node_instances s)\<rparr>)))"
  by (simp add: advance_node_def the_node_def upd_node_def bindE_run someE_run split: option.splits)

lemma advance_order_run:
  "advance_order oid to d s = (case map_of (st_orders s) oid of None \<Rightarrow> (Inl (PyError ''KeyError''), s)
     | Some x \<Rightarrow> (case step_order to d (now s) x of None \<Rightarrow> (Inl (HTTPException 409 ''order: illegal transition''), s)
        | Some x' \<Rightarrow> (Inr (), s\<lparr>st_orders := dict_mod oid (\<lambda>_. x') (st_orders s)\<rparr>)))"
  by (simp add: advance_order_def the_order_def upd_order_def bindE_run someE_run split: option.splits)

lemma step_node_id: "step_node to d t n = Some n' \<Longrightarrow> node_id n' = node_id n"
  by (auto simp: step_node_def split: if_splits)

lemma step_order_id: "step_order to d t x = Some x' \<Longrightarrow> order_id x' = order_id x"
  by (auto simp: step_order_def split: if_splits)

lemma keeps_advance_node [keeps_rules]: "keeps safe (advance_node nid to d)"
proof (rule keepsI)
  fix s
  assume "safe s"
  then show "safe (snd (advance_node nid to d s))"
    by (auto simp: advance_node_run step_node_id split: option.splits
             intro!: safe_upd_node intro: node_tracked_rules(1))
qed

lemma keeps_advance_order [keeps_rules]: "keeps safe (advance_order oid to d)"
proof (rule keepsI)
  fix s
  assume "safe s"
  then show "safe (snd (advance_order oid to d s))"
    by (auto simp: advance_order_run step_order_id split: option.splits
             intro!: safe_upd_order intro: order_tracked_rules(1))
qed

lemma keeps_note_node [keeps_rules]: "keeps safe (note_node nid d)"
proof (rule keepsI)
  fix s
  assume "safe s"
  then show "safe (snd (note_node nid d s))"
    by (auto simp: note_node_def upd_node_def intro!: safe_upd_node intro: node_tracked_rules(2))
qed

end
