(* ===== verification/Placement.thy ===== *)
theory Placement
  imports Lifecycle_FSM
begin

text \<open>
  Node bootstrap and rack placement of \<open>app/lifecycle.py\<close>: the node mirror of the controller's
  fleet, which racks may be sold, which scalable units a tenant may use, and the best-fit selection
  of whole racks within one site.
\<close>

section \<open>Bootstrap\<close>

definition new_node :: "string \<Rightarrow> compute_tray \<Rightarrow> rack \<Rightarrow> string \<Rightarrow> int \<Rightarrow> node_instance" where
  "new_node nid tr r hid t = \<lparr>node_id = nid, node_tray_id = tray_id tr, node_rack_id = rack_id r,
     node_su_id = rack_su_id r, node_blueprint_key = rack_blueprint_key r, nico_host_id = hid,
     nico_instance_id = None, node_tenant_id = None, node_order_id = None, node_state = N_pool_ready,
     node_history = [event (node_state_value N_pool_ready) ''bootstrap: NICo Day-0 mirror'' t]\<rparr>"

fun bootstrap_hosts :: "nico_host list \<Rightarrow> nat \<Rightarrow> nat sprog" where
  "bootstrap_hosts [] created = returnE created"
| "bootstrap_hosts (h # hs) created =
     bindE (getsE (\<lambda>s. map_of (st_trays s) (nh_tray_id h))) (\<lambda>tr0. case tr0 of
       None \<Rightarrow> bootstrap_hosts hs created
     | Some tr \<Rightarrow>
        (let nid = ''ni-'' @ tray_id tr in
         bindE (getsE (\<lambda>s. has_key (st_node_instances s) nid)) (\<lambda>old.
         if old then bootstrap_hosts hs created
         else bindE (getsE (\<lambda>s. map_of (st_racks s) (tray_rack_id tr))) (\<lambda>r0.
              bindE (someE (PyError ''KeyError'') r0) (\<lambda>r.
              bindE (getsE now) (\<lambda>t.
              thenE (modifyE (\<lambda>s. s\<lparr>st_node_instances :=
                       AList.update nid (new_node nid tr r (nh_host_id h) t) (st_node_instances s)\<rparr>))
                    (bootstrap_hosts hs (created + 1))))))))"

text \<open>An unreachable controller is skipped, whatever exception the adapter raises.\<close>

definition bootstrap_nodes :: "'n compute_adapter \<Rightarrow> ('n, nat) wprog" where
  "bootstrap_nodes A =
     bindE (catch_all (bindE (onNico (ca_list_hosts A)) (\<lambda>hs. returnE (Some hs))) (returnE None)) (\<lambda>hosts.
     case hosts of None \<Rightarrow> returnE 0 | Some hs \<Rightarrow> onStore (bootstrap_hosts hs 0))"

section \<open>Eligibility\<close>

definition rack_sellable :: "store \<Rightarrow> rack \<Rightarrow> bool" where
  "rack_sellable s r = (if rack_tenant_id r \<noteq> None \<or> rack_state r \<noteq> Hw_ready then False
     else (let nodes = nodes_of_rack s (rack_id r) in
           length nodes = length (rack_tray_ids r) \<and> list_all (\<lambda>n. node_state n = N_pool_ready) nodes))"

text \<open>The other tenants present in a unit; an empty tenant id counts as none, as in Python.\<close>

definition su_owners :: "store \<Rightarrow> scalable_unit \<Rightarrow> tenant \<Rightarrow> string list" where
  "su_owners s su t = concat (map (\<lambda>r. case rack_tenant_id r of None \<Rightarrow> []
     | Some x \<Rightarrow> if x \<noteq> [] \<and> x \<noteq> tn_id t then [x] else []) (racks_of_su s (su_id su)))"

definition is_dedicated :: "store \<Rightarrow> string \<Rightarrow> bool" where
  "is_dedicated s tid = (case map_of (st_tenants s) tid of None \<Rightarrow> False
     | Some t \<Rightarrow> isolation_tier t = bare_metal_dedicated)"

definition su_allowed_for :: "store \<Rightarrow> scalable_unit \<Rightarrow> tenant option \<Rightarrow> bool" where
  "su_allowed_for s su tn = (case tn of None \<Rightarrow> True
     | Some t \<Rightarrow> (let owners = su_owners s su t in
         if owners = [] then True
         else if isolation_tier t = bare_metal_dedicated then False
         else \<not> list_ex (is_dedicated s) owners))"

section \<open>Selection\<close>

type_synonym pool = "scalable_unit \<times> rack list \<times> string"

definition site_id :: "store \<Rightarrow> scalable_unit \<Rightarrow> string" where
  "site_id s su = (case factory_of_su s (su_id su) of None \<Rightarrow> ''(unknown)'' | Some f \<Rightarrow> factory_id f)"

definition rack_pools :: "store \<Rightarrow> string \<Rightarrow> tenant option \<Rightarrow> pool list" where
  "rack_pools s bk tn =
     map (\<lambda>su. (su, filter (rack_sellable s) (racks_of_su s (su_id su)), site_id s su))
       (filter (\<lambda>su. su_blueprint_key su = bk \<and> su_allowed_for s su tn)
          (sort_key su_id (dict_values (st_sus s))))"

text \<open>\<open>by_site.setdefault(fid, []).append(free)\<close> over the pools.\<close>

fun group_add :: "string \<Rightarrow> 'a \<Rightarrow> 'a list dict \<Rightarrow> 'a list dict" where
  "group_add k x [] = [(k, [x])]"
| "group_add k x ((k', xs) # d) = (if k' = k then (k', xs @ [x]) # d else (k', xs) # group_add k x d)"

definition group_by :: "(string \<times> 'a) list \<Rightarrow> 'a list dict" where
  "group_by ps = fold (\<lambda>(k, x) d. group_add k x d) ps []"

definition total :: "'a list list \<Rightarrow> nat" where
  "total fs = sum_list (map length fs)"

text \<open>Filling from the fullest unit of the site on; \<open>free[: count - len(selected)]\<close> slices as Python does.\<close>

fun spill :: "int \<Rightarrow> rack list list \<Rightarrow> rack list \<Rightarrow> rack list option" where
  "spill count [] sel = None"
| "spill count (free # fs) sel =
     (let sel' = sel @ py_take (count - int (length sel)) free in
      if int (length sel') = count then Some sel' else spill count fs sel')"

definition select_racks :: "store \<Rightarrow> string \<Rightarrow> int \<Rightarrow> tenant option \<Rightarrow> rack list option" where
  "select_racks s bk count tn =
     (let pools = rack_pools s bk tn;
          fits = filter (\<lambda>(_, free, _). count \<le> int (length free)) pools
      in case min_by (\<lambda>(_, free, _). length free) fits of
           Some (_, free, _) \<Rightarrow> Some (py_take count free)
         | None \<Rightarrow>
             (let by_site = group_by (map (\<lambda>(_, free, fid). (fid, free)) pools);
                  candidates = map (\<lambda>(fid, frees). (total frees, fid))
                     (filter (\<lambda>(fid, frees). count \<le> int (total frees)) by_site)
              in case min_by id candidates of
                   None \<Rightarrow> None
                 | Some (_, site) \<Rightarrow> (case map_of by_site site of
                     None \<Rightarrow> None | Some frees \<Rightarrow> spill count (sort_desc length frees) [])))"

definition availability_by_site :: "store \<Rightarrow> string \<Rightarrow> tenant option \<Rightarrow> nat dict" where
  "availability_by_site s bk tn =
     fold (\<lambda>su d. if su_blueprint_key su \<noteq> bk \<or> \<not> su_allowed_for s su tn then d
        else (let free = length (filter (rack_sellable s) (racks_of_su s (su_id su)));
                  name = (case factory_of_su s (su_id su) of None \<Rightarrow> ''(unknown)'' | Some f \<Rightarrow> factory_name f)
              in AList.update name ((case map_of d name of None \<Rightarrow> 0 | Some n \<Rightarrow> n) + free) d))
       (dict_values (st_sus s)) []"

fun nodes_for_racks :: "rack list \<Rightarrow> node_instance list sprog" where
  "nodes_for_racks [] = returnE []"
| "nodes_for_racks (r # rs) =
     bindE (getsE (\<lambda>s. nodes_of_rack s (rack_id r))) (\<lambda>ns.
     thenE (raise_if (length ns \<noteq> length (rack_tray_ids r)) (HTTPException 500 ''node mirror incomplete''))
     (bindE (nodes_for_racks rs) (\<lambda>rest. returnE (sort_key node_id ns @ rest))))"

end
