(* ===== verification/Fulfillment.thy ===== *)
theory Fulfillment
  imports Placement
begin

text \<open>
  The order saga of \<open>app/lifecycle.py\<close>: teardown and compensation, CPU-node synchronisation, and the
  seven stage functions from validation to delivery. Orders and nodes are named by id and read from
  the store where the code reads the shared object.
\<close>

definition DEFAULT_IMAGE :: string where "DEFAULT_IMAGE = ''ubuntu-24.04-nvidia''"
definition STORAGE_TB_PER_RACK :: rat where "STORAGE_TB_PER_RACK = 500"
definition STORAGE_GBPS_PER_RACK :: rat where "STORAGE_GBPS_PER_RACK = 40"
definition STORAGE_KIOPS_PER_RACK :: rat where "STORAGE_KIOPS_PER_RACK = 500"
definition CPU_NODES_PER_TENANT :: nat where "CPU_NODES_PER_TENANT = 5"
definition K8S_CP_NODES_PER_CLUSTER :: nat where "K8S_CP_NODES_PER_CLUSTER = 3"
definition K8S_SUPPORTED_VERSIONS :: "string list" where "K8S_SUPPORTED_VERSIONS = [''v1.32.4'', ''v1.33.2'']"

text \<open>Truth of an optional string.\<close>

definition truthy :: "string option \<Rightarrow> bool" where
  "truthy x \<longleftrightarrow> x \<noteq> None \<and> x \<noteq> Some []"

abbreviation orderW :: "string \<Rightarrow> ('n, service_order) wprog" where
  "orderW oid \<equiv> onStore (the_order oid)"

abbreviation nodeW :: "string \<Rightarrow> ('n, node_instance) wprog" where
  "nodeW nid \<equiv> onStore (the_node nid)"

abbreviation advN :: "string \<Rightarrow> NodeLifecycleState \<Rightarrow> string \<Rightarrow> ('n, unit) wprog" where
  "advN nid to d \<equiv> onStore (advance_node nid to d)"

abbreviation advO :: "string \<Rightarrow> OrderState \<Rightarrow> string \<Rightarrow> ('n, unit) wprog" where
  "advO oid to d \<equiv> onStore (advance_order oid to d)"

abbreviation updN :: "string \<Rightarrow> (node_instance \<Rightarrow> node_instance) \<Rightarrow> ('n, unit) wprog" where
  "updN nid f \<equiv> onStore (upd_node nid f)"

abbreviation updO :: "string \<Rightarrow> (service_order \<Rightarrow> service_order) \<Rightarrow> ('n, unit) wprog" where
  "updO oid f \<equiv> onStore (upd_order oid f)"

section \<open>Teardown\<close>

definition upd_storage :: "string \<Rightarrow> (storage_allocation \<Rightarrow> storage_allocation) \<Rightarrow> unit sprog" where
  "upd_storage sid f = modifyE (\<lambda>s. s\<lparr>st_storage_allocs := dict_mod sid f (st_storage_allocs s)\<rparr>)"

definition reclaim_view :: "string \<Rightarrow> ('n, unit) wprog" where
  "reclaim_view sid = bindE (getsS (\<lambda>s. map_of (st_storage_allocs s) sid)) (\<lambda>x. case x of
     None \<Rightarrow> returnE ()
   | Some sa \<Rightarrow> if sa_state sa = ''active''
       then catchE (thenE (onVast (vast_delete_view (sa_view_path sa)))
                          (onStore (upd_storage sid (\<lambda>a. a\<lparr>sa_state := ''reclaimed''\<rparr>))))
                   (\<lambda>_ _. returnE ())
       else returnE ())"

definition teardown_storage_and_segment ::
    "'n compute_adapter \<Rightarrow> string list \<Rightarrow> string option \<Rightarrow> ('n, unit) wprog" where
  "teardown_storage_and_segment A sids seg =
     thenE (forE sids reclaim_view)
     (case seg of None \<Rightarrow> returnE ()
      | Some g \<Rightarrow> if g = [] then returnE ()
                 else catchE (doE (onNico (ca_delete_segment A g))) (\<lambda>_ _. returnE ()))"

section \<open>CPU nodes\<close>

text \<open>Keys of the CPU nodes with a property, in the order of the dictionary.\<close>

definition cpu_keys :: "(cpu_node \<Rightarrow> bool) \<Rightarrow> store \<Rightarrow> string list" where
  "cpu_keys P s = map fst (filter (\<lambda>(_, c). P c) (st_cpu_nodes s))"

definition return_cpu :: "cpu_node \<Rightarrow> cpu_node" where
  "return_cpu c = c\<lparr>cn_tenant_id := None, cn_state := ''pool_ready'', cn_host_ip := '''',
     cn_segment_id := None, cn_role := ''general'', cn_order_id := None\<rparr>"

definition grant_cpu :: "string \<Rightarrow> string option \<Rightarrow> string \<Rightarrow> unit sprog" where
  "grant_cpu tid seg k =
     bindE (getsE (\<lambda>s. map_of (st_cpu_nodes s) k)) (\<lambda>c0.
     bindE (someE (PyError ''KeyError'') c0) (\<lambda>c.
     bindE (trailing_index (cn_id c)) (\<lambda>idx.
     upd_cpu k (\<lambda>c. c\<lparr>cn_tenant_id := Some tid, cn_state := ''allocated'',
        cn_host_ip := ''10.250.0.'' @ dec (idx + 1), cn_segment_id := seg\<rparr>))))"

definition sync_cpu_nodes :: "string \<Rightarrow> string option \<Rightarrow> string list sprog" where
  "sync_cpu_nodes tid seg =
     bindE (getsE (\<lambda>s. list_ex (\<lambda>a. alloc_tenant_id a = tid) (dict_values (st_allocations s)))) (\<lambda>has_gpu.
     bindE (getsE (cpu_keys (\<lambda>c. cn_tenant_id c = Some tid))) (\<lambda>mine.
     if \<not> has_gpu then thenE (forE mine (\<lambda>k. upd_cpu k return_cpu)) (returnE [])
     else
       bindE (getsE (\<lambda>s. length (cpu_keys (\<lambda>c. cn_tenant_id c = Some tid \<and> cn_role c = ''general'') s))) (\<lambda>have_n.
       bindE (getsE (\<lambda>s. take (CPU_NODES_PER_TENANT - have_n) (cpu_keys (\<lambda>c. cn_state c = ''pool_ready'') s))) (\<lambda>grant.
       thenE (forE grant (grant_cpu tid seg)) (returnE (mine @ grant))))))"

section \<open>Compensation\<close>

definition rollback_node :: "'n compute_adapter \<Rightarrow> string \<Rightarrow> ('n, unit) wprog" where
  "rollback_node A nid =
     bindE (nodeW nid) (\<lambda>n.
     if node_state n = N_reserved then
       thenE (onNico (ca_unreserve A (nico_host_id n))) (advN nid N_pool_ready ''saga: unreserved'')
     else if node_state n = N_provisioning \<or> node_state n = N_allocated then
       thenE (case nico_instance_id n of
                Some iid \<Rightarrow> if iid \<noteq> [] then
                    thenE (onNico (bindE (ca_release A iid) (wait_job A))) (updN nid (\<lambda>x. x\<lparr>nico_instance_id := None\<rparr>))
                  else doE (onNico (ca_abort_provision A (nico_host_id n)))
              | None \<Rightarrow> doE (onNico (ca_abort_provision A (nico_host_id n))))
       (thenE (advN nid N_releasing ''saga: rollback release'')
       (bindE (onNico (bindE (ca_sanitize A (nico_host_id n)) (wait_job A))) (\<lambda>job.
        thenE (advN nid N_sanitizing ''saga: sanitizing'')
        (if jb_state job = J_succeeded then advN nid N_pool_ready ''saga: sanitized, pool return''
         else advN nid N_rma ''saga: sanitize failed''))))
     else returnE ())"

definition escalate_node :: "string \<Rightarrow> ('n, unit) wprog" where
  "escalate_node nid = bindE (nodeW nid) (\<lambda>n.
     if N_cordoned \<in> set (NODE_TRANSITIONS (node_state n)) then advN nid N_cordoned ''saga rollback failed''
     else onStore (note_node nid ''saga rollback failed: manual intervention''))"

definition compensate_node :: "'n compute_adapter \<Rightarrow> string \<Rightarrow> ('n, unit) wprog" where
  "compensate_node A nid =
     thenE (catchE (rollback_node A nid) (\<lambda>_ _. escalate_node nid))
           (updN nid (\<lambda>n. n\<lparr>node_tenant_id := None, node_order_id := None\<rparr>))"

definition drop_allocation :: "string \<Rightarrow> ('n, unit) wprog" where
  "drop_allocation aid = bindE (getsS (\<lambda>s. has_key (st_allocations s) aid)) (\<lambda>live.
     if live then doE (onStore (delete_allocation aid)) else returnE ())"

definition compensate :: "'n compute_adapter \<Rightarrow> string \<Rightarrow> string list \<Rightarrow> string \<Rightarrow> ('n, unit) wprog" where
  "compensate A oid nids reason =
     thenE (advO oid O_compensating reason)
     (bindE (orderW oid) (\<lambda>x.
      thenE (teardown_storage_and_segment A (order_storage_ids x) (order_segment_id x))
      (thenE (updO oid (\<lambda>y. y\<lparr>order_segment_id := None\<rparr>))
      (thenE (forE (order_allocation_ids x) drop_allocation)
      (thenE (updO oid (\<lambda>y. y\<lparr>order_allocation_ids := []\<rparr>))
      (thenE (onStore (sync_cpu_nodes (order_tenant_id x) None))
      (thenE (forE nids (compensate_node A))
      (thenE (advO oid O_failed reason)
             (updO oid (\<lambda>y. y\<lparr>order_error := Some reason\<rparr>))))))))))"

section \<open>Stage context\<close>

definition ctx_nodes :: "store \<Rightarrow> service_order \<Rightarrow> string list" where
  "ctx_nodes s x = filter (has_key (st_node_instances s)) (order_node_ids x)"

fun keep_first :: "'a list \<Rightarrow> 'a list \<Rightarrow> 'a list" where
  "keep_first seen [] = seen"
| "keep_first seen (x # xs) = (if x \<in> set seen then keep_first seen xs else keep_first (seen @ [x]) xs)"

definition ctx_racks :: "store \<Rightarrow> service_order \<Rightarrow> rack list" where
  "ctx_racks s x = dict_pick (st_racks s)
     (keep_first [] (map node_rack_id (dict_pick (st_node_instances s) (order_node_ids x))))"

text \<open>\<open>s.tenants[order.tenant_id]\<close> and \<open>s.netiso[tenant.id]\<close>.\<close>

definition the_tenant :: "string \<Rightarrow> tenant sprog" where
  "the_tenant tid = bindE (getsE (\<lambda>s. map_of (st_tenants s) tid)) (someE (PyError ''KeyError''))"

definition the_netiso :: "string \<Rightarrow> network_isolation sprog" where
  "the_netiso tid = bindE (getsE (\<lambda>s. map_of (st_netiso s) tid)) (someE (PyError ''KeyError''))"

section \<open>Stages\<close>

definition reject_order :: "string \<Rightarrow> string \<Rightarrow> ('n, unit) wprog" where
  "reject_order oid d = thenE (advO oid O_rejected d) (updO oid (\<lambda>x. x\<lparr>order_error := Some d\<rparr>))"

definition place_order :: "string \<Rightarrow> string \<Rightarrow> tenant \<Rightarrow> ('n, unit) wprog" where
  "place_order oid bk t =
     bindE (orderW oid) (\<lambda>x.
     bindE (getsS (\<lambda>s. select_racks s bk (order_racks x) (Some t))) (\<lambda>racks. case racks of
       None \<Rightarrow> reject_order oid ''insufficient capacity''
     | Some rs \<Rightarrow> bindE (onStore (nodes_for_racks rs)) (\<lambda>ns.
         updO oid (\<lambda>x. x\<lparr>order_node_ids := map node_id ns\<rparr>))))"

definition stage_validated :: "string \<Rightarrow> ('n, unit) wprog" where
  "stage_validated oid =
     bindE (orderW oid) (\<lambda>x.
     bindE (getsS (\<lambda>s. map_of (st_tenants s) (order_tenant_id x))) (\<lambda>t0. case t0 of
       None \<Rightarrow> reject_order oid ''unknown tenant''
     | Some t \<Rightarrow> (case order_blueprint_key x of
         None \<Rightarrow> reject_order oid ''invalid spec: blueprint_key/racks required''
       | Some bk \<Rightarrow>
           if \<not> has_key BLUEPRINTS bk \<or> order_racks x < 1
           then reject_order oid ''invalid spec: blueprint_key/racks required''
           else if storage_mode x = ''manual'' \<and> storage_tb x \<le> 0
           then reject_order oid ''invalid storage spec''
           else if managed_k8s x \<and> k8s_version x \<notin> set K8S_SUPPORTED_VERSIONS
           then reject_order oid ''invalid k8s spec''
           else bindE (getsS (\<lambda>s. length (cpu_keys (\<lambda>c. cn_state c = ''pool_ready'') s))) (\<lambda>free_cpu.
             if managed_k8s x \<and> free_cpu < CPU_NODES_PER_TENANT + K8S_CP_NODES_PER_CLUSTER
             then reject_order oid ''insufficient CPU pool''
             else thenE (advO oid O_validated ''policy: tenant/spec ok'') (place_order oid bk t)))))"

fun reserve_loop :: "'n compute_adapter \<Rightarrow> string \<Rightarrow> string list \<Rightarrow> string list \<Rightarrow> ('n, unit) wprog" where
  "reserve_loop A oid [] done = returnE ()"
| "reserve_loop A oid (nid # ns) done =
     bindE (nodeW nid) (\<lambda>n.
     if node_state n \<noteq> N_pool_ready then compensate A oid done ''node not pool_ready''
     else bindE (tryE (onNico (ca_reserve A (nico_host_id n)))) (\<lambda>r. case r of
         Inl d \<Rightarrow> thenE (advN nid N_cordoned ''reserve failed: break-fix track'') (compensate A oid done ''reserve failed'')
       | Inr _ \<Rightarrow> thenE (advN nid N_reserved ''order'')
                (thenE (updN nid (\<lambda>x. x\<lparr>node_order_id := Some oid\<rparr>))
                       (reserve_loop A oid ns (done @ [nid])))))"

definition stage_reserved :: "'n compute_adapter \<Rightarrow> string \<Rightarrow> ('n, unit) wprog" where
  "stage_reserved A oid =
     bindE (orderW oid) (\<lambda>x.
     bindE (getsS (\<lambda>s. ctx_nodes s x)) (\<lambda>nids.
     thenE (advO oid O_reserved ''nodes across racks'') (reserve_loop A oid nids [])))"

text \<open>Provisioning of one node: install, check the job, allocate the instance to the tenant.\<close>

definition provision_host :: "'n compute_adapter \<Rightarrow> string \<Rightarrow> string \<Rightarrow> string \<Rightarrow> ('n, nico_host) prog" where
  "provision_host A hid img tid =
     bindE (ca_provision A hid img) (\<lambda>j0.
     bindE (wait_job A j0) (\<lambda>job.
     thenE (raise_if (jb_state job \<noteq> J_succeeded) (HTTPException 502 ''provision failed''))
           (ca_allocate A hid tid)))"

fun provision_loop :: "'n compute_adapter \<Rightarrow> string \<Rightarrow> string \<Rightarrow> string list \<Rightarrow> string list \<Rightarrow> ('n, unit) wprog" where
  "provision_loop A oid tid all [] = returnE ()"
| "provision_loop A oid tid all (nid # ns) =
     thenE (advN nid N_provisioning ''PXE: OS install + lockdown'')
     (bindE (nodeW nid) (\<lambda>n.
      bindE (tryE (onNico (provision_host A (nico_host_id n) DEFAULT_IMAGE tid))) (\<lambda>r. case r of
        Inl d \<Rightarrow> thenE (advN nid N_quarantined d)
                 (compensate A oid (filter (\<lambda>m. m \<noteq> nid) all) ''provision failed'')
      | Inr host \<Rightarrow>
          thenE (updN nid (\<lambda>x. x\<lparr>nico_instance_id := nh_instance_id host, node_tenant_id := Some tid\<rparr>))
          (thenE (advN nid N_allocated ''nico instance'') (provision_loop A oid tid all ns)))))"

definition stage_provisioning :: "'n compute_adapter \<Rightarrow> string \<Rightarrow> ('n, unit) wprog" where
  "stage_provisioning A oid =
     bindE (orderW oid) (\<lambda>x.
     bindE (getsS (\<lambda>s. ctx_nodes s x)) (\<lambda>nids.
     bindE (onStore (the_tenant (order_tenant_id x))) (\<lambda>t.
     thenE (advO oid O_provisioning DEFAULT_IMAGE) (provision_loop A oid (tn_id t) nids nids))))"

section \<open>Isolation\<close>

definition isolate_su :: "string \<Rightarrow> string \<Rightarrow> string \<times> string list \<Rightarrow> ('n, unit) wprog" where
  "isolate_su oid tid g =
     bindE (onStore (create_allocation \<lparr>ac_tenant_id = tid, ac_scope = Scope_rack_set, ac_su_id = fst g,
               ac_rack_ids = Some (snd g), ac_dpu_mode = None\<rparr>)) (\<lambda>alloc.
     updO oid (\<lambda>x. x\<lparr>order_allocation_ids := order_allocation_ids x @ [alloc_id alloc]\<rparr>))"

text \<open>The tenant's P_Key: the one it has, else a new number of the \<open>0x8000\<close> range.\<close>

definition tenant_pkey :: "string \<Rightarrow> nat sprog" where
  "tenant_pkey tid =
     bindE (the_netiso tid) (\<lambda>ni.
     bindE (case ib_pkey ni of Some p \<Rightarrow> if p \<noteq> 0 then returnE p else bindE (next_seq ''pkey'') (\<lambda>n. returnE (32768 + n))
            | None \<Rightarrow> bindE (next_seq ''pkey'') (\<lambda>n. returnE (32768 + n))) (\<lambda>pkey.
     thenE (modifyE (\<lambda>s. s\<lparr>st_netiso := dict_mod tid (\<lambda>n. n\<lparr>ib_pkey := Some pkey\<rparr>) (st_netiso s)\<rparr>))
           (returnE pkey)))"

definition first_allocation :: "string \<Rightarrow> ('n, string) wprog" where
  "first_allocation oid = bindE (orderW oid) (\<lambda>x. case order_allocation_ids x of
     [] \<Rightarrow> raiseE (PyError ''IndexError'') | a # _ \<Rightarrow> returnE a)"

definition set_last_detail :: "string \<Rightarrow> service_order \<Rightarrow> service_order" where
  "set_last_detail d x = (if order_history x = [] then x
     else x\<lparr>order_history := butlast (order_history x) @ [(last (order_history x))\<lparr>ev_detail := d\<rparr>]\<rparr>)"

definition isolate_body :: "'n compute_adapter \<Rightarrow> string \<Rightarrow> string \<Rightarrow> string list \<Rightarrow> rack list \<Rightarrow> ('n, unit) wprog" where
  "isolate_body A oid tid nids racks =
     thenE (forE (group_by (map (\<lambda>r. (rack_su_id r, rack_id r)) racks)) (isolate_su oid tid))
     (bindE (onStore (the_netiso tid)) (\<lambda>ni.
      bindE (onStore (tenant_pkey tid)) (\<lambda>pkey.
      bindE (getsS (\<lambda>s. map nico_host_id (dict_pick (st_node_instances s) nids))) (\<lambda>hosts.
      bindE (first_allocation oid) (\<lambda>aid.
      bindE (onNico (ca_create_segment A tid (ni_vrf ni) (compute_l3vni ni) (converged_vni ni) hosts (Some aid) (Some pkey))) (\<lambda>seg.
      thenE (updO oid (\<lambda>x. x\<lparr>order_segment_id := Some (sg_segment_id seg)\<rparr>))
      (thenE (forE racks (\<lambda>r. doE (onStore (create_partition \<lparr>pc_rack_id = rack_id r, pc_tenant_id = tid,
                 pc_tray_ids = rack_tray_ids r\<rparr>))))
      (thenE (onStore (sync_cpu_nodes tid (Some (sg_segment_id seg))))
             (updO oid (set_last_detail ''VPC, P_Key, NVLink, CPU nodes''))))))))))"

definition stage_isolating :: "'n compute_adapter \<Rightarrow> string \<Rightarrow> ('n, unit) wprog" where
  "stage_isolating A oid =
     bindE (orderW oid) (\<lambda>x.
     bindE (getsS (\<lambda>s. ctx_nodes s x)) (\<lambda>nids.
     bindE (getsS (\<lambda>s. ctx_racks s x)) (\<lambda>racks.
     bindE (onStore (the_tenant (order_tenant_id x))) (\<lambda>t.
     thenE (advO oid O_isolating ''3-plane isolation'')
           (catchE (isolate_body A oid (tn_id t) nids racks)
                   (\<lambda>_ _. compensate A oid nids ''isolation failed''))))))"

section \<open>Storage\<close>

text \<open>\<open>round(x)\<close> and \<open>round(x, 1)\<close>, half to even, with the floats read as rationals.\<close>

definition round_even :: "rat \<Rightarrow> int" where
  "round_even y = (let f = \<lfloor>y\<rfloor>; r = y - of_int f in
     if r < 1 / 2 then f else if r > 1 / 2 then f + 1 else if even f then f else f + 1)"

definition round1 :: "rat \<Rightarrow> rat" where
  "round1 x = of_int (round_even (10 * x)) / 10"

record storage_spec =
  sp_capacity :: rat
  sp_gbps :: rat
  sp_kiops :: rat

definition storage_spec_of :: "service_order \<Rightarrow> nat \<Rightarrow> storage_spec" where
  "storage_spec_of x nracks =
     (if storage_mode x = ''manual'' then
        (let gbps = (if storage_gbps x \<noteq> 0 then storage_gbps x
                     else round1 (storage_tb x / STORAGE_TB_PER_RACK * STORAGE_GBPS_PER_RACK))
         in \<lparr>sp_capacity = storage_tb x, sp_gbps = gbps,
             sp_kiops = round1 (gbps / STORAGE_GBPS_PER_RACK * STORAGE_KIOPS_PER_RACK)\<rparr>)
      else \<lparr>sp_capacity = STORAGE_TB_PER_RACK * of_nat nracks, sp_gbps = STORAGE_GBPS_PER_RACK * of_nat nracks,
            sp_kiops = STORAGE_KIOPS_PER_RACK * of_nat nracks\<rparr>)"

definition bind_storage :: "string \<Rightarrow> string \<Rightarrow> string \<Rightarrow> storage_spec \<Rightarrow> ('n, unit) wprog" where
  "bind_storage oid tid vrf sp =
     (let path = ''/tenants/'' @ tid @ ''/'' @ oid in
      bindE (first_allocation oid) (\<lambda>aid.
      thenE (onVast (vast_create_view path tid (''vrf:'' @ vrf) (Some aid)))
      (thenE (onVast (vast_set_quota path (sp_capacity sp)))
      (thenE (onVast (vast_set_qos path (sp_gbps sp) (sp_kiops sp)))
      (bindE (onStore (next_seq ''storage'')) (\<lambda>n.
       let sid = ''st-'' @ dec n in
       thenE (modifyS (\<lambda>s. s\<lparr>st_storage_allocs := AList.update sid
                \<lparr>sa_id = sid, sa_tenant_id = tid, sa_order_id = oid, sa_allocation_id = Some aid,
                 sa_view_path = path, sa_capacity_tb = sp_capacity sp, sa_qos_gbps = sp_gbps sp,
                 sa_state = ''active''\<rparr> (st_storage_allocs s)\<rparr>))
             (updO oid (\<lambda>x. x\<lparr>order_storage_ids := order_storage_ids x @ [sid]\<rparr>))))))))"

definition stage_storage_binding :: "'n compute_adapter \<Rightarrow> string \<Rightarrow> ('n, unit) wprog" where
  "stage_storage_binding A oid =
     bindE (orderW oid) (\<lambda>x.
     bindE (getsS (\<lambda>s. ctx_nodes s x)) (\<lambda>nids.
     bindE (getsS (\<lambda>s. ctx_racks s x)) (\<lambda>racks.
     bindE (onStore (the_tenant (order_tenant_id x))) (\<lambda>t.
     bindE (onStore (the_netiso (tn_id t))) (\<lambda>ni.
     thenE (advO oid O_storage_binding ''VAST view'')
           (catchE (bind_storage oid (tn_id t) (ni_vrf ni) (storage_spec_of x (length racks)))
                   (\<lambda>_ _. compensate A oid nids ''storage binding failed'')))))))"

section \<open>Acceptance and delivery\<close>

definition issue_credentials :: "string \<Rightarrow> string \<Rightarrow> ('n, unit) wprog" where
  "issue_credentials tid oid =
     thenE (onShared (issue_service_account tid oid))
     (thenE (onShared (write_secret (''tenants/'' @ tid @ ''/'' @ oid @ ''/storage-s3'') ''s3-access-key'' tid (Some oid)))
            (doE (onShared (write_secret (''tenants/'' @ tid @ ''/'' @ oid @ ''/oob-redfish'') ''redfish-cred'' tid (Some oid)))))"

definition stage_acceptance :: "'n compute_adapter \<Rightarrow> string \<Rightarrow> ('n, unit) wprog" where
  "stage_acceptance A oid =
     bindE (orderW oid) (\<lambda>x.
     bindE (getsS (\<lambda>s. ctx_nodes s x)) (\<lambda>nids.
     bindE (onStore (the_tenant (order_tenant_id x))) (\<lambda>t.
     thenE (advO oid O_acceptance ''running isolation verification'')
     (bindE (onStore (isolation_report (tn_id t))) (\<lambda>rep.
      if \<not> ir_ok rep then compensate A oid nids ''isolation verification failed''
      else issue_credentials (tn_id t) oid)))))"

definition k8s_access_entry :: "k8s_cluster \<Rightarrow> k8s_access" where
  "k8s_access_entry c = \<lparr>ka_cluster_id = kc_id c, ka_name = kc_name c, ka_version = kc_version c,
     ka_api_server = ''https://'' @ kc_api_vip c @ '':6443'', ka_oidc_issuer = kc_oidc_issuer c\<rparr>"

definition build_access_package :: "string \<Rightarrow> ('n, unit) wprog" where
  "build_access_package oid =
     bindE (orderW oid) (\<lambda>x.
     let tid = order_tenant_id x in
     bindE (getsS (\<lambda>s. map_of (st_netiso s) tid)) (\<lambda>iso.
     bindE (getsS (\<lambda>s. dict_pick (st_storage_allocs s) (order_storage_ids x))) (\<lambda>views.
     bindE (onShared (pop_sa_secret oid)) (\<lambda>secret.
     bindE (getsS now) (\<lambda>t.
     bindE (getsS (\<lambda>s. map_of (st_k8s_clusters s) (str_or (k8s_cluster_id x) ''''))) (\<lambda>cl.
     thenE (updO oid (\<lambda>x. x\<lparr>order_access_package := Some
       \<lparr>ap_issued_at = t, ap_client_id = ''sa-'' @ oid, ap_client_secret = secret,
        ap_mounts = map (\<lambda>v. ''vast-vip.tenant-data:'' @ sa_view_path v) views,
        ap_vrf = map_option ni_vrf iso, ap_l3vni = map_option compute_l3vni iso,
        ap_ib_pkey = Option.bind iso ib_pkey,
        ap_managed_k8s = (if managed_k8s x then map_option k8s_access_entry cl else None)\<rparr>\<rparr>))
     (onShared (audit ''neocloud-os'' ''delivery.access-package.issue'' oid ''success'' (Some tid)))))))))"

definition stage_delivered :: "string \<Rightarrow> ('n, unit) wprog" where
  "stage_delivered oid =
     bindE (orderW oid) (\<lambda>x.
     bindE (getsS (\<lambda>s. ctx_nodes s x)) (\<lambda>nids.
     bindE (onStore (isolation_report (order_tenant_id x))) (\<lambda>rep.
     thenE (forE nids (\<lambda>nid. advN nid N_in_service ''acceptance passed''))
     (thenE (build_access_package oid) (advO oid O_delivered ''isolation ok'')))))"

end
