(* ===== verification/K8s_Install.thy ===== *)
theory K8s_Install
  imports Fulfillment
begin

text \<open>
  The Managed-Kubernetes installation of \<open>app/lifecycle.py\<close>: the install record, the eight stages,
  the runner that marks each stage, and the rollback of control-plane nodes. The synchronous mode is
  modelled, in which every stage runs without a pause between stages.
\<close>

definition K8S_NKD_VERSION :: string where "K8S_NKD_VERSION = ''25.06''"
definition K8S_CP_IMAGE :: string where "K8S_CP_IMAGE = ''ubuntu-24.04-k8s-cp''"

definition K8S_MANAGED_ADDONS :: "(string \<times> string) list" where
  "K8S_MANAGED_ADDONS = [(''cilium'', ''1.16.5''), (''multus'', ''4.1.3''), (''gpu-operator'', ''25.3.0''),
     (''network-operator'', ''25.1.0''), (''dcgm-exporter'', ''3.3.9''), (''kube-vip'', ''0.8.7''),
     (''local-path-csi'', ''0.0.30'')]"

definition K8S_INSTALL_STAGES :: "string list" where
  "K8S_INSTALL_STAGES = [''cp-reserve'', ''os-provision'', ''net-attach'', ''nkd-bootstrap'', ''addons'',
     ''acceptance'', ''telemetry'', ''active'']"

section \<open>Store access\<close>

definition upd_cluster :: "string \<Rightarrow> (k8s_cluster \<Rightarrow> k8s_cluster) \<Rightarrow> unit sprog" where
  "upd_cluster cid f = modifyE (\<lambda>s. s\<lparr>st_k8s_clusters := dict_mod cid f (st_k8s_clusters s)\<rparr>)"

definition upd_install :: "string \<Rightarrow> (k8s_install \<Rightarrow> k8s_install) \<Rightarrow> unit sprog" where
  "upd_install iid f = modifyE (\<lambda>s. s\<lparr>st_k8s_installs := dict_mod iid f (st_k8s_installs s)\<rparr>)"

definition the_cluster :: "string \<Rightarrow> k8s_cluster sprog" where
  "the_cluster cid = bindE (getsE (\<lambda>s. map_of (st_k8s_clusters s) cid)) (someE (PyError ''KeyError''))"

definition the_cpu :: "string \<Rightarrow> cpu_node sprog" where
  "the_cpu k = bindE (getsE (\<lambda>s. map_of (st_cpu_nodes s) k)) (someE (PyError ''KeyError''))"

text \<open>The controller's name of a CPU node; a node without one is unknown to the controller.\<close>

definition cpu_host :: "cpu_node \<Rightarrow> string" where
  "cpu_host c = str_or (cn_nico_host_id c) ''''"

section \<open>Rollback of control-plane nodes\<close>

definition release_cp_host :: "'n compute_adapter \<Rightarrow> string \<Rightarrow> ('n, unit) prog" where
  "release_cp_host A hid =
     bindE (ca_get_host A hid) (\<lambda>h.
     if nh_state h = H_reserved then doE (ca_unreserve A hid)
     else if nh_state h \<in> {H_provisioning, H_provisioned, H_allocated} then
       thenE (case nh_instance_id h of
                Some iid \<Rightarrow> if iid \<noteq> [] then doE (bindE (ca_release A iid) (wait_job A)) else doE (ca_abort_provision A hid)
              | None \<Rightarrow> doE (ca_abort_provision A hid))
             (doE (bindE (ca_sanitize A hid) (wait_job A)))
     else returnE ())"

definition rollback_k8s_cp :: "'n compute_adapter \<Rightarrow> string \<Rightarrow> ('n, unit) wprog" where
  "rollback_k8s_cp A oid =
     bindE (getsS (cpu_keys (\<lambda>c. cn_order_id c = Some oid \<and> cn_role c = ''k8s_cp''))) (\<lambda>ks.
     forE ks (\<lambda>k. bindE (onStore (the_cpu k)) (\<lambda>c.
       thenE (catchE (onNico (release_cp_host A (cpu_host c))) (\<lambda>_ _. returnE ()))
             (onStore (upd_cpu k return_cpu)))))"

section \<open>The install record\<close>

definition begin_k8s_install :: "string \<Rightarrow> string sprog" where
  "begin_k8s_install oid =
     thenE (advance_order oid O_k8s_installing ''Managed K8s'')
     (bindE (the_order oid) (\<lambda>x.
      bindE (next_seq ''k8s_install'') (\<lambda>n.
      bindE (getsE now) (\<lambda>t.
      let iid = ''k8i-'' @ dec n in
      thenE (modifyE (\<lambda>s. s\<lparr>st_k8s_installs := AList.update iid
        \<lparr>ki_install_id = iid, ki_cluster_id = None, ki_tenant_id = order_tenant_id x,
         ki_allocation_id = (case order_allocation_ids x of [] \<Rightarrow> None | a # _ \<Rightarrow> Some a),
         ki_order_id = Some oid, ki_k8s_version = k8s_version x, ki_state = ''running'',
         ki_stage = hd K8S_INSTALL_STAGES,
         ki_stages = map (\<lambda>nm. \<lparr>sr_name = nm, sr_status = ''pending'', sr_ts = None\<rparr>) K8S_INSTALL_STAGES,
         ki_created_at = t\<rparr> (st_k8s_installs s)\<rparr>))
      (returnE iid)))))"

definition mark_row :: "string \<Rightarrow> string \<Rightarrow> int \<Rightarrow> stage_row \<Rightarrow> stage_row" where
  "mark_row nm st t r = r\<lparr>sr_status := st, sr_ts := Some t\<rparr>"

definition mark_install :: "string \<Rightarrow> string \<Rightarrow> int \<Rightarrow> k8s_install \<Rightarrow> k8s_install" where
  "mark_install nm st t i =
     (let i' = i\<lparr>ki_stages := map (\<lambda>r. if sr_name r = nm then mark_row nm st t r else r) (ki_stages i)\<rparr>
      in if st \<in> {''running'', ''failed''} then i'\<lparr>ki_stage := nm\<rparr> else i')"

definition progress_of :: "stage_row list \<Rightarrow> int" where
  "progress_of rows = round_even (of_nat (length (filter (\<lambda>r. sr_status r = ''done'') rows))
     / of_nat (length K8S_INSTALL_STAGES) * 100)"

definition mark_cluster :: "string \<Rightarrow> string \<Rightarrow> int \<Rightarrow> k8s_cluster \<Rightarrow> k8s_cluster" where
  "mark_cluster nm st t c =
     (let rows = (if list_ex (\<lambda>r. sr_name r = nm) (kc_stage_history c)
                  then upd_first (\<lambda>r. sr_name r = nm) (mark_row nm st t) (kc_stage_history c)
                  else kc_stage_history c @ [\<lparr>sr_name = nm, sr_status = st, sr_ts = Some t\<rparr>])
      in c\<lparr>kc_stage_history := rows,
           kc_stage := (if st \<in> {''running'', ''failed''} then nm else kc_stage c),
           kc_progress_pct := progress_of rows\<rparr>)"

definition k8s_mark :: "string \<Rightarrow> string option \<Rightarrow> string \<Rightarrow> string \<Rightarrow> unit sprog" where
  "k8s_mark iid cl nm st =
     bindE (getsE now) (\<lambda>t.
     thenE (upd_install iid (mark_install nm st t))
           (case cl of None \<Rightarrow> returnE () | Some cid \<Rightarrow> upd_cluster cid (mark_cluster nm st t)))"

section \<open>Stages\<close>

text \<open>The dictionary \<open>ctx\<close> the stages share: it is mutated, so a stage that raises leaves its writes.\<close>

record k8s_ctx =
  kx_order :: string
  kx_tenant :: string
  kx_nodes :: "string list"
  kx_gpus :: nat
  kx_inst :: string
  kx_cluster :: "string option"
  kx_cp :: "string list"

type_synonym ('n, 'a) kprog = "('n world \<times> k8s_ctx, 'a) prog"

definition inW :: "('n, 'a) wprog \<Rightarrow> ('n, 'a) kprog" where
  "inW m = focusE fst (\<lambda>w p. (w, snd p)) m"

abbreviation getsC :: "(k8s_ctx \<Rightarrow> 'a) \<Rightarrow> ('n, 'a) kprog" where
  "getsC f \<equiv> getsE (\<lambda>p. f (snd p))"

abbreviation modifyC :: "(k8s_ctx \<Rightarrow> k8s_ctx) \<Rightarrow> ('n, unit) kprog" where
  "modifyC f \<equiv> modifyE (\<lambda>p. (fst p, f (snd p)))"

definition new_cluster :: "string \<Rightarrow> nat \<Rightarrow> service_order \<Rightarrow> k8s_ctx \<Rightarrow> string list \<Rightarrow> int \<Rightarrow> k8s_cluster" where
  "new_cluster cid n x c cps t =
     \<lparr>kc_id = cid, kc_tenant_id = kx_tenant c, kc_order_id = kx_order c,
      kc_allocation_id = (case order_allocation_ids x of [] \<Rightarrow> None | a # _ \<Rightarrow> Some a),
      kc_name = kx_tenant c @ ''-mk8s'', kc_version = k8s_version x, kc_nkd_version = K8S_NKD_VERSION,
      kc_state = ''installing'', kc_api_vip = ''10.250.1.'' @ dec (200 + n),
      kc_oidc_issuer = ''https://iam.neocloud.skt/realms/'' @ kx_tenant c, kc_cp_node_ids = cps,
      kc_worker_node_ids = kx_nodes c, kc_gpus_total = kx_gpus c, kc_addons = [],
      kc_dcgm_mode = ''in-band'', kc_conditions = [], kc_stage = '''', kc_stage_history = [],
      kc_progress_pct = 0, kc_acceptance = None, kc_quarantined_nodes = [], kc_node_versions = [], kc_created_at = t,
      kc_history = [event ''installing'' ''NKD bootstrap'' t]\<rparr>"

text \<open>The handler of the three stages that touch hosts: roll the control plane back, report 502.\<close>

definition or_rollback :: "'n compute_adapter \<Rightarrow> ('n, unit) kprog \<Rightarrow> ('n, unit) kprog" where
  "or_rollback A m = catchE m (\<lambda>_ _.
     bindE (getsC kx_order) (\<lambda>oid.
     thenE (inW (rollback_k8s_cp A oid)) (raiseE (HTTPException 502 ''k8s cp node setup failed''))))"

definition reserve_cp :: "'n compute_adapter \<Rightarrow> string \<Rightarrow> string \<Rightarrow> ('n, unit) wprog" where
  "reserve_cp A oid k =
     bindE (onStore (the_cpu k)) (\<lambda>c.
     thenE (onNico (ca_reserve A (cpu_host c)))
           (onStore (upd_cpu k (\<lambda>c. c\<lparr>cn_order_id := Some oid, cn_role := ''k8s_cp'', cn_state := ''reserved''\<rparr>))))"

definition k8s_st_cp_reserve :: "'n compute_adapter \<Rightarrow> ('n, unit) kprog" where
  "k8s_st_cp_reserve A =
     bindE (getsC id) (\<lambda>c.
     bindE (inW (getsS (\<lambda>s. sort_key (\<lambda>x. x) (cpu_keys (\<lambda>c. cn_state c = ''pool_ready'') s)))) (\<lambda>pool.
     if length pool < K8S_CP_NODES_PER_CLUSTER then
       thenE (inW (rollback_k8s_cp A (kx_order c))) (raiseE (HTTPException 409 ''k8s install failed: CPU pool''))
     else
       (let cps = take K8S_CP_NODES_PER_CLUSTER pool in
        thenE (modifyC (\<lambda>c. c\<lparr>kx_cp := cps\<rparr>))
        (bindE (inW (orderW (kx_order c))) (\<lambda>x.
         bindE (inW (onStore (next_seq ''k8s''))) (\<lambda>n.
         bindE (inW (getsS now)) (\<lambda>t.
         let cid = ''k8s-'' @ dec n in
         thenE (inW (modifyS (\<lambda>s. s\<lparr>st_k8s_clusters := AList.update cid (new_cluster cid n x c cps t) (st_k8s_clusters s)\<rparr>)))
         (thenE (inW (updO (kx_order c) (\<lambda>x. x\<lparr>k8s_cluster_id := Some cid\<rparr>)))
         (thenE (modifyC (\<lambda>c. c\<lparr>kx_cluster := Some cid\<rparr>))
         (thenE (inW (onStore (upd_install (kx_inst c) (\<lambda>i. i\<lparr>ki_cluster_id := Some cid\<rparr>))))
                (or_rollback A (forE cps (\<lambda>k. inW (reserve_cp A (kx_order c) k))))))))))))))"

definition provision_cp :: "'n compute_adapter \<Rightarrow> string \<Rightarrow> string \<Rightarrow> string \<Rightarrow> ('n, unit) wprog" where
  "provision_cp A oid tid k =
     bindE (onStore (the_cpu k)) (\<lambda>c.
     bindE (onNico (provision_host A (cpu_host c) K8S_CP_IMAGE tid)) (\<lambda>h.
     bindE (orderW oid) (\<lambda>x.
     thenE (onStore (upd_cpu k (\<lambda>c. c\<lparr>cn_tenant_id := Some tid, cn_state := ''allocated''\<rparr>)))
     (bindE (if nh_host_ip h \<noteq> [] then returnE (nh_host_ip h)
             else bindE (trailing_index (cn_id c)) (\<lambda>i. returnE (''10.250.1.'' @ dec (i + 100)))) (\<lambda>ip.
      onStore (upd_cpu k (\<lambda>c. c\<lparr>cn_host_ip := ip, cn_segment_id := order_segment_id x\<rparr>)))))))"

definition k8s_st_os_provision :: "'n compute_adapter \<Rightarrow> ('n, unit) kprog" where
  "k8s_st_os_provision A =
     bindE (getsC id) (\<lambda>c.
     or_rollback A (forE (kx_cp c) (\<lambda>k. inW (provision_cp A (kx_order c) (kx_tenant c) k))))"

definition k8s_st_net_attach :: "'n compute_adapter \<Rightarrow> ('n, unit) kprog" where
  "k8s_st_net_attach A =
     bindE (getsC id) (\<lambda>c.
     or_rollback A
       (bindE (inW (orderW (kx_order c))) (\<lambda>x.
        bindE (inW (getsS (\<lambda>s. map cpu_host (dict_pick (st_cpu_nodes s) (kx_cp c))))) (\<lambda>hosts.
        thenE (inW (onNico (ca_attach_hosts A (str_or (order_segment_id x) '''') hosts)))
              (forE (kx_cp c) (\<lambda>k. inW (onStore (upd_cpu k (\<lambda>c. c\<lparr>cn_segment_id := order_segment_id x\<rparr>)))))))))"

text \<open>The cluster object in hand: \<open>ctx["cluster"]\<close>.\<close>

definition on_cluster :: "(string \<Rightarrow> k8s_ctx \<Rightarrow> ('n, unit) wprog) \<Rightarrow> ('n, unit) kprog" where
  "on_cluster f = bindE (getsC id) (\<lambda>c. case kx_cluster c of
     None \<Rightarrow> raiseE (PyError ''AttributeError'') | Some cid \<Rightarrow> inW (f cid c))"

definition note_cluster :: "string \<Rightarrow> string \<Rightarrow> string \<Rightarrow> unit sprog" where
  "note_cluster cid st d = bindE (getsE now) (\<lambda>t. upd_cluster cid (\<lambda>c. c\<lparr>kc_history := kc_history c @ [event st d t]\<rparr>))"

definition k8s_st_nkd_bootstrap :: "('n, unit) kprog" where
  "k8s_st_nkd_bootstrap = on_cluster (\<lambda>cid c.
     thenE (onStore (note_cluster cid ''installing'' ''control plane HA up''))
     (bindE (orderW (kx_order c)) (\<lambda>x.
      bindE (getsS (\<lambda>s. map node_tray_id (dict_pick (st_node_instances s) (kx_nodes c)))) (\<lambda>trays.
      forE (kx_cp c @ trays) (\<lambda>k.
        onStore (upd_cluster cid (\<lambda>cl. cl\<lparr>kc_node_versions := AList.update k (k8s_version x) (kc_node_versions cl)\<rparr>)))))))"

definition k8s_st_addons :: "('n, unit) kprog" where
  "k8s_st_addons = on_cluster (\<lambda>cid c.
     forE K8S_MANAGED_ADDONS (\<lambda>(nm, v). onStore (upd_cluster cid (\<lambda>cl. cl\<lparr>kc_addons := kc_addons cl @
       [\<lparr>ad_name = nm, ad_version = v, ad_status = ''running'', ad_channel = ''nkd-bundle''\<rparr>]\<rparr>))))"

definition K8S_CHECKS :: "string list" where
  "K8S_CHECKS = [''nodes-ready'', ''gpu-allocatable'', ''rdma-resources'', ''nccl-smoke'', ''dcgm-diag'', ''api-vip-ha'']"

definition k8s_st_acceptance :: "('n, unit) kprog" where
  "k8s_st_acceptance = on_cluster (\<lambda>cid c.
     thenE (forE K8S_CHECKS (\<lambda>k. onStore (upd_cluster cid (\<lambda>cl. cl\<lparr>kc_conditions := kc_conditions cl @ [k]\<rparr>))))
           (onStore (upd_cluster cid (\<lambda>cl. cl\<lparr>kc_acceptance := Some
              [(''node-ready'', ''pass''), (''nccl-allreduce'', ''pass''), (''dcgm-diag'', ''pass''),
               (''storage-mount'', ''pass'')]\<rparr>))))"

definition k8s_st_telemetry :: "('n, unit) kprog" where
  "k8s_st_telemetry = on_cluster (\<lambda>cid c. onStore (upd_cluster cid (\<lambda>cl. cl\<lparr>kc_dcgm_mode := ''in-band''\<rparr>)))"

definition k8s_st_active :: "('n, unit) kprog" where
  "k8s_st_active = on_cluster (\<lambda>cid c.
     thenE (onStore (upd_cluster cid (\<lambda>cl. cl\<lparr>kc_state := ''running'', kc_stage := ''active''\<rparr>)))
     (thenE (onStore (note_cluster cid ''running'' ''install verified''))
     (thenE (onStore (upd_install (kx_inst c) (\<lambda>i. i\<lparr>ki_state := ''succeeded''\<rparr>)))
     (bindE (orderW (kx_order c)) (\<lambda>x.
      thenE (onShared (audit ''neocloud-os'' ''k8s.cluster.install'' cid ''success'' (Some (order_tenant_id x))))
            (updO (kx_order c) (set_last_detail ''Managed K8s installed'')))))))"

definition K8S_STAGE_FNS :: "'n compute_adapter \<Rightarrow> ('n, unit) kprog list" where
  "K8S_STAGE_FNS A = [k8s_st_cp_reserve A, k8s_st_os_provision A, k8s_st_net_attach A, k8s_st_nkd_bootstrap,
     k8s_st_addons, k8s_st_acceptance, k8s_st_telemetry, k8s_st_active]"

section \<open>The runner\<close>

definition fail_stage :: "string \<Rightarrow> string \<Rightarrow> ('n, unit) kprog" where
  "fail_stage nm d =
     bindE (getsC id) (\<lambda>c.
     thenE (inW (onStore (k8s_mark (kx_inst c) (kx_cluster c) nm ''failed'')))
     (thenE (inW (onStore (upd_install (kx_inst c) (\<lambda>i. i\<lparr>ki_state := ''failed''\<rparr>))))
     (case kx_cluster c of None \<Rightarrow> returnE ()
      | Some cid \<Rightarrow> thenE (inW (onStore (upd_cluster cid (\<lambda>cl. cl\<lparr>kc_state := ''failed''\<rparr>))))
                         (inW (onStore (note_cluster cid ''failed'' d))))))"

definition run_k8s_stage :: "string \<times> ('n, unit) kprog \<Rightarrow> ('n, unit) kprog" where
  "run_k8s_stage nf =
     bindE (getsC id) (\<lambda>c.
     thenE (inW (onStore (k8s_mark (kx_inst c) (kx_cluster c) (fst nf) ''running'')))
     (thenE (catchE (snd nf) (\<lambda>code d. thenE (fail_stage (fst nf) d) (raiseE (HTTPException code d))))
     (bindE (getsC id) (\<lambda>c. inW (onStore (k8s_mark (kx_inst c) (kx_cluster c) (fst nf) ''done''))))))"

definition gpus_of_nodes :: "store \<Rightarrow> string list \<Rightarrow> nat" where
  "gpus_of_nodes s nids = sum_list (map (\<lambda>n. case map_of (st_trays s) (node_tray_id n) of
     None \<Rightarrow> 0 | Some t \<Rightarrow> length (tray_gpu_ids t)) (dict_pick (st_node_instances s) nids))"

definition run_k8s_install :: "'n compute_adapter \<Rightarrow> string \<Rightarrow> string \<Rightarrow> ('n, unit) wprog" where
  "run_k8s_install A oid iid =
     bindE (orderW oid) (\<lambda>x.
     bindE (onStore (the_tenant (order_tenant_id x))) (\<lambda>t.
     bindE (getsS (\<lambda>s. ctx_nodes s x)) (\<lambda>nids.
     bindE (getsS (\<lambda>s. gpus_of_nodes s nids)) (\<lambda>g w.
       (let ctx = \<lparr>kx_order = oid, kx_tenant = tn_id t, kx_nodes = nids, kx_gpus = g, kx_inst = iid,
                   kx_cluster = None, kx_cp = []\<rparr>;
            (r, p) = forE (zip K8S_INSTALL_STAGES (K8S_STAGE_FNS A)) run_k8s_stage (w, ctx)
        in (r, fst p))))))"

definition install_k8s :: "'n compute_adapter \<Rightarrow> string \<Rightarrow> ('n, unit) wprog" where
  "install_k8s A oid = bindE (onStore (begin_k8s_install oid)) (run_k8s_install A oid)"

definition stage_k8s_install :: "'n compute_adapter \<Rightarrow> string \<Rightarrow> ('n, unit) wprog" where
  "stage_k8s_install A oid = catchE (install_k8s A oid) (\<lambda>_ d.
     bindE (orderW oid) (\<lambda>x. bindE (getsS (\<lambda>s. ctx_nodes s x)) (\<lambda>nids. compensate A oid nids d)))"

end
