(* ===== verification/Orders.thy ===== *)
theory Orders
  imports K8s_Install
begin

text \<open>
  The order pipeline of \<open>app/lifecycle.py\<close>: new orders run stage by stage, automatically or behind
  operator approval; rejection, reclaim, and the Day-2 Kubernetes add-on.
\<close>

section \<open>Stage tables\<close>

definition FULFILL_STAGES :: "OrderState list" where
  "FULFILL_STAGES = [O_validated, O_reserved, O_provisioning, O_isolating, O_storage_binding, O_acceptance, O_delivered]"

definition FULFILL_STAGES_K8S :: "OrderState list" where
  "FULFILL_STAGES_K8S = butlast FULFILL_STAGES @ [O_k8s_installing] @ [last FULFILL_STAGES]"

definition TERMINAL_STATES :: "OrderState list" where
  "TERMINAL_STATES = [O_rejected, O_failed, O_closed, O_delivered]"

definition stages_for :: "service_order \<Rightarrow> OrderState list" where
  "stages_for x = (if managed_k8s x then FULFILL_STAGES_K8S else FULFILL_STAGES)"

text \<open>\<open>dict(stages)[stage]\<close>: the stage function of a table entry.\<close>

fun stage_fn :: "'n compute_adapter \<Rightarrow> OrderState \<Rightarrow> string \<Rightarrow> ('n, unit) wprog" where
  "stage_fn A O_validated oid = stage_validated oid"
| "stage_fn A O_reserved oid = stage_reserved A oid"
| "stage_fn A O_provisioning oid = stage_provisioning A oid"
| "stage_fn A O_isolating oid = stage_isolating A oid"
| "stage_fn A O_storage_binding oid = stage_storage_binding A oid"
| "stage_fn A O_acceptance oid = stage_acceptance A oid"
| "stage_fn A O_k8s_installing oid = stage_k8s_install A oid"
| "stage_fn A O_delivered oid = stage_delivered oid"
| "stage_fn A st oid = raiseE (PyError ''KeyError'')"

section \<open>New orders\<close>

definition new_order :: "string \<Rightarrow> order_create \<Rightarrow> int \<Rightarrow> service_order" where
  "new_order oid body t =
     \<lparr>order_id = oid, order_tenant_id = oc_tenant_id body, order_kind = oc_kind body,
      order_blueprint_key = oc_blueprint_key body, order_racks = oc_racks body,
      order_allocation_id = None, order_allocation_ids = [], approval_mode = oc_approval_mode body,
      pending_stage = None, storage_mode = oc_storage_mode body, storage_tb = oc_storage_tb body,
      storage_gbps = oc_storage_gbps body, managed_k8s = oc_managed_k8s body,
      k8s_version = (if oc_managed_k8s body then oc_k8s_version body else ''''),
      k8s_cluster_id = None, order_segment_id = None, order_storage_ids = [], order_node_ids = [],
      order_state = O_received, order_error = None, order_access_package = None,
      order_history = [event (order_state_value O_received) '''' t]\<rparr>"

definition put_order :: "string \<Rightarrow> service_order \<Rightarrow> unit sprog" where
  "put_order oid x = modifyE (\<lambda>s. s\<lparr>st_orders := AList.update oid x (st_orders s)\<rparr>)"

fun run_stages :: "'n compute_adapter \<Rightarrow> string \<Rightarrow> OrderState list \<Rightarrow> ('n, service_order) wprog" where
  "run_stages A oid [] = orderW oid"
| "run_stages A oid (st # sts) =
     thenE (stage_fn A st oid)
     (bindE (orderW oid) (\<lambda>x.
      if order_state x \<in> {O_rejected, O_failed} then returnE x else run_stages A oid sts))"

definition run_new_order :: "'n compute_adapter \<Rightarrow> order_create \<Rightarrow> ('n, service_order) wprog" where
  "run_new_order A body =
     bindE (onStore (next_seq ''order'')) (\<lambda>n.
     bindE (getsS now) (\<lambda>t.
     let oid = ''ord-'' @ dec n; x = new_order oid body t in
     thenE (onStore (put_order oid x))
     (if oc_approval_mode body
      then thenE (updO oid (\<lambda>x. x\<lparr>pending_stage := Some O_validated\<rparr>)) (orderW oid)
      else run_stages A oid (stages_for x))))"

section \<open>Operator approval\<close>

definition order_or_404 :: "string \<Rightarrow> service_order sprog" where
  "order_or_404 oid =
     bindE (getsE (\<lambda>s. map_of (st_orders s) oid)) (someE (HTTPException 404 ''order not found''))"

text \<open>The stage after \<open>st\<close> in a table; past the end \<open>stages[idx + 1]\<close> raises.\<close>

fun stage_after :: "OrderState \<Rightarrow> OrderState list \<Rightarrow> OrderState option" where
  "stage_after st [] = None"
| "stage_after st (x # xs) = (if x = st then (case xs of [] \<Rightarrow> None | y # _ \<Rightarrow> Some y) else stage_after st xs)"

definition pending_or_409 :: "service_order \<Rightarrow> OrderState sprog" where
  "pending_or_409 x = (case pending_stage x of
     None \<Rightarrow> raiseE (HTTPException 409 ''order not awaiting approval'')
   | Some st \<Rightarrow> if approval_mode x then returnE st else raiseE (HTTPException 409 ''order not awaiting approval''))"

definition approve_next_stage :: "'n compute_adapter \<Rightarrow> string \<Rightarrow> ('n, service_order) wprog" where
  "approve_next_stage A oid =
     bindE (onStore (order_or_404 oid)) (\<lambda>x.
     bindE (onStore (pending_or_409 x)) (\<lambda>st.
     thenE (updO oid (\<lambda>x. x\<lparr>pending_stage := None\<rparr>))
     (thenE (if st \<in> set (stages_for x) then stage_fn A st oid else raiseE (PyError ''KeyError''))
     (bindE (orderW oid) (\<lambda>y.
      if order_state y \<in> set TERMINAL_STATES then returnE y
      else bindE (someE (PyError ''IndexError'') (stage_after st (stages_for x))) (\<lambda>nx.
           thenE (updO oid (\<lambda>y. y\<lparr>pending_stage := Some nx\<rparr>)) (orderW oid)))))))"

definition reject_fulfillment :: "'n compute_adapter \<Rightarrow> string \<Rightarrow> string \<Rightarrow> ('n, service_order) wprog" where
  "reject_fulfillment A oid reason =
     bindE (onStore (order_or_404 oid)) (\<lambda>x.
     bindE (onStore (pending_or_409 x)) (\<lambda>_.
     thenE (updO oid (\<lambda>x. x\<lparr>pending_stage := None\<rparr>))
     (thenE (if order_state x = O_received \<or> order_state x = O_validated then reject_order oid reason
             else bindE (getsS (\<lambda>s. ctx_nodes s x)) (\<lambda>nids. compensate A oid nids reason))
            (orderW oid))))"

section \<open>Reclaim\<close>

definition reclaim_body :: "'n compute_adapter \<Rightarrow> string \<Rightarrow> ('n, bool) wprog" where
  "reclaim_body A nid =
     bindE (nodeW nid) (\<lambda>n0.
     thenE (if node_state n0 = N_in_service then advN nid N_draining ''reclaim: tenant workload drain'' else returnE ())
     (bindE (nodeW nid) (\<lambda>n.
      if node_state n = N_draining \<or> node_state n = N_cordoned then
        thenE (if node_state n = N_cordoned then advN nid N_draining ''reclaim'' else returnE ())
        (thenE (case nico_instance_id n of
                  Some iid \<Rightarrow> if iid \<noteq> [] then
                      thenE (onNico (bindE (ca_release A iid) (wait_job A))) (updN nid (\<lambda>x. x\<lparr>nico_instance_id := None\<rparr>))
                    else returnE ()
                | None \<Rightarrow> returnE ())
        (thenE (advN nid N_releasing ''reclaim: nico release'')
        (bindE (onNico (bindE (ca_sanitize A (nico_host_id n)) (wait_job A))) (\<lambda>job.
         thenE (advN nid N_sanitizing ''nvme erase / gpu+mem wipe / tpm reset / re-attest'')
         (if jb_state job = J_succeeded then
            thenE (onNico (ca_get_sanitize_report A (nico_host_id n)))
            (thenE (advN nid N_pool_ready ''sanitized ok: pool return'') (returnE False))
          else thenE (advN nid N_rma ''sanitize failed'') (returnE True))))))
      else returnE False)))"

datatype reclaim_outcome = Reclaimed | To_rma | Stuck

definition reclaim_node :: "'n compute_adapter \<Rightarrow> string \<Rightarrow> string \<Rightarrow> ('n, reclaim_outcome) wprog" where
  "reclaim_node A oid nid =
     bindE (tryE (reclaim_body A nid)) (\<lambda>r. case r of
       Inl d \<Rightarrow> thenE (onStore (note_node nid ''reclaim step failed''))
                (thenE (updN nid (\<lambda>n. n\<lparr>node_order_id := Some oid\<rparr>)) (returnE Stuck))
     | Inr rma \<Rightarrow> thenE (updN nid (\<lambda>n. n\<lparr>node_tenant_id := None, node_order_id := Some oid\<rparr>))
                       (returnE (if rma then To_rma else Reclaimed)))"

definition return_cp :: "'n compute_adapter \<Rightarrow> string \<Rightarrow> ('n, unit) wprog" where
  "return_cp A k =
     bindE (onStore (the_cpu k)) (\<lambda>c.
     thenE (catchE (bindE (onNico (ca_get_host A (cpu_host c))) (\<lambda>h.
              thenE (case nh_instance_id h of
                       Some iid \<Rightarrow> if iid \<noteq> [] then doE (onNico (bindE (ca_release A iid) (wait_job A))) else returnE ()
                     | None \<Rightarrow> returnE ())
                    (doE (onNico (bindE (ca_sanitize A (cpu_host c)) (wait_job A))))))
              (\<lambda>_ _. returnE ()))
           (onStore (upd_cpu k return_cpu)))"

definition teardown_cluster :: "'n compute_adapter \<Rightarrow> string \<Rightarrow> string \<Rightarrow> string \<Rightarrow> ('n, unit) wprog" where
  "teardown_cluster A tid aid cid =
     bindE (onStore (the_cluster cid)) (\<lambda>c.
     if kc_tenant_id c \<noteq> tid \<or> kc_state c \<notin> {''running'', ''installing''} \<or> kc_allocation_id c \<noteq> Some aid
     then returnE ()
     else
       thenE (onStore (upd_cluster cid (\<lambda>c. c\<lparr>kc_state := ''deleting''\<rparr>)))
       (thenE (updO (kc_order_id c) (\<lambda>x. x\<lparr>k8s_cluster_id := None\<rparr>))
       (bindE (getsS (\<lambda>s. filter (has_key (st_cpu_nodes s)) (kc_cp_node_ids c))) (\<lambda>ks.
        thenE (forE ks (return_cp A))
        (thenE (onStore (upd_cluster cid (\<lambda>c. c\<lparr>kc_state := ''deleted''\<rparr>)))
        (thenE (onStore (note_cluster cid ''deleted'' ''reclaim''))
               (onShared (audit ''neocloud-os'' ''k8s.cluster.delete'' cid ''success'' (Some tid)))))))))"

definition segment_of :: "nico_segment list \<Rightarrow> string \<Rightarrow> string \<Rightarrow> string option" where
  "segment_of segs aid tid =
     (let own = map_option sg_segment_id (List.find (\<lambda>g. sg_allocation_id g = Some aid) segs) in
      if truthy own then own
      else map_option sg_segment_id (List.find (\<lambda>g. sg_tenant_ref g = tid) segs))"

definition reclaim_allocation :: "'n compute_adapter \<Rightarrow> string \<Rightarrow> string \<Rightarrow> allocation \<Rightarrow> ('n, unit) wprog" where
  "reclaim_allocation A oid tid alloc =
     thenE (advO oid O_validated ''reclaiming allocation'')
     (bindE (getsS (\<lambda>s. concat (map (\<lambda>rid. filter (\<lambda>n. node_tenant_id n = Some tid) (nodes_of_rack s rid))
                                    (alloc_rack_ids alloc)))) (\<lambda>nodes.
      thenE (updO oid (\<lambda>x. x\<lparr>order_node_ids := map node_id nodes\<rparr>))
      (thenE (advO oid O_reclaiming ''nodes'')
      (bindE (catch_all (onNico (ca_list_segments A)) (onNico (ca_local_segments A))) (\<lambda>segs.
       bindE (getsS (\<lambda>s. map sa_id (filter (\<lambda>sa. sa_allocation_id sa = Some (alloc_id alloc) \<and> sa_state sa = ''active'')
                 (dict_values (st_storage_allocs s))))) (\<lambda>sids.
       thenE (teardown_storage_and_segment A sids (segment_of segs (alloc_id alloc) tid))
       (bindE (collectE (map node_id (sort_key node_id nodes)) (reclaim_node A oid)) (\<lambda>outs.
        bindE (getsS (\<lambda>s. map_option order_id (List.find (\<lambda>x. alloc_id alloc \<in> set (order_allocation_ids x))
                 (dict_values (st_orders s))))) (\<lambda>src.
        thenE (case src of None \<Rightarrow> returnE () | Some so \<Rightarrow>
                 if so = [] then returnE () else doE (onShared (revoke_order_credentials tid so)))
        (bindE (getsS (\<lambda>s. map fst (st_k8s_clusters s))) (\<lambda>cids.
         thenE (forE cids (teardown_cluster A tid (alloc_id alloc)))
         (thenE (onStore (delete_allocation (alloc_id alloc)))
         (thenE (onStore (sync_cpu_nodes tid None))
         (thenE (if To_rma \<in> set outs \<or> Stuck \<in> set outs
                 then updO oid (\<lambda>x. x\<lparr>order_error := Some ''reclaim incomplete''\<rparr>) else returnE ())
                (advO oid O_closed ''reclaim complete'')))))))))))))))"

definition new_terminate_order :: "string \<Rightarrow> order_create \<Rightarrow> int \<Rightarrow> service_order" where
  "new_terminate_order oid body t = (new_order oid body t)\<lparr>order_allocation_id := oc_allocation_id body,
     order_blueprint_key := None, order_racks := 0, approval_mode := False, storage_mode := ''auto'',
     storage_tb := 0, storage_gbps := 0, managed_k8s := False, k8s_version := ''''\<rparr>"

definition run_terminate_order :: "'n compute_adapter \<Rightarrow> order_create \<Rightarrow> ('n, service_order) wprog" where
  "run_terminate_order A body =
     bindE (onStore (next_seq ''order'')) (\<lambda>n.
     bindE (getsS now) (\<lambda>t.
     let oid = ''ord-'' @ dec n in
     thenE (onStore (put_order oid (new_terminate_order oid body t)))
     (bindE (getsS (\<lambda>s. map_of (st_allocations s) (str_or (oc_allocation_id body) ''''))) (\<lambda>a0.
      thenE (case a0 of
               None \<Rightarrow> reject_order oid ''allocation not found for tenant''
             | Some alloc \<Rightarrow> if alloc_tenant_id alloc \<noteq> oc_tenant_id body
                 then reject_order oid ''allocation not found for tenant''
                 else reclaim_allocation A oid (oc_tenant_id body) alloc)
            (orderW oid)))))"

section \<open>Routes\<close>

definition create_order :: "'n compute_adapter \<Rightarrow> order_create \<Rightarrow> ('n, service_order) wprog" where
  "create_order A body = (case oc_kind body of
     K_new \<Rightarrow> run_new_order A body
   | K_terminate \<Rightarrow> run_terminate_order A body
   | _ \<Rightarrow> raiseE (HTTPException 501 ''order kind not implemented''))"

record k8s_addon_body =
  kb_tenant_id :: string
  kb_allocation_id :: string
  kb_k8s_version :: string

definition check_addon :: "k8s_addon_body \<Rightarrow> service_order sprog" where
  "check_addon body =
     bindE (getsE (\<lambda>s. map_of (st_allocations s) (kb_allocation_id body))) (\<lambda>a0.
     thenE (raise_if (case a0 of None \<Rightarrow> True | Some a \<Rightarrow> alloc_tenant_id a \<noteq> kb_tenant_id body)
              (HTTPException 404 ''allocation not found for tenant''))
     (bindE (getsE (\<lambda>s. List.find (\<lambda>x. kb_allocation_id body \<in> set (order_allocation_ids x)) (dict_values (st_orders s)))) (\<lambda>src0.
      bindE (someE (HTTPException 409 ''order not delivered'') src0) (\<lambda>src.
      thenE (raise_if (order_state src \<noteq> O_delivered) (HTTPException 409 ''order not delivered''))
      (bindE (getsE (\<lambda>s. list_ex (\<lambda>c. kc_allocation_id c = map_option alloc_id a0 \<and> kc_state c \<in> {''installing'', ''running''})
                (dict_values (st_k8s_clusters s)))) (\<lambda>busy.
       thenE (raise_if busy (HTTPException 409 ''Managed K8s already installed''))
       (thenE (raise_if (kb_k8s_version body \<notin> set K8S_SUPPORTED_VERSIONS) (HTTPException 422 ''unsupported version''))
       (bindE (getsE (\<lambda>s. length (cpu_keys (\<lambda>c. cn_state c = ''pool_ready'') s))) (\<lambda>free_cpu.
        thenE (raise_if (free_cpu < K8S_CP_NODES_PER_CLUSTER) (HTTPException 409 ''insufficient CPU pool''))
              (returnE src))))))))))"

definition install_k8s_addon :: "'n compute_adapter \<Rightarrow> k8s_addon_body \<Rightarrow> ('n, service_order) wprog" where
  "install_k8s_addon A body =
     bindE (onStore (check_addon body)) (\<lambda>src.
     let oid = order_id src in
     thenE (updO oid (\<lambda>x. x\<lparr>managed_k8s := True, k8s_version := kb_k8s_version body\<rparr>))
     (thenE (catchE (install_k8s A oid) (\<lambda>_ d.
               thenE (updO oid (\<lambda>x. x\<lparr>managed_k8s := False, k8s_version := ''''\<rparr>))
               (thenE (advO oid O_delivered ''k8s add-on rolled back'')
                      (raiseE (HTTPException 502 ''k8s add-on install failed'')))))
     (thenE (advO oid O_delivered ''Managed K8s add-on installed'')
     (bindE (orderW oid) (\<lambda>x.
      bindE (getsS (\<lambda>s. map_of (st_k8s_clusters s) (str_or (k8s_cluster_id x) ''''))) (\<lambda>cl.
      thenE (updO oid (\<lambda>x. x\<lparr>order_access_package := (case (order_access_package x, cl) of
                (Some p, Some c) \<Rightarrow> Some (p\<lparr>ap_managed_k8s := Some (k8s_access_entry c)\<rparr>)
              | (p, _) \<Rightarrow> p)\<rparr>))
            (orderW oid)))))))"

end
