(* ===== verification/Reconcile.thy ===== *)
theory Reconcile
  imports Orders
begin

text \<open>
  \<open>reconcile\<close> of \<open>app/lifecycle.py\<close>: the node mirror against the controller's fleet. A node without a
  host is an orphan, a host without a node is a ghost, and a pair of states outside the mirror table
  is a mismatch.
\<close>

fun MIRROR :: "NicoHostState \<Rightarrow> NodeLifecycleState list" where
  "MIRROR H_discovered = [N_discovered, N_validating]"
| "MIRROR H_quarantined = [N_quarantined, N_rma]"
| "MIRROR H_pool_ready = [N_pool_ready, N_discovered, N_validating]"
| "MIRROR H_reserved = [N_reserved]"
| "MIRROR H_provisioning = [N_provisioning]"
| "MIRROR H_provisioned = [N_provisioning]"
| "MIRROR H_allocated = [N_allocated, N_in_service, N_cordoned, N_draining]"
| "MIRROR H_released = [N_releasing]"
| "MIRROR H_sanitizing = [N_sanitizing]"
| "MIRROR H_rma = [N_rma]"

record recon =
  rc_hosts :: "nico_host dict"
  rc_orphans :: nat
  rc_mismatches :: nat
  rc_findings :: "reconcile_finding list"

definition hosts_by_id :: "nico_host list \<Rightarrow> nico_host dict" where
  "hosts_by_id hs = fold (\<lambda>h d. AList.update (nh_host_id h) h d) hs []"

definition drop_cpu_hosts :: "store \<Rightarrow> nico_host dict \<Rightarrow> nico_host dict" where
  "drop_cpu_hosts s d = fold (\<lambda>c d. case cn_nico_host_id c of None \<Rightarrow> d
     | Some h \<Rightarrow> if h = [] then d else AList.delete h d) (dict_values (st_cpu_nodes s)) d"

definition mk_finding :: "finding_kind \<Rightarrow> finding_severity \<Rightarrow> string \<Rightarrow> string \<Rightarrow> reconcile_finding" where
  "mk_finding k sv nid hid = \<lparr>rf_kind = k, rf_severity = sv, rf_node_id = Some nid, rf_nico_host_id = Some hid\<rparr>"

definition reconcile_orphan :: "string \<Rightarrow> node_instance \<Rightarrow> unit sprog" where
  "reconcile_orphan nid n =
     (if node_state n \<noteq> N_rma \<and> node_state n \<noteq> N_cordoned then
        (if N_cordoned \<in> set (NODE_TRANSITIONS (node_state n))
         then advance_node nid N_cordoned ''reconcile: host vanished from NICo''
         else note_node nid ''reconcile: ORPHAN (host vanished from NICo)'')
      else returnE ())"

definition mismatch_severity :: "node_instance \<Rightarrow> nico_host \<Rightarrow> finding_severity" where
  "mismatch_severity n h = (if node_state n = N_in_service \<and> nh_state h \<in> {H_pool_ready, H_released}
     then Sev_critical else Sev_major)"

fun reconcile_nodes :: "string list \<Rightarrow> recon \<Rightarrow> recon sprog" where
  "reconcile_nodes [] r = returnE r"
| "reconcile_nodes (nid # nids) r =
     bindE (the_node nid) (\<lambda>n. case map_of (rc_hosts r) (nico_host_id n) of
       None \<Rightarrow> thenE (reconcile_orphan nid n)
          (reconcile_nodes nids (r\<lparr>rc_orphans := rc_orphans r + 1,
             rc_findings := rc_findings r @ [mk_finding ORPHAN Sev_critical (node_id n) (nico_host_id n)]\<rparr>))
     | Some h \<Rightarrow>
         (let r' = r\<lparr>rc_hosts := AList.delete (nico_host_id n) (rc_hosts r)\<rparr> in
          reconcile_nodes nids
            (if node_state n \<notin> set (MIRROR (nh_state h))
             then r'\<lparr>rc_mismatches := rc_mismatches r + 1,
                     rc_findings := rc_findings r @ [mk_finding STATE_MISMATCH (mismatch_severity n h) (node_id n) (nh_host_id h)]\<rparr>
             else r')))"

definition ghost_node :: "string \<Rightarrow> nico_host \<Rightarrow> store \<Rightarrow> node_instance" where
  "ghost_node nid h s =
     (let r = Option.bind (map_of (st_trays s) (nh_tray_id h)) (\<lambda>t. map_of (st_racks s) (tray_rack_id t)) in
      \<lparr>node_id = nid, node_tray_id = nh_tray_id h,
       node_rack_id = (case r of None \<Rightarrow> '''' | Some r \<Rightarrow> rack_id r),
       node_su_id = (case r of None \<Rightarrow> '''' | Some r \<Rightarrow> rack_su_id r),
       node_blueprint_key = nh_sku h, nico_host_id = nh_host_id h, nico_instance_id = None,
       node_tenant_id = None, node_order_id = None, node_state = N_discovered,
       node_history = [event (node_state_value N_discovered) ''reconcile: registered from NICo (GHOST)'' (now s)]\<rparr>)"

definition ghost_id :: "nico_host \<Rightarrow> string" where
  "ghost_id h = ''ni-'' @ (if nh_tray_id h \<noteq> [] then nh_tray_id h else nh_host_id h)"

definition register_ghost :: "nico_host \<Rightarrow> unit sprog" where
  "register_ghost h = modifyE (\<lambda>s. if has_key (st_node_instances s) (ghost_id h) then s
     else s\<lparr>st_node_instances := AList.update (ghost_id h) (ghost_node (ghost_id h) h s) (st_node_instances s)\<rparr>)"

definition reconcile :: "'n compute_adapter \<Rightarrow> ('n, reconcile_report) wprog" where
  "reconcile A =
     bindE (onNico (ca_list_hosts A)) (\<lambda>hs.
     bindE (getsS (\<lambda>s. drop_cpu_hosts s (hosts_by_id hs))) (\<lambda>hosts.
     bindE (getsS (\<lambda>s. map fst (st_node_instances s))) (\<lambda>nids.
     bindE (onStore (reconcile_nodes nids \<lparr>rc_hosts = hosts, rc_orphans = 0, rc_mismatches = 0,
              rc_findings = []\<rparr>)) (\<lambda>r.
     let left = dict_values (rc_hosts r);
         fs = rc_findings r @ map (\<lambda>h. mk_finding GHOST Sev_info (ghost_id h) (nh_host_id h)) left in
     thenE (forE left (\<lambda>h. onStore (register_ghost h)))
     (getsS (\<lambda>s. \<lparr>checked_nodes = length (st_node_instances s), checked_hosts = length (hosts_by_id hs),
        ghosts_registered = length left, orphans_cordoned = rc_orphans r, rr_mismatches = rc_mismatches r,
        rr_ok = (\<not> list_ex (\<lambda>f. rf_severity f = Sev_critical) fs), rr_findings = fs\<rparr>))))))"

end
