(* ===== verification/Pipeline_Safe.thy ===== *)
theory Pipeline_Safe
  imports Reconcile
begin

text \<open>
  Every operation of the pipeline keeps the tenancy and lifecycle invariants, whatever the compute
  adapter answers: the proofs never look at the adapter.
\<close>

section \<open>Tenancy operations and the lifecycle invariant\<close>

lemma keeps_set_rack_binding_life: "keeps life_inv (set_rack_binding who hw m rid)"
  by (rule keepsI) (auto simp: set_rack_binding_def split: option.splits intro: life_inv_cong)

lemma keeps_modify_life:
  "(\<And>s. st_node_instances (f s) = st_node_instances s \<and> st_orders (f s) = st_orders s) \<Longrightarrow> keeps life_inv (modifyE f)"
  by (auto intro!: keeps_modifyE intro: life_inv_cong)

lemma keeps_next_seq_life: "keeps life_inv (next_seq nm)"
  by (rule keepsI) (auto simp: next_seq_run intro: life_inv_cong)

lemma keeps_resolve_racks [keeps_rules]: "keeps I (resolve_racks body su)"
  by (rule keepsI) (simp add: resolve_racks_pure)

lemma keeps_check_free [keeps_rules]: "keeps I (check_free rids)"
  by (rule keepsI) (simp add: check_free_run)

lemma keeps_check_dedicated [keeps_rules]: "keeps I (check_dedicated t su rids)"
  by (rule keepsI) (simp add: check_dedicated_run)

lemma create_allocation_life: "keeps life_inv (create_allocation body)"
  unfolding create_allocation_def bind_rack_def
  by (intro keeps_rules keeps_next_seq_life keeps_set_rack_binding_life keeps_modify_life) simp

lemma delete_allocation_life: "keeps life_inv (delete_allocation aid)"
  unfolding delete_allocation_def release_rack_def drop_partitions_def
  by (intro keeps_rules keeps_set_rack_binding_life keeps_modify_life) simp_all

lemma create_partition_life: "keeps life_inv (create_partition body)"
  unfolding create_partition_def by (intro keeps_rules keeps_modify_life) simp

lemmas tenancy_safe [keeps_rules] =
  keeps_safe [OF create_allocation_keeps create_allocation_life]
  keeps_safe [OF delete_allocation_keeps delete_allocation_life]
  keeps_safe [OF create_partition_keeps create_partition_life]

lemma keeps_isolation_report [keeps_rules]: "keeps I (isolation_report tid)"
  unfolding isolation_report_def by (intro keeps_rules)

section \<open>Lifting to the world\<close>

abbreviation safeW :: "'n world \<Rightarrow> bool" where
  "safeW w \<equiv> safe (w_store w)"

lemma keeps_onStore_safe [keeps_rules]: "keeps safe m \<Longrightarrow> keeps safeW (onStore m)"
  by (rule keeps_onStore)

lemma keeps_onNico_safe [keeps_rules]: "keeps safeW (onNico m)"
  by (rule keeps_onNico)

lemma keeps_onVast_safe [keeps_rules]: "keeps safeW (onVast m)"
  by (rule keeps_onVast)

lemma keeps_onShared_safe [keeps_rules]: "keeps safeW (onShared m)"
  by (rule keeps_onShared)

text \<open>A write outside what the invariants read.\<close>

definition side_write :: "(store \<Rightarrow> store) \<Rightarrow> bool" where
  "side_write f \<longleftrightarrow> (\<forall>s. st_racks (f s) = st_racks s \<and> st_sus (f s) = st_sus s \<and> st_tenants (f s) = st_tenants s
     \<and> st_allocations (f s) = st_allocations s \<and> st_partitions (f s) = st_partitions s
     \<and> st_netiso (f s) = st_netiso s \<and> st_counters (f s) = st_counters s
     \<and> st_node_instances (f s) = st_node_instances s \<and> st_orders (f s) = st_orders s)"

lemma safe_side_write: "side_write f \<Longrightarrow> safe s \<Longrightarrow> safe (f s)"
  by (rule safe_cong [of _ s]) (auto simp: side_write_def seq_of_def)

lemma keeps_side_write: "side_write f \<Longrightarrow> keeps safe (modifyE f)"
  by (rule keeps_modifyE) (rule safe_side_write)

lemma keeps_side_writeS: "side_write f \<Longrightarrow> keeps safeW (modifyS f)"
  by (rule keeps_modifyS) (rule safe_side_write)

lemma keeps_next_seq [keeps_rules]: "keeps safe (next_seq nm)"
proof (rule keepsI)
  fix s
  assume "safe s"
  then show "safe (snd (next_seq nm s))"
    by (rule safe_cong [rotated -1]) (auto simp: next_seq_run seq_of_def)
qed

lemma keeps_upd_storage [keeps_rules]: "keeps safe (upd_storage sid f)"
  unfolding upd_storage_def by (rule keeps_side_write) (simp add: side_write_def)

lemma keeps_upd_cluster [keeps_rules]: "keeps safe (upd_cluster cid f)"
  unfolding upd_cluster_def by (rule keeps_side_write) (simp add: side_write_def)

lemma keeps_upd_install [keeps_rules]: "keeps safe (upd_install iid f)"
  unfolding upd_install_def by (rule keeps_side_write) (simp add: side_write_def)

section \<open>Reads\<close>

lemma keeps_reads [keeps_rules]:
  "keeps I (the_tenant tid)" "keeps I (the_netiso tid)" "keeps I (the_cpu k)" "keeps I (the_cluster cid)"
  "keeps I (order_or_404 oid)" "keeps I (pending_or_409 ord)"
  unfolding the_tenant_def the_netiso_def the_cpu_def the_cluster_def order_or_404_def
    pending_or_409_def
  by (intro keeps_rules)+

lemma keeps_trailing_index [keeps_rules]: "keeps I (trailing_index x)"
  unfolding trailing_index_def by (intro keeps_rules)

lemma keeps_nodes_for_racks [keeps_rules]: "keeps I (nodes_for_racks rs)"
  by (induction rs) (simp only: nodes_for_racks.simps, (intro keeps_rules | assumption)+)+

lemma keeps_check_addon [keeps_rules]: "keeps I (check_addon body)"
  unfolding check_addon_def by (intro keeps_rules)

section \<open>The saga\<close>

text \<open>
  Attribute writes of the pipeline: each is discharged by unfolding what an attribute write is.
\<close>

lemma keeps_updN: "node_attr f \<Longrightarrow> keeps safeW (updN nid f)"
  by (intro keeps_rules keeps_upd_node)

lemma keeps_updO: "order_attr f \<Longrightarrow> keeps safeW (updO oid f)"
  by (intro keeps_rules keeps_upd_order)

lemma order_attr_last_detail [simp]: "order_attr (set_last_detail d)"
  by (auto simp: order_attr_def set_last_detail_def)
     (metis append_butlast_last_id list.simps(8,9) map_append)

lemmas attr_defs = node_attr_def order_attr_def

lemma keeps_grant_cpu [keeps_rules]: "keeps safe (grant_cpu tid seg k)"
  unfolding grant_cpu_def by (intro keeps_rules)

lemma keeps_sync_cpu_nodes [keeps_rules]: "keeps safe (sync_cpu_nodes tid seg)"
  unfolding sync_cpu_nodes_def by (intro keeps_rules)

lemma keeps_teardown [keeps_rules]: "keeps safeW (teardown_storage_and_segment A sids seg)"
  unfolding teardown_storage_and_segment_def reclaim_view_def by (intro keeps_rules)

lemma keeps_rollback_node [keeps_rules]: "keeps safeW (rollback_node A nid)"
  unfolding rollback_node_def by (intro keeps_rules keeps_updN) (simp add: attr_defs)

lemma keeps_compensate_node [keeps_rules]: "keeps safeW (compensate_node A nid)"
  unfolding compensate_node_def escalate_node_def by (intro keeps_rules keeps_updN) (simp add: attr_defs)

lemma keeps_compensate [keeps_rules]: "keeps safeW (compensate A oid nids reason)"
  unfolding compensate_def drop_allocation_def
  by (intro keeps_rules keeps_updO) (simp_all add: attr_defs)

lemma keeps_reject_order [keeps_rules]: "keeps safeW (reject_order oid d)"
  unfolding reject_order_def by (intro keeps_rules keeps_updO) (simp add: attr_defs)

lemma keeps_stage_validated [keeps_rules]: "keeps safeW (stage_validated oid)"
  unfolding stage_validated_def place_order_def by (intro keeps_rules keeps_updO) (simp add: attr_defs)

lemma keeps_reserve_loop [keeps_rules]: "keeps safeW (reserve_loop A oid ns done)"
proof (induction ns arbitrary: "done")
  case Nil
  show ?case unfolding reserve_loop.simps by (intro keeps_rules)
next
  case (Cons n ns)
  show ?case unfolding reserve_loop.simps
    by (intro keeps_rules keeps_updN Cons.IH) (simp add: attr_defs)
qed

lemma keeps_stage_reserved [keeps_rules]: "keeps safeW (stage_reserved A oid)"
  unfolding stage_reserved_def by (intro keeps_rules)

lemma keeps_provision_loop [keeps_rules]: "keeps safeW (provision_loop A oid tid all ns)"
proof (induction ns)
  case Nil
  show ?case unfolding provision_loop.simps by (intro keeps_rules)
next
  case (Cons n ns)
  show ?case unfolding provision_loop.simps
    by (intro keeps_rules keeps_updN Cons.IH) (simp add: attr_defs)
qed

lemma keeps_stage_provisioning [keeps_rules]: "keeps safeW (stage_provisioning A oid)"
  unfolding stage_provisioning_def by (intro keeps_rules)

text \<open>Isolation: the allocation, the P_Key, the segment and the partitions.\<close>

lemma safe_set_pkey:
  assumes "safe s"
  shows "safe (s\<lparr>st_netiso := dict_mod tid (\<lambda>n. n\<lparr>ib_pkey := Some p\<rparr>) (st_netiso s)\<rparr>)" (is "safe ?s'")
proof -
  from assms have inv: "tenancy_inv s" and life: "life_inv s" by (simp_all add: safe_def)
  have lk: "map_of (st_netiso ?s') k = Some ni \<longleftrightarrow> (\<exists>n. map_of (st_netiso s) k = Some n \<and>
      ni = (if k = tid then n\<lparr>ib_pkey := Some p\<rparr> else n))" for k ni
    by auto
  have vn: "vnis (n\<lparr>ib_pkey := Some p\<rparr>) = vnis n" for n by (simp add: vnis_def)
  have net: "net_ok s" using inv by (simp add: tenancy_inv_def)
  have "k = l" if "map_of (st_netiso ?s') k = Some ni" "map_of (st_netiso ?s') l = Some nj"
      "v \<in> set (vnis ni)" "v \<in> set (vnis nj)" for k l ni nj v
  proof -
    from that obtain n m where "map_of (st_netiso s) k = Some n" "map_of (st_netiso s) l = Some m"
        "v \<in> set (vnis n)" "v \<in> set (vnis m)"
      unfolding lk by (auto simp: vn split: if_splits)
    with net show ?thesis unfolding net_ok_def by blast
  qed
  moreover have "has_key (st_tenants ?s') k \<and> ni_tenant_id ni = k
      \<and> (\<exists>sl. k = ''tnt-'' @ sl \<and> ni_vrf ni = ''VRF-'' @ sl)
      \<and> in_pool Compute (compute_l3vni ni) \<and> in_pool Converged (converged_vni ni) \<and> in_pool Oob (oob_vni ni)"
    if "map_of (st_netiso ?s') k = Some ni" for k ni
  proof -
    from that obtain n where n: "map_of (st_netiso s) k = Some n" "ni = (if k = tid then n\<lparr>ib_pkey := Some p\<rparr> else n)"
      unfolding lk by blast
    from net n(1) have "has_key (st_tenants s) k \<and> ni_tenant_id n = k \<and> (\<exists>sl. k = ''tnt-'' @ sl \<and> ni_vrf n = ''VRF-'' @ sl)
        \<and> in_pool Compute (compute_l3vni n) \<and> in_pool Converged (converged_vni n) \<and> in_pool Oob (oob_vni n)"
      unfolding net_ok_def by blast
    with n(2) show ?thesis by (cases "k = tid") simp_all
  qed
  moreover have "dict_wf (st_netiso ?s')" using net by (simp add: net_ok_def)
  ultimately have "net_ok ?s'" unfolding net_ok_def by blast
  moreover have "topo_ok ?s'" "alloc_ok ?s'" "part_ok ?s'"
    using inv by (simp_all add: tenancy_inv_def topo_ok_def alloc_ok_def part_ok_def seq_of_def partitions_of_rack_def)
  moreover have "life_inv ?s'" using life by (rule life_inv_cong [rotated -1]) simp_all
  ultimately show ?thesis by (simp add: safe_def tenancy_inv_def)
qed

lemma keeps_tenant_pkey [keeps_rules]: "keeps safe (tenant_pkey tid)"
  unfolding tenant_pkey_def by (intro keeps_rules keeps_modifyE safe_set_pkey)

lemma keeps_first_allocation [keeps_rules]: "keeps safeW (first_allocation oid)"
  unfolding first_allocation_def by (intro keeps_rules)

lemma keeps_isolate_body [keeps_rules]: "keeps safeW (isolate_body A oid tid nids racks)"
  unfolding isolate_body_def isolate_su_def
  by (intro keeps_rules keeps_updO) (simp_all add: attr_defs order_attr_last_detail [unfolded order_attr_def])

lemma keeps_stage_isolating [keeps_rules]: "keeps safeW (stage_isolating A oid)"
  unfolding stage_isolating_def by (intro keeps_rules)

lemma keeps_stage_storage_binding [keeps_rules]: "keeps safeW (stage_storage_binding A oid)"
  unfolding stage_storage_binding_def bind_storage_def
  by (intro keeps_rules keeps_updO keeps_side_writeS) (simp_all add: attr_defs side_write_def)

lemma keeps_stage_acceptance [keeps_rules]: "keeps safeW (stage_acceptance A oid)"
  unfolding stage_acceptance_def issue_credentials_def by (intro keeps_rules)

lemma keeps_stage_delivered [keeps_rules]: "keeps safeW (stage_delivered oid)"
  unfolding stage_delivered_def build_access_package_def
  by (intro keeps_rules keeps_updO) (simp add: attr_defs)

section \<open>Managed Kubernetes\<close>

abbreviation safeK :: "'n world \<times> k8s_ctx \<Rightarrow> bool" where
  "safeK p \<equiv> safe (w_store (fst p))"

lemma keeps_inW [keeps_rules]: "keeps safeW m \<Longrightarrow> keeps safeK (inW m)"
  by (simp add: keeps_def inW_def)

lemma keeps_modifyC [keeps_rules]: "keeps safeK (modifyC f)"
  by (simp add: keeps_def)

lemma keeps_rollback_k8s_cp [keeps_rules]: "keeps safeW (rollback_k8s_cp A oid)"
  unfolding rollback_k8s_cp_def by (intro keeps_rules)

lemma keeps_begin_k8s_install [keeps_rules]: "keeps safe (begin_k8s_install oid)"
  unfolding begin_k8s_install_def by (intro keeps_rules keeps_side_write) (simp add: side_write_def)

lemma keeps_k8s_mark [keeps_rules]: "keeps safe (k8s_mark iid cl nm st)"
  unfolding k8s_mark_def by (intro keeps_rules)

lemma keeps_note_cluster [keeps_rules]: "keeps safe (note_cluster cid st d)"
  unfolding note_cluster_def by (intro keeps_rules)

lemma keeps_or_rollback [keeps_rules]: "keeps safeK m \<Longrightarrow> keeps safeK (or_rollback A m)"
  unfolding or_rollback_def by (intro keeps_rules)

lemma keeps_on_cluster [keeps_rules]: "(\<And>cid c. keeps safeW (f cid c)) \<Longrightarrow> keeps safeK (on_cluster f)"
  unfolding on_cluster_def by (intro keeps_rules)

lemma keeps_cp_reserve: "keeps safeK (k8s_st_cp_reserve A)"
  unfolding k8s_st_cp_reserve_def reserve_cp_def
  by (intro keeps_rules keeps_updO keeps_side_writeS) (simp_all add: attr_defs side_write_def)

lemma keeps_os_provision: "keeps safeK (k8s_st_os_provision A)"
  unfolding k8s_st_os_provision_def provision_cp_def by (intro keeps_rules)

lemma keeps_net_attach: "keeps safeK (k8s_st_net_attach A)"
  unfolding k8s_st_net_attach_def by (intro keeps_rules)

lemma keeps_late_stages:
  "keeps safeK k8s_st_nkd_bootstrap" "keeps safeK k8s_st_addons" "keeps safeK k8s_st_acceptance"
  "keeps safeK k8s_st_telemetry" "keeps safeK k8s_st_active"
  unfolding k8s_st_nkd_bootstrap_def k8s_st_addons_def k8s_st_acceptance_def k8s_st_telemetry_def k8s_st_active_def
  by (intro keeps_rules keeps_updO order_attr_last_detail)+

lemma keeps_run_k8s_stage: "keeps safeK (snd nf) \<Longrightarrow> keeps safeK (run_k8s_stage nf)"
  unfolding run_k8s_stage_def fail_stage_def by (intro keeps_rules)

lemma keeps_K8S_STAGE_FNS: "f \<in> set (K8S_STAGE_FNS A) \<Longrightarrow> keeps safeK f"
  unfolding K8S_STAGE_FNS_def
  by (auto intro: keeps_cp_reserve keeps_os_provision keeps_net_attach keeps_late_stages)

lemma keeps_run_k8s_install [keeps_rules]: "keeps safeW (run_k8s_install A oid iid)"
proof -
  have loop: "keeps safeK (forE (zip K8S_INSTALL_STAGES (K8S_STAGE_FNS A)) run_k8s_stage)"
    by (intro keeps_forE keeps_run_k8s_stage keeps_K8S_STAGE_FNS) (auto dest: set_zip_rightD)
  have "keeps safeW (\<lambda>w. let (r, p) = forE (zip K8S_INSTALL_STAGES (K8S_STAGE_FNS A)) run_k8s_stage (w, ctx) in (r, fst p))" for ctx
    by (rule keepsI) (auto dest: keepsD_eq [OF loop] split: prod.splits)
  then show ?thesis unfolding run_k8s_install_def Let_def by (intro keeps_rules)
qed

lemma keeps_install_k8s [keeps_rules]: "keeps safeW (install_k8s A oid)"
  unfolding install_k8s_def by (intro keeps_rules)

lemma keeps_stage_k8s_install [keeps_rules]: "keeps safeW (stage_k8s_install A oid)"
  unfolding stage_k8s_install_def by (intro keeps_rules)

section \<open>Orders\<close>

lemma keeps_stage_fn [keeps_rules]: "keeps safeW (stage_fn A st oid)"
  by (cases st) (simp_all only: stage_fn.simps, (intro keeps_rules)+)

lemma keeps_run_stages [keeps_rules]: "keeps safeW (run_stages A oid sts)"
  by (induction sts) (simp only: run_stages.simps, (intro keeps_rules | assumption)+)+

lemma safe_put_order:
  assumes "safe s" "order_id x = oid" "order_tracked x"
  shows "safe (s\<lparr>st_orders := AList.update oid x (st_orders s)\<rparr>)"
proof -
  have "tenancy_inv (s\<lparr>st_orders := AList.update oid x (st_orders s)\<rparr>)"
    using assms(1) by (auto simp: safe_def seq_of_def intro: tenancy_inv_cong [of _ s])
  with assms show ?thesis by (auto simp: safe_def life_inv_def)
qed

lemma keeps_put_order: "order_id x = oid \<Longrightarrow> order_tracked x \<Longrightarrow> keeps safe (put_order oid x)"
  unfolding put_order_def by (intro keeps_modifyE safe_put_order)

lemma new_order_ok [simp]: "order_id (new_order oid body t) = oid" "order_tracked (new_order oid body t)"
  by (auto simp: new_order_def intro!: order_tracked_rules(4))

lemma new_terminate_order_ok [simp]:
  "order_id (new_terminate_order oid body t) = oid" "order_tracked (new_terminate_order oid body t)"
  by (auto simp: new_terminate_order_def new_order_def intro!: order_tracked_rules(4))

lemma keeps_run_new_order [keeps_rules]: "keeps safeW (run_new_order A body)"
  unfolding run_new_order_def
  by (intro keeps_rules keeps_put_order keeps_updO) (simp_all add: attr_defs)

lemma keeps_approve_next_stage: "keeps safeW (approve_next_stage A oid)"
  unfolding approve_next_stage_def by (intro keeps_rules keeps_updO) (simp_all add: attr_defs)

lemma keeps_reject_fulfillment: "keeps safeW (reject_fulfillment A oid reason)"
  unfolding reject_fulfillment_def by (intro keeps_rules keeps_updO) (simp_all add: attr_defs)

lemma keeps_reclaim_node [keeps_rules]: "keeps safeW (reclaim_node A oid nid)"
  unfolding reclaim_node_def reclaim_body_def by (intro keeps_rules keeps_updN) (simp_all add: attr_defs)

lemma keeps_teardown_cluster [keeps_rules]: "keeps safeW (teardown_cluster A tid aid cid)"
  unfolding teardown_cluster_def return_cp_def by (intro keeps_rules keeps_updO) (simp add: attr_defs)

lemma keeps_reclaim_allocation [keeps_rules]: "keeps safeW (reclaim_allocation A oid tid alloc)"
  unfolding reclaim_allocation_def by (intro keeps_rules keeps_updO) (simp_all add: attr_defs)

lemma keeps_run_terminate_order [keeps_rules]: "keeps safeW (run_terminate_order A body)"
  unfolding run_terminate_order_def by (intro keeps_rules keeps_put_order) simp_all

lemma keeps_create_order: "keeps safeW (create_order A body)"
  unfolding create_order_def by (cases "oc_kind body") (simp_all only: OrderKind.case, (intro keeps_rules)+)

lemma keeps_install_k8s_addon: "keeps safeW (install_k8s_addon A body)"
  unfolding install_k8s_addon_def by (intro keeps_rules keeps_updO) (simp_all add: attr_defs)

section \<open>Bootstrap and reconcile\<close>

lemma safe_put_node:
  assumes "safe s" "node_id n = nid" "node_tracked n"
  shows "safe (s\<lparr>st_node_instances := AList.update nid n (st_node_instances s)\<rparr>)"
proof -
  have "tenancy_inv (s\<lparr>st_node_instances := AList.update nid n (st_node_instances s)\<rparr>)"
    using assms(1) by (auto simp: safe_def seq_of_def intro: tenancy_inv_cong [of _ s])
  with assms show ?thesis by (auto simp: safe_def life_inv_def)
qed

lemma new_node_ok [simp]: "node_id (new_node nid tr r hid t) = nid" "node_tracked (new_node nid tr r hid t)"
  by (auto simp: new_node_def intro!: node_tracked_rules(4))

lemma ghost_node_ok [simp]: "node_id (ghost_node nid h s) = nid" "node_tracked (ghost_node nid h s)"
  by (auto simp: ghost_node_def Let_def intro!: node_tracked_rules(4))

lemma keeps_bootstrap_hosts [keeps_rules]: "keeps safe (bootstrap_hosts hs created)"
proof (induction hs arbitrary: created)
  case Nil
  show ?case unfolding bootstrap_hosts.simps by (intro keeps_rules)
next
  case (Cons h hs)
  show ?case unfolding bootstrap_hosts.simps
    by (intro keeps_rules keeps_modifyE safe_put_node Cons.IH) simp_all
qed

lemma keeps_bootstrap_nodes: "keeps safeW (bootstrap_nodes A)"
  unfolding bootstrap_nodes_def by (intro keeps_rules)

lemma keeps_reconcile_nodes [keeps_rules]: "keeps safe (reconcile_nodes nids r)"
proof (induction nids arbitrary: r)
  case Nil
  show ?case unfolding reconcile_nodes.simps by (intro keeps_rules)
next
  case (Cons nid nids)
  show ?case unfolding reconcile_nodes.simps reconcile_orphan_def by (intro keeps_rules Cons.IH)
qed

lemma keeps_register_ghost [keeps_rules]: "keeps safe (register_ghost h)"
  unfolding register_ghost_def by (rule keeps_modifyE) (auto intro: safe_put_node)

lemma keeps_reconcile: "keeps safeW (reconcile A)"
  unfolding reconcile_def by (intro keeps_rules)

section \<open>Tenant registration\<close>

lemma create_tenant_life: "keeps (\<lambda>w. life_inv (w_store w)) (create_tenant body)"
proof -
  have pure: "keeps life_inv (alloc_vni f)" for f
    by (rule keepsI) (auto simp: alloc_vni_run split: option.splits)
  have upd: "keeps (\<lambda>w. life_inv (w_store w)) (modifyS f)"
    if "\<And>s. st_node_instances (f s) = st_node_instances s \<and> st_orders (f s) = st_orders s" for f
    using that by (auto intro!: keeps_modifyS intro: life_inv_cong)
  show ?thesis
    unfolding create_tenant_def by (intro keeps_rules keeps_onStore pure upd keeps_onShared) simp_all
qed

lemma keeps_create_tenant: "keeps safeW (create_tenant body)"
  by (rule keepsI) (simp add: safe_def keepsD [OF create_tenant_keeps] keepsD [OF create_tenant_life])

end
