(* ===== verification/Inventory.thy ===== *)
theory Inventory
  imports Pipeline_Safe
begin

text \<open>
  \<open>app/seed.py\<close> and the state-changing routes of \<open>app/topology.py\<close>: expansion of a blueprint into a
  scalable unit, the Phase 1 seed, provisioning of further units, equipment states and power policy.
  Site and floor names, Korean in the source, are transliterated.
\<close>

section \<open>Provisioning a scalable unit\<close>

definition pad :: "nat \<Rightarrow> string" where
  "pad n = zfill 2 (dec n)"

definition gpu_ids_of :: "rack_blueprint \<Rightarrow> string \<Rightarrow> string list" where
  "gpu_ids_of bp tid = map (\<lambda>g. tid @ ''-gpu-'' @ dec g) [0..<gpu_per_tray bp]"

definition cpu_ids_of :: "rack_blueprint \<Rightarrow> string \<Rightarrow> string list" where
  "cpu_ids_of bp tid = map (\<lambda>c. tid @ ''-cpu-'' @ dec c) [0..<cpu_per_tray bp]"

definition provision_tray :: "rack_blueprint \<Rightarrow> string \<Rightarrow> nat \<Rightarrow> store \<Rightarrow> store" where
  "provision_tray bp rid t s =
     (let tid = rid @ ''-tray-'' @ pad t; did = tid @ ''-dpu'' in
      s\<lparr>st_gpus := fold (\<lambda>g. AList.update (tid @ ''-gpu-'' @ dec g)
            \<lparr>gpu_id = tid @ ''-gpu-'' @ dec g, gpu_tray_id = tid, gpu_index = g, gpu_arch = bp_gpu_arch bp,
             hbm_gb = gpu_hbm_gb bp, hbm_type = gpu_hbm_type bp, dies = gpu_dies bp, gpu_state = Hw_ready,
             gpu_tenant_id = None\<rparr>) [0..<gpu_per_tray bp] (st_gpus s),
        st_cpus := fold (\<lambda>c. AList.update (tid @ ''-cpu-'' @ dec c)
            \<lparr>cpu_id = tid @ ''-cpu-'' @ dec c, cpu_tray_id = tid, cpu_index = c, cpu_arch = bp_cpu_arch bp,
             cores = cpu_cores bp, mem_tb = cpu_mem_tb bp\<rparr>) [0..<cpu_per_tray bp] (st_cpus s),
        st_dpus := (if dpu_per_tray bp = 0 then st_dpus s else AList.update did
            \<lparr>dpu_id = did, dpu_tray_id = tid, dpu_sku = bp_dpu_sku bp, bandwidth_gbps = dpu_bw_gbps bp,
             dpu_mode = Dpu_dpu, dpu_tenant_id = None\<rparr> (st_dpus s)),
        st_trays := AList.update tid
            \<lparr>tray_id = tid, tray_rack_id = rid, tray_index = t, tray_gpu_ids = gpu_ids_of bp tid,
             tray_cpu_ids = cpu_ids_of bp tid, tray_dpu_id = (if dpu_per_tray bp = 0 then None else Some did),
             connectx_supernics = connectx_supernics_per_tray bp, tray_state = Hw_ready,
             tray_tenant_id = None\<rparr> (st_trays s)\<rparr>)"

definition rack_key :: "nat \<Rightarrow> nat \<Rightarrow> string" where
  "rack_key i r = ''su-'' @ dec i @ ''-rack-'' @ pad r"

definition new_rack :: "rack_blueprint \<Rightarrow> nat \<Rightarrow> nat \<Rightarrow> nat \<Rightarrow> rack" where
  "new_rack bp i cap r =
     \<lparr>rack_id = rack_key i r, rack_su_id = ''su-'' @ dec i, rack_index = r, rack_blueprint_key = bp_key bp,
      rack_model = bp_model bp, rack_generation = mgx_generation bp, rack_gpu_arch = bp_gpu_arch bp,
      rack_hac_id = ''su-'' @ dec i @ ''-hac'', tdp_kw = rack_tdp_kw bp, power_cap_kw = cap,
      rack_cooling = bp_cooling bp,
      rack_tray_ids = map (\<lambda>t. rack_key i r @ ''-tray-'' @ pad t) [0..<compute_trays bp],
      nvlink_switch_tray_ids = map (\<lambda>n. rack_key i r @ ''-nvsw-'' @ dec n) [0..<nvlink_switch_trays bp],
      rack_state = Hw_ready, rack_tenant_id = None\<rparr>"

definition provision_rack :: "rack_blueprint \<Rightarrow> nat \<Rightarrow> nat \<Rightarrow> nat \<Rightarrow> store \<Rightarrow> store" where
  "provision_rack bp i cap r s =
     (let rid = rack_key i r;
          s1 = fold (provision_tray bp rid) [0..<compute_trays bp] s
      in s1\<lparr>st_nvlink_trays := fold (\<lambda>n. AList.update (rid @ ''-nvsw-'' @ dec n)
              \<lparr>nvsw_id = rid @ ''-nvsw-'' @ dec n, nvsw_rack_id = rid, nvsw_index = n,
               nvswitch_asics = nvswitch_asics_per_tray bp\<rparr>) [0..<nvlink_switch_trays bp] (st_nvlink_trays s1),
            st_racks := AList.update rid (new_rack bp i cap r) (st_racks s1)\<rparr>)"

definition new_su :: "rack_blueprint \<Rightarrow> string option \<Rightarrow> nat \<Rightarrow> nat \<Rightarrow> scalable_unit" where
  "new_su bp du i n =
     \<lparr>su_id = ''su-'' @ dec i, su_du_id = du, su_index = i, su_hac_id = ''su-'' @ dec i @ ''-hac'',
      su_blueprint_key = bp_key bp, su_rack_ids = map (rack_key i) [0..<n], cmx_racks = CMX_RACKS_PER_SU,
      su_state = Hw_ready\<rparr>"

definition add_to_du :: "string option \<Rightarrow> string \<Rightarrow> store \<Rightarrow> store" where
  "add_to_du du sid s = (case du of None \<Rightarrow> s | Some d \<Rightarrow>
     if d = [] then s else s\<lparr>st_dus := dict_mod d (\<lambda>x. if sid \<in> set (du_su_ids x) then x
        else x\<lparr>du_su_ids := du_su_ids x @ [sid]\<rparr>) (st_dus s)\<rparr>)"

text \<open>\<open>racks or bp.racks_per_su\<close> is the rack count; an unknown blueprint raises \<open>KeyError\<close>.\<close>

definition provision_scalable_unit ::
    "string option \<Rightarrow> nat \<Rightarrow> string \<Rightarrow> string \<Rightarrow> nat option \<Rightarrow> scalable_unit sprog" where
  "provision_scalable_unit du i bk policy racks =
     bindE (get_blueprint bk) (\<lambda>bp.
     let cap = (if policy = ''maxq'' then maxq_rack_kw bp else maxp_rack_kw bp);
         n = (case racks of None \<Rightarrow> racks_per_su bp | Some k \<Rightarrow> if k = 0 then racks_per_su bp else k);
         su = new_su bp du i n in
     thenE (modifyE (\<lambda>s. add_to_du du (su_id su)
              ((fold (provision_rack bp i cap) [0..<n] s)
                 \<lparr>st_sus := AList.update (su_id su) su (st_sus s)\<rparr>)))
           (returnE su))"

section \<open>The seed\<close>

record floor =
  fl_name :: string
  fl_power_mw :: rat
  fl_ready :: string
  fl_racks :: nat

record site =
  si_id :: string
  si_name :: string
  si_site :: string
  si_design_power_mw :: rat
  si_floors :: "floor list"

definition PHASE1_SITES :: "site list" where
  "PHASE1_SITES =
     [\<lparr>si_id = ''aif-stt-gasan'', si_name = ''STT Gasan'', si_site = ''Seoul STT Gasan'', si_design_power_mw = 9,
       si_floors = [\<lparr>fl_name = ''1F 6MW'', fl_power_mw = 6, fl_ready = ''2027-03'', fl_racks = 24\<rparr>,
                    \<lparr>fl_name = ''2F 3MW'', fl_power_mw = 3, fl_ready = ''2027-09'', fl_racks = 12\<rparr>]\<rparr>,
      \<lparr>si_id = ''aif-igis-ansan'', si_name = ''IGIS Ansan'', si_site = ''Ansan IGIS'', si_design_power_mw = 233 / 10,
       si_floors = [\<lparr>fl_name = ''1F 12.9MW'', fl_power_mw = 129 / 10, fl_ready = ''2027-11'', fl_racks = 54\<rparr>,
                    \<lparr>fl_name = ''2F 10.4MW'', fl_power_mw = 104 / 10, fl_ready = ''2028-01'', fl_racks = 50\<rparr>]\<rparr>]"

text \<open>A floor of racks in units of \<open>per_su\<close>, the last one the remainder; a \<open>while\<close> loop that needs \<open>per_su > 0\<close>.\<close>

function su_sizes :: "nat \<Rightarrow> nat \<Rightarrow> nat list" where
  "su_sizes racks per = (if racks > per \<and> per > 0 then per # su_sizes (racks - per) per else [racks])"
  by pat_completeness auto
termination by (relation "measure fst") auto

declare su_sizes.simps [simp del]

definition add_factory :: "string \<Rightarrow> string \<Rightarrow> string \<Rightarrow> rat \<Rightarrow> unit sprog" where
  "add_factory fid nm site mw = modifyE (\<lambda>s. s\<lparr>st_factories := AList.update fid
     \<lparr>factory_id = fid, factory_name = nm, factory_site = site, design_power_mw = mw, factory_block_ids = []\<rparr>
     (st_factories s)\<rparr>)"

definition add_block :: "string \<Rightarrow> string \<Rightarrow> nat \<Rightarrow> floor \<Rightarrow> unit sprog" where
  "add_block fid bid idx fl = modifyE (\<lambda>s. s\<lparr>st_blocks := AList.update bid
       \<lparr>block_id = bid, block_factory_id = fid, block_index = idx, block_name = fl_name fl,
        power_mw = fl_power_mw fl, block_ready = fl_ready fl, block_du_ids = []\<rparr> (st_blocks s),
     st_factories := dict_mod fid (\<lambda>f. f\<lparr>factory_block_ids := factory_block_ids f @ [bid]\<rparr>) (st_factories s)\<rparr>)"

definition add_du :: "string \<Rightarrow> string \<Rightarrow> nat \<Rightarrow> unit sprog" where
  "add_du bid did idx = modifyE (\<lambda>s. s\<lparr>st_dus := AList.update did
       \<lparr>du_id = did, du_block_id = Some bid, du_index = idx, du_su_ids = []\<rparr> (st_dus s),
     st_blocks := dict_mod bid (\<lambda>b. b\<lparr>block_du_ids := block_du_ids b @ [did]\<rparr>) (st_blocks s)\<rparr>)"

fun seed_units :: "string \<Rightarrow> nat list \<Rightarrow> nat \<Rightarrow> nat sprog" where
  "seed_units did [] i = returnE i"
| "seed_units did (n # ns) i =
     thenE (provision_scalable_unit (Some did) (i + 1) ''vr-nvl72'' ''maxq'' (Some n)) (seed_units did ns (i + 1))"

fun seed_floors :: "string \<Rightarrow> nat \<Rightarrow> floor list \<Rightarrow> nat \<times> nat \<Rightarrow> (nat \<times> nat) sprog" where
  "seed_floors fid no [] ib = returnE ib"
| "seed_floors fid no (fl # fls) ib =
     (let blk = snd ib + 1; bid = fid @ ''-f'' @ dec no; did = ''du-'' @ dec blk in
      thenE (add_block fid bid blk fl)
      (thenE (add_du bid did blk)
      (bindE (get_blueprint ''vr-nvl72'') (\<lambda>bp.
       bindE (seed_units did (su_sizes (fl_racks fl) (racks_per_su bp)) (fst ib)) (\<lambda>i.
       seed_floors fid (no + 1) fls (i, blk))))))"

fun seed_sites :: "site list \<Rightarrow> nat \<times> nat \<Rightarrow> unit sprog" where
  "seed_sites [] ib = returnE ()"
| "seed_sites (x # xs) ib =
     thenE (add_factory (si_id x) (si_name x) (si_site x) (si_design_power_mw x))
     (bindE (seed_floors (si_id x) 1 (si_floors x) ib) (seed_sites xs))"

text \<open>The test seed: one factory with one unit per blueprint named.\<close>

fun seed_blueprints :: "string list \<Rightarrow> nat \<Rightarrow> unit sprog" where
  "seed_blueprints [] i = returnE ()"
| "seed_blueprints (bk # bks) i =
     thenE (provision_scalable_unit (Some ''du-1'') (i + 1) bk ''maxq'' None) (seed_blueprints bks (i + 1))"

definition new_cpu_node :: "nat \<Rightarrow> cpu_node" where
  "new_cpu_node n = (let nid = ''cpu-node-'' @ pad n in
     \<lparr>cn_id = nid, cn_dpu_id = nid @ ''-dpu'', cn_state = ''pool_ready'', cn_role = ''general'',
      cn_nico_host_id = Some (''nh-'' @ nid), cn_tenant_id = None, cn_order_id = None, cn_host_ip = '''',
      cn_segment_id = None\<rparr>)"

definition seed_cpu_nodes :: "unit sprog" where
  "seed_cpu_nodes = modifyE (\<lambda>s. s\<lparr>st_cpu_nodes :=
     fold (\<lambda>n. AList.update (''cpu-node-'' @ pad n) (new_cpu_node n)) [1..<61] (st_cpu_nodes s)\<rparr>)"

definition seed_default :: "string list \<Rightarrow> unit sprog" where
  "seed_default blueprints =
     thenE reset
     (thenE (if blueprints \<noteq> [] then
               thenE (add_factory ''aif-skt-01'' ''SKT NVL72 AI Factory 01'' ''Seoul Metro (Gasan)'' 250)
               (thenE (add_block ''aif-skt-01'' ''block-1'' 1 \<lparr>fl_name = '''', fl_power_mw = 0, fl_ready = '''', fl_racks = 0\<rparr>)
               (thenE (add_du ''block-1'' ''du-1'' 1) (seed_blueprints blueprints 0)))
             else seed_sites PHASE1_SITES (0, 0))
            seed_cpu_nodes)"

section \<open>Topology routes\<close>

text \<open>The first free unit index after the counter: \<open>while idx in existing: idx = next_seq(...)\<close>.\<close>

function free_index :: "nat \<Rightarrow> nat list \<Rightarrow> nat" where
  "free_index n used = (if n \<in> set used then free_index (n + 1) used else n)"
  by pat_completeness auto
termination
proof (relation "measure (\<lambda>(n, used). card {m \<in> set used. n \<le> m})")
  fix n :: nat and used :: "nat list"
  assume n: "n \<in> set used"
  have "{m \<in> set used. n + 1 \<le> m} \<subset> {m \<in> set used. n \<le> m}"
  proof (rule psubsetI)
    show "{m \<in> set used. n + 1 \<le> m} \<noteq> {m \<in> set used. n \<le> m}"
    proof
      assume "{m \<in> set used. n + 1 \<le> m} = {m \<in> set used. n \<le> m}"
      from eqset_imp_iff [OF this, of n] n show False by simp
    qed
  qed auto
  then show "((n + 1, used), n, used) \<in> measure (\<lambda>(n, used). card {m \<in> set used. n \<le> m})"
    unfolding in_measure case_prod_conv by (rule psubset_card_mono [rotated]) simp
qed (rule wf_measure)

declare free_index.simps [simp del]

definition provision_su :: "string \<Rightarrow> string \<Rightarrow> string \<Rightarrow> (string \<times> nat) sprog" where
  "provision_su bk fid did =
     bindE (getsE (\<lambda>s. has_key (st_factories s) fid)) (\<lambda>known.
     thenE (raise_if (\<not> known) (HTTPException 404 ''factory not found''))
     (thenE (raise_if (\<not> has_key BLUEPRINTS bk) (HTTPException 422 ''unknown blueprint''))
     (bindE (getsE (\<lambda>s. free_index (seq_of s ''su_index_provisioned'' + 1) (map su_index (dict_values (st_sus s))))) (\<lambda>idx.
      thenE (modifyE (\<lambda>s. s\<lparr>st_counters := AList.update ''su_index_provisioned'' idx (st_counters s)\<rparr>))
      (bindE (provision_scalable_unit (Some did) idx bk ''maxq'' None) (\<lambda>su.
       bindE (get_blueprint bk) (\<lambda>bp. returnE (su_id su, gpu_per_su bp))))))))"

fun hw_of_value :: "string \<Rightarrow> HwState option" where
  "hw_of_value v = map_of [(''provisioning'', Hw_provisioning), (''ready'', Hw_ready), (''allocated'', Hw_allocated),
     (''draining'', Hw_draining), (''faulted'', Hw_faulted), (''maintenance'', Hw_maintenance)] v"

definition OPERATOR_STATES :: "HwState list" where
  "OPERATOR_STATES = [Hw_ready, Hw_faulted, Hw_maintenance]"

text \<open>\<open>ready\<close> on an item that a tenant holds restores \<open>allocated\<close>.\<close>

definition operator_state :: "HwState \<Rightarrow> string option \<Rightarrow> HwState" where
  "operator_state new who = (if new = Hw_ready \<and> truthy who then Hw_allocated else new)"

definition set_equipment_state :: "string \<Rightarrow> string \<Rightarrow> string \<Rightarrow> unit sprog" where
  "set_equipment_state kind iid st =
     bindE (someE (HTTPException 422 ''invalid state'') (hw_of_value st)) (\<lambda>new.
     thenE (raise_if (new \<notin> set OPERATOR_STATES) (HTTPException 422 ''operator states''))
     (if kind = ''rack'' then
        bindE (getsE (\<lambda>s. has_key (st_racks s) iid)) (\<lambda>known.
        thenE (raise_if (\<not> known) (HTTPException 404 ''not found''))
              (modifyE (\<lambda>s. s\<lparr>st_racks := dict_mod iid (\<lambda>x. x\<lparr>rack_state := operator_state new (rack_tenant_id x)\<rparr>) (st_racks s)\<rparr>)))
      else if kind = ''tray'' then
        bindE (getsE (\<lambda>s. has_key (st_trays s) iid)) (\<lambda>known.
        thenE (raise_if (\<not> known) (HTTPException 404 ''not found''))
              (modifyE (\<lambda>s. s\<lparr>st_trays := dict_mod iid (\<lambda>x. x\<lparr>tray_state := operator_state new (tray_tenant_id x)\<rparr>) (st_trays s)\<rparr>)))
      else if kind = ''gpu'' then
        bindE (getsE (\<lambda>s. has_key (st_gpus s) iid)) (\<lambda>known.
        thenE (raise_if (\<not> known) (HTTPException 404 ''not found''))
              (modifyE (\<lambda>s. s\<lparr>st_gpus := dict_mod iid (\<lambda>x. x\<lparr>gpu_state := operator_state new (gpu_tenant_id x)\<rparr>) (st_gpus s)\<rparr>)))
      else raiseE (HTTPException 422 ''kind must be rack|tray|gpu'')))"

definition set_power_policy :: "string \<Rightarrow> string \<Rightarrow> nat sprog" where
  "set_power_policy rid policy =
     bindE (getsE (\<lambda>s. map_of (st_racks s) rid)) (\<lambda>r0.
     bindE (someE (HTTPException 404 ''rack not found'') r0) (\<lambda>r.
     let p = map to_lower policy in
     thenE (raise_if (p \<noteq> ''maxq'' \<and> p \<noteq> ''maxp'') (HTTPException 422 ''policy must be maxq or maxp''))
     (bindE (get_blueprint (rack_blueprint_key r)) (\<lambda>bp.
      let cap = (if p = ''maxq'' then maxq_rack_kw bp else maxp_rack_kw bp) in
      thenE (modifyE (\<lambda>s. s\<lparr>st_racks := dict_mod rid (\<lambda>x. x\<lparr>power_cap_kw := cap\<rparr>) (st_racks s)\<rparr>))
            (returnE cap)))))"

end
