(* ===== verification/Inventory_Safe.thy ===== *)
theory Inventory_Safe
  imports Inventory
begin

text \<open>
  Seeding and provisioning keep the invariants: a new scalable unit takes an index no unit has, so
  its racks get ids no rack has.
\<close>

section \<open>Frame of the expansion\<close>

lemma provision_tray_frame [simp]:
  "st_racks (provision_tray bp rid t s) = st_racks s" "st_sus (provision_tray bp rid t s) = st_sus s"
  "st_tenants (provision_tray bp rid t s) = st_tenants s"
  "st_allocations (provision_tray bp rid t s) = st_allocations s"
  "st_partitions (provision_tray bp rid t s) = st_partitions s"
  "st_netiso (provision_tray bp rid t s) = st_netiso s" "st_counters (provision_tray bp rid t s) = st_counters s"
  "st_node_instances (provision_tray bp rid t s) = st_node_instances s"
  "st_orders (provision_tray bp rid t s) = st_orders s" "st_factories (provision_tray bp rid t s) = st_factories s"
  "st_dus (provision_tray bp rid t s) = st_dus s" "st_blocks (provision_tray bp rid t s) = st_blocks s"
  by (simp_all add: provision_tray_def Let_def)

lemma fold_provision_tray_frame [simp]:
  "st_racks (fold (provision_tray bp rid) ts s) = st_racks s" "st_sus (fold (provision_tray bp rid) ts s) = st_sus s"
  "st_tenants (fold (provision_tray bp rid) ts s) = st_tenants s"
  "st_allocations (fold (provision_tray bp rid) ts s) = st_allocations s"
  "st_partitions (fold (provision_tray bp rid) ts s) = st_partitions s"
  "st_netiso (fold (provision_tray bp rid) ts s) = st_netiso s"
  "st_counters (fold (provision_tray bp rid) ts s) = st_counters s"
  "st_node_instances (fold (provision_tray bp rid) ts s) = st_node_instances s"
  "st_orders (fold (provision_tray bp rid) ts s) = st_orders s"
  by (induction ts arbitrary: s) simp_all

text \<open>\<open>same_but_racks s s'\<close>: only racks and hardware below them may differ.\<close>

definition same_but_racks :: "store \<Rightarrow> store \<Rightarrow> bool" where
  "same_but_racks s s' \<longleftrightarrow> st_sus s' = st_sus s \<and> st_tenants s' = st_tenants s \<and> st_allocations s' = st_allocations s
     \<and> st_partitions s' = st_partitions s \<and> st_netiso s' = st_netiso s \<and> st_counters s' = st_counters s
     \<and> st_node_instances s' = st_node_instances s \<and> st_orders s' = st_orders s"

lemma fold_provision_rack:
  "same_but_racks s (fold (provision_rack bp i cap) rs s) \<and>
   st_racks (fold (provision_rack bp i cap) rs s) =
     fold (\<lambda>r. AList.update (rack_key i r) (new_rack bp i cap r)) rs (st_racks s)"
proof (induction rs arbitrary: s)
  case Nil
  then show ?case by (simp add: same_but_racks_def)
next
  case (Cons r rs)
  have "same_but_racks s (provision_rack bp i cap r s)"
    "st_racks (provision_rack bp i cap r s) = AList.update (rack_key i r) (new_rack bp i cap r) (st_racks s)"
    by (simp_all add: same_but_racks_def provision_rack_def Let_def)
  with Cons.IH [of "provision_rack bp i cap r s"] show ?case by (simp add: same_but_racks_def)
qed

section \<open>Fresh ids\<close>

lemma zfill_digits: "list_all is_digit s \<Longrightarrow> list_all is_digit (zfill w s)"
  by (auto simp: zfill_def list_all_iff is_digit_def)

lemma undec_zfill: "undec (zfill w (dec n)) = Some n"
proof -
  have lead: "foldl (\<lambda>a c. 10 * a + digit_val c) 0 (replicate k CHR ''0'') = 0" for k
    by (induction k) (simp_all add: digit_val_def)
  show ?thesis
    using zfill_digits [OF dec_digits, of w n] by (simp add: undec_def zfill_def lead foldl_dec)
qed

lemma pad_inject [simp]: "pad m = pad n \<longleftrightarrow> m = n"
  by (metis undec_zfill pad_def option.inject)

lemma su_prefix_inject:
  assumes "''su-'' @ dec i @ CHR ''-'' # xs = ''su-'' @ dec j @ CHR ''-'' # ys"
  shows "i = j \<and> xs = ys"
proof -
  have tw: "takeWhile is_digit (dec k @ CHR ''-'' # zs) = dec k" for k zs
    using dec_digits [of k] by (simp add: takeWhile_append list_all_iff is_digit_def)
  from assms have "dec i @ CHR ''-'' # xs = dec j @ CHR ''-'' # ys" by simp
  with tw [of i xs] tw [of j ys] have "dec i = dec j" by simp
  with assms show ?thesis by simp
qed

lemma rack_key_inject [simp]: "rack_key i m = rack_key j n \<longleftrightarrow> i = j \<and> m = n"
proof
  assume "rack_key i m = rack_key j n"
  then show "i = j \<and> m = n"
    using su_prefix_inject [of i "''rack-'' @ pad m" j "''rack-'' @ pad n"] by (simp add: rack_key_def)
qed simp

text \<open>A rack whose id has the shape of unit \<open>i\<close> belongs to unit \<open>i\<close>.\<close>

lemma rack_key_of_unit:
  assumes "topo_ok s" "map_of (st_racks s) (rack_key i n) = Some r"
  shows "\<exists>u. map_of (st_sus s) (''su-'' @ dec i) = Some u \<and> su_index u = i"
proof -
  from assms obtain sfx u where sfx: "rack_key i n = rack_su_id r @ ''-rack-'' @ sfx"
      and u: "map_of (st_sus s) (rack_su_id r) = Some u"
    unfolding topo_ok_def has_key_def by blast
  with assms(1) have su: "rack_su_id r = ''su-'' @ dec (su_index u)" unfolding topo_ok_def by blast
  have "i = su_index u"
    using su_prefix_inject [of i "''rack-'' @ pad n" "su_index u" "''rack-'' @ sfx"] sfx
    by (simp add: rack_key_def su)
  with u su show ?thesis by auto
qed

lemma map_of_fold_update:
  assumes "inj_on f (set xs)"
  shows "map_of (fold (\<lambda>x. AList.update (f x) (g x)) xs d) k =
     (if k \<in> f ` set xs then Some (g (the_inv_into (set xs) f k)) else map_of d k)"
  using assms
proof (induction xs arbitrary: d)
  case Nil
  then show ?case by simp
next
  case (Cons x xs)
  have inj: "inj_on f (set xs)" using Cons.prems by (simp add: inj_on_insert)
  have inv: "the_inv_into (set xs) f (f y) = y" "the_inv_into (set (x # xs)) f (f y) = y" if "y \<in> set xs" for y
    using that inj Cons.prems by (auto intro: the_inv_into_f_f)
  have "the_inv_into (set (x # xs)) f (f x) = x" using Cons.prems by (intro the_inv_into_f_f) auto
  then show ?case
    using inv by (auto simp: Cons.IH [OF inj] the_inv_into_f_f [OF Cons.prems])
qed

lemma dict_wf_fold_update: "dict_wf d \<Longrightarrow> dict_wf (fold (\<lambda>x. AList.update (f x) (g x)) xs d)"
  by (induction xs arbitrary: d) auto

lemma set_update_values: "x \<in> set (AList.update k v d) \<Longrightarrow> x = (k, v) \<or> x \<in> set d"
  by (induction d) (auto split: if_splits)

section \<open>Provisioning keeps the invariants\<close>

definition unused_index :: "store \<Rightarrow> nat \<Rightarrow> bool" where
  "unused_index s i \<longleftrightarrow> i \<notin> su_index ` set (dict_values (st_sus s))"

lemma unused_key: "topo_ok s \<Longrightarrow> unused_index s i \<Longrightarrow> map_of (st_sus s) (''su-'' @ dec i) = None"
proof (rule ccontr)
  assume topo: "topo_ok s" and un: "unused_index s i" and "map_of (st_sus s) (''su-'' @ dec i) \<noteq> None"
  then obtain u where u: "map_of (st_sus s) (''su-'' @ dec i) = Some u" by blast
  with topo have "''su-'' @ dec i = ''su-'' @ dec (su_index u)" unfolding topo_ok_def by blast
  then have "su_index u = i" by simp
  with un map_of_dict_values [OF u] show False by (auto simp: unused_index_def)
qed

definition expanded :: "store \<Rightarrow> rack_blueprint \<Rightarrow> string option \<Rightarrow> nat \<Rightarrow> nat \<Rightarrow> nat \<Rightarrow> store" where
  "expanded s bp du i cap n = add_to_du du (su_id (new_su bp du i n))
     ((fold (provision_rack bp i cap) [0..<n] s)\<lparr>st_sus := AList.update (su_id (new_su bp du i n)) (new_su bp du i n) (st_sus s)\<rparr>)"

lemma add_to_du_frame [simp]:
  "st_racks (add_to_du du sid s) = st_racks s" "st_sus (add_to_du du sid s) = st_sus s"
  "st_tenants (add_to_du du sid s) = st_tenants s" "st_allocations (add_to_du du sid s) = st_allocations s"
  "st_partitions (add_to_du du sid s) = st_partitions s" "st_netiso (add_to_du du sid s) = st_netiso s"
  "st_counters (add_to_du du sid s) = st_counters s" "st_node_instances (add_to_du du sid s) = st_node_instances s"
  "st_orders (add_to_du du sid s) = st_orders s"
  by (auto simp: add_to_du_def split: option.splits)

lemma expanded_fields:
  shows "st_racks (expanded s bp du i cap n) =
       fold (\<lambda>r. AList.update (rack_key i r) (new_rack bp i cap r)) [0..<n] (st_racks s)"
    "st_sus (expanded s bp du i cap n) = AList.update (''su-'' @ dec i) (new_su bp du i n) (st_sus s)"
    "st_tenants (expanded s bp du i cap n) = st_tenants s"
    "st_allocations (expanded s bp du i cap n) = st_allocations s"
    "st_partitions (expanded s bp du i cap n) = st_partitions s"
    "st_netiso (expanded s bp du i cap n) = st_netiso s"
    "st_counters (expanded s bp du i cap n) = st_counters s"
    "st_node_instances (expanded s bp du i cap n) = st_node_instances s"
    "st_orders (expanded s bp du i cap n) = st_orders s"
  using fold_provision_rack [of s bp i cap "[0..<n]"]
  by (simp_all add: expanded_def same_but_racks_def new_su_def)

lemma expanded_rack_new: "r < n \<Longrightarrow> map_of (st_racks (expanded s bp du i cap n)) (rack_key i r) = Some (new_rack bp i cap r)"
proof -
  assume r: "r < n"
  have inj: "inj_on (rack_key i) (set [0..<n])" by (auto simp: inj_on_def)
  have "the_inv_into (set [0..<n]) (rack_key i) (rack_key i r) = r" using r by (intro the_inv_into_f_f [OF inj]) simp
  with r show ?thesis by (auto simp: expanded_fields map_of_fold_update [OF inj])
qed

lemma expanded_rack_old:
  "\<forall>r < n. k \<noteq> rack_key i r \<Longrightarrow> map_of (st_racks (expanded s bp du i cap n)) k = map_of (st_racks s) k"
proof -
  assume "\<forall>r < n. k \<noteq> rack_key i r"
  then have "k \<notin> rack_key i ` set [0..<n]" by auto
  moreover have "inj_on (rack_key i) (set [0..<n])" by (auto simp: inj_on_def)
  ultimately show ?thesis unfolding expanded_fields(1) by (simp only: map_of_fold_update if_False)
qed

lemma expanded_rack_cases:
  assumes "map_of (st_racks (expanded s bp du i cap n)) k = Some x"
  obtains (new) r where "r < n" "k = rack_key i r" "x = new_rack bp i cap r"
  | (old) "map_of (st_racks s) k = Some x" "\<forall>r < n. k \<noteq> rack_key i r"
proof (cases "\<exists>r < n. k = rack_key i r")
  case True
  with assms show thesis using new expanded_rack_new by fastforce
next
  case False
  then have "\<forall>r < n. k \<noteq> rack_key i r" by blast
  with assms show thesis by (intro old) (simp_all only: expanded_rack_old)
qed

lemma new_rack_simps [simp]:
  "rack_id (new_rack bp i cap r) = rack_key i r" "rack_su_id (new_rack bp i cap r) = ''su-'' @ dec i"
  "rack_tenant_id (new_rack bp i cap r) = None"
  by (simp_all add: new_rack_def)

lemma old_rack_kept:
  assumes "topo_ok s" "unused_index s i" "map_of (st_racks s) k = Some x"
  shows "map_of (st_racks (expanded s bp du i cap n)) k = Some x"
proof -
  have "\<forall>r < n. k \<noteq> rack_key i r"
    using rack_key_of_unit [OF assms(1)] unused_key [OF assms(1,2)] assms(3) by fastforce
  with assms(3) show ?thesis by (simp only: expanded_rack_old)
qed

lemma expanded_topo_ok:
  assumes "topo_ok s" "unused_index s i"
  shows "topo_ok (expanded s bp du i cap n)" (is "topo_ok ?s'")
proof -
  note f = expanded_fields [of s bp du i cap n]
  have wf: "dict_wf (st_racks ?s')" "dict_wf (st_sus ?s')"
    using assms(1) unfolding f topo_ok_def by (simp_all add: dict_wf_fold_update)
  have racks: "rack_id x = k \<and> has_key (st_sus ?s') (rack_su_id x) \<and> (\<exists>sfx. k = rack_su_id x @ ''-rack-'' @ sfx)"
    if "map_of (st_racks ?s') k = Some x" for k x
    using that
  proof (cases rule: expanded_rack_cases)
    case (new r)
    then show ?thesis by (simp add: f rack_key_def)
  next
    case old
    with assms(1) show ?thesis unfolding topo_ok_def f(2) has_key_update by blast
  qed
  have units: "su_id u = k \<and> k = ''su-'' @ dec (su_index u) \<and> distinct (su_rack_ids u)
      \<and> (\<forall>rid \<in> set (su_rack_ids u). \<exists>r. map_of (st_racks ?s') rid = Some r \<and> rack_su_id r = k)"
    if u: "map_of (st_sus ?s') k = Some u" for k u
  proof (cases "k = ''su-'' @ dec i")
    case True
    with u have "u = new_su bp du i n" by (simp add: f)
    with True show ?thesis by (auto simp: new_su_def expanded_rack_new distinct_map inj_on_def)
  next
    case False
    with u have "map_of (st_sus s) k = Some u" by (simp only: f map_of_update if_False)
    with assms(1) have "su_id u = k" "k = ''su-'' @ dec (su_index u)" "distinct (su_rack_ids u)"
        "\<forall>rid \<in> set (su_rack_ids u). \<exists>r. map_of (st_racks s) rid = Some r \<and> rack_su_id r = k"
      unfolding topo_ok_def by blast+
    then show ?thesis using old_rack_kept [OF assms] by blast
  qed
  show ?thesis
    using wf racks units assms(1) unfolding topo_ok_def f(3) by blast
qed

lemma expanded_safe:
  assumes "safe s" "unused_index s i"
  shows "safe (expanded s bp du i cap n)" (is "safe ?s'")
proof -
  note f = expanded_fields [of s bp du i cap n]
  from assms(1) have topo: "topo_ok s" and al: "alloc_ok s" and pt: "part_ok s" and nt: "net_ok s" and li: "life_inv s"
    by (simp_all add: safe_def tenancy_inv_def)
  note kept = old_rack_kept [OF topo assms(2)]
  have "alloc_ok ?s'"
  proof -
    have bound: "\<exists>k a. map_of (st_allocations s) k = Some a \<and> alloc_tenant_id a = t \<and> rid \<in> set (alloc_rack_ids a)"
      if r: "map_of (st_racks ?s') rid = Some r" "rack_tenant_id r = Some t" for rid r t
      using r(1)
    proof (cases rule: expanded_rack_cases)
      case (new x)
      with r(2) show ?thesis by simp
    next
      case old
      with r(2) al show ?thesis unfolding alloc_ok_def by blast
    qed
    have seq: "seq_of ?s' ''alloc'' = seq_of s ''alloc''" by (simp add: seq_of_def f)
    have own: "\<forall>rid \<in> set (alloc_rack_ids a). \<exists>r. map_of (st_racks ?s') rid = Some r
        \<and> rack_tenant_id r = Some (alloc_tenant_id a) \<and> rack_su_id r = alloc_su_id a"
      if "map_of (st_allocations s) k = Some a" for k a
    proof -
      from that al have "\<forall>rid \<in> set (alloc_rack_ids a). \<exists>r. map_of (st_racks s) rid = Some r
          \<and> rack_tenant_id r = Some (alloc_tenant_id a) \<and> rack_su_id r = alloc_su_id a"
        unfolding alloc_ok_def by blast
      with kept show ?thesis by blast
    qed
    have keep: "alloc_id a = k \<and> has_key (st_tenants ?s') (alloc_tenant_id a)
        \<and> (\<exists>m \<le> seq_of ?s' ''alloc''. k = ''alloc-'' @ dec m)"
      if "map_of (st_allocations s) k = Some a" for k a
      using that al unfolding alloc_ok_def f seq by blast
    have disj: "k = l" if "map_of (st_allocations s) k = Some a" "map_of (st_allocations s) l = Some b"
        "rid \<in> set (alloc_rack_ids a)" "rid \<in> set (alloc_rack_ids b)" for k l a b rid
      using that al unfolding alloc_ok_def by blast
    have wf: "dict_wf (st_allocations s)" using al by (simp add: alloc_ok_def)
    show ?thesis
      unfolding alloc_ok_def f(4) using wf keep own disj bound by (intro conjI allI impI) blast+
  qed
  moreover have "part_ok ?s'"
  proof -
    have "\<exists>r. map_of (st_racks ?s') (part_rack_id p) = Some r \<and> rack_tenant_id r = Some (part_tenant_id p)
        \<and> set (part_tray_ids p) \<subseteq> set (rack_tray_ids r)" if "map_of (st_partitions s) k = Some p" for k p
      using that pt kept unfolding part_ok_def by blast
    moreover have "partitions_of_rack ?s' = partitions_of_rack s" by (rule ext) (simp add: partitions_of_rack_def f)
    ultimately show ?thesis using pt unfolding part_ok_def f by simp
  qed
  moreover have "net_ok ?s'" using nt by (simp add: net_ok_def f)
  moreover have "life_inv ?s'" using li by (rule life_inv_cong [rotated -1]) (simp_all add: f)
  moreover have "topo_ok ?s'" using topo assms(2) by (rule expanded_topo_ok)
  ultimately show ?thesis by (simp add: safe_def tenancy_inv_def)
qed

lemma provision_run:
  "provision_scalable_unit du i bk policy racks s = (case map_of BLUEPRINTS bk of
     None \<Rightarrow> (Inl (PyError ''KeyError''), s)
   | Some bp \<Rightarrow>
       (let n = (case racks of None \<Rightarrow> racks_per_su bp | Some k \<Rightarrow> if k = 0 then racks_per_su bp else k);
            cap = (if policy = ''maxq'' then maxq_rack_kw bp else maxp_rack_kw bp)
        in (Inr (new_su bp du i n), expanded s bp du i cap n)))"
  by (simp add: provision_scalable_unit_def get_blueprint_def bindE_run someE_run Let_def expanded_def split: option.splits)

lemma expanded_unused: "unused_index s j \<Longrightarrow> j \<noteq> i \<Longrightarrow> unused_index (expanded s bp du i cap n) j"
  by (auto simp: unused_index_def expanded_fields dict_values_def dest!: set_update_values)
     (auto simp: new_su_def)

section \<open>Counting\<close>

lemma length_update: "length (AList.update k v d) = length d + (if has_key d k then 0 else 1)"
  by (induction d) (auto simp: has_key_def)

lemma length_fold_update:
  assumes "inj_on f (set xs)" "distinct xs" "\<forall>x \<in> set xs. \<not> has_key d (f x)"
  shows "length (fold (\<lambda>x. AList.update (f x) (g x)) xs d) = length d + length xs"
  using assms
proof (induction xs arbitrary: d)
  case Nil
  then show ?case by simp
next
  case (Cons x xs)
  have "inj_on f (set xs)" "distinct xs" using Cons.prems by simp_all
  moreover have "\<forall>y \<in> set xs. \<not> has_key (AList.update (f x) (g x) d) (f y)"
    using Cons.prems by (auto simp: image_iff)
  ultimately show ?case using Cons.IH [of "AList.update (f x) (g x) d"] Cons.prems(3) by (simp add: length_update)
qed

lemma expanded_counts:
  assumes "topo_ok s" "unused_index s i"
  shows "length (st_racks (expanded s bp du i cap n)) = length (st_racks s) + n"
    "length (st_sus (expanded s bp du i cap n)) = length (st_sus s) + 1"
proof -
  have "\<not> has_key (st_racks s) (rack_key i r)" for r
    using rack_key_of_unit [OF assms(1), of i r] unused_key [OF assms] unfolding has_key_def by fastforce
  then show "length (st_racks (expanded s bp du i cap n)) = length (st_racks s) + n"
    unfolding expanded_fields(1) by (subst length_fold_update) (auto simp: inj_on_def)
  have "\<not> has_key (st_sus s) (''su-'' @ dec i)" using unused_key [OF assms] by (simp add: has_key_def)
  then show "length (st_sus (expanded s bp du i cap n)) = length (st_sus s) + 1"
    unfolding expanded_fields(2) by (simp only: length_update if_False)
qed

section \<open>Seeding\<close>

text \<open>\<open>seeded i n s\<close>: a safe store with units \<open>1..i\<close> and \<open>n\<close> racks.\<close>

definition seeded :: "nat \<Rightarrow> nat \<Rightarrow> store \<Rightarrow> bool" where
  "seeded i n s \<longleftrightarrow> safe s \<and> (\<forall>j > i. unused_index s j) \<and> length (st_sus s) = i \<and> length (st_racks s) = n"

lemma seeded_empty: "seeded 0 0 (empty_store t)"
  by (simp add: seeded_def safe_def unused_index_def) (simp add: empty_store_def dict_values_def)

lemma seeded_side: "side_write f \<Longrightarrow> seeded i n s \<Longrightarrow> seeded i n (f s)"
  using safe_side_write [of f s] by (simp add: seeded_def side_write_def unused_index_def)

lemma seeded_expanded: "seeded i m s \<Longrightarrow> seeded (i + 1) (m + n) (expanded s bp du (i + 1) cap n)"
  unfolding seeded_def
  using expanded_safe [of s "i + 1"] expanded_unused [of s _ "i + 1"] expanded_counts [of s "i + 1"]
  by (auto simp: safe_def tenancy_inv_def)

lemma vr_known: "map_of BLUEPRINTS ''vr-nvl72'' = Some vr_nvl72"
  by (simp add: BLUEPRINTS_def)

lemma seed_units_run:
  assumes "seeded i m s" "\<forall>n \<in> set ns. n > 0"
  shows "\<exists>s'. seed_units did ns i s = (Inr (i + length ns), s') \<and> seeded (i + length ns) (m + sum_list ns) s'"
  using assms
proof (induction ns arbitrary: i m s)
  case Nil
  then show ?case by simp
next
  case (Cons n ns)
  let ?s1 = "expanded s vr_nvl72 (Some did) (i + 1) (maxq_rack_kw vr_nvl72) n"
  have run: "provision_scalable_unit (Some did) (i + 1) ''vr-nvl72'' ''maxq'' (Some n) s =
      (Inr (new_su vr_nvl72 (Some did) (i + 1) n), ?s1)"
    using Cons.prems(2) by (simp add: provision_run vr_known Let_def)
  have "seeded (i + 1) (m + n) ?s1" using Cons.prems(1) by (rule seeded_expanded)
  from Cons.IH [OF this] Cons.prems(2) run show ?case by (auto simp: thenE_run add.assoc)
qed

lemma su_sizes_props:
  "per > 0 \<Longrightarrow> racks > 0 \<Longrightarrow> sum_list (su_sizes racks per) = racks \<and> (\<forall>n \<in> set (su_sizes racks per). 0 < n \<and> n \<le> per)"
proof (induction racks per rule: su_sizes.induct)
  case (1 racks per)
  then show ?case
    by (cases "racks > per") (simp_all add: su_sizes.simps [of racks per])
qed

lemma seed_floors_run:
  assumes "seeded i m s" "\<forall>fl \<in> set fls. fl_racks fl > 0"
  shows "\<exists>i' b' s'. seed_floors fid no fls (i, b) s = (Inr (i', b'), s')
     \<and> i' = i + sum_list (map (\<lambda>fl. length (su_sizes (fl_racks fl) 16)) fls)
     \<and> seeded i' (m + sum_list (map fl_racks fls)) s'"
  using assms
proof (induction fls arbitrary: i m s b no)
  case Nil
  then show ?case by simp
next
  case (Cons fl fls)
  let ?bid = "fid @ ''-f'' @ dec no" and ?did = "''du-'' @ dec (b + 1)"
  define s1 where "s1 = snd (add_du ?bid ?did (b + 1) (snd (add_block fid ?bid (b + 1) fl s)))"
  have adds: "thenE (add_block fid ?bid (b + 1) fl) (thenE (add_du ?bid ?did (b + 1)) k) s = k s1" for k :: "(nat \<times> nat) sprog"
    by (simp add: add_block_def add_du_def s1_def)
  have "seeded i m (snd (add_block fid ?bid (b + 1) fl s))"
    unfolding add_block_def modifyE_run snd_conv by (rule seeded_side [OF _ Cons.prems(1)]) (simp add: side_write_def)
  then have s1: "seeded i m s1"
    unfolding s1_def add_du_def modifyE_run snd_conv by (rule seeded_side [rotated]) (simp add: side_write_def)
  have per: "racks_per_su vr_nvl72 = 16" by (simp add: vr_nvl72_def)
  let ?ns = "su_sizes (fl_racks fl) 16"
  have ns: "sum_list ?ns = fl_racks fl" "\<forall>n \<in> set ?ns. n > 0"
    using su_sizes_props [of 16 "fl_racks fl"] Cons.prems(2) by auto
  from seed_units_run [OF s1 ns(2)] obtain s2 where s2:
      "seed_units ?did ?ns i s1 = (Inr (i + length ?ns), s2)" "seeded (i + length ?ns) (m + fl_racks fl) s2"
    using ns(1) by auto
  from Cons.IH [OF s2(2), of "no + 1" "b + 1"] Cons.prems(2) s2(1) show ?case
    by (auto simp: Let_def adds [simplified] get_blueprint_def vr_known per bindE_run add.assoc)
qed

lemma seed_sites_run:
  assumes "seeded i m s" "\<forall>x \<in> set xs. \<forall>fl \<in> set (si_floors x). fl_racks fl > 0"
  shows "\<exists>s'. seed_sites xs (i, b) s = (Inr (), s')
     \<and> seeded (i + sum_list (map (\<lambda>fl. length (su_sizes (fl_racks fl) 16)) (concat (map si_floors xs))))
              (m + sum_list (map fl_racks (concat (map si_floors xs)))) s'"
  using assms
proof (induction xs arbitrary: i m s b)
  case Nil
  then show ?case by simp
next
  case (Cons x xs)
  define s1 where "s1 = snd (add_factory (si_id x) (si_name x) (si_site x) (si_design_power_mw x) s)"
  have add: "thenE (add_factory (si_id x) (si_name x) (si_site x) (si_design_power_mw x)) k s = k s1" for k :: "unit sprog"
    by (simp add: add_factory_def s1_def)
  have "seeded i m s1"
    unfolding s1_def add_factory_def modifyE_run snd_conv
    by (rule seeded_side [OF _ Cons.prems(1)]) (simp add: side_write_def)
  from seed_floors_run [OF this, of "si_floors x" "si_id x" 1 b] Cons.prems(2) obtain i2 b2 s2 where s2:
      "seed_floors (si_id x) 1 (si_floors x) (i, b) s1 = (Inr (i2, b2), s2)"
      "i2 = i + sum_list (map (\<lambda>fl. length (su_sizes (fl_racks fl) 16)) (si_floors x))"
      "seeded i2 (m + sum_list (map fl_racks (si_floors x))) s2"
    by auto
  from Cons.IH [OF s2(3), of b2] Cons.prems(2) obtain s3 where
      "seed_sites xs (i2, b2) s2 = (Inr (), s3)"
      "seeded (i2 + sum_list (map (\<lambda>fl. length (su_sizes (fl_racks fl) 16)) (concat (map si_floors xs))))
         (m + sum_list (map fl_racks (si_floors x)) + sum_list (map fl_racks (concat (map si_floors xs)))) s3"
    by auto
  with s2 show ?case by (auto simp: add bindE_run add.assoc)
qed

lemma seed_cpu_nodes_seeded: "seeded i m s \<Longrightarrow> seeded i m (snd (seed_cpu_nodes s))"
  unfolding seed_cpu_nodes_def modifyE_run snd_conv by (rule seeded_side) (simp_all add: side_write_def)

text \<open>The default seed: two sites, eleven scalable units, 140 racks, in a state satisfying the invariants.\<close>

lemma seed_default_phase1: "\<exists>s'. seed_default [] s = (Inr (), s') \<and> seeded 11 140 s'"
proof -
  have "\<forall>x \<in> set PHASE1_SITES. \<forall>fl \<in> set (si_floors x). fl_racks fl > 0" by (simp add: PHASE1_SITES_def)
  moreover have "sum_list (map (\<lambda>fl. length (su_sizes (fl_racks fl) 16)) (concat (map si_floors PHASE1_SITES))) = 11"
    "sum_list (map fl_racks (concat (map si_floors PHASE1_SITES))) = 140"
    by (simp_all add: PHASE1_SITES_def su_sizes.simps)
  ultimately obtain s1 where
      s1: "seed_sites PHASE1_SITES (0, 0) (empty_store (st_clock s)) = (Inr (), s1)" "seeded 11 140 s1"
    using seed_sites_run [OF seeded_empty, of PHASE1_SITES 0 "st_clock s"] by auto
  then show ?thesis
    using seed_cpu_nodes_seeded [OF s1(2)]
    by (auto simp: seed_default_def reset_def thenE_run seed_cpu_nodes_def)
qed

lemma seed_blueprints_safe:
  "seeded i m s \<Longrightarrow> safe (snd (seed_blueprints bks i s))"
proof (induction bks arbitrary: i m s)
  case Nil
  then show ?case by (simp add: seeded_def)
next
  case (Cons bk bks)
  show ?case
  proof (cases "map_of BLUEPRINTS bk")
    case None
    with Cons.prems show ?thesis by (simp add: thenE_run provision_run seeded_def)
  next
    case (Some bp)
    have "seeded (i + 1) (m + racks_per_su bp) (expanded s bp (Some ''du-1'') (i + 1) (maxq_rack_kw bp) (racks_per_su bp))"
      using Cons.prems by (rule seeded_expanded)
    from Cons.IH [OF this] Some show ?thesis by (simp add: thenE_run provision_run Let_def)
  qed
qed

lemma safe_seed_default: "safe (snd (seed_default bks s))"
proof (cases "bks = []")
  case True
  then show ?thesis using seed_default_phase1 [of s] by (auto simp: seeded_def)
next
  case False
  define fl where "fl = \<lparr>fl_name = [], fl_power_mw = 0, fl_ready = [], fl_racks = 0\<rparr>"
  define sa where "sa = snd (add_factory ''aif-skt-01'' ''SKT NVL72 AI Factory 01'' ''Seoul Metro (Gasan)'' 250 (empty_store (st_clock s)))"
  define sb where "sb = snd (add_block ''aif-skt-01'' ''block-1'' 1 fl sa)"
  define s1 where "s1 = snd (add_du ''block-1'' ''du-1'' 1 sb)"
  have "seeded 0 0 sa"
    unfolding sa_def add_factory_def modifyE_run snd_conv by (rule seeded_side [OF _ seeded_empty]) (simp add: side_write_def)
  then have "seeded 0 0 sb"
    unfolding sb_def add_block_def modifyE_run snd_conv by (rule seeded_side [rotated]) (simp add: side_write_def)
  then have "seeded 0 0 s1"
    unfolding s1_def add_du_def modifyE_run snd_conv by (rule seeded_side [rotated]) (simp add: side_write_def)
  then have done_ok: "safe (snd (seed_blueprints bks 0 s1))" by (rule seed_blueprints_safe)
  have eq: "seed_default bks s = thenE (seed_blueprints bks 0) seed_cpu_nodes s1"
    using False by (simp add: seed_default_def reset_def add_factory_def add_block_def add_du_def s1_def sa_def sb_def fl_def thenE_run)
  have "keeps safe seed_cpu_nodes"
    unfolding seed_cpu_nodes_def by (rule keeps_side_write) (simp add: side_write_def)
  with done_ok show ?thesis unfolding eq by (auto simp: thenE_run keeps_def split: prod.splits sum.splits)
qed

section \<open>Topology routes\<close>

lemma free_index_free: "free_index n used \<notin> set used \<and> n \<le> free_index n used"
proof (induction n used rule: free_index.induct)
  case (1 n used)
  then show ?case
    by (cases "n \<in> set used") (simp_all add: free_index.simps [of n used])
qed

lemma keeps_provision_su: "keeps safe (provision_su bk fid did)"
proof (rule keepsI)
  fix s
  assume s: "safe s"
  define idx where "idx = free_index (Suc (seq_of s ''su_index_provisioned'')) (map su_index (dict_values (st_sus s)))"
  let ?s1 = "s\<lparr>st_counters := AList.update ''su_index_provisioned'' idx (st_counters s)\<rparr>"
  have s1: "safe ?s1" using s by (rule safe_cong [rotated -1]) (simp_all add: seq_of_def)
  have "unused_index ?s1 idx"
    using free_index_free [of "Suc (seq_of s ''su_index_provisioned'')" "map su_index (dict_values (st_sus s))"]
    by (simp add: unused_index_def idx_def)
  note ok = expanded_safe [OF s1 this]
  show "safe (snd (provision_su bk fid did s))"
    using s ok s1
    by (auto simp: provision_su_def thenE_run bindE_run provision_run get_blueprint_def someE_run Let_def idx_def [symmetric]
             split: option.splits)
qed

text \<open>A write to a rack's attributes that leaves its place and its tenant alone.\<close>

lemma safe_rack_attr:
  assumes "safe s" and f: "\<And>r. rack_id (f r) = rack_id r \<and> rack_su_id (f r) = rack_su_id r
      \<and> rack_tenant_id (f r) = rack_tenant_id r \<and> rack_tray_ids (f r) = rack_tray_ids r"
  shows "safe (s\<lparr>st_racks := dict_mod rid f (st_racks s)\<rparr>)" (is "safe ?s'")
proof -
  from assms(1) have inv: "topo_ok s" "alloc_ok s" "part_ok s" "net_ok s" "life_inv s"
    by (simp_all add: safe_def tenancy_inv_def)
  have fwd: "\<exists>r'. map_of (st_racks ?s') k = Some r' \<and> rack_su_id r' = rack_su_id r
      \<and> rack_tenant_id r' = rack_tenant_id r \<and> rack_tray_ids r' = rack_tray_ids r"
    if "map_of (st_racks s) k = Some r" for k r
    using that f by auto
  have bwd: "\<exists>r. map_of (st_racks s) k = Some r \<and> rack_id r = rack_id r' \<and> rack_su_id r = rack_su_id r'
      \<and> rack_tenant_id r = rack_tenant_id r'"
    if "map_of (st_racks ?s') k = Some r'" for k r'
    using that f by (auto split: if_splits)
  have "topo_ok ?s'"
  proof -
    have units: "su_id u = k \<and> k = ''su-'' @ dec (su_index u) \<and> distinct (su_rack_ids u) \<and>
        (\<forall>x \<in> set (su_rack_ids u). \<exists>r'. map_of (st_racks ?s') x = Some r' \<and> rack_su_id r' = k)"
      if "map_of (st_sus s) k = Some u" for k u
    proof -
      from that inv(1) have "su_id u = k" "k = ''su-'' @ dec (su_index u)" "distinct (su_rack_ids u)"
          "\<forall>x \<in> set (su_rack_ids u). \<exists>r. map_of (st_racks s) x = Some r \<and> rack_su_id r = k"
        unfolding topo_ok_def by blast+
      with fwd show ?thesis by metis
    qed
    have racks: "rack_id r' = k \<and> has_key (st_sus s) (rack_su_id r') \<and> (\<exists>sfx. k = rack_su_id r' @ ''-rack-'' @ sfx)"
      if r': "map_of (st_racks ?s') k = Some r'" for k r'
    proof -
      obtain r where r: "map_of (st_racks s) k = Some r" "rack_id r = rack_id r'" "rack_su_id r = rack_su_id r'"
        using bwd [OF r'] by blast
      from r(1) inv(1) have "rack_id r = k \<and> has_key (st_sus s) (rack_su_id r) \<and> (\<exists>sfx. k = rack_su_id r @ ''-rack-'' @ sfx)"
        unfolding topo_ok_def by blast
      with r show ?thesis by simp
    qed
    have tns: "tn_id t = k \<and> k \<noteq> []" if "map_of (st_tenants s) k = Some t" for k t
      using that inv(1) unfolding topo_ok_def by blast
    have wf: "dict_wf (st_racks ?s')" "dict_wf (st_sus s)" using inv(1) by (simp_all add: topo_ok_def)
    have same: "st_sus ?s' = st_sus s" "st_tenants ?s' = st_tenants s" by simp_all
    show ?thesis unfolding topo_ok_def same using wf racks units tns by blast
  qed
  moreover have "alloc_ok ?s'"
  proof -
    have own: "\<exists>r'. map_of (st_racks ?s') rid = Some r' \<and> rack_tenant_id r' = Some (alloc_tenant_id a) \<and> rack_su_id r' = alloc_su_id a"
      if "map_of (st_allocations s) k = Some a" "rid \<in> set (alloc_rack_ids a)" for k a rid
    proof -
      from that inv(2) obtain r where "map_of (st_racks s) rid = Some r"
          "rack_tenant_id r = Some (alloc_tenant_id a)" "rack_su_id r = alloc_su_id a"
        unfolding alloc_ok_def by blast
      with fwd show ?thesis by metis
    qed
    have bound: "\<exists>k a. map_of (st_allocations s) k = Some a \<and> alloc_tenant_id a = t \<and> rid \<in> set (alloc_rack_ids a)"
      if "map_of (st_racks ?s') rid = Some r" "rack_tenant_id r = Some t" for rid r t
    proof -
      from bwd [OF that(1)] that(2) obtain x where "map_of (st_racks s) rid = Some x" "rack_tenant_id x = Some t" by auto
      with inv(2) show ?thesis unfolding alloc_ok_def by blast
    qed
    have keep: "alloc_id a = k \<and> has_key (st_tenants s) (alloc_tenant_id a) \<and> (\<exists>m \<le> seq_of s ''alloc''. k = ''alloc-'' @ dec m)"
      if "map_of (st_allocations s) k = Some a" for k a
      using that inv(2) unfolding alloc_ok_def by blast
    have disj: "k = l" if "map_of (st_allocations s) k = Some a" "map_of (st_allocations s) l = Some b"
        "rid \<in> set (alloc_rack_ids a)" "rid \<in> set (alloc_rack_ids b)" for k l a b rid
      using that inv(2) unfolding alloc_ok_def by blast
    have wf: "dict_wf (st_allocations s)" using inv(2) by (simp add: alloc_ok_def)
    have same: "st_allocations ?s' = st_allocations s" "st_tenants ?s' = st_tenants s" "seq_of ?s' ''alloc'' = seq_of s ''alloc''"
      by (simp_all add: seq_of_def)
    show ?thesis
      unfolding alloc_ok_def same using wf keep own disj bound by (intro conjI allI impI ballI) blast+
  qed
  moreover have "part_ok ?s'"
  proof -
    have "\<exists>r'. map_of (st_racks ?s') (part_rack_id p) = Some r' \<and> rack_tenant_id r' = Some (part_tenant_id p)
        \<and> set (part_tray_ids p) \<subseteq> set (rack_tray_ids r')" if "map_of (st_partitions s) k = Some p" for k p
    proof -
      from that inv(3) obtain r where "map_of (st_racks s) (part_rack_id p) = Some r"
          "rack_tenant_id r = Some (part_tenant_id p)" "set (part_tray_ids p) \<subseteq> set (rack_tray_ids r)"
        unfolding part_ok_def by blast
      with fwd show ?thesis by fastforce
    qed
    then show ?thesis using inv(3) unfolding part_ok_def by (simp add: partitions_of_rack_def)
  qed
  moreover have "net_ok ?s'" "life_inv ?s'" using inv(4,5) by (simp_all add: net_ok_def life_inv_def)
  ultimately show ?thesis by (simp add: safe_def tenancy_inv_def)
qed

lemma keeps_get_blueprint [keeps_rules]: "keeps I (get_blueprint bk)"
  unfolding get_blueprint_def by (intro keeps_rules)

lemma keeps_set_equipment_state: "keeps safe (set_equipment_state kind iid st)"
  unfolding set_equipment_state_def
  by (intro keeps_rules; intro keeps_modifyE safe_rack_attr keeps_side_write) (simp_all add: side_write_def safe_side_write)

lemma keeps_set_power_policy: "keeps safe (set_power_policy rid policy)"
  unfolding set_power_policy_def by (intro keeps_rules keeps_modifyE safe_rack_attr) simp_all

end
