(* ===== verification/Guard.thy ===== *)
theory Guard
  imports Store
begin

text \<open>
  \<open>app/tenancy_guard.py\<close>: the middleware that scopes customer-plane requests to one tenant. A
  request is what the guard looks at: method, path, headers, query parameters and the \<open>tenant_id\<close>
  of a JSON object body. The rest of the application is a parameter, the handler behind the guard.
\<close>

section \<open>Requests and responses\<close>

text \<open>
  \<open>rq_body_tenant\<close> is \<open>None\<close> when the body is empty, not JSON, not an object or has no such key, and
  \<open>Some None\<close> when the value under the key is not a string.
\<close>

record request =
  rq_method :: string
  rq_path :: string
  rq_tenant :: "string option"
  rq_role :: "string option"
  rq_query :: "string dict"
  rq_body_tenant :: "string option option"

text \<open>
  A JSON list body keeps, of each item, the two keys the filter reads and the text of the whole object; other bodies
  are opaque.
\<close>

record item =
  it_id :: "string option"
  it_tenant_ref :: "string option"
  it_text :: string

datatype body = Items "item list" | Opaque string

record response =
  rs_status :: nat
  rs_body :: body

definition forbidden :: "string \<Rightarrow> response" where
  "forbidden d = \<lparr>rs_status = 403, rs_body = Opaque d\<rparr>"

section \<open>Path patterns\<close>

definition starts_with :: "string \<Rightarrow> string \<Rightarrow> bool" where
  "starts_with p s \<longleftrightarrow> take (length p) s = p"

definition PUBLIC_PREFIXES :: "string list" where
  "PUBLIC_PREFIXES = [''/api/v1/status'', ''/api/v1/public/'', ''/api/v1/spec'']"

text \<open>\<open>^<prefix>([^/]+)\<close>: the non-empty path segment after a prefix.\<close>

definition segment_after :: "string \<Rightarrow> string \<Rightarrow> string option" where
  "segment_after p s = (if starts_with p s
     then (let seg = takeWhile (\<lambda>c. c \<noteq> CHR ''/'') (drop (length p) s) in if seg = [] then None else Some seg)
     else None)"

definition TENANT_PATH :: string where "TENANT_PATH = ''/api/v1/tenants/''"
definition ORDER_PATH :: string where "ORDER_PATH = ''/api/v1/orders/''"
definition CLUSTER_PATH :: string where "CLUSTER_PATH = ''/api/v1/k8s/clusters/''"

definition QUERY_SCOPED_LISTS :: "string list" where
  "QUERY_SCOPED_LISTS = [''/api/v1/orders'', ''/api/v1/k8s/clusters'', ''/api/v1/k8s/installs'', ''/api/v1/tickets'',
     ''/api/v1/billing/usage'', ''/api/v1/nodes'', ''/api/v1/cpu-nodes'', ''/api/v1/nvlink-partitions'']"

definition RESPONSE_FILTERED_LISTS :: "(item \<Rightarrow> string option) dict" where
  "RESPONSE_FILTERED_LISTS = [(''/api/v1/tenants'', it_id), (''/fake-vast/views'', it_tenant_ref),
     (''/fake-nico/hosts'', it_tenant_ref)]"

definition READ_METHODS :: "string list" where
  "READ_METHODS = [''GET'', ''HEAD'', ''OPTIONS'']"

section \<open>Checks\<close>

definition scope_violation :: "store \<Rightarrow> request \<Rightarrow> string \<Rightarrow> bool" where
  "scope_violation s rq tid \<longleftrightarrow>
     (case segment_after TENANT_PATH (rq_path rq) of None \<Rightarrow> False | Some x \<Rightarrow> x \<noteq> tid)
   \<or> (case segment_after ORDER_PATH (rq_path rq) of None \<Rightarrow> False
      | Some oid \<Rightarrow> (case map_of (st_orders s) oid of None \<Rightarrow> False | Some x \<Rightarrow> order_tenant_id x \<noteq> tid))
   \<or> (case segment_after CLUSTER_PATH (rq_path rq) of None \<Rightarrow> False
      | Some cid \<Rightarrow> (case map_of (st_k8s_clusters s) cid of None \<Rightarrow> False | Some c \<Rightarrow> kc_tenant_id c \<noteq> tid))"

text \<open>
  \<open>(header or "member").strip().lower()\<close>. Headers are decoded as Latin-1: \<open>strip\<close> removes the
  whitespace characters of that range.
\<close>

definition is_blank :: "char \<Rightarrow> bool" where
  "is_blank c \<longleftrightarrow> (of_char c :: nat) \<in> {9, 10, 11, 12, 13, 28, 29, 30, 31, 32, 133, 160}"

definition strip :: "string \<Rightarrow> string" where
  "strip s = rev (dropWhile is_blank (rev (dropWhile is_blank s)))"

definition lower_char :: "char \<Rightarrow> char" where
  "lower_char c = (if 65 \<le> (of_char c :: nat) \<and> (of_char c :: nat) \<le> 90 then char_of ((of_char c :: nat) + 32) else c)"

definition role_of :: "request \<Rightarrow> string" where
  "role_of rq = map lower_char (strip (case rq_role rq of None \<Rightarrow> ''member'' | Some r \<Rightarrow> if r = [] then ''member'' else r))"

definition body_tenant_mismatch :: "request \<Rightarrow> string \<Rightarrow> bool" where
  "body_tenant_mismatch rq tid \<longleftrightarrow> rq_method rq \<notin> set READ_METHODS
     \<and> (case rq_body_tenant rq of None \<Rightarrow> False | Some t \<Rightarrow> t \<noteq> Some tid)"

definition force_tenant_query :: "string \<Rightarrow> request \<Rightarrow> request" where
  "force_tenant_query tid rq = rq\<lparr>rq_query := AList.update ''tenant_id'' tid (rq_query rq)\<rparr>"

definition filter_json_list :: "(item \<Rightarrow> string option) \<Rightarrow> string \<Rightarrow> response \<Rightarrow> response" where
  "filter_json_list key tid rs = (if rs_status rs \<noteq> 200 then rs else (case rs_body rs of
     Items xs \<Rightarrow> rs\<lparr>rs_body := Items (filter (\<lambda>x. key x = Some tid) xs)\<rparr> | Opaque b \<Rightarrow> rs))"

section \<open>The middleware\<close>

definition unguarded :: "request \<Rightarrow> bool" where
  "unguarded rq \<longleftrightarrow> (case rq_tenant rq of None \<Rightarrow> True | Some t \<Rightarrow> t = [])
     \<or> \<not> (starts_with ''/api/'' (rq_path rq) \<or> starts_with ''/fake-'' (rq_path rq))
     \<or> list_ex (\<lambda>p. starts_with p (rq_path rq)) PUBLIC_PREFIXES"

text \<open>\<open>dispatch\<close>: the handler runs on the state and returns a response and a new state, or it does not run.\<close>

definition dispatch :: "('s \<Rightarrow> store) \<Rightarrow> (request \<Rightarrow> 's \<Rightarrow> response \<times> 's) \<Rightarrow> request \<Rightarrow> 's \<Rightarrow> response \<times> 's"
  where
  "dispatch get call_next rq s =
     (if unguarded rq then call_next rq s
      else (let tid = the (rq_tenant rq) in
        if starts_with ''/api/v1/admin'' (rq_path rq) then (forbidden ''admin surface not allowed for tenant scope'', s)
        else if scope_violation (get s) rq tid then (forbidden ''tenant scope violation'', s)
        else if role_of rq = ''viewer'' \<and> rq_method rq \<notin> set READ_METHODS then (forbidden ''read-only role'', s)
        else if body_tenant_mismatch rq tid then (forbidden ''tenant scope violation'', s)
        else (let rq' = (if rq_method rq = ''GET'' \<and> rq_path rq \<in> set QUERY_SCOPED_LISTS
                         then force_tenant_query tid rq else rq);
                  (rs, s') = call_next rq' s
              in case map_of RESPONSE_FILTERED_LISTS (rq_path rq) of
                   Some key \<Rightarrow> if rq_method rq = ''GET'' then (filter_json_list key tid rs, s') else (rs, s')
                 | None \<Rightarrow> (rs, s'))))"

end
