(* ===== verification/Scenario.thy ===== *)
theory Scenario
  imports Orders Guard
begin

text \<open>
  \<open>app/scenario_api.py\<close>: the customer lifecycle on top of the order pipeline. Acceptance of a delivery
  (approve, reject, deemed approval after a deadline) and the termination workflow (backup gate, reclaim
  of every allocation, wipe certificate). \<open>scenario_env\<close> holds what the module reads from its
  environment: \<open>None\<close> for an unset variable, \<open>Some None\<close> for one that is no number. The SHA-256 of the
  certificate's JSON text is a parameter. The erasing saga is modelled in its synchronous mode; in the
  paced mode the same stages run in a thread.
\<close>

record scenario_env =
  env_deemed_days :: "rat option option"
  env_sha256 :: "wipe_certificate \<Rightarrow> string"

section \<open>Acceptance\<close>

definition ACCEPTANCE_DEEMED_DAYS :: rat where "ACCEPTANCE_DEEMED_DAYS = 7"

definition deemed_days :: "scenario_env \<Rightarrow> rat" where
  "deemed_days env = (case env_deemed_days env of Some (Some d) \<Rightarrow> max 0 d | _ \<Rightarrow> ACCEPTANCE_DEEMED_DAYS)"

definition iso_plus_days :: "int \<Rightarrow> rat \<Rightarrow> int" where
  "iso_plus_days ts d = ts + round_even (d * of_int DAY)"

definition build_acceptance_report :: "store \<Rightarrow> service_order \<Rightarrow> int \<Rightarrow> acceptance_report" where
  "build_acceptance_report s x ts =
     (let gbps = sum_list (map sa_qos_gbps (filter (\<lambda>sa. sa_order_id sa = order_id x) (dict_values (st_storage_allocs s)))) in
      \<lparr>ar_checks = map (\<lambda>c. (c, ''pass'')) [''nccl-allreduce'', ''fio-storage'', ''burn-in'', ''node-ready''],
       ar_nodes_tested = length (order_node_ids x), ar_gbps = (if gbps = 0 then 40 else gbps), ar_report_ts = ts\<rparr>)"

definition upd_acceptance :: "string \<Rightarrow> (acceptance_rec \<Rightarrow> acceptance_rec) \<Rightarrow> unit sprog" where
  "upd_acceptance oid f = modifyE (\<lambda>s. s\<lparr>st_acceptances := dict_mod oid f (st_acceptances s)\<rparr>)"

definition ensure_acceptance :: "scenario_env \<Rightarrow> service_order \<Rightarrow> acceptance_rec option sprog" where
  "ensure_acceptance env x =
     thenE (raise_if (order_kind x \<noteq> K_new) (HTTPException 409 ''acceptance: new orders only''))
     (bindE (getsE (\<lambda>s. map_of (st_acceptances s) (order_id x))) (\<lambda>old. case old of
        Some r \<Rightarrow> returnE (Some r)
      | None \<Rightarrow> (case List.find (\<lambda>e. ev_state e = order_state_value O_acceptance) (order_history x) of
            None \<Rightarrow> returnE None
          | Some e \<Rightarrow>
              bindE (getsE (\<lambda>s. \<lparr>acc_order_id = order_id x, acc_tenant_id = order_tenant_id x, acc_status = ''pending'',
                  acc_report = build_acceptance_report s x (ev_at e),
                  acc_deemed_deadline = iso_plus_days (ev_at e) (deemed_days env), acc_billing_start = None,
                  acc_reject_reason = None, acc_decided_at = None, acc_decided_by = None\<rparr>)) (\<lambda>r.
              thenE (modifyE (\<lambda>s. s\<lparr>st_acceptances := AList.update (order_id x) r (st_acceptances s)\<rparr>))
                    (returnE (Some r))))))"

text \<open>
  The approval queue's remaining gates, one after the other. A pipeline has at most eight stages and a
  pass moves the gate to a later one, so eight rounds are all the loop can make.
\<close>

fun approve_rest :: "'n compute_adapter \<Rightarrow> nat \<Rightarrow> string \<Rightarrow> ('n, unit) wprog" where
  "approve_rest A 0 oid = returnE ()"
| "approve_rest A (Suc k) oid =
     bindE (orderW oid) (\<lambda>x.
     if pending_stage x \<noteq> None \<and> order_state x \<notin> {O_delivered, O_failed, O_rejected}
     then thenE (approve_next_stage A oid) (approve_rest A k oid) else returnE ())"

definition pass_node :: "string \<Rightarrow> ('n, unit) wprog" where
  "pass_node nid =
     bindE (getsS (\<lambda>s. map_of (st_node_instances s) nid)) (\<lambda>n0. case n0 of
       None \<Rightarrow> returnE ()
     | Some n \<Rightarrow> if node_state n = N_in_service then returnE ()
                 else advN nid N_in_service ''customer acceptance passed'')"

definition finalize_delivery :: "'n compute_adapter \<Rightarrow> string \<Rightarrow> ('n, unit) wprog" where
  "finalize_delivery A oid =
     bindE (orderW oid) (\<lambda>x.
     if order_state x = O_delivered then returnE ()
     else if approval_mode x \<and> pending_stage x \<noteq> None then approve_rest A (length FULFILL_STAGES_K8S) oid
     else if order_state x = O_acceptance then
       thenE (forE (order_node_ids x) pass_node)
       (thenE (if order_access_package x = None then build_access_package oid else returnE ())
              (advO oid O_delivered ''customer acceptance: delivered''))
     else returnE ())"

text \<open>A history entry of the state the order is in, with a note.\<close>

definition note_order :: "string \<Rightarrow> string \<Rightarrow> int \<Rightarrow> unit sprog" where
  "note_order oid d t = upd_order oid (\<lambda>x.
     x\<lparr>order_history := order_history x @ [event (order_state_value (order_state x)) d t]\<rparr>)"

text \<open>Approval without an answer: the record is judged when it is read.\<close>

definition due_for_deeming :: "store \<Rightarrow> string \<Rightarrow> int option" where
  "due_for_deeming s oid = (case (map_of (st_acceptances s) oid, map_of (st_orders s) oid) of
     (Some r, Some x) \<Rightarrow>
       if acc_status r \<in> {''pending'', ''rejected''} \<and> order_state x \<in> {O_acceptance, O_k8s_installing, O_delivered}
          \<and> acc_deemed_deadline r \<le> now s
       then Some (acc_deemed_deadline r) else None
   | _ \<Rightarrow> None)"

definition maybe_deem :: "'n compute_adapter \<Rightarrow> string \<Rightarrow> ('n, unit) wprog" where
  "maybe_deem A oid =
     bindE (getsS (\<lambda>s. due_for_deeming s oid)) (\<lambda>due. case due of
       None \<Rightarrow> returnE ()
     | Some deadline \<Rightarrow>
         thenE (finalize_delivery A oid)
         (bindE (getsS now) (\<lambda>t.
          thenE (onStore (upd_acceptance oid (\<lambda>r. r\<lparr>acc_status := ''deemed'', acc_billing_start := Some deadline,
                   acc_decided_at := Some t, acc_decided_by := Some ''deemed''\<rparr>)))
                (onStore (note_order oid ''AcceptanceDeemed'' t)))))"

definition acceptance_report_route :: "'n compute_adapter \<Rightarrow> scenario_env \<Rightarrow> string \<Rightarrow> ('n, acceptance_rec option) wprog" where
  "acceptance_report_route A env oid =
     bindE (onStore (order_or_404 oid)) (\<lambda>x.
     bindE (onStore (ensure_acceptance env x)) (\<lambda>r.
     thenE (if r \<noteq> None then maybe_deem A oid else returnE ())
           (getsS (\<lambda>s. map_of (st_acceptances s) oid))))"

definition check_decision :: "scenario_env \<Rightarrow> string \<Rightarrow> string \<Rightarrow> string option \<Rightarrow> unit sprog" where
  "check_decision env oid decision reason =
     bindE (order_or_404 oid) (\<lambda>x.
     thenE (raise_if (decision \<notin> {''approve'', ''reject''}) (HTTPException 422 ''decision must be approve or reject''))
     (thenE (raise_if (decision = ''reject'' \<and> strip (str_or reason '''') = []) (HTTPException 422 ''reject: reason required''))
     (thenE (raise_if (order_state x \<in> {O_failed, O_rejected, O_compensating, O_reclaiming, O_closed})
               (HTTPException 409 ''order state: no decision possible''))
     (bindE (ensure_acceptance env x) (\<lambda>r.
      bindE (someE (HTTPException 409 ''before acceptance: no report yet'') r) (\<lambda>r.
      raise_if (acc_status r \<in> {''approved'', ''deemed''}) (HTTPException 409 ''already decided'')))))))"

definition record_approval :: "string \<Rightarrow> unit sprog" where
  "record_approval oid =
     bindE (getsE now) (\<lambda>t.
     thenE (upd_acceptance oid (\<lambda>r. r\<lparr>acc_status := ''approved'', acc_billing_start := Some t, acc_reject_reason := None,
              acc_decided_at := Some t, acc_decided_by := Some ''customer''\<rparr>))
           (note_order oid ''AcceptanceApproved'' t))"

text \<open>The customer's rejection: back to acceptance outside the transition table, a new report and deadline.\<close>

definition retest_order :: "int \<Rightarrow> service_order \<Rightarrow> service_order" where
  "retest_order t x = x\<lparr>order_state := (if order_state x = O_delivered then O_acceptance else order_state x),
     order_history := order_history x @ [event (order_state_value O_acceptance) ''AcceptanceRejected'' t]\<rparr>"

definition record_rejection :: "scenario_env \<Rightarrow> string \<Rightarrow> string option \<Rightarrow> unit sprog" where
  "record_rejection env oid reason =
     bindE (getsE now) (\<lambda>t.
     thenE (upd_order oid (retest_order t))
     (bindE (the_order oid) (\<lambda>x.
      bindE (getsE (\<lambda>s. build_acceptance_report s x t)) (\<lambda>rep.
      upd_acceptance oid (\<lambda>r. r\<lparr>acc_status := ''rejected'', acc_reject_reason := reason, acc_billing_start := None,
        acc_decided_at := Some t, acc_decided_by := Some ''customer'', acc_report := rep,
        acc_deemed_deadline := iso_plus_days t (deemed_days env)\<rparr>)))))"

definition decide_acceptance ::
  "'n compute_adapter \<Rightarrow> scenario_env \<Rightarrow> string \<Rightarrow> string \<Rightarrow> string option \<Rightarrow> ('n, acceptance_rec option) wprog" where
  "decide_acceptance A env oid decision reason =
     thenE (onStore (check_decision env oid decision reason))
     (thenE (if decision = ''approve'' then thenE (finalize_delivery A oid) (onStore (record_approval oid))
             else onStore (record_rejection env oid reason))
            (getsS (\<lambda>s. map_of (st_acceptances s) oid)))"
section \<open>Termination\<close>

definition TERMINATION_CHECKLIST :: "string list" where
  "TERMINATION_CHECKLIST = [''tenant data export done'', ''external storage migration done'', ''final backup verified'']"

text \<open>\<open>max(xs, key=f)\<close>: the first element whose key is greatest; \<open>None\<close> for the empty list.\<close>

fun max_by :: "('a \<Rightarrow> 'b::linorder) \<Rightarrow> 'a list \<Rightarrow> 'a option" where
  "max_by f [] = None"
| "max_by f (x # xs) = (case max_by f xs of None \<Rightarrow> Some x | Some y \<Rightarrow> Some (if f y \<le> f x then x else y))"

definition latest_termination :: "store \<Rightarrow> string \<Rightarrow> termination_rec option" where
  "latest_termination s tid = max_by tr_requested_at (filter (\<lambda>t. tr_tenant_id t = tid) (dict_values (st_terminations s)))"

definition tenant_allocation_ids :: "store \<Rightarrow> string \<Rightarrow> string list" where
  "tenant_allocation_ids s tid = map alloc_id (filter (\<lambda>a. alloc_tenant_id a = tid) (dict_values (st_allocations s)))"

definition upd_termination :: "string \<Rightarrow> (termination_rec \<Rightarrow> termination_rec) \<Rightarrow> unit sprog" where
  "upd_termination k f = modifyE (\<lambda>s. s\<lparr>st_terminations := dict_mod k f (st_terminations s)\<rparr>)"

definition the_termination :: "string \<Rightarrow> termination_rec sprog" where
  "the_termination k = bindE (getsE (\<lambda>s. map_of (st_terminations s) k)) (someE (PyError ''KeyError''))"

definition request_termination :: "string \<Rightarrow> termination_rec sprog" where
  "request_termination tid =
     bindE (getsE (\<lambda>s. has_key (st_tenants s) tid)) (\<lambda>known.
     thenE (raise_if (\<not> known) (HTTPException 404 ''tenant not found''))
     (bindE (getsE (\<lambda>s. latest_termination s tid)) (\<lambda>active.
      thenE (raise_if (case active of None \<Rightarrow> False | Some r \<Rightarrow> tr_state r \<in> {''awaiting_backup'', ''erasing''})
               (HTTPException 409 ''termination already in progress''))
      (bindE (next_seq ''termination'') (\<lambda>n.
       bindE (getsE (\<lambda>s. \<lparr>tr_id = ''term-'' @ dec n, tr_tenant_id = tid, tr_state = ''awaiting_backup'', tr_requested_at = now s,
           tr_checklist = map (\<lambda>i. (i, False)) TERMINATION_CHECKLIST, tr_backup_confirmed_at = None,
           tr_progress = (''awaiting_backup'', 0), tr_allocations = tenant_allocation_ids s tid, tr_orders = [],
           tr_certificate = None, tr_closed_at = None\<rparr>)) (\<lambda>r.
       thenE (modifyE (\<lambda>s. s\<lparr>st_terminations := AList.update (tr_id r) r (st_terminations s)\<rparr>)) (returnE r)))))))"

definition term_progress :: "string \<Rightarrow> string \<Rightarrow> nat \<Rightarrow> nat \<Rightarrow> unit sprog" where
  "term_progress k stage d tot = upd_termination k (\<lambda>r. r\<lparr>tr_progress :=
     (stage, if tot = 0 then 100 else round_even (of_nat d / of_nat tot * 100))\<rparr>)"

definition erase_stage_names :: "string list" where
  "erase_stage_names = [''drain'', ''release'']
     @ map (\<lambda>(i, st). ''erase-'' @ dec i @ ''/7 '' @ st) (zip [1..<8] SANITIZE_STEPS)"

text \<open>The stages shown before the reclaim of one allocation; the reclaim itself does the work.\<close>

fun show_stages :: "string \<Rightarrow> string \<Rightarrow> nat \<Rightarrow> nat \<Rightarrow> string list \<Rightarrow> unit sprog" where
  "show_stages k aid d tot [] = returnE ()"
| "show_stages k aid d tot (st # sts) =
     thenE (term_progress k (aid @ '': '' @ st) d tot) (show_stages k aid (Suc d) tot sts)"

definition terminate_body :: "string \<Rightarrow> string \<Rightarrow> order_create" where
  "terminate_body tid aid = \<lparr>oc_tenant_id = tid, oc_kind = K_terminate, oc_blueprint_key = None, oc_racks = 0,
     oc_allocation_id = Some aid, oc_approval_mode = False, oc_storage_mode = ''auto'', oc_storage_tb = 0,
     oc_storage_gbps = 0, oc_managed_k8s = False, oc_k8s_version = ''v1.32.4''\<rparr>"

definition alloc_racks_and_nodes :: "store \<Rightarrow> string \<Rightarrow> string list \<times> nat" where
  "alloc_racks_and_nodes s aid =
     (let rids = (case map_of (st_allocations s) aid of None \<Rightarrow> [] | Some a \<Rightarrow> alloc_rack_ids a)
      in (rids, sum_list (map (\<lambda>r. length (rack_tray_ids r)) (dict_pick (st_racks s) rids))))"

definition erase_allocation :: "'n compute_adapter \<Rightarrow> string \<Rightarrow> string \<Rightarrow> nat \<Rightarrow> nat \<Rightarrow> string \<Rightarrow> ('n, cert_allocation) wprog" where
  "erase_allocation A k tid d tot aid =
     bindE (getsS (\<lambda>s. alloc_racks_and_nodes s aid)) (\<lambda>(rids, nodes).
     thenE (onStore (show_stages k aid d tot erase_stage_names))
     (bindE (run_terminate_order A (terminate_body tid aid)) (\<lambda>x.
      thenE (onStore (upd_termination k (\<lambda>r. r\<lparr>tr_orders := tr_orders r @ [order_id x]\<rparr>)))
      (thenE (onStore (term_progress k (aid @ '': pool-return'') (d + length erase_stage_names) tot))
      (returnE \<lparr>ct_allocation_id = aid, ct_racks = rids, ct_nodes = nodes, ct_terminate_order_id = order_id x,
         ct_reclaim_state = order_state_value (order_state x), ct_erase_steps = map (\<lambda>st. (st, True)) SANITIZE_STEPS\<rparr>)))))"

fun erase_allocations ::
  "'n compute_adapter \<Rightarrow> string \<Rightarrow> string \<Rightarrow> nat \<Rightarrow> nat \<Rightarrow> string list \<Rightarrow> ('n, cert_allocation list) wprog" where
  "erase_allocations A k tid d tot [] = returnE []"
| "erase_allocations A k tid d tot (aid # aids) =
     bindE (erase_allocation A k tid d tot aid) (\<lambda>c.
     bindE (erase_allocations A k tid (d + length erase_stage_names + 1) tot aids) (\<lambda>cs. returnE (c # cs)))"

definition issue_certificate :: "scenario_env \<Rightarrow> string \<Rightarrow> string \<Rightarrow> nat \<Rightarrow> cert_allocation list \<Rightarrow> unit sprog" where
  "issue_certificate env k tid tot cs =
     bindE (getsE now) (\<lambda>t.
     let body = \<lparr>wc_cert_id = '''', wc_issued_at = t, wc_sha256 = '''', wc_tenant_id = tid, wc_termination_id = k,
           wc_allocations = cs\<rparr> in
     bindE (next_seq ''wipe_cert'') (\<lambda>n.
     thenE (upd_termination k (\<lambda>r. r\<lparr>tr_certificate :=
              Some (body\<lparr>wc_cert_id := ''wipe-'' @ dec n, wc_sha256 := env_sha256 env body\<rparr>), tr_state := ''wiped''\<rparr>))
           (term_progress k ''wiped'' tot tot)))"

definition run_termination_saga :: "'n compute_adapter \<Rightarrow> scenario_env \<Rightarrow> string \<Rightarrow> string \<Rightarrow> ('n, unit) wprog" where
  "run_termination_saga A env k tid =
     bindE (getsS (\<lambda>s. tenant_allocation_ids s tid)) (\<lambda>aids.
     thenE (onStore (upd_termination k (\<lambda>r. r\<lparr>tr_allocations := aids\<rparr>)))
     (let tot = max 1 (length aids) * (length erase_stage_names + 1) in
      bindE (erase_allocations A k tid 0 tot aids) (\<lambda>cs. onStore (issue_certificate env k tid tot cs))))"

text \<open>The request's checklist is a dictionary: the last entry for an item counts.\<close>

definition confirmed_in :: "(string \<times> bool) list \<Rightarrow> string \<Rightarrow> bool" where
  "confirmed_in checklist i \<longleftrightarrow> map_of (rev checklist) i = Some True"

definition check_backup :: "string \<Rightarrow> (string \<times> bool) list \<Rightarrow> string sprog" where
  "check_backup tid checklist =
     bindE (getsE (\<lambda>s. latest_termination s tid)) (\<lambda>r0.
     bindE (someE (HTTPException 404 ''no termination workflow'') r0) (\<lambda>r.
     thenE (raise_if (tr_state r \<noteq> ''awaiting_backup'') (HTTPException 409 ''not awaiting backup confirmation''))
     (thenE (raise_if (\<not> list_all (\<lambda>(i, _). confirmed_in checklist i) (tr_checklist r))
               (HTTPException 409 ''backup not confirmed''))
     (bindE (getsE now) (\<lambda>t.
      thenE (upd_termination (tr_id r) (\<lambda>r. r\<lparr>tr_checklist := map (\<lambda>(i, _). (i, True)) (tr_checklist r),
               tr_backup_confirmed_at := Some t, tr_state := ''erasing''\<rparr>))
      (thenE (term_progress (tr_id r) ''erasing'' 0 1) (returnE (tr_id r))))))))"

definition confirm_backup :: "'n compute_adapter \<Rightarrow> scenario_env \<Rightarrow> string \<Rightarrow> (string \<times> bool) list \<Rightarrow> ('n, termination_rec) wprog" where
  "confirm_backup A env tid checklist =
     bindE (onStore (check_backup tid checklist)) (\<lambda>k.
     thenE (run_termination_saga A env k tid) (onStore (the_termination k)))"

definition get_termination :: "string \<Rightarrow> termination_rec sprog" where
  "get_termination tid = bindE (getsE (\<lambda>s. latest_termination s tid)) (someE (HTTPException 404 ''no termination workflow''))"

definition get_wipe_certificate :: "string \<Rightarrow> wipe_certificate option sprog" where
  "get_wipe_certificate tid =
     bindE (get_termination tid) (\<lambda>r.
     thenE (raise_if (tr_state r \<notin> {''wiped'', ''closed''}) (HTTPException 409 ''not wiped yet''))
     (thenE (if tr_state r = ''wiped'' then
               bindE (getsE now) (\<lambda>t.
               thenE (upd_termination (tr_id r) (\<lambda>r. r\<lparr>tr_state := ''closed'', tr_closed_at := Some t\<rparr>))
                     (term_progress (tr_id r) ''closed'' 1 1))
             else returnE ())
            (returnE (tr_certificate r))))"

section \<open>Public inquiries\<close>

definition create_inquiry :: "string \<Rightarrow> string \<Rightarrow> string \<Rightarrow> string \<Rightarrow> string \<Rightarrow> inquiry sprog" where
  "create_inquiry company nm email gpu_scale message =
     thenE (raise_if (CHR ''@'' \<notin> set email) (HTTPException 422 ''invalid email''))
     (thenE (raise_if (strip company = [] \<or> strip nm = []) (HTTPException 422 ''company and name required''))
     (bindE (next_seq ''inquiry'') (\<lambda>n.
      bindE (getsE (\<lambda>s. \<lparr>iq_id = ''inq-'' @ dec n, iq_company = company, iq_name = nm, iq_email = email,
          iq_gpu_scale = gpu_scale, iq_message = message, iq_status = ''received'', iq_received_at = now s\<rparr>)) (\<lambda>r.
      thenE (modifyE (\<lambda>s. s\<lparr>st_inquiries := AList.update (iq_id r) r (st_inquiries s)\<rparr>)) (returnE r)))))"

definition list_inquiries :: "store \<Rightarrow> inquiry list" where
  "list_inquiries s = sort_desc iq_received_at (dict_values (st_inquiries s))"

end
