(* ===== verification/Business.thy ===== *)
theory Business
  imports Orders
begin

text \<open>
  \<open>app/business.py\<close>: trouble tickets and the usage preview. Amounts are rationals rounded where the
  code rounds (Python's round-half-even); the binary representation error of floats is not modelled.
\<close>

section \<open>Rates\<close>

definition RACK_HOUR_RATE_USD :: "rat dict" where
  "RACK_HOUR_RATE_USD = [(''vr-nvl72'', 980), (''gb300-nvl72'', 720), (''gb200-nvl72'', 560)]"

definition HOURS_PER_MONTH :: rat where "HOURS_PER_MONTH = 720"

definition rate_for :: "string option \<Rightarrow> rat" where
  "rate_for bk = (case map_of RACK_HOUR_RATE_USD (str_or bk '''') of Some r \<Rightarrow> r | None \<Rightarrow> 600)"

definition round_dp :: "nat \<Rightarrow> rat \<Rightarrow> rat" where
  "round_dp k x = of_int (round_even (x * 10 ^ k)) / 10 ^ k"

section \<open>Tickets\<close>

definition TICKET_STATUSES :: "string list" where "TICKET_STATUSES = [''open'', ''in_progress'', ''resolved'']"
definition TICKET_SEVERITIES :: "string list" where "TICKET_SEVERITIES = [''low'', ''medium'', ''high'', ''critical'']"
definition TICKET_TYPES :: "string list" where "TICKET_TYPES = [''tech'', ''change'', ''billing_dispute'']"
definition TICKET_ROUTING :: "string dict" where
  "TICKET_ROUTING = [(''tech'', ''ops''), (''change'', ''ops''), (''billing_dispute'', ''biz'')]"
definition CHANGE_SCOPES :: "string list" where "CHANGE_SCOPES = [''in_contract'', ''contract_amendment'']"
definition BILLING_DISPUTE_POLICY :: string where
  "BILLING_DISPUTE_POLICY = ''due date kept, adjusted on the next invoice''"

definition check_ticket :: "ticket_create \<Rightarrow> unit sprog" where
  "check_ticket b =
     bindE (getsE (\<lambda>s. has_key (st_tenants s) (tcr_tenant_id b))) (\<lambda>known.
     thenE (raise_if (\<not> known) (HTTPException 404 ''tenant not found''))
     (thenE (raise_if (tcr_severity b \<notin> set TICKET_SEVERITIES) (HTTPException 422 ''severity''))
     (thenE (raise_if (tcr_type b \<notin> set TICKET_TYPES) (HTTPException 422 ''type''))
     (case tcr_change_scope b of
        None \<Rightarrow> returnE ()
      | Some sc \<Rightarrow>
          thenE (raise_if (tcr_type b \<noteq> ''change'') (HTTPException 422 ''change_scope: change tickets only''))
                (raise_if (sc \<notin> set CHANGE_SCOPES) (HTTPException 422 ''change_scope''))))))"

definition new_ticket :: "string \<Rightarrow> ticket_create \<Rightarrow> string \<Rightarrow> int \<Rightarrow> ticket" where
  "new_ticket k b route t =
     \<lparr>tk_id = k, tk_tenant_id = tcr_tenant_id b, tk_subject = tcr_subject b, tk_body = tcr_body b,
      tk_severity = tcr_severity b, tk_status = ''open'', tk_type = tcr_type b, tk_routed_to = route,
      tk_change_scope = (if truthy (tcr_change_scope b) then tcr_change_scope b
                         else if tcr_type b = ''change'' then Some ''in_contract'' else None),
      tk_policy = (if tcr_type b = ''billing_dispute'' then Some BILLING_DISPUTE_POLICY else None),
      tk_ref = tcr_ref b, tk_created_at = t, tk_updated_at = t, tk_comments = []\<rparr>"

definition create_ticket :: "ticket_create \<Rightarrow> ticket sprog" where
  "create_ticket b =
     thenE (check_ticket b)
     (bindE (next_seq ''ticket'') (\<lambda>n.
      bindE (getsE now) (\<lambda>t.
      bindE (someE (PyError ''KeyError'') (map_of TICKET_ROUTING (tcr_type b))) (\<lambda>route.
      let tk = new_ticket (''tck-'' @ dec n) b route t in
      thenE (modifyE (\<lambda>s. s\<lparr>st_tickets := AList.update (tk_id tk) tk (st_tickets s)\<rparr>)) (returnE tk)))))"

text \<open>A query parameter filters when it is given and not empty.\<close>

definition by_param :: "string option \<Rightarrow> ('a \<Rightarrow> string) \<Rightarrow> 'a list \<Rightarrow> 'a list" where
  "by_param p f xs = (if truthy p then filter (\<lambda>x. Some (f x) = p) xs else xs)"

definition list_tickets :: "string option \<Rightarrow> string option \<Rightarrow> string option \<Rightarrow> string option \<Rightarrow> store \<Rightarrow> ticket list" where
  "list_tickets tid status ty route s =
     sort_desc tk_id (by_param route tk_routed_to (by_param ty tk_type (by_param status tk_status
       (by_param tid tk_tenant_id (dict_values (st_tickets s))))))"

definition update_ticket :: "string \<Rightarrow> ticket_update \<Rightarrow> ticket sprog" where
  "update_ticket k b =
     bindE (getsE (\<lambda>s. map_of (st_tickets s) k)) (\<lambda>t0.
     bindE (someE (HTTPException 404 ''ticket not found'') t0) (\<lambda>_.
     thenE (raise_if (truthy (tup_status b) \<and> str_or (tup_status b) '''' \<notin> set TICKET_STATUSES) (HTTPException 422 ''status''))
     (bindE (getsE now) (\<lambda>t.
      let upd = (\<lambda>tk. tk\<lparr>tk_status := (if truthy (tup_status b) then the (tup_status b) else tk_status tk),
            tk_comments := (if truthy (tup_comment b)
              then tk_comments tk @ [\<lparr>tm_at = t, tm_author = tup_author b, tm_text = the (tup_comment b)\<rparr>] else tk_comments tk),
            tk_updated_at := t\<rparr>) in
      thenE (modifyE (\<lambda>s. s\<lparr>st_tickets := dict_mod k upd (st_tickets s)\<rparr>))
      (bindE (getsE (\<lambda>s. map_of (st_tickets s) k)) (someE (PyError ''KeyError'')))))))"

section \<open>Usage and billing preview\<close>

record bill_line =
  bl_order_id :: string
  bl_tenant_id :: string
  bl_blueprint_key :: "string option"
  bl_racks :: int
  bl_start :: int
  bl_end :: "int option"
  bl_active :: bool
  bl_hours :: rat
  bl_rack_hours :: rat
  bl_rate_usd :: rat
  bl_amount_usd :: rat
  bl_projected_monthly_usd :: rat

record usage =
  us_lines :: "bill_line list"
  us_rack_hours :: rat
  us_amount_usd :: rat
  us_projected_monthly_usd :: rat

text \<open>When the reclaim of an allocation closed, the last such order counting.\<close>

definition end_by_alloc :: "store \<Rightarrow> int dict" where
  "end_by_alloc s = fold (\<lambda>x d.
     if order_kind x = K_terminate \<and> order_state x = O_closed \<and> truthy (order_allocation_id x) \<and> order_history x \<noteq> []
     then AList.update (the (order_allocation_id x)) (ev_at (last (order_history x))) d else d)
     (dict_values (st_orders s)) []"

definition delivered_at :: "service_order \<Rightarrow> int option" where
  "delivered_at x = map_option ev_at (List.find (\<lambda>e. ev_state e = ''delivered'') (order_history x))"

definition order_end :: "int dict \<Rightarrow> service_order \<Rightarrow> int option" where
  "order_end ends x =
     (let es = List.map_filter (map_of ends) (order_allocation_ids x) in
      if es \<noteq> [] \<and> length es = length (order_allocation_ids x) then Some (Max (set es)) else None)"

definition billable :: "string option \<Rightarrow> service_order \<Rightarrow> bool" where
  "billable tid x \<longleftrightarrow> order_kind x = K_new \<and> order_state x = O_delivered \<and> (\<not> truthy tid \<or> Some (order_tenant_id x) = tid)"

definition bill_order :: "int dict \<Rightarrow> int \<Rightarrow> service_order \<Rightarrow> int \<Rightarrow> bill_line" where
  "bill_order ends t x start =
     (let end_at = order_end ends x;
          hours = max 0 (of_int ((case end_at of None \<Rightarrow> t | Some e \<Rightarrow> e) - start) / of_int HOUR);
          rate = rate_for (order_blueprint_key x);
          rack_hours = of_int (order_racks x) * hours in
      \<lparr>bl_order_id = order_id x, bl_tenant_id = order_tenant_id x, bl_blueprint_key = order_blueprint_key x,
       bl_racks = order_racks x, bl_start = start, bl_end = end_at, bl_active = (end_at = None),
       bl_hours = round_dp 4 hours, bl_rack_hours = round_dp 4 rack_hours, bl_rate_usd = rate,
       bl_amount_usd = round_dp 2 (rack_hours * rate),
       bl_projected_monthly_usd = (if end_at = None then round_dp 2 (of_int (order_racks x) * rate * HOURS_PER_MONTH) else 0)\<rparr>)"

definition bill_lines :: "string option \<Rightarrow> store \<Rightarrow> bill_line list" where
  "bill_lines tid s = List.map_filter (\<lambda>x. map_option (bill_order (end_by_alloc s) (now s) x) (delivered_at x))
     (filter (billable tid) (sort_key order_id (dict_values (st_orders s))))"

definition billing_usage :: "string option \<Rightarrow> store \<Rightarrow> usage" where
  "billing_usage tid s = (let ls = bill_lines tid s in
     \<lparr>us_lines = ls, us_rack_hours = round_dp 4 (sum_list (map bl_rack_hours ls)),
      us_amount_usd = round_dp 2 (sum_list (map bl_amount_usd ls)),
      us_projected_monthly_usd = round_dp 2 (sum_list (map bl_projected_monthly_usd ls))\<rparr>)"

end
