(* ===== verification/Service_Levels.thy ===== *)
theory Service_Levels
  imports Scenario Business
begin

text \<open>
  \<open>app/scenario_api.py\<close>, second half: incidents derived from the fault feed, root-cause reports, the status
  page, and the monthly SLA report with service credits. The feed, which the tray emulator and the site
  controller's emulator produce, is an argument. The clock counts microseconds from 0001-01-01, so the
  calendar is the proleptic Gregorian one of Python's \<open>datetime\<close>.
\<close>

section \<open>Calendar\<close>

definition leap :: "int \<Rightarrow> bool" where
  "leap y \<longleftrightarrow> 4 dvd y \<and> (\<not> 100 dvd y \<or> 400 dvd y)"

definition days_before_year :: "int \<Rightarrow> int" where
  "days_before_year y = (let k = y - 1 in 365 * k + k div 4 - k div 100 + k div 400)"

definition month_days :: "int \<Rightarrow> int list" where
  "month_days y = [31, if leap y then 29 else 28, 31, 30, 31, 30, 31, 31, 30, 31, 30, 31]"

type_synonym month = "int \<times> nat"

definition month_start :: "month \<Rightarrow> int" where
  "month_start = (\<lambda>(y, m). DAY * (days_before_year y + sum_list (take (m - 1) (month_days y))))"

definition next_month :: "month \<Rightarrow> month" where
  "next_month = (\<lambda>(y, m). if m = 12 then (y + 1, 1) else (y, m + 1))"

definition month_text :: "month \<Rightarrow> string" where
  "month_text = (\<lambda>(y, m). zfill 4 (dec (nat y)) @ ''-'' @ zfill 2 (dec m))"

text \<open>\<open>datetime.strptime(s, "%Y-%m")\<close>: four digits, a hyphen, one or two digits of a month.\<close>

definition parse_month :: "string \<Rightarrow> month option" where
  "parse_month s = (if length s \<in> {6, 7} \<and> s ! 4 = CHR ''-'' then
     (case (undec (take 4 s), undec (drop 5 s)) of
        (Some y, Some m) \<Rightarrow> if 1 \<le> y \<and> 1 \<le> m \<and> m \<le> 12 then Some (int y, m) else None
      | _ \<Rightarrow> None) else None)"

text \<open>The year of a timestamp by the cycles of 400, 100, 4 and 1 years, then the month within it.\<close>

definition year_of :: "int \<Rightarrow> int" where
  "year_of ts = (let d = ts div DAY; c4 = d mod 146097; c1 = c4 mod 36524; q = c1 mod 1461 in
     400 * (d div 146097) + 100 * min 3 (c4 div 36524) + 4 * (if c4 = 146096 then 24 else c1 div 1461)
       + (if c4 = 146096 then 3 else min 3 (q div 365)) + 1)"

definition month_of :: "int \<Rightarrow> month" where
  "month_of ts = (let y = year_of ts in
     case List.find (\<lambda>m. ts < month_start (next_month (y, m))) [1..<13] of Some m \<Rightarrow> (y, m) | None \<Rightarrow> (y, 12))"

definition window_min :: "month \<Rightarrow> rat" where
  "window_min m = of_int (month_start (next_month m) - month_start m) / of_int MINUTE"

section \<open>Incidents\<close>

record fault =
  fa_tray_id :: "string option"
  fa_gpu :: "int option"
  fa_xid :: "nat option"
  fa_kind :: "string option"
  fa_severity :: "string option"
  fa_detail :: "string option"
  fa_started_at :: "int option"
  fa_at :: "int option"
  fa_resolved :: bool
  fa_resolved_at :: "int option"
  fa_ttr_s :: "rat option"
  fa_tenant_id :: "string option"

definition fault_severity :: "fault \<Rightarrow> string" where
  "fault_severity f =
     (if fa_severity f \<in> {Some ''critical'', Some ''P0''} then ''P0''
      else if fa_xid f \<in> {Some 79, Some 48} \<or> fa_severity f \<in> {Some ''major'', Some ''P1''} then ''P1''
      else ''P2'')"

definition KIND_COMPONENT :: "string dict" where
  "KIND_COMPONENT = [(''gpu'', ''Compute''), (''reprovision'', ''Compute''), (''cooling'', ''Compute''),
     (''fabric'', ''GPU Fabric''), (''storage'', ''Storage''), (''network'', ''Network'')]"

definition fault_component :: "fault \<Rightarrow> string" where
  "fault_component f = (case map_of KIND_COMPONENT (if truthy (fa_kind f) then the (fa_kind f) else ''gpu'') of
     Some c \<Rightarrow> c | None \<Rightarrow> ''Compute'')"

definition fault_title :: "fault \<Rightarrow> string" where
  "fault_title f = (case fa_xid f of Some x \<Rightarrow> ''XID '' @ dec x
     | None \<Rightarrow> if truthy (fa_detail f) then the (fa_detail f) else str_or (fa_kind f) ''infra'' @ '' fault'')"

definition publish_rca :: "incident \<Rightarrow> unit sprog" where
  "publish_rca i =
     bindE (getsE (\<lambda>s. list_ex (\<lambda>r. rca_incident_id r = in_id i) (dict_values (st_rcas s)))) (\<lambda>published.
     if published then returnE ()
     else bindE (next_seq ''rca'') (\<lambda>n.
          bindE (getsE now) (\<lambda>t.
          let k = ''rca-'' @ dec n in
          modifyE (\<lambda>s. s\<lparr>st_rcas := AList.update k \<lparr>rca_id = k, rca_incident_id = in_id i, rca_tenant_id = in_tenant_id i,
             rca_severity = in_severity i, rca_published_at = t, rca_mttr_min = in_mttr_min i\<rparr> (st_rcas s)\<rparr>))))"

definition fault_start :: "int \<Rightarrow> fault \<Rightarrow> int" where
  "fault_start t f = (case fa_started_at f of Some a \<Rightarrow> a | None \<Rightarrow> (case fa_at f of Some a \<Rightarrow> a | None \<Rightarrow> t))"

definition fault_key :: "int \<Rightarrow> fault \<Rightarrow> incident_key" where
  "fault_key t f = Fault_key (fa_tray_id f) (fa_gpu f) (fault_start t f)"

definition incident_by_key :: "store \<Rightarrow> incident_key \<Rightarrow> incident option" where
  "incident_by_key s k = List.find (\<lambda>i. in_key i = k) (rev (dict_values (st_incidents s)))"

definition open_incident :: "string \<Rightarrow> fault \<Rightarrow> int \<Rightarrow> incident" where
  "open_incident iid f t =
     \<lparr>in_id = iid, in_key = fault_key t f, in_severity = fault_severity f, in_component = fault_component f,
      in_title = fault_title f, in_state = ''investigating'', in_started_at = fault_start t f, in_resolved_at = None,
      in_tenant_id = fa_tenant_id f, in_mttr_min = None, in_updates = [(fault_start t f, ''detected'')]\<rparr>"

definition resolve_incident :: "fault \<Rightarrow> int \<Rightarrow> incident \<Rightarrow> incident" where
  "resolve_incident f t i =
     (let ts = (case fa_resolved_at f of Some a \<Rightarrow> a | None \<Rightarrow> t);
          mttr = round_dp 2 (case fa_ttr_s f of Some x \<Rightarrow> x / 60 | None \<Rightarrow> of_int (ts - fault_start t f) / of_int MINUTE) in
      i\<lparr>in_state := ''resolved'', in_resolved_at := Some ts, in_mttr_min := Some mttr,
        in_updates := in_updates i @ [(ts, ''resolved'')]\<rparr>)"

definition put_incident :: "incident \<Rightarrow> unit sprog" where
  "put_incident i = modifyE (\<lambda>s. s\<lparr>st_incidents := AList.update (in_id i) i (st_incidents s)\<rparr>)"

definition sync_fault :: "fault \<Rightarrow> unit sprog" where
  "sync_fault f =
     bindE (getsE now) (\<lambda>t.
     bindE (bindE (getsE (\<lambda>s. incident_by_key s (fault_key t f))) (\<lambda>old. case old of
              Some i \<Rightarrow> returnE i
            | None \<Rightarrow> bindE (next_seq ''incident'') (\<lambda>n.
                let i = open_incident (''inc-'' @ dec n) f t in thenE (put_incident i) (returnE i)))) (\<lambda>i.
     if (fa_resolved f \<or> fa_resolved_at f \<noteq> None) \<and> in_state i \<noteq> ''resolved'' then
       (let j = resolve_incident f t i in
        thenE (put_incident j) (if in_severity j \<in> {''P0'', ''P1''} then publish_rca j else returnE ()))
     else returnE ()))"

definition sync_incidents :: "fault list \<Rightarrow> unit sprog" where
  "sync_incidents feed = forE feed sync_fault"

section \<open>Status page and root-cause reports\<close>

definition STATUS_COMPONENTS :: "string list" where
  "STATUS_COMPONENTS = [''Compute'', ''GPU Fabric'', ''Storage'', ''Network'', ''Portal'']"

definition open_severities :: "store \<Rightarrow> string \<Rightarrow> string list" where
  "open_severities s c = map in_severity (filter (\<lambda>i. in_state i \<noteq> ''resolved'' \<and> in_component i = c) (dict_values (st_incidents s)))"

definition component_state :: "store \<Rightarrow> string \<Rightarrow> string" where
  "component_state s c = (let sevs = open_severities s c in
     if ''P0'' \<in> set sevs then ''outage'' else if sevs \<noteq> [] then ''degraded'' else ''operational'')"

definition downtime_min :: "int \<Rightarrow> incident \<Rightarrow> rat" where
  "downtime_min t i = (if in_state i = ''resolved'' then (case in_mttr_min i of Some m \<Rightarrow> m | None \<Rightarrow> 0)
     else max 0 (of_int (t - in_started_at i) / of_int MINUTE))"

record status =
  sp_components :: "(string \<times> string) list"
  sp_incidents :: "incident list"
  sp_uptime_pct :: rat

definition status_page :: "fault list \<Rightarrow> status sprog" where
  "status_page feed =
     thenE (sync_incidents feed)
     (getsE (\<lambda>s. \<lparr>sp_components = map (\<lambda>c. (c, component_state s c)) STATUS_COMPONENTS,
        sp_incidents = take 20 (sort_desc in_started_at (dict_values (st_incidents s))),
        sp_uptime_pct = round_dp 3 (max 0 (100 -
          sum_list (map (downtime_min (now s)) (dict_values (st_incidents s))) / (90 * 24 * 60) * 100))\<rparr>))"

definition known_tenant :: "string \<Rightarrow> unit sprog" where
  "known_tenant tid = bindE (getsE (\<lambda>s. has_key (st_tenants s) tid)) (\<lambda>k. raise_if (\<not> k) (HTTPException 404 ''tenant not found''))"

definition rca_reports :: "fault list \<Rightarrow> string \<Rightarrow> rca list sprog" where
  "rca_reports feed tid =
     thenE (known_tenant tid) (thenE (sync_incidents feed)
     (getsE (\<lambda>s. sort_desc rca_published_at (filter (\<lambda>r. rca_tenant_id r \<in> {Some tid, None}) (dict_values (st_rcas s))))))"

section \<open>SLA report and service credits\<close>

definition SLA_TARGET_PCT :: rat where "SLA_TARGET_PCT = 999 / 10"

definition SLA_CREDIT_TABLE :: "(rat \<times> nat) list" where
  "SLA_CREDIT_TABLE = [(95, 50), (99, 25), (SLA_TARGET_PCT, 10)]"

definition credit_pct_for :: "rat \<Rightarrow> nat" where
  "credit_pct_for avail = (case List.find (\<lambda>(below, _). avail < below) SLA_CREDIT_TABLE of Some (_, p) \<Rightarrow> p | None \<Rightarrow> 0)"

definition tenant_monthly_usd :: "store \<Rightarrow> string \<Rightarrow> rat" where
  "tenant_monthly_usd s tid = round_dp 2 (sum_list (map (\<lambda>x. of_int (order_racks x) * rate_for (order_blueprint_key x) * HOURS_PER_MONTH)
     (filter (\<lambda>x. order_tenant_id x = tid \<and> order_kind x = K_new \<and> order_state x = O_delivered) (dict_values (st_orders s)))))"

text \<open>\<open>started_at[:7] == month\<close>: a month text that is not zero-padded matches nothing.\<close>

definition in_month :: "string \<Rightarrow> month \<Rightarrow> int \<Rightarrow> bool" where
  "in_month txt m ts \<longleftrightarrow> txt = month_text m \<and> month_start m \<le> ts \<and> ts < month_start (next_month m)"

definition month_incidents :: "store \<Rightarrow> string \<Rightarrow> string \<Rightarrow> month \<Rightarrow> incident list" where
  "month_incidents s tid txt m =
     filter (\<lambda>i. in_tenant_id i = Some tid \<and> in_month txt m (in_started_at i)) (dict_values (st_incidents s))"

definition synthetic_incident :: "string \<Rightarrow> string \<Rightarrow> string \<Rightarrow> month \<Rightarrow> incident" where
  "synthetic_incident iid tid txt m =
     (let started = month_start m + 14 * DAY + 3 * HOUR; ended = started + 3156000000 in
      \<lparr>in_id = iid, in_key = Synthetic_key tid txt, in_severity = ''P1'', in_component = ''Compute'',
       in_title = ''GPU Fabric partial outage (synthetic)'', in_state = ''resolved'', in_started_at = started,
       in_resolved_at = Some ended, in_tenant_id = Some tid, in_mttr_min = Some (526 / 10),
       in_updates = [(started, ''detected''), (ended, ''resolved'')]\<rparr>)"

definition synthesize :: "string \<Rightarrow> string \<Rightarrow> month \<Rightarrow> unit sprog" where
  "synthesize tid txt m =
     bindE (getsE (\<lambda>s. list_ex (\<lambda>i. in_key i = Synthetic_key tid txt) (dict_values (st_incidents s)))) (\<lambda>there.
     if there then returnE ()
     else bindE (next_seq ''incident'') (\<lambda>n.
          let i = synthetic_incident (''inc-'' @ dec n) tid txt m in thenE (put_incident i) (publish_rca i)))"

definition availability :: "store \<Rightarrow> string \<Rightarrow> string \<Rightarrow> month \<Rightarrow> rat" where
  "availability s tid txt m = round_dp 4 (max 0 (100 -
     sum_list (map (downtime_min (now s)) (month_incidents s tid txt m)) / window_min m * 100))"

definition credit_key :: "string \<Rightarrow> string \<Rightarrow> string" where
  "credit_key tid txt = tid @ ''|'' @ txt"

definition credit_for :: "string \<Rightarrow> string \<Rightarrow> month \<Rightarrow> rat \<Rightarrow> sla_credit sprog" where
  "credit_for tid txt m avail =
     bindE (getsE (\<lambda>s. List.find (\<lambda>c. cr_key c = credit_key tid txt) (dict_values (st_sla_credits s)))) (\<lambda>old. case old of
       Some c \<Rightarrow> returnE c
     | None \<Rightarrow>
         bindE (getsE (\<lambda>s. (tenant_monthly_usd s tid,
                  max_by (\<lambda>i. case in_mttr_min i of Some x \<Rightarrow> x | None \<Rightarrow> 0) (month_incidents s tid txt m)))) (\<lambda>(monthly, worst).
         bindE (next_seq ''sla_credit'') (\<lambda>n.
         let pct = credit_pct_for avail; c = \<lparr>cr_id = ''crd-'' @ dec n, cr_key = credit_key tid txt, cr_tenant_id = tid,
               cr_month = txt, cr_incident_id = map_option in_id worst, cr_amount_usd = round_dp 2 (monthly * of_nat pct / 100),
               cr_pct = pct, cr_status = ''calculated'', cr_applied_invoice = None\<rparr> in
         thenE (modifyE (\<lambda>s. s\<lparr>st_sla_credits := AList.update (cr_id c) c (st_sla_credits s)\<rparr>)) (returnE c))))"

record sla =
  sl_month :: string
  sl_availability_pct :: rat
  sl_violated :: bool
  sl_incidents :: "(string \<times> rat) list"
  sl_credits :: "sla_credit list"
  sl_monthly_amount_usd :: rat

text \<open>The window ends with the first day of the next month, and Python has no year 10000.\<close>

definition sla_report :: "fault list \<Rightarrow> string \<Rightarrow> string option \<Rightarrow> bool \<Rightarrow> sla sprog" where
  "sla_report feed tid month0 synth =
     thenE (known_tenant tid)
     (bindE (getsE (\<lambda>s. if truthy month0 then the month0 else month_text (month_of (now s)))) (\<lambda>txt.
      bindE (someE (HTTPException 422 ''month must be YYYY-MM'') (parse_month txt)) (\<lambda>m.
      thenE (sync_incidents feed)
      (thenE (if synth then synthesize tid txt m else returnE ())
      (thenE (raise_if (m = (9999, 12)) (PyError ''ValueError''))
      (bindE (getsE (\<lambda>s. availability s tid txt m)) (\<lambda>avail.
       bindE (if avail < SLA_TARGET_PCT then bindE (credit_for tid txt m avail) (\<lambda>c. returnE [c]) else returnE []) (\<lambda>cs.
       getsE (\<lambda>s. \<lparr>sl_month = txt, sl_availability_pct = avail, sl_violated = (avail < SLA_TARGET_PCT),
          sl_incidents = map (\<lambda>i. (in_id i, round_dp 2 (downtime_min (now s) i))) (month_incidents s tid txt m),
          sl_credits = cs, sl_monthly_amount_usd = tenant_monthly_usd s tid\<rparr>)))))))))"

end
