(* ===== verification/K8s_Api.thy ===== *)
theory K8s_Api
  imports Service_Levels
begin

text \<open>
  \<open>app/k8s_api.py\<close>: day-2 operations on managed Kubernetes clusters. Kubeconfigs, optional add-ons, the
  rolling upgrade, health events with quarantine, and the views that depend on them. The random serial
  of a kubeconfig and the two fault feeds are arguments. The upgrade runs in a thread that takes the
  store's lock once per step, so its steps are programs of their own.
\<close>

definition K8S_RBAC_ROLES :: "string list" where
  "K8S_RBAC_ROLES = [''admin'', ''edit'', ''view'', ''batch-operator'']"

definition K8S_OPTIONAL_ADDONS :: "(string \<times> string) list" where
  "K8S_OPTIONAL_ADDONS = [(''kube-prometheus-stack'', ''68.4.0''), (''kueue'', ''0.10.1''), (''volcano'', ''1.11.0''),
     (''vast-csi'', ''2.5.1'')]"

definition cluster_or_404 :: "string \<Rightarrow> k8s_cluster sprog" where
  "cluster_or_404 cid = bindE (getsE (\<lambda>s. map_of (st_k8s_clusters s) cid)) (someE (HTTPException 404 ''k8s cluster not found''))"

definition pub_state :: "k8s_cluster \<Rightarrow> string" where
  "pub_state c = (if kc_state c = ''running'' then ''active'' else kc_state c)"

section \<open>Listings\<close>

definition list_k8s_installs :: "string option \<Rightarrow> store \<Rightarrow> k8s_install list" where
  "list_k8s_installs tid s = sort_desc ki_install_id (by_param tid ki_tenant_id (dict_values (st_k8s_installs s)))"

record overview =
  ov_clusters_total :: nat
  ov_by_state :: "nat dict"
  ov_installs_active :: nat
  ov_upgrades_active :: nat

definition k8s_overview :: "store \<Rightarrow> overview" where
  "k8s_overview s = (let live = filter (\<lambda>c. kc_state c \<noteq> ''deleted'') (dict_values (st_k8s_clusters s)) in
     \<lparr>ov_clusters_total = length live,
      ov_by_state = map (\<lambda>st. (st, length (filter (\<lambda>c. pub_state c = st) live))) [''installing'', ''active'', ''failed'', ''deleting''],
      ov_installs_active = length (filter (\<lambda>i. ki_state i = ''running'') (dict_values (st_k8s_installs s))),
      ov_upgrades_active = length (filter (\<lambda>u. up_state u = ''running'') (dict_values (st_k8s_upgrades s)))\<rparr>)"

section \<open>Health events and quarantine\<close>

record health_event =
  he_ts :: "int option"
  he_node :: string
  he_severity :: string
  he_kind :: string
  he_action :: string
  he_hot_spare :: "string option"

definition worker_tray_map :: "k8s_cluster \<Rightarrow> store \<Rightarrow> node_instance dict" where
  "worker_tray_map c s = fold (\<lambda>n d. AList.update (node_tray_id n) n d) (dict_pick (st_node_instances s) (kc_worker_node_ids c)) []"

definition AI_KIND :: "string dict" where
  "AI_KIND = [(''gpu'', ''gpu-xid''), (''cooling'', ''thermal''), (''dlc'', ''thermal''), (''fabric'', ''link''),
     (''ufm'', ''link''), (''netq'', ''link''), (''dpu'', ''dpu'')]"

text \<open>\<open>raw[4:].rsplit("-g", 1)[0]\<close> for a GPU id, the id itself otherwise.\<close>

definition tray_of_fault :: "fault \<Rightarrow> string" where
  "tray_of_fault f = (let raw = str_or (fa_tray_id f) '''' in
     if starts_with ''GPU-'' raw then rsplit_head ''-g'' (drop 4 raw) else raw)"

definition local_event :: "node_instance dict \<Rightarrow> fault \<Rightarrow> health_event option" where
  "local_event trays f = (case fa_tray_id f of None \<Rightarrow> None
     | Some t \<Rightarrow> if has_key trays t then
         Some \<lparr>he_ts = (case fa_at f of Some a \<Rightarrow> Some a | None \<Rightarrow> fa_started_at f), he_node = t,
           he_severity = (if fa_resolved f then ''info'' else ''critical''), he_kind = ''gpu-xid'',
           he_action = (if fa_resolved f then ''none'' else ''quarantined''), he_hot_spare = None\<rparr>
       else None)"

definition twin_event :: "node_instance dict \<Rightarrow> fault \<Rightarrow> health_event option" where
  "twin_event trays f = (case map_of AI_KIND (str_or (fa_kind f) '''') of None \<Rightarrow> None
     | Some k \<Rightarrow> if has_key trays (tray_of_fault f) then
         Some \<lparr>he_ts = fa_at f, he_node = tray_of_fault f,
           he_severity = (if truthy (fa_severity f) then the (fa_severity f) else if fa_resolved f then ''info'' else ''critical''),
           he_kind = k,
           he_action = (if fa_resolved f then ''none'' else if k = ''gpu-xid'' then ''quarantined'' else ''remediating''),
           he_hot_spare = None\<rparr>
       else None)"

definition scan_health :: "fault list \<Rightarrow> fault list \<Rightarrow> node_instance dict \<Rightarrow> health_event list" where
  "scan_health recent twin trays =
     sort_desc (\<lambda>e. case he_ts e of None \<Rightarrow> (0::nat, 0) | Some t \<Rightarrow> (1, t))
       (List.map_filter (local_event trays) recent @ List.map_filter (twin_event trays) twin)"

definition open_gpu :: "health_event list \<Rightarrow> string list" where
  "open_gpu evs = remdups (map he_node (filter (\<lambda>e. he_action e = ''quarantined'') evs))"

definition hot_spare_for :: "node_instance \<Rightarrow> store \<Rightarrow> string option" where
  "hot_spare_for n s = map_option node_tray_id (List.find (\<lambda>x. node_state x = N_pool_ready \<and> node_blueprint_key x = node_blueprint_key n)
     (sort_key node_id (dict_values (st_node_instances s))))"

definition quarantine :: "string \<Rightarrow> health_event list \<Rightarrow> unit sprog" where
  "quarantine cid evs = upd_cluster cid (\<lambda>c. c\<lparr>kc_quarantined_nodes := sort (open_gpu evs)\<rparr>)"

definition cluster_health_events :: "fault list \<Rightarrow> fault list \<Rightarrow> string \<Rightarrow> health_event list sprog" where
  "cluster_health_events recent twin cid =
     bindE (cluster_or_404 cid) (\<lambda>c.
     bindE (getsE (worker_tray_map c)) (\<lambda>trays.
     let evs = scan_health recent twin trays in
     thenE (quarantine cid evs)
     (getsE (\<lambda>s. map (\<lambda>e. if he_action e = ''quarantined''
        then e\<lparr>he_hot_spare := Option.bind (map_of trays (he_node e)) (\<lambda>n. hot_spare_for n s)\<rparr> else e) evs))))"

record node_view =
  nv_name :: string
  nv_role :: string
  nv_state :: string
  nv_version :: string

definition version_of :: "k8s_cluster \<Rightarrow> string \<Rightarrow> string" where
  "version_of c k = (case map_of (kc_node_versions c) k of Some v \<Rightarrow> v | None \<Rightarrow> kc_version c)"

definition base_ready :: "k8s_cluster \<Rightarrow> bool" where
  "base_ready c \<longleftrightarrow> kc_state c = ''running'' \<or> list_ex (\<lambda>h. sr_name h = ''nkd-bootstrap'' \<and> sr_status h = ''done'') (kc_stage_history c)"

definition draining_nodes :: "string \<Rightarrow> store \<Rightarrow> string list" where
  "draining_nodes cid s = List.map_filter up_current_node
     (filter (\<lambda>u. up_cluster_id u = cid \<and> up_state u = ''running'' \<and> truthy (up_current_node u)) (dict_values (st_k8s_upgrades s)))"

definition cp_view :: "k8s_cluster \<Rightarrow> string list \<Rightarrow> string \<Rightarrow> node_view" where
  "cp_view c drains k = \<lparr>nv_name = k, nv_role = ''cp'',
     nv_state = (if k \<in> set drains then ''Draining'' else if base_ready c then ''Ready'' else ''NotReady''), nv_version = version_of c k\<rparr>"

definition worker_view :: "k8s_cluster \<Rightarrow> string list \<Rightarrow> string list \<Rightarrow> node_instance \<Rightarrow> node_view" where
  "worker_view c drains bad n = (let k = node_tray_id n in
     \<lparr>nv_name = k, nv_role = ''gpu-worker'',
      nv_state = (if k \<in> set bad then ''Quarantined''
                  else if k \<in> set drains \<or> node_state n = N_draining then ''Draining''
                  else if base_ready c then ''Ready'' else ''NotReady''), nv_version = version_of c k\<rparr>)"

definition cluster_nodes :: "fault list \<Rightarrow> fault list \<Rightarrow> string \<Rightarrow> node_view list sprog" where
  "cluster_nodes recent twin cid =
     bindE (cluster_or_404 cid) (\<lambda>c.
     bindE (getsE (worker_tray_map c)) (\<lambda>trays.
     let evs = scan_health recent twin trays in
     thenE (quarantine cid evs)
     (getsE (\<lambda>s. map (cp_view c (draining_nodes cid s)) (kc_cp_node_ids c)
        @ map (worker_view c (draining_nodes cid s) (open_gpu evs)) (dict_pick (st_node_instances s) (kc_worker_node_ids c))))))"

section \<open>Add-ons\<close>

definition cluster_addons :: "k8s_cluster \<Rightarrow> (string \<times> string) list" where
  "cluster_addons c = map (\<lambda>a. (ad_name a, if ad_status a = ''running'' then ''installed'' else ad_status a)) (kc_addons c)
     @ (if kc_state c = ''installing''
        then map (\<lambda>(nm, _). (nm, ''pending'')) (filter (\<lambda>(nm, _). nm \<notin> ad_name ` set (kc_addons c)) K8S_MANAGED_ADDONS) else [])"

definition add_cluster_addon :: "string \<Rightarrow> string \<Rightarrow> addon list sprog" where
  "add_cluster_addon cid nm =
     bindE (cluster_or_404 cid) (\<lambda>c.
     thenE (raise_if (kc_state c \<noteq> ''running'') (HTTPException 409 ''cluster not running''))
     (bindE (someE (HTTPException 404 ''no such optional add-on'') (map_of K8S_OPTIONAL_ADDONS nm)) (\<lambda>v.
      thenE (raise_if (nm \<in> ad_name ` set (kc_addons c)) (HTTPException 409 ''add-on already installed''))
      (thenE (upd_cluster cid (\<lambda>c. c\<lparr>kc_addons := kc_addons c @
                [\<lparr>ad_name = nm, ad_version = v, ad_status = ''running'', ad_channel = ''optional''\<rparr>]\<rparr>))
      (thenE (note_cluster cid (kc_state c) ''addon added'')
             (bindE (cluster_or_404 cid) (\<lambda>c. returnE (kc_addons c))))))))"

section \<open>Kubeconfigs\<close>

definition NL :: string where "NL = [CHR 0x0A]"

definition kubeconfig_yaml :: "k8s_cluster \<Rightarrow> string \<Rightarrow> string \<Rightarrow> string" where
  "kubeconfig_yaml c role serial = concat (map (\<lambda>l. l @ NL)
     [''apiVersion: v1'', ''kind: Config'', ''clusters:'', ''- name: '' @ kc_name c, ''  cluster:'',
      ''    server: https://'' @ kc_api_vip c @ '':6443'',
      ''    certificate-authority-data: <mock-ca-bundle serial='' @ serial @ ''>'', ''contexts:'',
      ''- name: '' @ kc_name c @ ''-'' @ role,
      ''  context: {cluster: '' @ kc_name c @ '', user: oidc-'' @ role @ ''}'',
      ''current-context: '' @ kc_name c @ ''-'' @ role, ''users:'', ''- name: oidc-'' @ role, ''  user:'', ''    exec:'',
      ''      apiVersion: client.authentication.k8s.io/v1'', ''      command: kubectl'',
      ''      args: [oidc-login, get-token, --oidc-issuer-url='' @ kc_oidc_issuer c @ '']''])"

definition list_kubeconfigs :: "string \<Rightarrow> k8s_kubeconfig list sprog" where
  "list_kubeconfigs cid = thenE (cluster_or_404 cid)
     (getsE (\<lambda>s. sort_desc kcf_id (filter (\<lambda>k. kcf_cluster_id k = cid) (dict_values (st_k8s_kubeconfigs s)))))"

definition issue_kubeconfig :: "string \<Rightarrow> string \<Rightarrow> string \<Rightarrow> int \<Rightarrow> k8s_kubeconfig sprog" where
  "issue_kubeconfig serial cid role ttl_h =
     bindE (cluster_or_404 cid) (\<lambda>c.
     thenE (raise_if (kc_state c \<noteq> ''running'') (HTTPException 409 ''cluster not running''))
     (thenE (raise_if (role \<notin> set K8S_RBAC_ROLES) (HTTPException 422 ''role''))
     (let ttl = max 1 (min ttl_h 720) in
      bindE (next_seq ''kubeconfig'') (\<lambda>n.
      bindE (getsE now) (\<lambda>t.
      let k = \<lparr>kcf_id = ''kc-'' @ dec n, kcf_cluster_id = cid, kcf_tenant_id = kc_tenant_id c, kcf_serial = serial,
            kcf_role = role, kcf_ttl_h = ttl, kcf_issued_at = t, kcf_expires_at = t + ttl * HOUR, kcf_revoked = False,
            kcf_revoked_at = None, kcf_yaml = kubeconfig_yaml c role serial\<rparr> in
      thenE (modifyE (\<lambda>s. s\<lparr>st_k8s_kubeconfigs := AList.update (kcf_id k) k (st_k8s_kubeconfigs s)\<rparr>)) (returnE k))))))"

definition revoke_kubeconfig :: "string \<Rightarrow> string \<Rightarrow> k8s_kubeconfig sprog" where
  "revoke_kubeconfig cid kid =
     thenE (cluster_or_404 cid)
     (bindE (getsE (\<lambda>s. map_of (st_k8s_kubeconfigs s) kid)) (\<lambda>k0.
      thenE (raise_if (case k0 of None \<Rightarrow> True | Some k \<Rightarrow> kcf_cluster_id k \<noteq> cid) (HTTPException 404 ''kubeconfig not found''))
      (bindE (someE (HTTPException 404 ''kubeconfig not found'') k0) (\<lambda>k.
       thenE (raise_if (kcf_revoked k) (HTTPException 409 ''already revoked''))
       (bindE (getsE now) (\<lambda>t.
        let k' = k\<lparr>kcf_revoked := True, kcf_revoked_at := Some t\<rparr> in
        thenE (modifyE (\<lambda>s. s\<lparr>st_k8s_kubeconfigs := dict_mod kid (\<lambda>_. k') (st_k8s_kubeconfigs s)\<rparr>)) (returnE k')))))))"

section \<open>Rolling upgrade\<close>

definition upd_upgrade :: "string \<Rightarrow> (k8s_upgrade \<Rightarrow> k8s_upgrade) \<Rightarrow> unit sprog" where
  "upd_upgrade uid f = modifyE (\<lambda>s. s\<lparr>st_k8s_upgrades := dict_mod uid f (st_k8s_upgrades s)\<rparr>)"

definition the_upgrade :: "string \<Rightarrow> k8s_upgrade sprog" where
  "the_upgrade uid = bindE (getsE (\<lambda>s. map_of (st_k8s_upgrades s) uid)) (someE (PyError ''KeyError''))"

fun index_of :: "'a \<Rightarrow> 'a list \<Rightarrow> nat option" where
  "index_of x [] = None"
| "index_of x (y # ys) = (if x = y then Some 0 else map_option Suc (index_of x ys))"

definition downgrade :: "string \<Rightarrow> string \<Rightarrow> bool" where
  "downgrade cur tv = (case (index_of cur K8S_SUPPORTED_VERSIONS, index_of tv K8S_SUPPORTED_VERSIONS) of
     (Some i, Some j) \<Rightarrow> j < i | _ \<Rightarrow> False)"

definition rolling_order :: "k8s_cluster \<Rightarrow> store \<Rightarrow> string list" where
  "rolling_order c s = kc_cp_node_ids c @ map node_tray_id (dict_pick (st_node_instances s) (kc_worker_node_ids c))"

definition start_upgrade :: "string \<Rightarrow> string \<Rightarrow> (string \<times> string list) sprog" where
  "start_upgrade cid tv =
     bindE (cluster_or_404 cid) (\<lambda>c.
     thenE (raise_if (kc_state c \<noteq> ''running'') (HTTPException 409 ''cluster not running''))
     (thenE (raise_if (tv \<notin> set K8S_SUPPORTED_VERSIONS) (HTTPException 422 ''unsupported version''))
     (thenE (raise_if (tv = kc_version c) (HTTPException 409 ''already at this version''))
     (thenE (raise_if (downgrade (kc_version c) tv) (HTTPException 409 ''no downgrade''))
     (bindE (getsE (\<lambda>s. list_ex (\<lambda>u. up_cluster_id u = cid \<and> up_state u = ''running'') (dict_values (st_k8s_upgrades s)))) (\<lambda>busy.
      thenE (raise_if busy (HTTPException 409 ''upgrade in progress''))
      (bindE (getsE (rolling_order c)) (\<lambda>names.
       bindE (next_seq ''k8s_upgrade'') (\<lambda>n.
       bindE (getsE now) (\<lambda>t.
       let uid = ''k8u-'' @ dec n in
       thenE (modifyE (\<lambda>s. s\<lparr>st_k8s_upgrades := AList.update uid
                \<lparr>up_id = uid, up_cluster_id = cid, up_tenant_id = kc_tenant_id c, up_from_version = kc_version c,
                 up_target_version = tv, up_state = ''running'', up_current_node = None, up_done = 0, up_total = length names,
                 up_events = [], up_created_at = t\<rparr> (st_k8s_upgrades s)\<rparr>))
             (returnE (uid, names))))))))))))"

definition UPGRADE_STEPS :: "string list" where
  "UPGRADE_STEPS = [''cordon'', ''drain'', ''upgrade'', ''uncordon'']"

definition upgrade_begin_node :: "string \<Rightarrow> string \<Rightarrow> unit sprog" where
  "upgrade_begin_node uid nm = upd_upgrade uid (\<lambda>u. u\<lparr>up_current_node := Some nm\<rparr>)"

definition upgrade_node_step :: "string \<Rightarrow> string \<Rightarrow> string \<Rightarrow> unit sprog" where
  "upgrade_node_step uid nm st = bindE (getsE now) (\<lambda>t.
     upd_upgrade uid (\<lambda>u. u\<lparr>up_events := up_events u @ [\<lparr>ue_ts = t, ue_node = nm, ue_step = st\<rparr>]\<rparr>))"

definition upgrade_end_node :: "string \<Rightarrow> string \<Rightarrow> unit sprog" where
  "upgrade_end_node uid nm =
     thenE (upd_upgrade uid (\<lambda>u. u\<lparr>up_done := up_done u + 1\<rparr>))
     (bindE (the_upgrade uid) (\<lambda>u.
      upd_cluster (up_cluster_id u) (\<lambda>c. c\<lparr>kc_node_versions := AList.update nm (up_target_version u) (kc_node_versions c)\<rparr>)))"

definition upgrade_finish :: "string \<Rightarrow> unit sprog" where
  "upgrade_finish uid =
     thenE (upd_upgrade uid (\<lambda>u. u\<lparr>up_state := ''succeeded'', up_current_node := None\<rparr>))
     (bindE (the_upgrade uid) (\<lambda>u.
      bindE (getsE now) (\<lambda>t.
      upd_cluster (up_cluster_id u) (\<lambda>c. c\<lparr>kc_version := up_target_version u,
        kc_history := kc_history c @ [event (kc_state c) ''upgraded'' t]\<rparr>))))"

definition upgrade_node :: "string \<Rightarrow> string \<Rightarrow> unit sprog" where
  "upgrade_node uid nm =
     thenE (upgrade_begin_node uid nm) (thenE (forE UPGRADE_STEPS (upgrade_node_step uid nm)) (upgrade_end_node uid nm))"

text \<open>
  The whole upgrade, run without interruption at one time of the clock. In the code a thread takes the lock for each of these steps; the steps as
  separate transitions between other requests are those of \<open>Control_Plane\<close>.
\<close>

definition run_upgrade :: "string \<Rightarrow> string list \<Rightarrow> unit sprog" where
  "run_upgrade uid names = thenE (forE names (upgrade_node uid)) (upgrade_finish uid)"

definition list_upgrades :: "string \<Rightarrow> k8s_upgrade list sprog" where
  "list_upgrades cid = thenE (cluster_or_404 cid)
     (getsE (\<lambda>s. sort_desc up_id (filter (\<lambda>u. up_cluster_id u = cid) (dict_values (st_k8s_upgrades s)))))"

section \<open>Storage view\<close>

record pvc =
  pv_name :: string
  pv_capacity_tb :: rat

definition cluster_storage :: "vast \<Rightarrow> string \<Rightarrow> pvc list sprog" where
  "cluster_storage v cid = bindE (cluster_or_404 cid) (\<lambda>c.
     returnE (map (\<lambda>x. \<lparr>pv_name = ''pvc-'' @ (case after_last CHR ''/'' (vv_path x) of Some p \<Rightarrow> p | None \<Rightarrow> vv_path x),
        pv_capacity_tb = vv_capacity_tb x\<rparr>)
       (filter (\<lambda>x. vv_tenant_ref x = kc_tenant_id c \<and> vv_state x = ''active'') (dict_values (va_views v)))))"

end
