(* ===== verification/Customer_Ops.thy ===== *)
theory Customer_Ops
  imports Orders
begin

text \<open>
  \<open>app/customer_ops.py\<close>: what a customer does to its own resources. The tenant comes from the
  \<open>X-Tenant-Id\<close> header. The AI infrastructure emulator behind HTTP is a parameter: what its POST answers
  (an operation id, or the exception the client raises) and which storage views it lists (\<open>None\<close> when it
  is unreachable).
\<close>

record infra_view =
  iv_tenant_id :: "string option"
  iv_path :: "string option"
  iv_cluster :: "string option"
  iv_protocols :: "string list option"
  iv_capacity_tb :: "rat option"
  iv_used_tb :: "rat option"
  iv_quota_tb :: "rat option"
  iv_qos :: "(rat \<times> rat) option"
  iv_state :: "string option"

record ai_infra =
  ai_post :: "string \<Rightarrow> err + string option"
  ai_views :: "infra_view list option"

definition header_tenant :: "string option \<Rightarrow> ('s, string) prog" where
  "header_tenant h = (if truthy h then returnE (the h) else raiseE (HTTPException 400 ''X-Tenant-Id header required''))"

definition opt_or :: "'a option \<Rightarrow> 'a \<Rightarrow> 'a" where
  "opt_or x d = (case x of Some v \<Rightarrow> v | None \<Rightarrow> d)"

section \<open>Reboot and replacement of nodes\<close>

definition tray_of :: "string \<Rightarrow> string" where
  "tray_of nid = (case drop_prefix ''nh-'' nid of Some t \<Rightarrow> t | None \<Rightarrow> nid)"

text \<open>The controller's tenant reference decides; the node mirror only when the host is unknown or the controller fails.\<close>

definition owns_node :: "'n compute_adapter \<Rightarrow> string \<Rightarrow> string \<Rightarrow> ('n, bool) wprog" where
  "owns_node A nid tid =
     bindE (catch_all (onNico (ca_list_hosts A)) (returnE [])) (\<lambda>hosts.
     case List.find (\<lambda>h. nh_host_id h \<in> {nid, ''nh-'' @ tray_of nid}) hosts of
       Some h \<Rightarrow> returnE (nh_tenant_ref h = Some tid)
     | None \<Rightarrow> getsS (\<lambda>s. case map_of (st_node_instances s) nid of
           Some n \<Rightarrow> node_tenant_id n = Some tid
         | None \<Rightarrow> (case map_of (st_node_instances s) (''nh-'' @ tray_of nid) of
               Some n \<Rightarrow> node_tenant_id n = Some tid | None \<Rightarrow> False)))"

definition tray_op :: "'n compute_adapter \<Rightarrow> ai_infra \<Rightarrow> string \<Rightarrow> string \<Rightarrow> string option \<Rightarrow> ('n, string option) wprog" where
  "tray_op A ai verb nid header =
     bindE (header_tenant header) (\<lambda>tid.
     bindE (owns_node A nid tid) (\<lambda>own.
     thenE (raise_if (\<not> own) (HTTPException 403 ''tenant scope violation''))
     (case ai_post ai (''/emulator/v1/trayops/'' @ tray_of nid @ ''/'' @ verb) of
        Inl e \<Rightarrow> raiseE e
      | Inr opid \<Rightarrow>
          thenE (modifyS (\<lambda>s. s\<lparr>st_node_ops := AList.update (opt_or opid nid)
                   \<lparr>no_op_id = opid, no_tenant_id = tid, no_node_id = nid\<rparr> (st_node_ops s)\<rparr>))
                (returnE opid))))"

definition node_reboot :: "'n compute_adapter \<Rightarrow> ai_infra \<Rightarrow> string \<Rightarrow> string option \<Rightarrow> ('n, string option) wprog" where
  "node_reboot A ai = tray_op A ai ''reboot''"

definition node_replace :: "'n compute_adapter \<Rightarrow> ai_infra \<Rightarrow> string \<Rightarrow> string option \<Rightarrow> ('n, string option) wprog" where
  "node_replace A ai = tray_op A ai ''replace''"

text \<open>
  What the emulator's \<open>obs/tray-ops\<close> lists: the operations in flight and the recent ones (\<open>None\<close> when it is
  unreachable). The active ones are not filtered by tenant.
\<close>

record tray_op_row =
  to_tray_id :: "string option"
  to_tenant_id :: "string option"
  to_op :: string

record node_life =
  nl_node_id :: string
  nl_tray_id :: string
  nl_active :: "tray_op_row list"
  nl_ops :: "tray_op_row list"

definition node_lifecycle :: "(tray_op_row list \<times> tray_op_row list) option \<Rightarrow> string \<Rightarrow> string option \<Rightarrow> ('s, node_life) prog" where
  "node_lifecycle feed nid header =
     bindE (header_tenant header) (\<lambda>tid.
     let (inflight, recent) = opt_or feed ([], []); tray = tray_of nid in
     returnE \<lparr>nl_node_id = nid, nl_tray_id = tray,
       nl_active = filter (\<lambda>r. to_tray_id r = Some tray) inflight,
       nl_ops = take 10 (filter (\<lambda>r. to_tray_id r = Some tray \<and> to_tenant_id r \<in> {Some tid, None}) (inflight @ recent))\<rparr>)"

section \<open>Volumes and snapshots\<close>

definition vol_key :: "nat \<Rightarrow> string" where "vol_key n = ''vol-'' @ zfill 4 (dec n)"

definition snap_key :: "nat \<Rightarrow> string" where "snap_key n = ''snap-'' @ zfill 4 (dec n)"

definition apikey_key :: "nat \<Rightarrow> string" where "apikey_key n = ''key-'' @ zfill 4 (dec n)"

definition member_key :: "nat \<Rightarrow> string" where "member_key n = ''mbr-'' @ zfill 4 (dec n)"

definition put_volume :: "volume \<Rightarrow> unit sprog" where
  "put_volume v = modifyE (\<lambda>s. s\<lparr>st_storage_volumes := AList.update (vol_id v) v (st_storage_volumes s)\<rparr>)"

definition volume_of_view :: "string \<Rightarrow> string \<Rightarrow> int \<Rightarrow> infra_view \<Rightarrow> volume" where
  "volume_of_view k tid t v =
     \<lparr>vol_id = k, vol_tenant_id = tid, vol_path = iv_path v, vol_cluster = iv_cluster v,
      vol_protocols = opt_or (iv_protocols v) [''NFS''], vol_capacity_tb = opt_or (iv_capacity_tb v) 100,
      vol_used_tb = opt_or (iv_used_tb v) 0, vol_quota_tb = opt_or (iv_quota_tb v) (opt_or (iv_capacity_tb v) 100),
      vol_bw_gbps = fst (opt_or (iv_qos v) (1000, 200)), vol_iops_k = snd (opt_or (iv_qos v) (1000, 200)),
      vol_state = opt_or (iv_state v) ''active'', vol_created_at = t\<rparr>"

definition seed_volumes :: "ai_infra \<Rightarrow> string \<Rightarrow> unit sprog" where
  "seed_volumes ai tid =
     bindE (getsE (\<lambda>s. list_ex (\<lambda>v. vol_tenant_id v = tid) (dict_values (st_storage_volumes s)))) (\<lambda>there.
     if there then returnE ()
     else forE (filter (\<lambda>v. iv_tenant_id v = Some tid) (opt_or (ai_views ai) [])) (\<lambda>v.
       bindE (next_seq ''vol'') (\<lambda>n. bindE (getsE now) (\<lambda>t. put_volume (volume_of_view (vol_key n) tid t v)))))"

definition list_volumes :: "ai_infra \<Rightarrow> string option \<Rightarrow> volume list sprog" where
  "list_volumes ai header =
     bindE (header_tenant header) (\<lambda>tid.
     thenE (seed_volumes ai tid) (getsE (\<lambda>s. filter (\<lambda>v. vol_tenant_id v = tid) (dict_values (st_storage_volumes s)))))"

record volume_body =
  vb_name :: string
  vb_capacity_tb :: rat
  vb_protocol :: string
  vb_bw_gbps :: rat
  vb_iops_k :: rat

definition create_volume :: "volume_body \<Rightarrow> string option \<Rightarrow> volume sprog" where
  "create_volume b header =
     bindE (header_tenant header) (\<lambda>tid.
     bindE (next_seq ''vol'') (\<lambda>n.
     bindE (getsE now) (\<lambda>t.
     let v = \<lparr>vol_id = vol_key n, vol_tenant_id = tid, vol_path = Some (''/'' @ tid @ ''/'' @ vb_name b),
           vol_cluster = Some ''vast-ansan'', vol_protocols = [vb_protocol b], vol_capacity_tb = vb_capacity_tb b,
           vol_used_tb = 0, vol_quota_tb = vb_capacity_tb b, vol_bw_gbps = vb_bw_gbps b, vol_iops_k = vb_iops_k b,
           vol_state = ''active'', vol_created_at = t\<rparr> in
     thenE (put_volume v) (returnE v))))"

text \<open>The object of the tenant under a key; another tenant's is not found.\<close>

definition owned_or_404 :: "(store \<Rightarrow> 'v dict) \<Rightarrow> ('v \<Rightarrow> string) \<Rightarrow> string \<Rightarrow> string \<Rightarrow> 'v sprog" where
  "owned_or_404 coll owner k tid =
     bindE (getsE (\<lambda>s. map_of (coll s) k)) (\<lambda>v0. case v0 of
       Some v \<Rightarrow> if owner v = tid then returnE v else raiseE (HTTPException 404 ''not found'')
     | None \<Rightarrow> raiseE (HTTPException 404 ''not found''))"

definition set_qos :: "string \<Rightarrow> rat \<Rightarrow> rat \<Rightarrow> string option \<Rightarrow> volume sprog" where
  "set_qos k bw iops header =
     bindE (header_tenant header) (\<lambda>tid.
     bindE (owned_or_404 st_storage_volumes vol_tenant_id k tid) (\<lambda>v.
     let v' = v\<lparr>vol_bw_gbps := bw, vol_iops_k := iops\<rparr> in
     thenE (modifyE (\<lambda>s. s\<lparr>st_storage_volumes := dict_mod k (\<lambda>_. v') (st_storage_volumes s)\<rparr>)) (returnE v')))"

definition delete_volume :: "string \<Rightarrow> string option \<Rightarrow> unit sprog" where
  "delete_volume k header =
     bindE (header_tenant header) (\<lambda>tid.
     thenE (owned_or_404 st_storage_volumes vol_tenant_id k tid)
           (modifyE (\<lambda>s. s\<lparr>st_storage_volumes := AList.delete k (st_storage_volumes s)\<rparr>)))"

definition list_snapshots :: "string option \<Rightarrow> snapshot list sprog" where
  "list_snapshots header = bindE (header_tenant header) (\<lambda>tid.
     getsE (\<lambda>s. filter (\<lambda>x. sn_tenant_id x = tid) (dict_values (st_storage_snapshots s))))"

definition create_snapshot :: "string \<Rightarrow> string \<Rightarrow> string option \<Rightarrow> snapshot sprog" where
  "create_snapshot vid nt header =
     bindE (header_tenant header) (\<lambda>tid.
     bindE (owned_or_404 st_storage_volumes vol_tenant_id vid tid) (\<lambda>v.
     bindE (next_seq ''snap'') (\<lambda>n.
     bindE (getsE now) (\<lambda>t.
     let x = \<lparr>sn_id = snap_key n, sn_tenant_id = tid, sn_volume_id = vid, sn_path = vol_path v,
           sn_size_tb = round1 (vol_used_tb v), sn_note = nt, sn_created_at = t, sn_state = ''ready''\<rparr> in
     thenE (modifyE (\<lambda>s. s\<lparr>st_storage_snapshots := AList.update (sn_id x) x (st_storage_snapshots s)\<rparr>)) (returnE x)))))"

section \<open>API keys\<close>

definition hex_char :: "nat \<Rightarrow> char" where
  "hex_char d = (if d < 10 then digit_char d else char_of (87 + d))"

fun hex :: "nat \<Rightarrow> string" where
  "hex n = (if n < 16 then [hex_char n] else hex (n div 16) @ [hex_char (n mod 16)])"

declare hex.simps [simp del]

definition api_secret :: "string \<Rightarrow> nat \<Rightarrow> string" where
  "api_secret tid n = ''nc_sk_'' @ drop 4 tid @ ''_'' @ zfill 8 (hex n) @ ''a1b2c3d4e5f6''"

definition create_api_key :: "string \<Rightarrow> string \<Rightarrow> string option \<Rightarrow> api_key sprog" where
  "create_api_key nm scope header =
     bindE (header_tenant header) (\<lambda>tid.
     bindE (next_seq ''apikey'') (\<lambda>n.
     bindE (next_seq ''apikey_secret'') (\<lambda>sq.
     bindE (getsE now) (\<lambda>t.
     let a = \<lparr>ak_id = apikey_key n, ak_tenant_id = tid, ak_name = nm, ak_scope = scope,
           ak_prefix = take 14 (api_secret tid sq) @ ''...'', ak_secret = api_secret tid sq, ak_created_at = t,
           ak_state = ''active''\<rparr> in
     thenE (modifyE (\<lambda>s. s\<lparr>st_api_keys := AList.update (ak_id a) a (st_api_keys s)\<rparr>)) (returnE a)))))"

text \<open>A listed key has every field but the secret.\<close>

record api_key_view =
  kv_id :: string
  kv_tenant_id :: string
  kv_name :: string
  kv_scope :: string
  kv_prefix :: string
  kv_state :: string

definition key_view :: "api_key \<Rightarrow> api_key_view" where
  "key_view a = \<lparr>kv_id = ak_id a, kv_tenant_id = ak_tenant_id a, kv_name = ak_name a, kv_scope = ak_scope a,
     kv_prefix = ak_prefix a, kv_state = ak_state a\<rparr>"

definition list_api_keys :: "string option \<Rightarrow> api_key_view list sprog" where
  "list_api_keys header = bindE (header_tenant header) (\<lambda>tid.
     getsE (\<lambda>s. map key_view (filter (\<lambda>a. ak_tenant_id a = tid) (dict_values (st_api_keys s)))))"

definition revoke_api_key :: "string \<Rightarrow> string option \<Rightarrow> unit sprog" where
  "revoke_api_key k header =
     bindE (header_tenant header) (\<lambda>tid.
     thenE (owned_or_404 st_api_keys ak_tenant_id k tid)
           (modifyE (\<lambda>s. s\<lparr>st_api_keys := AList.delete k (st_api_keys s)\<rparr>)))"

section \<open>Members\<close>

definition MEMBER_ROLES :: "string list" where "MEMBER_ROLES = [''admin'', ''member'', ''viewer'']"

definition list_members :: "string option \<Rightarrow> org_member list sprog" where
  "list_members header = bindE (header_tenant header) (\<lambda>tid.
     getsE (\<lambda>s. filter (\<lambda>m. mb_tenant_id m = tid) (dict_values (st_members s))))"

definition invite_member :: "string \<Rightarrow> string \<Rightarrow> string option \<Rightarrow> org_member sprog" where
  "invite_member email role header =
     bindE (header_tenant header) (\<lambda>tid.
     thenE (raise_if (role \<notin> set MEMBER_ROLES) (HTTPException 422 ''role''))
     (bindE (next_seq ''member'') (\<lambda>n.
      bindE (getsE now) (\<lambda>t.
      let m = \<lparr>mb_id = member_key n, mb_tenant_id = tid, mb_email = email, mb_role = role,
            mb_state = ''invited'', mb_invited_at = t, mb_mfa = False\<rparr> in
      thenE (modifyE (\<lambda>s. s\<lparr>st_members := AList.update (mb_id m) m (st_members s)\<rparr>)) (returnE m)))))"

definition update_member :: "string \<Rightarrow> string \<Rightarrow> string option \<Rightarrow> org_member sprog" where
  "update_member k role header =
     bindE (header_tenant header) (\<lambda>tid.
     bindE (owned_or_404 st_members mb_tenant_id k tid) (\<lambda>m.
     let m' = m\<lparr>mb_role := role\<rparr> in
     thenE (modifyE (\<lambda>s. s\<lparr>st_members := dict_mod k (\<lambda>_. m') (st_members s)\<rparr>)) (returnE m')))"

definition remove_member :: "string \<Rightarrow> string option \<Rightarrow> unit sprog" where
  "remove_member k header =
     bindE (header_tenant header) (\<lambda>tid.
     thenE (owned_or_404 st_members mb_tenant_id k tid)
           (modifyE (\<lambda>s. s\<lparr>st_members := AList.delete k (st_members s)\<rparr>)))"

end
