(* ===== verification/Portal_Safe.thy ===== *)
theory Portal_Safe
  imports Inventory_Safe K8s_Api Customer_Ops
begin

text \<open>
  Every operation of the portals keeps the tenancy and lifecycle invariants. Most write only their own
  dictionaries; acceptance and termination act on orders and go through the pipeline.
\<close>

section \<open>Tickets, inquiries, incidents and credits\<close>

lemma keeps_own_dict [keeps_rules]:
  "keeps safe (modifyE (\<lambda>s. s\<lparr>st_tickets := f1 s\<rparr>))" "keeps safe (modifyE (\<lambda>s. s\<lparr>st_k8s_kubeconfigs := f2 s\<rparr>))"
  "keeps safe (modifyE (\<lambda>s. s\<lparr>st_k8s_upgrades := f3 s\<rparr>))" "keeps safe (modifyE (\<lambda>s. s\<lparr>st_acceptances := f4 s\<rparr>))"
  "keeps safe (modifyE (\<lambda>s. s\<lparr>st_terminations := f5 s\<rparr>))" "keeps safe (modifyE (\<lambda>s. s\<lparr>st_incidents := f6 s\<rparr>))"
  "keeps safe (modifyE (\<lambda>s. s\<lparr>st_rcas := f7 s\<rparr>))" "keeps safe (modifyE (\<lambda>s. s\<lparr>st_sla_credits := f8 s\<rparr>))"
  "keeps safe (modifyE (\<lambda>s. s\<lparr>st_inquiries := f9 s\<rparr>))" "keeps safe (modifyE (\<lambda>s. s\<lparr>st_storage_volumes := f10 s\<rparr>))"
  "keeps safe (modifyE (\<lambda>s. s\<lparr>st_storage_snapshots := f11 s\<rparr>))" "keeps safe (modifyE (\<lambda>s. s\<lparr>st_api_keys := f12 s\<rparr>))"
  "keeps safe (modifyE (\<lambda>s. s\<lparr>st_members := f13 s\<rparr>))"
  by (rule keeps_side_write, simp add: side_write_def)+

lemma keeps_create_ticket [keeps_rules]: "keeps safe (create_ticket b)"
  unfolding create_ticket_def check_ticket_def Let_def by (intro keeps_rules)

lemma keeps_update_ticket [keeps_rules]: "keeps safe (update_ticket k b)"
  unfolding update_ticket_def Let_def by (intro keeps_rules)

lemma keeps_create_inquiry [keeps_rules]: "keeps safe (create_inquiry c n e g m)"
  unfolding create_inquiry_def by (intro keeps_rules)

lemma keeps_publish_rca [keeps_rules]: "keeps safe (publish_rca i)"
  unfolding publish_rca_def Let_def by (intro keeps_rules)

lemma keeps_put_incident [keeps_rules]: "keeps safe (put_incident i)"
  unfolding put_incident_def by (intro keeps_rules)

lemma keeps_sync_incidents [keeps_rules]: "keeps safe (sync_incidents feed)"
  unfolding sync_incidents_def sync_fault_def Let_def by (intro keeps_rules)

lemma keeps_known_tenant [keeps_rules]: "keeps I (known_tenant tid)"
  unfolding known_tenant_def by (intro keeps_rules)

lemma keeps_status_page [keeps_rules]: "keeps safe (status_page feed)"
  unfolding status_page_def by (intro keeps_rules)

lemma keeps_rca_reports [keeps_rules]: "keeps safe (rca_reports feed tid)"
  unfolding rca_reports_def by (intro keeps_rules)

lemma keeps_sla_report [keeps_rules]: "keeps safe (sla_report feed tid m syn)"
  unfolding sla_report_def synthesize_def credit_for_def Let_def by (intro keeps_rules)

section \<open>Kubernetes operations\<close>

lemma keeps_cluster_or_404 [keeps_rules]: "keeps I (cluster_or_404 cid)"
  unfolding cluster_or_404_def by (intro keeps_rules)

lemma keeps_the_upgrade [keeps_rules]: "keeps I (the_upgrade uid)"
  unfolding the_upgrade_def by (intro keeps_rules)

lemma keeps_upd_upgrade [keeps_rules]: "keeps safe (upd_upgrade uid f)"
  unfolding upd_upgrade_def by (intro keeps_rules)

lemma keeps_k8s_ops [keeps_rules]:
  "keeps safe (issue_kubeconfig serial cid role ttl)" "keeps safe (revoke_kubeconfig cid kid)"
  "keeps safe (add_cluster_addon cid nm)" "keeps safe (cluster_health_events r t cid)" "keeps safe (cluster_nodes r t cid)"
  "keeps safe (start_upgrade cid tv)"
  unfolding issue_kubeconfig_def revoke_kubeconfig_def add_cluster_addon_def cluster_health_events_def cluster_nodes_def
    quarantine_def start_upgrade_def note_cluster_def Let_def
  by (intro keeps_rules)+

lemma keeps_upgrade_steps [keeps_rules]:
  "keeps safe (upgrade_begin_node uid nm)" "keeps safe (upgrade_node_step uid nm st)" "keeps safe (upgrade_end_node uid nm)"
  "keeps safe (upgrade_finish uid)"
  unfolding upgrade_begin_node_def upgrade_node_step_def upgrade_end_node_def upgrade_finish_def
  by (intro keeps_rules)+

lemma keeps_run_upgrade [keeps_rules]: "keeps safe (run_upgrade uid names)"
  unfolding run_upgrade_def upgrade_node_def by (intro keeps_rules)

section \<open>Customer operations\<close>

lemma keeps_header_tenant [keeps_rules]: "keeps I (header_tenant h)"
  unfolding header_tenant_def by (intro keeps_rules)

lemma keeps_owned_or_404 [keeps_rules]: "keeps I (owned_or_404 coll owner k tid)"
  unfolding owned_or_404_def by (intro keeps_rules)

lemma keeps_customer_ops [keeps_rules]:
  "keeps safe (list_volumes ai h)" "keeps safe (create_volume b h)" "keeps safe (set_qos k bw io h)" "keeps safe (delete_volume k h)"
  "keeps safe (create_snapshot v nt h)" "keeps safe (create_api_key nm sc h)" "keeps safe (revoke_api_key k h)"
  "keeps safe (invite_member em rl h)" "keeps safe (update_member k rl h)" "keeps safe (remove_member k h)"
  unfolding list_volumes_def seed_volumes_def put_volume_def create_volume_def set_qos_def delete_volume_def create_snapshot_def
    create_api_key_def revoke_api_key_def invite_member_def update_member_def remove_member_def Let_def
  by (intro keeps_rules)+

lemma keeps_tray_op [keeps_rules]: "keeps safeW (tray_op A ai verb nid h)"
  unfolding tray_op_def owns_node_def
  by (intro keeps_rules keeps_side_writeS) (simp add: side_write_def)

section \<open>Acceptance\<close>

lemma keeps_note_order [keeps_rules]: "keeps safe (note_order oid d t)"
  unfolding note_order_def upd_order_def
  by (rule keeps_modifyE, rule safe_upd_order) (auto intro: order_tracked_rules(2))

lemma order_tracked_retest: "order_tracked x \<Longrightarrow> order_tracked (retest_order t x)"
  unfolding order_tracked_def
  by (rule order_fsm.append_tracked [where b = O_acceptance and t = t and d = "''AcceptanceRejected''"])
     (auto simp: retest_order_def retest_def)

lemma keeps_retest [keeps_rules]: "keeps safe (upd_order oid (retest_order t))"
  unfolding upd_order_def
  by (rule keeps_modifyE, rule safe_upd_order) (auto simp: order_tracked_retest, simp add: retest_order_def)

lemma keeps_upd_acceptance [keeps_rules]: "keeps safe (upd_acceptance oid f)"
  unfolding upd_acceptance_def by (intro keeps_rules)

lemma keeps_ensure_acceptance [keeps_rules]: "keeps safe (ensure_acceptance env x)"
  unfolding ensure_acceptance_def by (intro keeps_rules)

lemma keeps_approve_rest [keeps_rules]: "keeps safeW (approve_rest A k oid)"
  by (induction k) (simp only: approve_rest.simps, (intro keeps_rules keeps_approve_next_stage | assumption)+)+

lemma keeps_build_access_package [keeps_rules]: "keeps safeW (build_access_package oid)"
  unfolding build_access_package_def Let_def by (intro keeps_rules keeps_updO) (simp add: attr_defs)

lemma keeps_finalize_delivery [keeps_rules]: "keeps safeW (finalize_delivery A oid)"
  unfolding finalize_delivery_def pass_node_def by (intro keeps_rules)

lemma keeps_acceptance_routes [keeps_rules]:
  "keeps safeW (acceptance_report_route A env oid)" "keeps safeW (decide_acceptance A env oid d r)"
  unfolding acceptance_report_route_def maybe_deem_def decide_acceptance_def check_decision_def record_approval_def
    record_rejection_def
  by (intro keeps_rules)+

section \<open>Termination\<close>

lemma keeps_term_updates [keeps_rules]:
  "keeps safe (upd_termination k f)" "keeps safe (term_progress k st d n)" "keeps I (the_termination k)"
  unfolding term_progress_def upd_termination_def the_termination_def by (intro keeps_rules)+

lemma keeps_show_stages [keeps_rules]: "keeps safe (show_stages k aid d n sts)"
  by (induction sts arbitrary: d) (simp only: show_stages.simps, (intro keeps_rules | assumption)+)+

lemma keeps_erase_allocation [keeps_rules]: "keeps safeW (erase_allocation A k tid d n aid)"
  unfolding erase_allocation_def by (intro keeps_rules keeps_run_terminate_order)

lemma keeps_erase_allocations [keeps_rules]: "keeps safeW (erase_allocations A k tid d n aids)"
  by (induction aids arbitrary: d) (simp only: erase_allocations.simps, (intro keeps_rules | assumption)+)+

lemma keeps_termination_saga [keeps_rules]: "keeps safeW (run_termination_saga A env k tid)"
  unfolding run_termination_saga_def issue_certificate_def Let_def by (intro keeps_rules)

lemma keeps_termination_routes [keeps_rules]:
  "keeps safe (request_termination tid)" "keeps safeW (confirm_backup A env tid cl)" "keeps safe (get_wipe_certificate tid)"
  unfolding request_termination_def confirm_backup_def check_backup_def get_wipe_certificate_def get_termination_def
  by (intro keeps_rules)+

end
