(* ===== verification/Control_Plane.thy ===== *)
theory Control_Plane
  imports Portal_Safe
begin

text \<open>
  The control plane as a transition system: one rule per state-changing route, with arbitrary
  parameters, and rules for what happens outside it: the clock, the site controller, the storage
  system and IAM may move to any state. The pipeline takes the store's lock once per stage, so orders
  interleave between stages: receiving an order, each stage of each order, each gate of the approval
  queue and each stage of a Kubernetes install (the background mode) are also steps of their own.
\<close>

inductive api_step :: "'n compute_adapter \<Rightarrow> 'n world \<Rightarrow> 'n world \<Rightarrow> bool" for A where
  tenant: "api_step A w (snd (create_tenant body w))"
| allocate: "api_step A w (snd (onStore (create_allocation body) w))"
| deallocate: "api_step A w (snd (onStore (delete_allocation aid) w))"
| partition: "api_step A w (snd (onStore (create_partition body) w))"
| order: "api_step A w (snd (create_order A body w))"
| approve: "api_step A w (snd (approve_next_stage A oid w))"
| reject: "api_step A w (snd (reject_fulfillment A oid reason w))"
| addon: "api_step A w (snd (install_k8s_addon A body w))"
| received: "api_step A w (snd (onStore (put_order oid (new_order oid body t)) w))"
| stage: "api_step A w (snd (stage_fn A st oid w))"
| gate: "api_step A w (snd (updO oid (\<lambda>x. x\<lparr>pending_stage := p\<rparr>) w))"
| install: "api_step A w (snd (onStore (begin_k8s_install oid) w))"
| install_stage: "nf \<in> set (zip K8S_INSTALL_STAGES (K8S_STAGE_FNS A)) \<Longrightarrow> api_step A w (fst (snd (run_k8s_stage nf (w, c))))"
| bootstrap: "api_step A w (snd (bootstrap_nodes A w))"
| reconciled: "api_step A w (snd (reconcile A w))"
| seed: "api_step A w (snd (onStore (seed_default bks) w))"
| provision: "api_step A w (snd (onStore (provision_su bk fid did) w))"
| equipment: "api_step A w (snd (onStore (set_equipment_state kind iid st) w))"
| power: "api_step A w (snd (onStore (set_power_policy rid policy) w))"
| ticket: "api_step A w (snd (onStore (create_ticket tb) w))"
| ticket_update: "api_step A w (snd (onStore (update_ticket k tu) w))"
| inquiry: "api_step A w (snd (onStore (create_inquiry co nm em gs msg) w))"
| status: "api_step A w (snd (onStore (status_page feed) w))"
| rcas: "api_step A w (snd (onStore (rca_reports feed tid) w))"
| sla: "api_step A w (snd (onStore (sla_report feed tid month syn) w))"
| kubeconfig: "api_step A w (snd (onStore (issue_kubeconfig serial cid role ttl) w))"
| kubeconfig_revoke: "api_step A w (snd (onStore (revoke_kubeconfig cid k) w))"
| cluster_addon: "api_step A w (snd (onStore (add_cluster_addon cid nm) w))"
| cluster_health: "api_step A w (snd (onStore (cluster_health_events feed feed' cid) w))"
| cluster_view: "api_step A w (snd (onStore (cluster_nodes feed feed' cid) w))"
| upgrade: "api_step A w (snd (onStore (start_upgrade cid tv) w))"
| upgrade_thread: "up \<in> {upgrade_begin_node uid nm, upgrade_node_step uid nm stp, upgrade_end_node uid nm, upgrade_finish uid} \<Longrightarrow>
     api_step A w (snd (onStore up w))"
| customer: "co \<in> {doE (list_volumes ai h), doE (create_volume vb h), doE (set_qos k bw iops h), delete_volume k h,
       doE (create_snapshot k nt h), doE (create_api_key nm scope h), revoke_api_key k h, doE (invite_member em role h),
       doE (update_member k role h), remove_member k h} \<Longrightarrow> api_step A w (snd (onStore co w))"
| tray: "api_step A w (snd (tray_op A ai verb nid h w))"
| acceptance: "api_step A w (snd (acceptance_report_route A env oid w))"
| decide: "api_step A w (snd (decide_acceptance A env oid decision rsn w))"
| terminate: "api_step A w (snd (onStore (request_termination tid) w))"
| erase: "api_step A w (snd (confirm_backup A env tid checklist w))"
| certificate: "api_step A w (snd (onStore (get_wipe_certificate tid) w))"
| tick: "api_step A w (w\<lparr>w_store := (w_store w)\<lparr>st_clock := t\<rparr>\<rparr>)"
| outside: "w_store w' = w_store w \<Longrightarrow> api_step A w w'"

inductive reachable :: "'n compute_adapter \<Rightarrow> 'n world \<Rightarrow> bool" for A where
  start: "w_store w = empty_store t \<Longrightarrow> reachable A w"
| step: "reachable A w \<Longrightarrow> api_step A w w' \<Longrightarrow> reachable A w'"

inductive_cases reachableE: "reachable A w"

lemma keeps_install_stage:
  assumes "nf \<in> set (zip K8S_INSTALL_STAGES (K8S_STAGE_FNS A))"
  shows "keeps safeK (run_k8s_stage nf)"
proof -
  obtain nm f where nf: "nf = (nm, f)" by (cases nf)
  with assms have "f \<in> set (K8S_STAGE_FNS A)" by (auto dest: set_zip_rightD)
  then have "keeps safeK (snd nf)" unfolding nf snd_conv by (rule keeps_K8S_STAGE_FNS)
  then show ?thesis by (rule keeps_run_k8s_stage)
qed

lemmas portal_steps =
  keepsD [OF keeps_onStore_safe [OF keeps_create_ticket]] keepsD [OF keeps_onStore_safe [OF keeps_update_ticket]]
  keepsD [OF keeps_onStore_safe [OF keeps_create_inquiry]] keepsD [OF keeps_onStore_safe [OF keeps_status_page]]
  keepsD [OF keeps_onStore_safe [OF keeps_rca_reports]] keepsD [OF keeps_onStore_safe [OF keeps_sla_report]]
  keepsD [OF keeps_onStore_safe [OF keeps_k8s_ops(1)]] keepsD [OF keeps_onStore_safe [OF keeps_k8s_ops(2)]]
  keepsD [OF keeps_onStore_safe [OF keeps_k8s_ops(3)]] keepsD [OF keeps_onStore_safe [OF keeps_k8s_ops(4)]]
  keepsD [OF keeps_onStore_safe [OF keeps_k8s_ops(5)]] keepsD [OF keeps_onStore_safe [OF keeps_k8s_ops(6)]]
  keepsD [OF keeps_tray_op] keepsD [OF keeps_acceptance_routes(1)] keepsD [OF keeps_acceptance_routes(2)]
  keepsD [OF keeps_onStore_safe [OF keeps_termination_routes(1)]] keepsD [OF keeps_termination_routes(2)]
  keepsD [OF keeps_onStore_safe [OF keeps_termination_routes(3)]]

lemma api_step_safe: "api_step A w w' \<Longrightarrow> safeW w \<Longrightarrow> safeW w'"
proof (induction rule: api_step.induct)
  case (seed w bks)
  then show ?case using safe_seed_default by (simp add: onStore_run)
next
  case (tick w t)
  then show ?case by (auto simp: seq_of_def intro: safe_cong [of _ "w_store w"])
next
  case (outside w' w)
  then show ?case by simp
next
  case (install_stage nf w c)
  then have "safeK (snd (run_k8s_stage nf (w, c)))" by (intro keepsD [OF keeps_install_stage]) simp_all
  then show ?case by simp
next
  case (received w oid body t)
  then show ?case by (intro keepsD [OF keeps_onStore_safe [OF keeps_put_order]]) simp_all
next
  case (gate w oid p)
  then show ?case by (intro keepsD [OF keeps_updO]) (simp_all add: attr_defs)
next
  case (upgrade_thread up uid nm stp w)
  then have "keeps safe up" using keeps_upgrade_steps by blast
  then show ?case using upgrade_thread.prems by (intro keepsD [OF keeps_onStore_safe])
next
  case (customer co ai h vb k bw iops nt nm scope em role w)
  then have "keeps safe co" using keeps_customer_ops by (auto intro: keeps_doE)
  then show ?case using customer.prems by (intro keepsD [OF keeps_onStore_safe])
qed (auto intro: portal_steps keepsD [OF keeps_create_tenant] keepsD [OF keeps_create_order] keepsD [OF keeps_approve_next_stage]
       keepsD [OF keeps_reject_fulfillment] keepsD [OF keeps_stage_fn] keepsD [OF keeps_onStore_safe [OF keeps_begin_k8s_install]] keepsD [OF keeps_install_k8s_addon] keepsD [OF keeps_bootstrap_nodes]
       keepsD [OF keeps_reconcile] keepsD [OF keeps_onStore_safe [OF tenancy_safe(1)]]
       keepsD [OF keeps_onStore_safe [OF tenancy_safe(2)]] keepsD [OF keeps_onStore_safe [OF tenancy_safe(3)]]
       keepsD [OF keeps_onStore_safe [OF keeps_provision_su]] keepsD [OF keeps_onStore_safe [OF keeps_set_equipment_state]]
       keepsD [OF keeps_onStore_safe [OF keeps_set_power_policy]])

lemma reachable_is_safe: "reachable A w \<Longrightarrow> safeW w"
proof (induction rule: reachable.induct)
  case (start w t)
  then show ?case by (simp add: safe_def)
next
  case (step w w')
  then show ?case using api_step_safe by blast
qed

lemma reachable_invs: "reachable A w \<Longrightarrow> tenancy_inv (w_store w) \<and> life_inv (w_store w)"
  using reachable_is_safe [of A w] by (simp add: safe_def)

end
