(* ===== verification/Placement_Spec.thy ===== *)
theory Placement_Spec
  imports Control_Plane
begin

text \<open>
  What placement promises: a selection has exactly the racks asked for, all of them sellable, of one
  site and in units the tenant may use; there is none only when no site has enough; and what it
  selects, the tenancy layer does not refuse.
\<close>

section \<open>Grouping and filling\<close>

lemma map_of_group_add:
  "map_of (group_add k x d) k' = (if k' = k then Some ((case map_of d k of None \<Rightarrow> [] | Some xs \<Rightarrow> xs) @ [x]) else map_of d k')"
  by (induction k x d rule: group_add.induct) auto

lemma map_of_group_fold:
  "map_of (fold (\<lambda>(k, x) d. group_add k x d) ps d) k =
     (let new = map snd (filter (\<lambda>p. fst p = k) ps) in
      case map_of d k of Some xs \<Rightarrow> Some (xs @ new) | None \<Rightarrow> if new = [] then None else Some new)"
proof (induction ps arbitrary: d)
  case Nil
  then show ?case by (simp split: option.splits)
next
  case (Cons p ps)
  show ?case
    by (cases p) (auto simp: Cons.IH map_of_group_add Let_def split: option.splits)
qed

lemma map_of_group_by:
  "map_of (group_by ps) k = (let xs = map snd (filter (\<lambda>p. fst p = k) ps) in if xs = [] then None else Some xs)"
  by (simp add: group_by_def map_of_group_fold)

lemma group_add_keys: "set (map fst (group_add k x d)) = insert k (set (map fst d))"
  by (induction k x d rule: group_add.induct) auto

lemma dict_wf_group_add: "dict_wf d \<Longrightarrow> dict_wf (group_add k x d)"
proof (induction k x d rule: group_add.induct)
  case (2 k x k' xs d)
  have "k' \<notin> set (map fst (group_add k x d))" if "k' \<noteq> k"
    using that "2.prems" unfolding group_add_keys by (simp add: dict_wf_def)
  with 2 show ?case by (cases "k' = k") (simp_all add: dict_wf_def)
qed (simp add: dict_wf_def)

lemma dict_wf_group_by: "dict_wf (group_by ps)"
proof -
  have "dict_wf d \<Longrightarrow> dict_wf (fold (\<lambda>(k, x) d. group_add k x d) ps d)" for d
    by (induction ps arbitrary: d) (auto intro: dict_wf_group_add)
  then show ?thesis by (simp add: group_by_def)
qed

lemma sum_list_insort: "sum_list (map f (insort_key g x xs)) = (f x + sum_list (map f xs) :: nat)"
  by (induction xs) auto

lemma sum_list_sort_key: "sum_list (map f (sort_key g xs)) = (sum_list (map f xs) :: nat)"
  by (induction xs) (simp_all add: sum_list_insort)

lemma total_sort_desc: "total (sort_desc f xs) = total xs"
proof -
  have "sum_list (map length (rev ys)) = sum_list (map length ys)" for ys :: "'a list list"
    by (induction ys) simp_all
  then show ?thesis by (simp add: total_def sort_desc_def sum_list_sort_key)
qed

text \<open>Filling succeeds as soon as there is enough, and takes a prefix of what is offered.\<close>

lemma spill_enough:
  assumes "length sel < n" "n \<le> length sel + total fs"
  shows "spill (int n) fs sel = Some (sel @ take (n - length sel) (concat fs))"
  using assms
proof (induction fs arbitrary: sel)
  case Nil
  then show ?case by (simp add: total_def)
next
  case (Cons free fs)
  have py: "py_take (int n - int (length sel)) free = take (n - length sel) free"
    using Cons.prems(1) by (simp add: py_take_def nat_diff_distrib)
  show ?case
  proof (cases "n \<le> length sel + length free")
    case True
    then have "length (sel @ take (n - length sel) free) = n" using Cons.prems(1) by simp
    with True show ?thesis by (simp add: py Let_def)
  next
    case False
    then have short: "take (n - length sel) free = free" by simp
    have "length (sel @ free) < n" "n \<le> length (sel @ free) + total fs"
      using False Cons.prems(2) by (simp_all add: total_def)
    from Cons.IH [OF this] False show ?thesis
      by (simp add: py Let_def short)
  qed
qed

section \<open>Pools\<close>

lemma rack_pools_in:
  assumes "(su, free, fid) \<in> set (rack_pools s bk tn)"
  shows "su \<in> set (dict_values (st_sus s))" "su_blueprint_key su = bk" "su_allowed_for s su tn"
    "free = filter (rack_sellable s) (racks_of_su s (su_id su))" "fid = site_id s su"
  using assms by (auto simp: rack_pools_def)

text \<open>A rack is offered to a tenant: sellable, in a unit of the generation that the tenant may use.\<close>

definition offered :: "store \<Rightarrow> string \<Rightarrow> tenant option \<Rightarrow> string \<Rightarrow> rack \<Rightarrow> bool" where
  "offered s bk tn fid r \<longleftrightarrow> rack_sellable s r \<and> (\<exists>su \<in> set (dict_values (st_sus s)).
     su_blueprint_key su = bk \<and> su_allowed_for s su tn \<and> r \<in> set (racks_of_su s (su_id su)) \<and> site_id s su = fid)"

text \<open>The racks a site offers, unit by unit.\<close>

definition site_free :: "store \<Rightarrow> string \<Rightarrow> tenant option \<Rightarrow> string \<Rightarrow> rack list list" where
  "site_free s bk tn fid = map (\<lambda>(_, free, _). free) (filter (\<lambda>(_, _, f). f = fid) (rack_pools s bk tn))"

lemma by_site_eq:
  "map_of (group_by (map (\<lambda>(_, free, fid). (fid, free)) (rack_pools s bk tn))) fid =
     (if site_free s bk tn fid = [] then None else Some (site_free s bk tn fid))"
proof -
  have "map snd (filter (\<lambda>p. fst p = fid) (map (\<lambda>(_, free, fid). (fid, free)) (rack_pools s bk tn))) = site_free s bk tn fid"
    by (auto simp: site_free_def filter_map comp_def split_def)
  then show ?thesis by (simp add: map_of_group_by Let_def)
qed

lemma site_free_offered: "r \<in> set (concat (site_free s bk tn fid)) \<Longrightarrow> offered s bk tn fid r"
proof -
  assume "r \<in> set (concat (site_free s bk tn fid))"
  then obtain su free where p: "(su, free, fid) \<in> set (rack_pools s bk tn)" "r \<in> set free"
    by (auto simp: site_free_def)
  from rack_pools_in [OF p(1)] p(2) show ?thesis by (auto simp: offered_def)
qed

section \<open>The selection\<close>

lemma select_racks_sound:
  assumes "0 < n" "select_racks s bk (int n) tn = Some rs"
  shows "length rs = n \<and> (\<exists>fid. \<forall>r \<in> set rs. offered s bk tn fid r)"
proof (cases "min_by (\<lambda>(_, free, _). length free) (filter (\<lambda>(_, free, _). int n \<le> int (length free)) (rack_pools s bk tn))")
  case (Some p)
  obtain su free fid where p: "p = (su, free, fid)" by (cases p)
  with min_by_Some [OF Some] have mem: "(su, free, fid) \<in> set (rack_pools s bk tn)" and len: "n \<le> length free" by auto
  from assms(2) Some p have rs: "rs = take n free" by (simp add: select_racks_def Let_def py_take_def)
  have "offered s bk tn fid r" if "r \<in> set free" for r
    using that rack_pools_in [OF mem] by (auto simp: offered_def)
  with rs len show ?thesis by (auto dest: in_set_takeD)
next
  case None
  let ?by = "group_by (map (\<lambda>(_, free, fid). (fid, free)) (rack_pools s bk tn))"
  from assms(2) None obtain c fid frees where
    c: "min_by id (map (\<lambda>(fid, frees). (total frees, fid)) (filter (\<lambda>(fid, frees). int n \<le> int (total frees)) ?by)) = Some (c, fid)"
    and fr: "map_of ?by fid = Some frees" and sp: "spill (int n) (sort_desc length frees) [] = Some rs"
    by (auto simp: select_racks_def Let_def split: option.splits)
  from min_by_Some [OF c] obtain frees' where "(fid, frees') \<in> set ?by" "n \<le> total frees'" by auto
  with fr dict_wf_group_by [of "map (\<lambda>(_, free, fid). (fid, free)) (rack_pools s bk tn)"] have enough: "n \<le> total frees"
    by (auto simp: dict_wf_def)
  have "frees = site_free s bk tn fid" using fr by (simp add: by_site_eq split: if_splits)
  then have off: "offered s bk tn fid r" if "r \<in> set (concat (sort_desc length frees))" for r
    using that site_free_offered by auto
  have "rs = take n (concat (sort_desc length frees))"
    using spill_enough [of "[]" n "sort_desc length frees"] sp enough assms(1) by (simp add: total_sort_desc)
  moreover have "n \<le> length (concat (sort_desc length frees))"
    using enough by (simp add: length_concat total_def [symmetric] total_sort_desc)
  ultimately show ?thesis
    using off by (intro conjI exI [of _ fid] ballI off) (simp, blast dest: in_set_takeD)
qed

lemma select_racks_complete:
  assumes "0 < n" "n \<le> total (site_free s bk tn fid)"
  shows "\<exists>rs. select_racks s bk (int n) tn = Some rs"
proof (cases "min_by (\<lambda>(_, free, _). length free) (filter (\<lambda>(_, free, _). int n \<le> int (length free)) (rack_pools s bk tn))")
  case (Some p)
  then show ?thesis by (cases p) (simp add: select_racks_def Let_def)
next
  case None
  let ?by = "group_by (map (\<lambda>(_, free, fid). (fid, free)) (rack_pools s bk tn))"
  let ?cs = "map (\<lambda>(fid, frees). (total frees, fid)) (filter (\<lambda>(fid, frees). int n \<le> int (total frees)) ?by)"
  have "site_free s bk tn fid \<noteq> []" using assms by (auto simp: total_def)
  then have "map_of ?by fid = Some (site_free s bk tn fid)" by (simp add: by_site_eq)
  then have "(fid, site_free s bk tn fid) \<in> set ?by" by (rule map_of_SomeD)
  with assms(2) have "?cs \<noteq> []" by (auto simp: filter_empty_conv)
  then obtain c g where cg: "min_by id ?cs = Some (c, g)" using min_by_None [of id ?cs] by (cases "min_by id ?cs") auto
  from min_by_Some [OF cg] obtain frees where g: "(g, frees) \<in> set ?by" "n \<le> total frees" by auto
  with dict_wf_group_by [of "map (\<lambda>(_, free, fid). (fid, free)) (rack_pools s bk tn)"] have lk: "map_of ?by g = Some frees"
    by (simp add: dict_wf_def)
  have "spill (int n) (sort_desc length frees) [] = Some (take n (concat (sort_desc length frees)))"
    using spill_enough [of "[]" n "sort_desc length frees"] assms(1) g(2) by (simp add: total_sort_desc)
  with None cg lk show ?thesis by (auto simp: select_racks_def Let_def)
qed

section \<open>Placement anticipates the tenancy layer\<close>

lemma unbound_rack_free:
  assumes "alloc_ok s" "map_of (st_racks s) rid = Some r" "rack_tenant_id r = None"
  shows "allocation_for_rack s rid = None"
proof (rule ccontr)
  assume "allocation_for_rack s rid \<noteq> None"
  then obtain a where "a \<in> set (dict_values (st_allocations s))" "rid \<in> set (alloc_rack_ids a)"
    by (auto simp: allocation_for_rack_None)
  moreover from this assms(1) obtain k where "map_of (st_allocations s) k = Some a"
    by (auto simp: alloc_ok_def in_dict_values)
  ultimately obtain r' where "map_of (st_racks s) rid = Some r'" "rack_tenant_id r' = Some (alloc_tenant_id a)"
    using assms(1) unfolding alloc_ok_def by blast
  with assms(2,3) show False by simp
qed

lemma allowed_not_shared:
  assumes "tenancy_inv s" "map_of (st_sus s) k = Some su" "su_allowed_for s su (Some t)"
  shows "\<not> shares_su s t su rids"
proof
  assume "shares_su s t su rids"
  then obtain r where ded: "isolation_tier t = bare_metal_dedicated" and r: "r \<in> set (racks_of_su s (su_id su))"
      "rack_tenant_id r \<notin> {None, Some (tn_id t)}"
    by (auto simp: shares_su_def)
  then obtain x where x: "rack_tenant_id r = Some x" "x \<noteq> tn_id t" by auto
  have "x \<noteq> []"
  proof
    assume "x = []"
    from r(1) obtain rid where "map_of (st_racks s) rid = Some r"
      by (auto simp: racks_of_su_def set_dict_pick split: option.splits)
    with x(1) assms(1) obtain l a where "map_of (st_allocations s) l = Some a" "alloc_tenant_id a = x"
      unfolding tenancy_inv_def alloc_ok_def by blast
    with assms(1) have "has_key (st_tenants s) x" unfolding tenancy_inv_def alloc_ok_def by blast
    with assms(1) \<open>x = []\<close> show False unfolding tenancy_inv_def topo_ok_def has_key_def by blast
  qed
  with r(1) x have "x \<in> set (su_owners s su t)"
    unfolding su_owners_def by (auto intro!: bexI [of _ r])
  with assms(3) ded show False by (auto simp: su_allowed_for_def Let_def split: if_splits)
qed

lemma placed_racks_allocate:
  assumes inv: "tenancy_inv s" and t: "map_of (st_tenants s) tid = Some t" and su: "map_of (st_sus s) k = Some su"
    and allowed: "su_allowed_for s su (Some t)" and "rids \<noteq> []"
    and sell: "\<forall>rid \<in> set rids. \<exists>r \<in> set (racks_of_su s k). rack_id r = rid \<and> rack_sellable s r"
  shows "\<exists>a s'. create_allocation \<lparr>ac_tenant_id = tid, ac_scope = Scope_rack_set, ac_su_id = k,
            ac_rack_ids = Some rids, ac_dpu_mode = None\<rparr> s = (Inr a, s') \<and> alloc_rack_ids a = rids"
proof -
  let ?body = "\<lparr>ac_tenant_id = tid, ac_scope = Scope_rack_set, ac_su_id = k, ac_rack_ids = Some rids, ac_dpu_mode = None\<rparr>"
  from inv have topo: "topo_ok s" and al: "alloc_ok s" by (simp_all add: tenancy_inv_def)
  have rack: "\<exists>r. map_of (st_racks s) rid = Some r \<and> rack_su_id r = su_id su \<and> rack_tenant_id r = None"
    if "rid \<in> set rids" for rid
  proof -
    from sell that obtain r where r: "r \<in> set (racks_of_su s k)" "rack_id r = rid" "rack_sellable s r" by blast
    with su obtain x where x: "x \<in> set (su_rack_ids su)" "map_of (st_racks s) x = Some r"
      by (auto simp: racks_of_su_def set_dict_pick)
    with topo r(2) have "x = rid" unfolding topo_ok_def by blast
    moreover from topo su x have "rack_su_id r = k" "su_id su = k" unfolding topo_ok_def by fastforce+
    ultimately show ?thesis using x(2) r(3) by (auto simp: rack_sellable_def split: if_splits)
  qed
  have loop: "\<And>xs. forE xs (\<lambda>rid. bindE (getsE (\<lambda>s. map_of (st_racks s) rid)) (\<lambda>r.
             raise_if (case r of None \<Rightarrow> True | Some r \<Rightarrow> rack_su_id r \<noteq> su_id su)
                      (HTTPException 422 ''rack not in scalable unit''))) s
       = (if \<exists>rid \<in> set xs. (case map_of (st_racks s) rid of None \<Rightarrow> True | Some r \<Rightarrow> rack_su_id r \<noteq> su_id su)
          then (Inl (HTTPException 422 ''rack not in scalable unit''), s) else (Inr (), s))"
    by (rule forE_guard) simp
  have "\<not> (\<exists>rid \<in> set rids. (case map_of (st_racks s) rid of None \<Rightarrow> True | Some r \<Rightarrow> rack_su_id r \<noteq> su_id su))"
    using rack by fastforce
  then have "resolve_racks ?body su s = (Inr rids, s)"
    using assms(5) by (simp add: resolve_racks_def thenE_run loop)
  moreover have "\<forall>rid \<in> set rids. has_key (st_racks s) rid" using rack by (fastforce simp: has_key_def)
  moreover have "\<forall>rid \<in> set rids. allocation_for_rack s rid = None"
    using rack unbound_rack_free [OF al] by blast
  moreover have "\<not> shares_su s t su rids" using inv su allowed by (rule allowed_not_shared)
  ultimately show ?thesis
    using create_allocation_success [OF topo, of ?body t su rids] t su by fastforce
qed

end
