(* ===== verification/Reconcile_Spec.thy ===== *)
theory Reconcile_Spec
  imports Control_Plane
begin

text \<open>
  Reconcile is additive: it never removes a node or rewrites its ownership, and the only state it
  sets on a known node is \<open>cordoned\<close>.
\<close>

definition only_cordons :: "store \<Rightarrow> store \<Rightarrow> bool" where
  "only_cordons s s' \<longleftrightarrow> (\<forall>k n. map_of (st_node_instances s) k = Some n \<longrightarrow>
     (\<exists>n'. map_of (st_node_instances s') k = Some n' \<and> node_state n' \<in> {node_state n, N_cordoned}
        \<and> node_tenant_id n' = node_tenant_id n \<and> node_order_id n' = node_order_id n
        \<and> nico_instance_id n' = nico_instance_id n \<and> nico_host_id n' = nico_host_id n))
     \<and> st_racks s' = st_racks s \<and> st_allocations s' = st_allocations s \<and> st_partitions s' = st_partitions s
     \<and> st_orders s' = st_orders s"

lemma only_cordons_refl: "only_cordons s s"
  by (simp add: only_cordons_def)

lemma only_cordons_mod:
  assumes "only_cordons s0 s"
    and "\<And>n. map_of (st_node_instances s) nid = Some n \<Longrightarrow> node_state (f n) \<in> {node_state n, N_cordoned}
       \<and> node_tenant_id (f n) = node_tenant_id n \<and> node_order_id (f n) = node_order_id n
       \<and> nico_instance_id (f n) = nico_instance_id n \<and> nico_host_id (f n) = nico_host_id n"
  shows "only_cordons s0 (s\<lparr>st_node_instances := dict_mod nid f (st_node_instances s)\<rparr>)"
proof -
  have "\<exists>n'. map_of (dict_mod nid f (st_node_instances s)) k = Some n' \<and> node_state n' \<in> {node_state n, N_cordoned}
        \<and> node_tenant_id n' = node_tenant_id n \<and> node_order_id n' = node_order_id n
        \<and> nico_instance_id n' = nico_instance_id n \<and> nico_host_id n' = nico_host_id n"
    if "map_of (st_node_instances s0) k = Some n" for k n
  proof -
    from assms(1) that obtain m where m: "map_of (st_node_instances s) k = Some m"
        "node_state m \<in> {node_state n, N_cordoned}" "node_tenant_id m = node_tenant_id n"
        "node_order_id m = node_order_id n" "nico_instance_id m = nico_instance_id n" "nico_host_id m = nico_host_id n"
      unfolding only_cordons_def by blast
    then show ?thesis using assms(2) [of m] by (cases "k = nid") auto
  qed
  with assms(1) show ?thesis unfolding only_cordons_def by simp
qed

lemma keeps_cordon: "keeps (only_cordons s0) (advance_node nid N_cordoned d)"
proof (rule keepsI)
  fix s
  assume "only_cordons s0 s"
  then show "only_cordons s0 (snd (advance_node nid N_cordoned d s))"
    by (auto simp: advance_node_run step_node_def split: option.splits if_splits intro!: only_cordons_mod)
qed

lemma keeps_note: "keeps (only_cordons s0) (note_node nid d)"
  by (rule keepsI) (auto simp: note_node_def upd_node_def intro!: only_cordons_mod)

lemma keeps_ghost: "keeps (only_cordons s0) (register_ghost h)"
proof (rule keepsI)
  fix s
  assume s: "only_cordons s0 s"
  show "only_cordons s0 (snd (register_ghost h s))"
  proof (cases "has_key (st_node_instances s) (ghost_id h)")
    case True
    with s show ?thesis by (simp add: register_ghost_def)
  next
    case False
    have "k \<noteq> ghost_id h" if "map_of (st_node_instances s) k = Some n" for k n
      using that False by (auto simp: has_key_def)
    with s False show ?thesis by (fastforce simp: register_ghost_def only_cordons_def)
  qed
qed

lemma keeps_reconcile_nodes_additive: "keeps (only_cordons s0) (reconcile_nodes nids r)"
proof (induction nids arbitrary: r)
  case Nil
  show ?case unfolding reconcile_nodes.simps by (intro keeps_rules)
next
  case (Cons nid nids)
  show ?case unfolding reconcile_nodes.simps reconcile_orphan_def
    by (intro keeps_rules keeps_cordon keeps_note Cons.IH)
qed

lemma reconcile_only_cordons: "only_cordons (w_store w) (w_store (snd (reconcile A w)))"
proof -
  have "keeps (\<lambda>w'. only_cordons (w_store w) (w_store w')) (reconcile A)"
    unfolding reconcile_def
    by (intro keeps_rules keeps_onStore keeps_onNico keeps_reconcile_nodes_additive keeps_ghost)
  from keepsD [OF this only_cordons_refl] show ?thesis .
qed

end
