(* ===== verification/Host_Contract.thy ===== *)
theory Host_Contract
  imports Adapters
begin

text \<open>
  What the pipeline relies on at the controller: hosts are reserved exactly once and can be handed
  back, sanitizing decides between the pool and RMA, and polling a job ends. The locale states the
  reservation contract; the in-process controller is its interpretation.
\<close>

section \<open>Symbolic execution of the controller\<close>

definition host_state :: "nico \<Rightarrow> string \<Rightarrow> NicoHostState option" where
  "host_state n hid = map_option nh_state (map_of (nk_hosts n) hid)"

lemma host_or_404_run:
  "nico_host_or_404 hid n = (case map_of (nk_hosts n) hid of
     None \<Rightarrow> (Inl (HTTPException 404 ''nico: host not found''), n) | Some h \<Rightarrow> (Inr h, n))"
  by (simp add: nico_host_or_404_def someE_run)

text \<open>A guarded state change: 404 for an unknown host, 409 in a wrong state, else the write.\<close>

lemma guarded_update_run:
  "bindE (nico_host_or_404 hid) (\<lambda>h. thenE (nico_require h sts) (thenE (upd_host hid f) (nico_host_or_404 hid))) n =
     (case map_of (nk_hosts n) hid of None \<Rightarrow> (Inl (HTTPException 404 ''nico: host not found''), n)
      | Some h \<Rightarrow> if nh_state h \<in> set sts then (Inr (f h), n\<lparr>nk_hosts := dict_mod hid f (nk_hosts n)\<rparr>)
                 else (Inl (HTTPException 409 ''nico: wrong host state''), n))"
  by (simp add: bindE_run thenE_run host_or_404_run nico_require_def upd_host_def split: option.splits)

lemma nico_reserve_run:
  "nico_reserve hid n = (case map_of (nk_hosts n) hid of None \<Rightarrow> (Inl (HTTPException 404 ''nico: host not found''), n)
      | Some h \<Rightarrow> if nh_state h = H_pool_ready
          then (Inr (h\<lparr>nh_state := H_reserved\<rparr>), n\<lparr>nk_hosts := dict_mod hid (\<lambda>h. h\<lparr>nh_state := H_reserved\<rparr>) (nk_hosts n)\<rparr>)
          else (Inl (HTTPException 409 ''nico: wrong host state''), n))"
  unfolding nico_reserve_def guarded_update_run by (simp split: option.splits)

lemma nico_unreserve_run:
  "nico_unreserve hid n = (case map_of (nk_hosts n) hid of None \<Rightarrow> (Inl (HTTPException 404 ''nico: host not found''), n)
      | Some h \<Rightarrow> if nh_state h = H_reserved
          then (Inr (h\<lparr>nh_state := H_pool_ready\<rparr>), n\<lparr>nk_hosts := dict_mod hid (\<lambda>h. h\<lparr>nh_state := H_pool_ready\<rparr>) (nk_hosts n)\<rparr>)
          else (Inl (HTTPException 409 ''nico: wrong host state''), n))"
  unfolding nico_unreserve_def guarded_update_run by (simp split: option.splits)

section \<open>The reservation contract\<close>

locale reservation =
  fixes state_of :: "'n \<Rightarrow> string \<Rightarrow> NicoHostState option"
    and reserve :: "string \<Rightarrow> ('n, 'h) prog"
    and unreserve :: "string \<Rightarrow> ('n, 'h) prog"
  assumes reserve_ok: "state_of n h = Some H_pool_ready \<Longrightarrow>
        \<exists>x n'. reserve h n = (Inr x, n') \<and> state_of n' = (state_of n)(h \<mapsto> H_reserved)"
    and reserve_refused: "state_of n h \<noteq> Some H_pool_ready \<Longrightarrow> \<exists>c d. reserve h n = (Inl (HTTPException c d), n)"
    and unreserve_ok: "state_of n h = Some H_reserved \<Longrightarrow>
        \<exists>x n'. unreserve h n = (Inr x, n') \<and> state_of n' = (state_of n)(h \<mapsto> H_pool_ready)"
begin

text \<open>No double booking: a second reservation is refused and changes nothing.\<close>

lemma reserve_once:
  assumes "state_of n h = Some H_pool_ready"
  shows "\<exists>x n' c d. reserve h n = (Inr x, n') \<and> reserve h n' = (Inl (HTTPException c d), n')"
proof -
  from reserve_ok [OF assms] obtain x n' where r: "reserve h n = (Inr x, n')" "state_of n' = (state_of n)(h \<mapsto> H_reserved)"
    by blast
  then have "state_of n' h \<noteq> Some H_pool_ready" by simp
  from reserve_refused [OF this] r(1) show ?thesis by blast
qed

lemma reserve_all:
  assumes "distinct hs" "\<forall>h \<in> set hs. state_of n h = Some H_pool_ready"
  shows "\<exists>n'. forE hs (\<lambda>h. doE (reserve h)) n = (Inr (), n') \<and>
     state_of n' = (\<lambda>h. if h \<in> set hs then Some H_reserved else state_of n h)"
  using assms
proof (induction hs arbitrary: n)
  case Nil
  then show ?case by simp
next
  case (Cons h hs)
  from Cons.prems reserve_ok obtain x n1 where r: "reserve h n = (Inr x, n1)" "state_of n1 = (state_of n)(h \<mapsto> H_reserved)"
    by fastforce
  with Cons.prems have "\<forall>g \<in> set hs. state_of n1 g = Some H_pool_ready" by auto
  from Cons.IH [OF _ this] Cons.prems(1) obtain n2 where
      n2: "forE hs (\<lambda>h. doE (reserve h)) n1 = (Inr (), n2)"
      "state_of n2 = (\<lambda>g. if g \<in> set hs then Some H_reserved else state_of n1 g)" by auto
  have "doE (reserve h) n = (Inr (), n1)" using r(1) by (simp add: doE_run)
  with n2(1) have "forE (h # hs) (\<lambda>h. doE (reserve h)) n = (Inr (), n2)" by (simp add: thenE_run)
  with n2(2) r(2) show ?case by (auto simp: fun_eq_iff)
qed

lemma unreserve_all:
  assumes "distinct hs" "\<forall>h \<in> set hs. state_of n h = Some H_reserved"
  shows "\<exists>n'. forE hs (\<lambda>h. doE (unreserve h)) n = (Inr (), n') \<and>
     state_of n' = (\<lambda>h. if h \<in> set hs then Some H_pool_ready else state_of n h)"
  using assms
proof (induction hs arbitrary: n)
  case Nil
  then show ?case by simp
next
  case (Cons h hs)
  from Cons.prems unreserve_ok obtain x n1 where r: "unreserve h n = (Inr x, n1)" "state_of n1 = (state_of n)(h \<mapsto> H_pool_ready)"
    by fastforce
  with Cons.prems have "\<forall>g \<in> set hs. state_of n1 g = Some H_reserved" by auto
  from Cons.IH [OF _ this] Cons.prems(1) obtain n2 where
      n2: "forE hs (\<lambda>h. doE (unreserve h)) n1 = (Inr (), n2)"
      "state_of n2 = (\<lambda>g. if g \<in> set hs then Some H_pool_ready else state_of n1 g)" by auto
  have "doE (unreserve h) n = (Inr (), n1)" using r(1) by (simp add: doE_run)
  with n2(1) have "forE (h # hs) (\<lambda>h. doE (unreserve h)) n = (Inr (), n2)" by (simp add: thenE_run)
  with n2(2) r(2) show ?case by (auto simp: fun_eq_iff)
qed

text \<open>Reserving a set of hosts and handing it back leaves every host as it was.\<close>

lemma reserve_unreserve_all:
  assumes "distinct hs" "\<forall>h \<in> set hs. state_of n h = Some H_pool_ready"
  shows "\<exists>n'. thenE (forE hs (\<lambda>h. doE (reserve h))) (forE hs (\<lambda>h. doE (unreserve h))) n = (Inr (), n') \<and> state_of n' = state_of n"
proof -
  from reserve_all [OF assms] obtain n1 where n1: "forE hs (\<lambda>h. doE (reserve h)) n = (Inr (), n1)"
      "state_of n1 = (\<lambda>h. if h \<in> set hs then Some H_reserved else state_of n h)" by blast
  then have "\<forall>h \<in> set hs. state_of n1 h = Some H_reserved" by simp
  from unreserve_all [OF assms(1) this] n1 assms(2) show ?thesis by (auto simp: thenE_run fun_eq_iff)
qed

end

interpretation local_res: reservation host_state "ca_reserve LocalNicoAdapter" "ca_unreserve LocalNicoAdapter"
proof
  fix n h
  show "host_state n h = Some H_pool_ready \<Longrightarrow>
      \<exists>x n'. ca_reserve LocalNicoAdapter h n = (Inr x, n') \<and> host_state n' = (host_state n)(h \<mapsto> H_reserved)"
    by (auto simp: LocalNicoAdapter_def nico_reserve_run host_state_def fun_eq_iff)
  show "host_state n h \<noteq> Some H_pool_ready \<Longrightarrow> \<exists>c d. ca_reserve LocalNicoAdapter h n = (Inl (HTTPException c d), n)"
    by (auto simp: LocalNicoAdapter_def nico_reserve_run host_state_def split: option.splits)
  show "host_state n h = Some H_reserved \<Longrightarrow>
      \<exists>x n'. ca_unreserve LocalNicoAdapter h n = (Inr x, n') \<and> host_state n' = (host_state n)(h \<mapsto> H_pool_ready)"
    by (auto simp: LocalNicoAdapter_def nico_unreserve_run host_state_def fun_eq_iff)
qed

section \<open>Sanitizing\<close>

lemma sanitize_steps_pass: "run_sanitize_steps False sts = (map (\<lambda>x. (x, True)) sts, True)"
  by (induction sts) simp_all

lemma sanitize_steps_fail:
  "run_sanitize_steps True SANITIZE_STEPS =
     ([(''nvme_secure_erase'', True), (''gpu_memory_wipe'', True), (''system_memory_wipe'', True),
       (''tpm_reset'', True), (''re_attestation'', False)], False)"
  by (simp add: SANITIZE_STEPS_def)

section \<open>Jobs\<close>

text \<open>A job of one of the three operations on a known host finishes in a terminal state.\<close>

definition job_ok :: "nico \<Rightarrow> nico_job \<Rightarrow> bool" where
  "job_ok n j \<longleftrightarrow> map_of (nk_jobs n) (jb_job_id j) = Some j \<and> jb_op j \<in> {''provision'', ''release'', ''sanitize''}
     \<and> map_of (nk_hosts n) (jb_host_id j) \<noteq> None"

lemma finish_job_terminal:
  assumes "map_of (nk_jobs n) (jb_job_id j) = Some j'" "jb_op j \<in> {''provision'', ''release'', ''sanitize''}"
    "map_of (nk_hosts n) (jb_host_id j) \<noteq> None"
  shows "\<exists>n' k. finish_job j fail n = (Inr (), n') \<and> map_of (nk_jobs n') (jb_job_id j) = Some k \<and> jb_state k \<noteq> J_running"
  using assms
  by (auto simp: finish_job_def Let_def bindE_run thenE_run host_or_404_run upd_job_def upd_host_def
           split: prod.splits)

lemma get_job_running:
  assumes "job_ok n j" "jb_state j = J_running" "1 < jb_remaining_polls j"
  shows "\<exists>n'. nico_get_job (jb_job_id j) n = (Inr (j\<lparr>jb_remaining_polls := jb_remaining_polls j - 1\<rparr>), n')
     \<and> job_ok n' (j\<lparr>jb_remaining_polls := jb_remaining_polls j - 1\<rparr>)"
  using assms by (auto simp: nico_get_job_def read_job_def bindE_run thenE_run someE_run upd_job_def job_ok_def)

lemma get_job_last:
  assumes "job_ok n j" "jb_state j = J_running" "jb_remaining_polls j \<le> 1"
  shows "\<exists>k n'. nico_get_job (jb_job_id j) n = (Inr k, n') \<and> jb_state k \<noteq> J_running
     \<and> map_of (nk_jobs n') (jb_job_id j) = Some k"
proof -
  let ?n1 = "n\<lparr>nk_jobs := dict_mod (jb_job_id j) (\<lambda>j. j\<lparr>jb_remaining_polls := jb_remaining_polls j - 1\<rparr>) (nk_jobs n)\<rparr>"
  have "\<exists>n' k. finish_job j (jb_detail j = ''will-fail'') ?n1 = (Inr (), n')
      \<and> map_of (nk_jobs n') (jb_job_id j) = Some k \<and> jb_state k \<noteq> J_running"
    using assms(1) by (intro finish_job_terminal) (auto simp: job_ok_def)
  then show ?thesis
    using assms by (auto simp: nico_get_job_def read_job_def bindE_run thenE_run someE_run upd_job_def job_ok_def)
qed

abbreviation pollL :: "nat \<Rightarrow> nico_job \<Rightarrow> nico_job nprog" where
  "pollL \<equiv> poll_job LocalNicoAdapter"

lemma ca_get_job_local: "ca_get_job LocalNicoAdapter = nico_get_job"
  by (simp add: LocalNicoAdapter_def)

lemma poll_finishes:
  assumes "job_ok n j" "jb_remaining_polls j \<le> int r" "r < k" "0 < r"
  shows "\<exists>j' n'. pollL k j n = (Inr j', n') \<and> jb_state j' \<noteq> J_running"
  using assms
proof (induction k arbitrary: j n r)
  case 0
  then show ?case by simp
next
  case (Suc k)
  show ?case
  proof (cases "jb_state j = J_running")
    case False
    then show ?thesis by simp
  next
    case run: True
    show ?thesis
    proof (cases "jb_remaining_polls j \<le> 1")
      case True
      from get_job_last [OF Suc.prems(1) run this] obtain j1 n1 where
          g: "nico_get_job (jb_job_id j) n = (Inr j1, n1)" "jb_state j1 \<noteq> J_running" by blast
      from Suc.prems(3,4) obtain m where "k = Suc m" by (cases k) auto
      with g run show ?thesis by (simp add: ca_get_job_local bindE_run)
    next
      case False
      then have gt: "1 < jb_remaining_polls j" by simp
      from get_job_running [OF Suc.prems(1) run gt] obtain n1 where
          g: "nico_get_job (jb_job_id j) n = (Inr (j\<lparr>jb_remaining_polls := jb_remaining_polls j - 1\<rparr>), n1)"
             "job_ok n1 (j\<lparr>jb_remaining_polls := jb_remaining_polls j - 1\<rparr>)" by blast
      have "\<exists>j' n'. pollL k (j\<lparr>jb_remaining_polls := jb_remaining_polls j - 1\<rparr>) n1 = (Inr j', n') \<and> jb_state j' \<noteq> J_running"
        using Suc.prems gt by (intro Suc.IH [OF g(2), of "r - 1"]) auto
      with g(1) run show ?thesis by (simp add: ca_get_job_local bindE_run)
    qed
  qed
qed

text \<open>The round that would look at the answer of the last poll is missing.\<close>

lemma poll_gives_up:
  assumes "job_ok n j" "jb_state j = J_running" "jb_remaining_polls j = int r" "0 < r"
  shows "\<exists>n' k. pollL r j n = (Inl (HTTPException 504 ''nico job still running''), n')
     \<and> map_of (nk_jobs n') (jb_job_id j) = Some k \<and> jb_state k \<noteq> J_running"
  using assms
proof (induction r arbitrary: j n)
  case 0
  then show ?case by simp
next
  case (Suc r)
  show ?case
  proof (cases "r = 0")
    case True
    with Suc.prems have "jb_remaining_polls j \<le> 1" by simp
    from get_job_last [OF Suc.prems(1,2) this] True Suc.prems(2) show ?thesis
      by (auto simp: ca_get_job_local bindE_run)
  next
    case False
    with Suc.prems have gt: "1 < jb_remaining_polls j" by simp
    from get_job_running [OF Suc.prems(1,2) gt] obtain n1 where
        g: "nico_get_job (jb_job_id j) n = (Inr (j\<lparr>jb_remaining_polls := jb_remaining_polls j - 1\<rparr>), n1)"
           "job_ok n1 (j\<lparr>jb_remaining_polls := jb_remaining_polls j - 1\<rparr>)" by blast
    have "\<exists>n' k. pollL r (j\<lparr>jb_remaining_polls := jb_remaining_polls j - 1\<rparr>) n1 =
        (Inl (HTTPException 504 ''nico job still running''), n')
        \<and> map_of (nk_jobs n') (jb_job_id (j\<lparr>jb_remaining_polls := jb_remaining_polls j - 1\<rparr>)) = Some k \<and> jb_state k \<noteq> J_running"
      using Suc.prems False by (intro Suc.IH [OF g(2)]) auto
    with g(1) Suc.prems(2) show ?thesis by (simp add: ca_get_job_local bindE_run)
  qed
qed

end
