(* ===== verification/Demo.thy ===== *)
theory Demo
  imports Placement_Spec Reconcile_Spec Host_Contract Guard
begin

text \<open>
  Small concrete states on which the properties are evaluated: one site with one scalable unit of
  two racks, one dedicated tenant, an empty controller.
\<close>

definition demo_rack :: "string \<Rightarrow> rack" where
  "demo_rack rid = \<lparr>rack_id = rid, rack_su_id = ''su-1'', rack_index = 0, rack_blueprint_key = ''vr-nvl72'',
     rack_model = ''Vera Rubin NVL72'', rack_generation = ''MGX Gen 1.2'', rack_gpu_arch = ''Rubin'',
     rack_hac_id = ''su-1-hac'', tdp_kw = 227, power_cap_kw = 187, rack_cooling = ''liquid'', rack_tray_ids = [],
     nvlink_switch_tray_ids = [], rack_state = Hw_ready, rack_tenant_id = None\<rparr>"

definition demo_su :: scalable_unit where
  "demo_su = \<lparr>su_id = ''su-1'', su_du_id = Some ''du-1'', su_index = 1, su_hac_id = ''su-1-hac'',
     su_blueprint_key = ''vr-nvl72'', su_rack_ids = [''su-1-rack-00'', ''su-1-rack-01''], cmx_racks = 2,
     su_state = Hw_ready\<rparr>"

definition demo_tenant :: tenant where
  "demo_tenant = \<lparr>tn_id = ''tnt-a'', tn_name = ''a'', isolation_tier = bare_metal_dedicated, sla_tier = ''gold'',
     tn_notes = None\<rparr>"

definition demo_netiso :: network_isolation where
  "demo_netiso = \<lparr>ni_tenant_id = ''tnt-a'', compute_l3vni = 10000, converged_vni = 20000, oob_vni = 30000,
     ni_vrf = ''VRF-a'', ib_pkey = None\<rparr>"

definition demo_store :: store where
  "demo_store = (empty_store 0)\<lparr>
     st_factories := [(''f'', \<lparr>factory_id = ''f'', factory_name = ''F'', factory_site = ''S'', design_power_mw = 1,
        factory_block_ids = [''b'']\<rparr>)],
     st_blocks := [(''b'', \<lparr>block_id = ''b'', block_factory_id = ''f'', block_index = 1, block_name = ''B'',
        power_mw = 1, block_ready = '''', block_du_ids = [''du-1'']\<rparr>)],
     st_dus := [(''du-1'', \<lparr>du_id = ''du-1'', du_block_id = Some ''b'', du_index = 1, du_su_ids = [''su-1'']\<rparr>)],
     st_sus := [(''su-1'', demo_su)],
     st_racks := [(''su-1-rack-00'', demo_rack ''su-1-rack-00''), (''su-1-rack-01'', demo_rack ''su-1-rack-01'')],
     st_tenants := [(''tnt-a'', demo_tenant)],
     st_netiso := [(''tnt-a'', demo_netiso)]\<rparr>"

definition demo_nico :: nico where
  "demo_nico = \<lparr>nk_hosts = [], nk_jobs = [], nk_segments = [], nk_sanitize_reports = [], nk_job_latency = 0,
     nk_fail_flags = [], nk_seq = 0\<rparr>"

definition demo_world :: "store \<Rightarrow> nico \<Rightarrow> nico world" where
  "demo_world s n = \<lparr>w_store = s, w_nico = n, w_vast = \<lparr>va_views = [], va_seq = 0\<rparr>,
     w_shared = \<lparr>sh_realms = [], sh_secrets = [], sh_pam_sessions = [], sh_audit_log = [], sh_sa_secrets = [],
        sh_seq = 0, sh_entropy = dec, sh_drawn = 0\<rparr>\<rparr>"

definition demo_alloc_body :: allocation_create where
  "demo_alloc_body = \<lparr>ac_tenant_id = ''tnt-a'', ac_scope = Scope_rack_set, ac_su_id = ''su-1'',
     ac_rack_ids = Some [''su-1-rack-00''], ac_dpu_mode = None\<rparr>"

definition demo_tenant_body :: tenant_create where
  "demo_tenant_body = \<lparr>tc_name = ''Acme'', tc_isolation_tier = bare_metal_dedicated, tc_sla_tier = ''gold'', tc_notes = None\<rparr>"

lemma demo_lookups [simp]:
  "st_allocations demo_store = []" "st_partitions demo_store = []" "st_counters demo_store = []"
  "st_orders demo_store = []" "st_node_instances demo_store = []"
  "st_sus demo_store = [(''su-1'', demo_su)]" "st_tenants demo_store = [(''tnt-a'', demo_tenant)]"
  "st_netiso demo_store = [(''tnt-a'', demo_netiso)]"
  "st_racks demo_store = [(''su-1-rack-00'', demo_rack ''su-1-rack-00''), (''su-1-rack-01'', demo_rack ''su-1-rack-01'')]"
  by (simp_all add: demo_store_def empty_store_def)

lemma demo_rack_lookup:
  "map_of (st_racks demo_store) k = Some r \<longleftrightarrow>
     (k = ''su-1-rack-00'' \<or> k = ''su-1-rack-01'') \<and> r = demo_rack k"
  by auto

lemma demo_topo: "topo_ok demo_store"
proof -
  have d: "dec 1 = ''1''" by code_simp
  have racks: "rack_id r = k \<and> has_key (st_sus demo_store) (rack_su_id r) \<and> (\<exists>sfx. k = rack_su_id r @ ''-rack-'' @ sfx)"
    if "map_of (st_racks demo_store) k = Some r" for k r
    using that unfolding demo_rack_lookup by (elim conjE disjE) (simp_all add: demo_rack_def has_key_def)
  have unit: "su_id u = k \<and> k = ''su-'' @ dec (su_index u) \<and> distinct (su_rack_ids u)
      \<and> (\<forall>rid \<in> set (su_rack_ids u). \<exists>r. map_of (st_racks demo_store) rid = Some r \<and> rack_su_id r = k)"
    if "map_of (st_sus demo_store) k = Some u" for k u
  proof -
    from that have "k = ''su-1''" "u = demo_su" by (simp_all split: if_splits)
    with d show ?thesis by (simp add: demo_su_def demo_rack_def)
  qed
  have tn: "tn_id t = k \<and> k \<noteq> []" if "map_of (st_tenants demo_store) k = Some t" for k t
  proof -
    from that have "k = ''tnt-a''" "t = demo_tenant" by (simp_all split: if_splits)
    then show ?thesis by (simp add: demo_tenant_def)
  qed
  have "dict_wf (st_racks demo_store)" "dict_wf (st_sus demo_store)" by (simp_all add: dict_wf_def)
  with racks unit tn show ?thesis unfolding topo_ok_def by blast
qed

lemma demo_inv: "tenancy_inv demo_store"
proof -
  have none: "rack_tenant_id r = None" if "map_of (st_racks demo_store) k = Some r" for k r
    using that unfolding demo_rack_lookup by (simp add: demo_rack_def)
  have "alloc_ok demo_store"
    unfolding alloc_ok_def demo_lookups(1)
  proof (intro conjI allI impI)
    fix rid r t
    assume r: "map_of (st_racks demo_store) rid = Some r" and t: "rack_tenant_id r = Some t"
    from none [OF r] t have False by simp
    then show "\<exists>k a. map_of [] k = Some a \<and> alloc_tenant_id a = t \<and> rid \<in> set (alloc_rack_ids a)" ..
  qed simp_all
  moreover have "part_ok demo_store" by (simp add: part_ok_def)
  moreover have "net_ok demo_store"
  proof -
    have "k = ''tnt-a'' \<and> ni = demo_netiso" if "map_of (st_netiso demo_store) k = Some ni" for k ni
      using that by (simp split: if_splits)
    moreover have "has_key (st_tenants demo_store) ''tnt-a'' \<and> ni_tenant_id demo_netiso = ''tnt-a''
        \<and> (\<exists>sl. ''tnt-a'' = ''tnt-'' @ sl \<and> ni_vrf demo_netiso = ''VRF-'' @ sl)
        \<and> in_pool Compute (compute_l3vni demo_netiso) \<and> in_pool Converged (converged_vni demo_netiso)
        \<and> in_pool Oob (oob_vni demo_netiso)"
      by (simp add: has_key_def demo_netiso_def in_pool_def VNI_RANGES_def)
    moreover have "dict_wf (st_netiso demo_store)" by (simp add: dict_wf_def)
    ultimately show ?thesis unfolding net_ok_def by blast
  qed
  ultimately show ?thesis using demo_topo by (simp add: tenancy_inv_def)
qed

lemma demo_pools:
  "rack_pools demo_store ''vr-nvl72'' (Some demo_tenant) =
     [(demo_su, [demo_rack ''su-1-rack-00'', demo_rack ''su-1-rack-01''], ''f'')]"
proof -
  have racks: "racks_of_su demo_store ''su-1'' = [demo_rack ''su-1-rack-00'', demo_rack ''su-1-rack-01'']"
    by (simp add: racks_of_su_def demo_su_def)
  have sell: "rack_sellable demo_store (demo_rack rid)" for rid
    by (simp add: rack_sellable_def demo_rack_def nodes_of_rack_def dict_values_def)
  have site: "site_id demo_store demo_su = ''f''"
    by (simp add: site_id_def factory_of_su_def block_holds_def du_holds_def demo_su_def dict_values_def demo_store_def empty_store_def)
  have allowed: "su_allowed_for demo_store demo_su (Some demo_tenant)"
    using racks by (simp add: su_allowed_for_def su_owners_def demo_su_def demo_rack_def)
  have su: "su_id demo_su = ''su-1''" "su_blueprint_key demo_su = ''vr-nvl72''" by (simp_all add: demo_su_def)
  show ?thesis
    using racks sell site allowed su by (simp add: rack_pools_def dict_values_def)
qed

lemma demo_select: "select_racks demo_store ''vr-nvl72'' (int 2) (Some demo_tenant) =
    Some [demo_rack ''su-1-rack-00'', demo_rack ''su-1-rack-01'']"
  by (simp add: select_racks_def demo_pools py_take_def)

text \<open>
  A run of the control plane: seed one scalable unit of sixteen racks, register a dedicated tenant,
  allocate one rack to it and carve an NVLink partition of one tray.
\<close>

definition run_body :: allocation_create where
  "run_body = \<lparr>ac_tenant_id = ''tnt-acme'', ac_scope = Scope_rack_set, ac_su_id = ''su-1'',
     ac_rack_ids = Some [''su-1-rack-00''], ac_dpu_mode = None\<rparr>"

definition run_partition :: partition_create where
  "run_partition = \<lparr>pc_rack_id = ''su-1-rack-00'', pc_tenant_id = ''tnt-acme'', pc_tray_ids = [''su-1-rack-00-tray-00'']\<rparr>"

definition run_seeded :: "nico world" where
  "run_seeded = snd (onStore (seed_default [''vr-nvl72'']) (demo_world (empty_store 0) demo_nico))"

definition run_tenant :: "nico world" where
  "run_tenant = snd (create_tenant demo_tenant_body run_seeded)"

definition run_alloc :: "nico world" where
  "run_alloc = snd (onStore (create_allocation run_body) run_tenant)"

definition run_part :: "nico world" where
  "run_part = snd (onStore (create_partition run_partition) run_alloc)"

lemma run_reachable:
  "reachable LocalNicoAdapter run_seeded" "reachable LocalNicoAdapter run_tenant"
  "reachable LocalNicoAdapter run_alloc" "reachable LocalNicoAdapter run_part"
proof -
  have "reachable LocalNicoAdapter (demo_world (empty_store 0) demo_nico)"
    by (rule reachable.start) (simp add: demo_world_def)
  then show seeded: "reachable LocalNicoAdapter run_seeded"
    unfolding run_seeded_def by (rule reachable.step [OF _ api_step.seed])
  then show tenant: "reachable LocalNicoAdapter run_tenant"
    unfolding run_tenant_def by (rule reachable.step [OF _ api_step.tenant])
  then show alloc: "reachable LocalNicoAdapter run_alloc"
    unfolding run_alloc_def by (rule reachable.step [OF _ api_step.allocate])
  then show "reachable LocalNicoAdapter run_part"
    unfolding run_part_def by (rule reachable.step [OF _ api_step.partition])
qed

lemma run_names: "rack_key 1 0 = ''su-1-rack-00''" "dec 1 = ''1''" "pad 0 = ''00''" "slug ''Acme'' = ''acme''"
  by code_simp+

lemma run_seeded_store:
  "map_of (st_sus (w_store run_seeded)) ''su-1'' = Some (new_su vr_nvl72 (Some ''du-1'') 1 16)"
  "map_of (st_racks (w_store run_seeded)) ''su-1-rack-00'' = Some (new_rack vr_nvl72 1 187 0)"
  "st_allocations (w_store run_seeded) = []" "st_tenants (w_store run_seeded) = []" "st_netiso (w_store run_seeded) = []"
  "st_partitions (w_store run_seeded) = []" "seq_of (w_store run_seeded) ''alloc'' = 0"
proof -
  have bp: "map_of BLUEPRINTS ''vr-nvl72'' = Some vr_nvl72" "racks_per_su vr_nvl72 = 16" "maxq_rack_kw vr_nvl72 = 187"
    by (simp_all add: BLUEPRINTS_def vr_nvl72_def gb200_nvl72_def gb300_nvl72_def)
  obtain s0 c where s: "w_store run_seeded = (expanded s0 vr_nvl72 (Some ''du-1'') 1 187 16)\<lparr>st_cpu_nodes := c\<rparr>"
    and s0: "st_allocations s0 = []" "st_tenants s0 = []" "st_netiso s0 = []" "st_partitions s0 = []" "st_counters s0 = []"
    by (simp add: run_seeded_def on_runs demo_world_def seed_default_def thenE_run reset_def add_factory_def add_block_def
          add_du_def provision_run bp Let_def seed_cpu_nodes_def, simp add: empty_store_def)
  note f = expanded_fields [of s0 vr_nvl72 "Some ''du-1''" 1 187 16]
  show "map_of (st_sus (w_store run_seeded)) ''su-1'' = Some (new_su vr_nvl72 (Some ''du-1'') 1 16)"
    by (simp add: s f run_names del: One_nat_def)
  show "map_of (st_racks (w_store run_seeded)) ''su-1-rack-00'' = Some (new_rack vr_nvl72 1 187 0)"
    using expanded_rack_new [of 0 16 s0 vr_nvl72 "Some ''du-1''" 1 187] run_names(1) s by simp
  show "st_allocations (w_store run_seeded) = []" "st_tenants (w_store run_seeded) = []" "st_netiso (w_store run_seeded) = []"
    "st_partitions (w_store run_seeded) = []" "seq_of (w_store run_seeded) ''alloc'' = 0"
    by (simp_all add: s f s0 seq_of_def del: One_nat_def)
qed

lemma run_tenant_store:
  "st_tenants (w_store run_tenant) = [(''tnt-acme'', \<lparr>tn_id = ''tnt-acme'', tn_name = ''Acme'',
      isolation_tier = bare_metal_dedicated, sla_tier = ''gold'', tn_notes = None\<rparr>)]"
  "st_sus (w_store run_tenant) = st_sus (w_store run_seeded)" "st_racks (w_store run_tenant) = st_racks (w_store run_seeded)"
  "st_allocations (w_store run_tenant) = []" "st_partitions (w_store run_tenant) = []"
  "seq_of (w_store run_tenant) ''alloc'' = 0"
proof -
  have vni: "vni_scan (fst (VNI_RANGES f)) (snd (VNI_RANGES f)) [] = Some (fst (VNI_RANGES f))" for f
    by (cases f) (simp_all add: VNI_RANGES_def vni_scan.simps)
  have run: "w_store run_tenant = (w_store run_seeded)\<lparr>st_tenants := [(''tnt-acme'', \<lparr>tn_id = ''tnt-acme'', tn_name = ''Acme'',
      isolation_tier = bare_metal_dedicated, sla_tier = ''gold'', tn_notes = None\<rparr>)],
      st_netiso := [(''tnt-acme'', \<lparr>ni_tenant_id = ''tnt-acme'', compute_l3vni = 10000, converged_vni = 20000,
         oob_vni = 30000, ni_vrf = ''VRF-acme'', ib_pkey = None\<rparr>)]\<rparr>"
    using vni [of Compute] vni [of Converged] vni [of Oob]
    by (simp add: run_tenant_def create_tenant_def demo_tenant_body_def run_names run_seeded_store Let_def bindE_run
          thenE_run on_runs alloc_vni_run used_vnis_def dict_values_def has_key_def VNI_RANGES_def split: sum.splits)
  show "st_tenants (w_store run_tenant) = [(''tnt-acme'', \<lparr>tn_id = ''tnt-acme'', tn_name = ''Acme'',
      isolation_tier = bare_metal_dedicated, sla_tier = ''gold'', tn_notes = None\<rparr>)]" by (simp add: run)
  show "st_sus (w_store run_tenant) = st_sus (w_store run_seeded)" "st_racks (w_store run_tenant) = st_racks (w_store run_seeded)"
    "st_allocations (w_store run_tenant) = []" "st_partitions (w_store run_tenant) = []"
    by (simp_all add: run run_seeded_store)
  show "seq_of (w_store run_tenant) ''alloc'' = 0" using run_seeded_store(7) by (simp add: run seq_of_def)
qed

lemma run_tenant_inv: "tenancy_inv (w_store run_tenant)"
  using reachable_invs [OF run_reachable(2)] by blast

text \<open>The allocation and the partition are granted.\<close>

lemma run_granted:
  obtains mode where
    "create_allocation run_body (w_store run_tenant) =
       (Inr (new_allocation (w_store run_tenant) run_body [''su-1-rack-00''] mode), w_store run_alloc)"
    "allocated (w_store run_tenant) run_body [''su-1-rack-00''] mode (w_store run_alloc)"
proof -
  note One_nat_def [simp del]
  let ?s = "w_store run_tenant"
  have topo: "topo_ok ?s" and al: "alloc_ok ?s" using run_tenant_inv by (simp_all add: tenancy_inv_def)
  have ids: "ac_tenant_id run_body = ''tnt-acme''" "ac_su_id run_body = ''su-1''" by (simp_all add: run_body_def)
  have rack: "map_of (st_racks ?s) ''su-1-rack-00'' = Some (new_rack vr_nvl72 1 187 0)"
    by (simp add: run_tenant_store run_seeded_store)
  have su: "map_of (st_sus ?s) ''su-1'' = Some (new_su vr_nvl72 (Some ''du-1'') 1 16)"
    by (simp add: run_tenant_store run_seeded_store)
  have res: "resolve_racks run_body (new_su vr_nvl72 (Some ''du-1'') 1 16) ?s = (Inr [''su-1-rack-00''], ?s)"
    using rack by (simp add: resolve_racks_def run_body_def thenE_run bindE_run new_rack_def new_su_def)
  have free: "allocation_for_rack ?s ''su-1-rack-00'' = None"
    by (simp add: allocation_for_rack_def dict_values_def run_tenant_store)
  have "rack_tenant_id r = None" if "map_of (st_racks ?s) k = Some r" for k r
    using al that unfolding alloc_ok_def by (cases "rack_tenant_id r") (auto simp: run_tenant_store(4))
  then have alone: "\<not> shares_su ?s t (new_su vr_nvl72 (Some ''du-1'') 1 16) rids" for t rids
    by (auto simp: shares_su_def racks_of_su_def set_dict_pick split: option.splits)
  have "\<exists>mode s'. create_allocation run_body ?s = (Inr (new_allocation ?s run_body [''su-1-rack-00''] mode), s')
      \<and> allocated ?s run_body [''su-1-rack-00''] mode s'"
    by (rule create_allocation_success [OF topo _ _ res])
       (simp_all add: ids run_tenant_store(1) su rack free alone has_key_def)
  then show thesis using that by (auto simp: run_alloc_def on_runs)
qed

lemma run_alloc_store:
  "map_of (st_racks (w_store run_alloc)) ''su-1-rack-00'' = Some (rebind (Some ''tnt-acme'') Hw_allocated (new_rack vr_nvl72 1 187 0))"
  "st_partitions (w_store run_alloc) = []" "has_key (st_tenants (w_store run_alloc)) ''tnt-acme''"
proof -
  obtain mode where eff: "allocated (w_store run_tenant) run_body [''su-1-rack-00''] mode (w_store run_alloc)"
    using run_granted by blast
  note f = allocated_fields [OF eff]
  show "map_of (st_racks (w_store run_alloc)) ''su-1-rack-00'' = Some (rebind (Some ''tnt-acme'') Hw_allocated (new_rack vr_nvl72 1 187 0))"
    using f(8) [of "''su-1-rack-00''"] by (simp add: run_tenant_store run_seeded_store run_body_def)
  show "st_partitions (w_store run_alloc) = []" using f(4) by (simp add: run_tenant_store)
  show "has_key (st_tenants (w_store run_alloc)) ''tnt-acme''" using f(2) by (simp add: run_tenant_store has_key_def)
qed

lemma run_part_store:
  "map_of (st_partitions (w_store run_part)) ''su-1-rack-00-part-1'' =
     Some \<lparr>part_id = ''su-1-rack-00-part-1'', part_rack_id = ''su-1-rack-00'', part_no = 1,
           part_tray_ids = [''su-1-rack-00-tray-00''], part_tenant_id = ''tnt-acme'', part_state = Hw_allocated\<rparr>"
proof -
  note One_nat_def [simp del]
  have id: "rack_id (new_rack vr_nvl72 1 187 0) = ''su-1-rack-00''" unfolding new_rack_def using run_names(1) by simp
  have "rack_tray_ids (new_rack vr_nvl72 1 187 0) = map (\<lambda>t. ''su-1-rack-00'' @ ''-tray-'' @ pad t) [0..<18]"
    unfolding new_rack_def using run_names(1) by (simp add: vr_nvl72_def)
  then have trays: "''su-1-rack-00-tray-00'' \<in> set (rack_tray_ids (new_rack vr_nvl72 1 187 0))"
    using run_names(3) by (force simp: image_iff intro: bexI [of _ 0])
  show ?thesis
    by (simp add: run_part_def on_runs create_partition_def run_partition_def run_alloc_store bindE_run thenE_run id trays
          claimed_trays_def partitions_of_rack_def dict_values_def run_names Let_def)
qed

text \<open>A reachable state with a node: the controller knows one host, the mirror none, and reconcile ran.\<close>

definition demo_host :: "NicoHostState \<Rightarrow> nico_host" where
  "demo_host st = \<lparr>nh_host_id = ''h-1'', nh_tray_id = ''t-1'', nh_sku = ''vr-nvl72'', nh_site = ''s'', nh_state = st,
     firmware_ok = True, attested = True, nh_cordoned = False, nh_instance_id = None, nh_tenant_ref = None,
     nh_image_ref = None, nh_bmc_ip = [], nh_dpu_ip = [], nh_host_ip = [], nh_segment_id = None\<rparr>"

definition demo_fleet :: "NicoHostState \<Rightarrow> nico" where
  "demo_fleet st = demo_nico\<lparr>nk_hosts := [(''h-1'', demo_host st)]\<rparr>"

definition demo_ghost :: "nico world" where
  "demo_ghost = snd (reconcile LocalNicoAdapter (demo_world (empty_store 0) (demo_fleet H_pool_ready)))"

lemma demo_ghost_reachable: "reachable LocalNicoAdapter demo_ghost"
  unfolding demo_ghost_def
  by (rule reachable.step [OF reachable.start api_step.reconciled]) (simp add: demo_world_def)

lemma demo_ghost_nodes:
  "st_node_instances (w_store demo_ghost) = [(''ni-t-1'', ghost_node ''ni-t-1'' (demo_host H_pool_ready) (empty_store 0))]"
  by (simp add: demo_ghost_def reconcile_def LocalNicoAdapter_def nico_list_hosts_def bindE_run thenE_run on_runs
        demo_world_def demo_fleet_def demo_nico_def hosts_by_id_def drop_cpu_hosts_def dict_values_def empty_store_def
        register_ghost_def ghost_id_def demo_host_def has_key_def Let_def)

text \<open>A node that served a tenant and is back in the pool, and a delivered order.\<close>

definition demo_node :: "NodeLifecycleState list \<Rightarrow> node_instance" where
  "demo_node sts = \<lparr>node_id = ''ni-t-1'', node_tray_id = ''t-1'', node_rack_id = ''su-1-rack-00'', node_su_id = ''su-1'',
     node_blueprint_key = ''vr-nvl72'', nico_host_id = ''h-1'', nico_instance_id = None, node_tenant_id = None,
     node_order_id = None, node_state = last sts, node_history = map (\<lambda>st. event (node_state_value st) [] 0) sts\<rparr>"

definition demo_order :: "OrderState list \<Rightarrow> service_order" where
  "demo_order sts = \<lparr>order_id = ''ord-1'', order_tenant_id = ''tnt-a'', order_kind = K_new,
     order_blueprint_key = Some ''vr-nvl72'', order_racks = 1, order_allocation_id = None, order_allocation_ids = [],
     approval_mode = False, pending_stage = None, storage_mode = ''none'', storage_tb = 0, storage_gbps = 0,
     managed_k8s = False, k8s_version = [], k8s_cluster_id = None, order_segment_id = None, order_storage_ids = [],
     order_node_ids = [], order_state = last sts, order_error = None, order_access_package = None,
     order_history = map (\<lambda>st. event (order_state_value st) [] 0) sts\<rparr>"

text \<open>A history that is a path of the table replays without asides.\<close>

lemma path_replays: "path e (x # ys) \<Longrightarrow> replays e r x ys (last (x # ys))"
  by (induction ys arbitrary: x) auto

lemma demo_node_tracked:
  assumes "hd sts \<in> {N_pool_ready, N_discovered}" "path (\<lambda>a b. b \<in> set (NODE_TRANSITIONS a)) sts" "sts \<noteq> []"
  shows "node_tracked (demo_node sts)"
  unfolding node_tracked_def tracked_def using assms path_replays [of _ "hd sts" "tl sts"]
  by (intro exI [of _ "hd sts"] exI [of _ "tl sts"]) (cases sts; simp add: demo_node_def event_def comp_def)

lemma demo_order_tracked:
  assumes "hd sts = O_received" "path (\<lambda>a b. b \<in> set (ORDER_TRANSITIONS a)) sts" "sts \<noteq> []"
  shows "order_tracked (demo_order sts)"
  unfolding order_tracked_def tracked_def using assms path_replays [of _ "hd sts" "tl sts"]
  by (intro exI [of _ "hd sts"] exI [of _ "tl sts"]) (cases sts; simp add: demo_order_def event_def comp_def)

end
