(* ===== verification/Allocation_Spec.thy ===== *)
theory Allocation_Spec
  imports Demo
begin

text \<open>
  What the tenancy operations promise their callers: the exact effect of granting and releasing an
  allocation, their round trip, first-fit VNI allocation and what the isolation report certifies.
\<close>

section \<open>Helpers\<close>

lemma delete_new: "\<not> has_key d k \<Longrightarrow> AList.delete k (AList.update k v d) = d"
proof (induction d)
  case (Cons p d)
  obtain a b where p: "p = (a, b)" by (cases p)
  with Cons.prems have ne: "a \<noteq> k" "\<not> has_key d k" by (auto simp: has_key_def split: if_splits)
  with Cons.IH p show ?case by (simp add: AList.delete_eq)
qed (simp add: AList.delete_eq)

lemma fresh_alloc_id: "alloc_ok s \<Longrightarrow> \<not> has_key (st_allocations s) (''alloc-'' @ dec (Suc (seq_of s ''alloc'')))"
proof
  assume al: "alloc_ok s" and "has_key (st_allocations s) (''alloc-'' @ dec (Suc (seq_of s ''alloc'')))"
  then obtain a where "map_of (st_allocations s) (''alloc-'' @ dec (Suc (seq_of s ''alloc''))) = Some a"
    unfolding has_key_def by blast
  with al obtain n where "n \<le> seq_of s ''alloc''" "''alloc-'' @ dec (Suc (seq_of s ''alloc'')) = ''alloc-'' @ dec n"
    unfolding alloc_ok_def by blast
  then show False by simp
qed

text \<open>A granted request, in the terms the properties use.\<close>

lemma create_allocation_granted:
  assumes "tenancy_inv s" "create_allocation body s = (Inr a, s')"
  obtains t su mode where "map_of (st_tenants s) (ac_tenant_id body) = Some t" "map_of (st_sus s) (ac_su_id body) = Some su"
    "a = new_allocation s body (alloc_rack_ids a) mode" "allocated s body (alloc_rack_ids a) mode s'"
    "\<forall>rid \<in> set (alloc_rack_ids a). \<exists>r. map_of (st_racks s) rid = Some r \<and> rack_su_id r = ac_su_id body \<and> rack_tenant_id r = None"
    "\<not> shares_su s t su (alloc_rack_ids a)"
proof -
  from assms(1) have topo: "topo_ok s" and al: "alloc_ok s" by (simp_all add: tenancy_inv_def)
  show thesis
    using topo
  proof (cases rule: create_allocation_outcome [of s body])
    case (refused e)
    with assms(2) show thesis by simp
  next
    case (created t su rids mode s1)
    from created(7) assms(2) have eq: "a = new_allocation s body rids mode" "s1 = s'" by simp_all
    then have ids: "alloc_rack_ids a = rids" by simp
    have "\<exists>r. map_of (st_racks s) rid = Some r \<and> rack_su_id r = ac_su_id body \<and> rack_tenant_id r = None"
      if "rid \<in> set rids" for rid
      using created(4,5) that free_rack_unbound [OF al] by fastforce
    then show thesis using that [OF created(1,2), of mode] created(6,8) eq unfolding ids by simp
  qed
qed

lemma create_allocation_refused: "tenancy_inv s \<Longrightarrow> create_allocation body s = (Inl e, s') \<Longrightarrow> s' = s"
proof -
  assume inv: "tenancy_inv s" and run: "create_allocation body s = (Inl e, s')"
  from inv have "topo_ok s" by (simp add: tenancy_inv_def)
  then show "s' = s"
    by (cases rule: create_allocation_outcome [of s body]) (use run in auto)
qed

section \<open>Granting and releasing\<close>

text \<open>
  C10. An allocation request is all or nothing. Refused, it leaves the store as it was. Granted, every
  rack of the allocation was unbound and in the requested scalable unit, is now bound to the tenant
  and \<open>allocated\<close>, no other rack, allocation or partition changed, the id is new, and a
  dedicated tenant shares the unit with nobody.
\<close>

theorem allocation_all_or_nothing:
  assumes "tenancy_inv s" and "create_allocation body s = (res, s')"
  shows "case res of Inl e \<Rightarrow> s' = s
    | Inr a \<Rightarrow> (\<forall>rid \<in> set (alloc_rack_ids a). \<exists>r. map_of (st_racks s) rid = Some r \<and> rack_tenant_id r = None
           \<and> rack_su_id r = ac_su_id body
           \<and> map_of (st_racks s') rid = Some (r\<lparr>rack_tenant_id := Some (ac_tenant_id body), rack_state := Hw_allocated\<rparr>))
        \<and> (\<forall>rid. rid \<notin> set (alloc_rack_ids a) \<longrightarrow> map_of (st_racks s') rid = map_of (st_racks s) rid)
        \<and> map_of (st_allocations s) (alloc_id a) = None
        \<and> st_allocations s' = AList.update (alloc_id a) a (st_allocations s)
        \<and> st_partitions s' = st_partitions s \<and> st_netiso s' = st_netiso s
        \<and> alloc_tenant_id a = ac_tenant_id body
        \<and> (\<forall>t su. map_of (st_tenants s) (ac_tenant_id body) = Some t \<longrightarrow> map_of (st_sus s) (ac_su_id body) = Some su \<longrightarrow>
             isolation_tier t = bare_metal_dedicated \<longrightarrow> (\<forall>r \<in> set (racks_of_su s (su_id su)).
               rack_id r \<in> set (alloc_rack_ids a) \<or> rack_tenant_id r \<in> {None, Some (tn_id t)}))"
proof (cases res)
  case (Inl e)
  with assms create_allocation_refused show ?thesis by simp
next
  case (Inr a)
  with assms(2) have run: "create_allocation body s = (Inr a, s')" by simp
  obtain t su mode where g: "map_of (st_tenants s) (ac_tenant_id body) = Some t" "map_of (st_sus s) (ac_su_id body) = Some su"
    "a = new_allocation s body (alloc_rack_ids a) mode" "allocated s body (alloc_rack_ids a) mode s'"
    "\<forall>rid \<in> set (alloc_rack_ids a). \<exists>r. map_of (st_racks s) rid = Some r \<and> rack_su_id r = ac_su_id body \<and> rack_tenant_id r = None"
    "\<not> shares_su s t su (alloc_rack_ids a)"
    using create_allocation_granted [OF assms(1) run] by blast
  note f = allocated_fields [OF g(4)]
  from g(3) have id: "alloc_id a = ''alloc-'' @ dec (Suc (seq_of s ''alloc''))" and tn: "alloc_tenant_id a = ac_tenant_id body"
    by (metis new_allocation_simps(1), metis new_allocation_simps(2))
  have "map_of (st_allocations s) (alloc_id a) = None"
    using fresh_alloc_id [of s] assms(1) unfolding id has_key_def tenancy_inv_def by auto
  moreover have "st_allocations s' = AList.update (alloc_id a) a (st_allocations s)"
    using f(6) g(3) id by simp
  moreover have "\<exists>r. map_of (st_racks s) rid = Some r \<and> rack_tenant_id r = None \<and> rack_su_id r = ac_su_id body
      \<and> map_of (st_racks s') rid = Some (r\<lparr>rack_tenant_id := Some (ac_tenant_id body), rack_state := Hw_allocated\<rparr>)"
    if "rid \<in> set (alloc_rack_ids a)" for rid
    using g(5) that f(8) [of rid] by (fastforce simp: rebind_def)
  moreover have "\<forall>rid. rid \<notin> set (alloc_rack_ids a) \<longrightarrow> map_of (st_racks s') rid = map_of (st_racks s) rid"
    using f(8) by simp
  ultimately show ?thesis
    using f(3,4) tn g(1,2,6) Inr by (auto simp: shares_su_def)
qed

definition demo_alloc :: allocation where
  "demo_alloc = new_allocation demo_store demo_alloc_body [''su-1-rack-00''] Dpu_dpu"

definition demo_granted :: store where
  "demo_granted = demo_store\<lparr>st_counters := [(''alloc'', 1)],
     st_racks := [(''su-1-rack-00'', (demo_rack ''su-1-rack-00'')\<lparr>rack_tenant_id := Some ''tnt-a'', rack_state := Hw_allocated\<rparr>),
                  (''su-1-rack-01'', demo_rack ''su-1-rack-01'')],
     st_allocations := [(''alloc-1'', demo_alloc)]\<rparr>"

lemma demo_grant: "create_allocation demo_alloc_body demo_store = (Inr demo_alloc, demo_granted)"
proof -
  have d: "dec (Suc 0) = ''1''" by code_simp
  have "\<not> shares_su demo_store demo_tenant demo_su rids" for rids
    by (auto simp: shares_su_def racks_of_su_def demo_su_def demo_rack_def)
  with d show ?thesis
    by (simp add: create_allocation_def demo_alloc_body_def resolve_racks_def bindE_run thenE_run someE_run check_free_run
          check_dedicated_run allocation_for_rack_def dict_values_def next_seq_run seq_of_def Let_def bind_rack_def
          set_rack_binding_def new_allocation_def demo_rack_def demo_su_def demo_tenant_def default_dpu_mode_def
          dict_mod_def demo_alloc_def demo_granted_def)
qed

lemma demo_granted_inv: "tenancy_inv demo_granted"
  using keepsD [OF create_allocation_keeps demo_inv, of demo_alloc_body] by (simp add: demo_grant)

theorem allocation_all_or_nothing_witness:
  "\<exists>r. map_of (st_racks demo_store) ''su-1-rack-00'' = Some r \<and> rack_tenant_id r = None
     \<and> map_of (st_racks demo_granted) ''su-1-rack-00'' = Some (r\<lparr>rack_tenant_id := Some ''tnt-a'', rack_state := Hw_allocated\<rparr>)"
proof -
  have "''su-1-rack-00'' \<in> set (alloc_rack_ids demo_alloc)" "ac_tenant_id demo_alloc_body = ''tnt-a''"
    by (simp_all add: demo_alloc_def demo_alloc_body_def)
  then show ?thesis using allocation_all_or_nothing [OF demo_inv demo_grant] unfolding sum.case by metis
qed

text \<open>
  C11. Releasing an allocation frees exactly its racks: they are unbound and \<open>ready\<close>, the partitions on
  them are gone, every other rack, allocation and partition is untouched, and the invariant holds. An
  unknown id is answered with 404 and changes nothing.
\<close>

theorem release_frees_exactly:
  assumes "tenancy_inv s"
  shows "case map_of (st_allocations s) aid of
      None \<Rightarrow> delete_allocation aid s = (Inl (HTTPException 404 ''allocation not found''), s)
    | Some a \<Rightarrow> (\<exists>s'. delete_allocation aid s = (Inr (aid, alloc_rack_ids a), s') \<and> tenancy_inv s'
        \<and> (\<forall>rid. map_of (st_racks s') rid = (if rid \<in> set (alloc_rack_ids a)
             then map_option (\<lambda>r. r\<lparr>rack_tenant_id := None, rack_state := Hw_ready\<rparr>) (map_of (st_racks s) rid)
             else map_of (st_racks s) rid))
        \<and> (\<forall>k. map_of (st_allocations s') k = (if k = aid then None else map_of (st_allocations s) k))
        \<and> (\<forall>k p. map_of (st_partitions s') k = Some p \<longleftrightarrow>
             map_of (st_partitions s) k = Some p \<and> part_rack_id p \<notin> set (alloc_rack_ids a)))"
proof (cases "map_of (st_allocations s) aid")
  case None
  then show ?thesis by (simp add: delete_allocation_def)
next
  case (Some a)
  from assms have al: "alloc_ok s" and pt: "part_ok s" by (simp_all add: tenancy_inv_def)
  from delete_allocation_run [OF al pt Some] obtain s' where
      run: "delete_allocation aid s = (Inr (aid, alloc_rack_ids a), s')" and rel: "released s a s'" by blast
  note f = released_fields [OF rel]
  have id: "alloc_id a = aid" using al Some by (simp add: alloc_ok_def)
  have wf: "dict_wf (st_partitions s)" using pt by (simp add: part_ok_def)
  have mine: "part_tenant_id p = alloc_tenant_id a"
    if "map_of (st_partitions s) k = Some p" "part_rack_id p \<in> set (alloc_rack_ids a)" for k p
    using that al pt Some unfolding part_ok_def alloc_ok_def by fastforce
  have "map_of (st_partitions s') k = Some p \<longleftrightarrow>
      map_of (st_partitions s) k = Some p \<and> part_rack_id p \<notin> set (alloc_rack_ids a)" for k p
    using mine [of k] by (auto simp: f map_of_filter_wf [OF wf] of_rack_def split: option.splits if_splits)
  moreover have "map_of (st_racks s') rid = (if rid \<in> set (alloc_rack_ids a)
      then map_option (\<lambda>r. r\<lparr>rack_tenant_id := None, rack_state := Hw_ready\<rparr>) (map_of (st_racks s) rid)
      else map_of (st_racks s) rid)" for rid
    using f(8) [of rid] by (simp add: rebind_def [abs_def])
  moreover have "map_of (st_allocations s') k = (if k = aid then None else map_of (st_allocations s) k)" for k
    using f(6) id by simp
  ultimately show ?thesis
    using run released_keeps [OF assms Some rel] Some by simp
qed

theorem release_frees_exactly_witness:
  "\<exists>s'. delete_allocation ''alloc-1'' demo_granted = (Inr (''alloc-1'', [''su-1-rack-00'']), s') \<and> tenancy_inv s'"
proof -
  have "map_of (st_allocations demo_granted) ''alloc-1'' = Some demo_alloc" "alloc_rack_ids demo_alloc = [''su-1-rack-00'']"
    by (simp_all add: demo_granted_def demo_alloc_def)
  with release_frees_exactly [OF demo_granted_inv, of "''alloc-1''"] show ?thesis unfolding option.case by auto
qed

text \<open>
  C12. Round trip: releasing what was just granted gives back the store of before, up to the id counter
  and the racks' hardware state, which becomes \<open>ready\<close>.
\<close>

theorem grant_release_round_trip:
  assumes "tenancy_inv s" and "create_allocation body s = (Inr a, s1)"
  shows "\<exists>s2. delete_allocation (alloc_id a) s1 = (Inr (alloc_id a, alloc_rack_ids a), s2)
     \<and> st_allocations s2 = st_allocations s \<and> st_partitions s2 = st_partitions s \<and> st_netiso s2 = st_netiso s
     \<and> (\<forall>rid. map_of (st_racks s2) rid = (if rid \<in> set (alloc_rack_ids a)
          then map_option (\<lambda>r. r\<lparr>rack_state := Hw_ready\<rparr>) (map_of (st_racks s) rid) else map_of (st_racks s) rid))"
proof -
  obtain t su mode where g: "a = new_allocation s body (alloc_rack_ids a) mode" "allocated s body (alloc_rack_ids a) mode s1"
    "\<forall>rid \<in> set (alloc_rack_ids a). \<exists>r. map_of (st_racks s) rid = Some r \<and> rack_su_id r = ac_su_id body \<and> rack_tenant_id r = None"
    using create_allocation_granted [OF assms] by metis
  note f = allocated_fields [OF g(2)]
  from g(1) have id: "alloc_id a = ''alloc-'' @ dec (Suc (seq_of s ''alloc''))" by (metis new_allocation_simps(1))
  have inv1: "tenancy_inv s1" using keepsD [OF create_allocation_keeps assms(1), of body] assms(2) by simp
  then have al1: "alloc_ok s1" and pt1: "part_ok s1" by (simp_all add: tenancy_inv_def)
  have allocs: "st_allocations s1 = AList.update (alloc_id a) a (st_allocations s)" using f(6) g(1) id by simp
  then have "map_of (st_allocations s1) (alloc_id a) = Some a" by simp
  from delete_allocation_run [OF al1 pt1 this] obtain s2 where
      run: "delete_allocation (alloc_id a) s1 = (Inr (alloc_id a, alloc_rack_ids a), s2)" and rel: "released s1 a s2" by blast
  note h = released_fields [OF rel]
  have "st_allocations s2 = st_allocations s"
    using h(6) allocs delete_new [of "st_allocations s" "alloc_id a" a] fresh_alloc_id [of s] assms(1) id
    by (simp add: tenancy_inv_def)
  moreover have "st_partitions s2 = st_partitions s"
  proof -
    have "part_rack_id p \<notin> set (alloc_rack_ids a)" if "(k, p) \<in> set (st_partitions s)" for k p
    proof -
      have "part_ok s" using assms(1) by (simp add: tenancy_inv_def)
      with that obtain r where "map_of (st_racks s) (part_rack_id p) = Some r" "rack_tenant_id r \<noteq> None"
        unfolding part_ok_def dict_wf_def by (metis map_of_is_SomeI option.discI)
      with g(3) show ?thesis by fastforce
    qed
    then show ?thesis by (auto simp: h(4) f(4) of_rack_def intro: filter_True)
  qed
  moreover have "map_of (st_racks s2) rid = (if rid \<in> set (alloc_rack_ids a)
      then map_option (\<lambda>r. r\<lparr>rack_state := Hw_ready\<rparr>) (map_of (st_racks s) rid) else map_of (st_racks s) rid)" for rid
  proof (cases "rid \<in> set (alloc_rack_ids a)")
    case True
    with g(3) obtain r where "map_of (st_racks s) rid = Some r" "rack_tenant_id r = None" by blast
    with True h(8) [of rid] f(8) [of rid] show ?thesis by (cases r) (simp add: rebind_def)
  next
    case False
    with h(8) [of rid] f(8) [of rid] show ?thesis by simp
  qed
  ultimately show ?thesis using run h(3) f(3) by simp
qed

theorem grant_release_round_trip_witness:
  "\<exists>s2. delete_allocation (alloc_id demo_alloc) demo_granted = (Inr (alloc_id demo_alloc, alloc_rack_ids demo_alloc), s2)
     \<and> st_allocations s2 = st_allocations demo_store"
  using grant_release_round_trip [OF demo_inv demo_grant] by blast

section \<open>VNI pools\<close>

text \<open>
  C13. VNI allocation is first fit: it returns the smallest unused VNI of the fabric's pool, answers
  507 exactly when every VNI of the pool is in use, and changes nothing either way.
\<close>

theorem vni_first_fit:
  "case alloc_vni f s of
     (Inr v, s') \<Rightarrow> s' = s \<and> in_pool f v \<and> v \<notin> set (used_vnis s) \<and> (\<forall>u. in_pool f u \<and> u < v \<longrightarrow> u \<in> set (used_vnis s))
   | (Inl e, s') \<Rightarrow> s' = s \<and> e = HTTPException 507 ''VNI pool exhausted'' \<and> (\<forall>u. in_pool f u \<longrightarrow> u \<in> set (used_vnis s))"
proof (cases "vni_scan (fst (VNI_RANGES f)) (snd (VNI_RANGES f)) (used_vnis s)")
  case None
  from None have "\<forall>u. in_pool f u \<longrightarrow> u \<in> set (used_vnis s)" unfolding vni_scan_None in_pool_def by blast
  with None show ?thesis by (simp add: alloc_vni_run)
next
  case (Some v)
  with vni_scan_Some [OF Some] show ?thesis by (auto simp: alloc_vni_run in_pool_def)
qed

theorem vni_first_fit_witness:
  "fst (alloc_vni Compute demo_store) = Inr 10001 \<and> in_pool Compute 10001 \<and> 10001 \<notin> set (used_vnis demo_store)"
proof -
  have "alloc_vni Compute demo_store = (Inr 10001, demo_store)"
    by (simp add: alloc_vni_run VNI_RANGES_def vni_scan.simps used_vnis_def dict_values_def vnis_def demo_netiso_def)
  with vni_first_fit [where f = Compute and s = demo_store] show ?thesis by simp
qed

text \<open>
  C14. A tenant that cannot get a VNI is left behind half created: when the compute pool is exhausted,
  the request answers 507 but the tenant stays in the store without a network binding, and every
  retry is answered 409.
\<close>

theorem exhausted_pool_leaves_tenant:
  assumes "\<not> has_key (st_tenants (w_store w)) (''tnt-'' @ slug (tc_name body))"
    and "\<not> has_key (st_netiso (w_store w)) (''tnt-'' @ slug (tc_name body))"
    and "\<forall>u. in_pool Compute u \<longrightarrow> u \<in> set (used_vnis (w_store w))"
  shows "\<exists>w'. create_tenant body w = (Inl (HTTPException 507 ''VNI pool exhausted''), w')
     \<and> has_key (st_tenants (w_store w')) (''tnt-'' @ slug (tc_name body))
     \<and> \<not> has_key (st_netiso (w_store w')) (''tnt-'' @ slug (tc_name body))
     \<and> create_tenant body w' = (Inl (HTTPException 409 ''tenant already exists''), w')"
proof -
  have "vni_scan (fst (VNI_RANGES Compute)) (snd (VNI_RANGES Compute)) (used_vnis (w_store w)) = None"
    using assms(3) vni_scan_None by (auto simp: in_pool_def)
  moreover have "used_vnis (w_store w\<lparr>st_tenants := d\<rparr>) = used_vnis (w_store w)" for d by (simp add: used_vnis_def)
  ultimately show ?thesis
    using assms(1,2) by (simp add: create_tenant_def Let_def bindE_run thenE_run on_runs alloc_vni_run)
qed

definition compute_vnis :: "nat list" where
  "compute_vnis = [fst (VNI_RANGES Compute)..<Suc (snd (VNI_RANGES Compute))]"

lemma compute_vnis_pool: "v \<in> set compute_vnis \<longleftrightarrow> in_pool Compute v"
  unfolding compute_vnis_def set_upt in_pool_def by (simp only: atLeastLessThan_iff less_Suc_eq_le)

definition full_store :: store where
  "full_store = (empty_store 0)\<lparr>st_netiso := map (\<lambda>v. (dec v, demo_netiso\<lparr>compute_l3vni := v\<rparr>)) compute_vnis\<rparr>"

lemma full_store_exhausted: "\<forall>u. in_pool Compute u \<longrightarrow> u \<in> set (used_vnis full_store)"
  unfolding compute_vnis_pool [symmetric] by (auto simp: used_vnis_def full_store_def dict_values_def vnis_def)

lemma full_store_keys: "\<not> has_key (st_netiso full_store) (''tnt-'' @ x)"
proof -
  have "dec v \<noteq> ''tnt-'' @ x" for v
  proof
    assume "dec v = ''tnt-'' @ x"
    then have "CHR ''-'' \<in> set (dec v)" by (metis in_set_conv_decomp append_Cons append_Nil)
    moreover have "CHR ''-'' \<notin> set (dec v)" by (rule dec_no_char) (simp add: is_digit_def)
    ultimately show False by simp
  qed
  then have "''tnt-'' @ x \<notin> fst ` set (st_netiso full_store)" by (auto simp: full_store_def image_iff eq_commute)
  then show ?thesis by (simp add: has_key_def map_of_eq_None_iff)
qed

theorem exhausted_pool_leaves_tenant_witness:
  "\<exists>w'. create_tenant demo_tenant_body (demo_world full_store demo_nico) = (Inl (HTTPException 507 ''VNI pool exhausted''), w')
     \<and> create_tenant demo_tenant_body w' = (Inl (HTTPException 409 ''tenant already exists''), w')"
proof -
  let ?w = "demo_world full_store demo_nico"
  have "\<not> has_key (st_tenants (w_store ?w)) (''tnt-'' @ slug (tc_name demo_tenant_body))"
    by (simp add: demo_world_def full_store_def empty_store_def has_key_def)
  moreover have "\<not> has_key (st_netiso (w_store ?w)) (''tnt-'' @ slug (tc_name demo_tenant_body))"
    using full_store_keys by (simp add: demo_world_def)
  moreover have "\<forall>u. in_pool Compute u \<longrightarrow> u \<in> set (used_vnis (w_store ?w))"
    using full_store_exhausted by (simp add: demo_world_def)
  ultimately show ?thesis using exhausted_pool_leaves_tenant [of ?w demo_tenant_body] by blast
qed

section \<open>The isolation report\<close>

text \<open>
  In a state that satisfies the invariant, the isolation report of a tenant passes exactly when
  the tenant has a network binding and, for a dedicated contract, no rack in its scalable units is
  bound to another tenant: VNI collisions and partitions on foreign racks cannot occur.
\<close>

theorem isolation_report_decides:
  assumes "tenancy_inv s" and "map_of (st_tenants s) tid = Some t"
  shows "\<exists>rep. isolation_report tid s = (Inr rep, s) \<and> (ir_ok rep \<longleftrightarrow> has_key (st_netiso s) tid \<and>
       (isolation_tier t = bare_metal_dedicated \<longrightarrow> co_tenant_racks s tid = []))"
  by (rule isolation_report_ok_iff [OF assms])

theorem isolation_report_decides_witness:
  "\<exists>rep. isolation_report ''tnt-a'' demo_store = (Inr rep, demo_store) \<and> ir_ok rep"
  using isolation_report_decides [OF demo_inv, of "''tnt-a''" demo_tenant]
  by (simp add: has_key_def co_tenant_racks_def allocations_of_tenant_def dict_values_def)

text \<open>
  C16. The dedicated contract is guarded on one side only: a tenant with a shared tier may allocate
  a free rack in a scalable unit where a dedicated tenant already holds racks. The request is granted
  and from then on the dedicated tenant's isolation report fails.
\<close>

theorem shared_tenant_breaks_dedicated_unit:
  assumes "tenancy_inv s" and "map_of (st_tenants s) d = Some td" and "isolation_tier td = bare_metal_dedicated"
    and "map_of (st_allocations s) k = Some b" and "alloc_tenant_id b = d" and "map_of (st_sus s) (alloc_su_id b) = Some su"
    and "map_of (st_tenants s) e = Some te" and "isolation_tier te \<noteq> bare_metal_dedicated"
    and "rid \<in> set (su_rack_ids su)" and "map_of (st_racks s) rid = Some r" and "rack_tenant_id r = None"
  shows "\<exists>a s' rep. create_allocation \<lparr>ac_tenant_id = e, ac_scope = Scope_rack_set, ac_su_id = alloc_su_id b,
            ac_rack_ids = Some [rid], ac_dpu_mode = None\<rparr> s = (Inr a, s')
     \<and> isolation_report d s' = (Inr rep, s') \<and> \<not> ir_ok rep"
proof -
  let ?body = "\<lparr>ac_tenant_id = e, ac_scope = Scope_rack_set, ac_su_id = alloc_su_id b, ac_rack_ids = Some [rid], ac_dpu_mode = None\<rparr>"
  from assms(1) have topo: "topo_ok s" and al: "alloc_ok s" by (simp_all add: tenancy_inv_def)
  have su: "su_id su = alloc_su_id b" and rsu: "rack_su_id r = alloc_su_id b"
    using topo assms(6,9,10) unfolding topo_ok_def by fastforce+
  have "resolve_racks ?body su s = (Inr [rid], s)" using assms(10) rsu su by (simp add: resolve_racks_def thenE_run bindE_run)
  moreover have "allocation_for_rack s rid = None" using unbound_rack_free [OF al assms(10,11)] .
  moreover have "\<not> shares_su s te su [rid]" using assms(8) by (simp add: shares_su_def)
  ultimately obtain mode s' where run: "create_allocation ?body s = (Inr (new_allocation s ?body [rid] mode), s')"
      and eff: "allocated s ?body [rid] mode s'"
    using create_allocation_success [OF topo, of ?body te su "[rid]"] assms(6,7,10) by (auto simp: has_key_def)
  note f = allocated_fields [OF eff]
  have inv': "tenancy_inv s'" using keepsD [OF create_allocation_keeps assms(1), of ?body] run by simp
  have "e \<noteq> d" using assms(2,3,7,8) by auto
  have "k \<noteq> ''alloc-'' @ dec (Suc (seq_of s ''alloc''))" using fresh_alloc_id [OF al] assms(4) by (auto simp: has_key_def)
  then have "map_of (st_allocations s') k = Some b" using assms(4) by (simp add: f(6))
  then have "b \<in> set (allocations_of_tenant s' d)" using assms(5) by (simp add: allocations_of_tenant_def map_of_dict_values)
  moreover have "rebind (Some e) Hw_allocated r \<in> set (racks_of_su s' (su_id su))"
    using assms(6,9,10) f(1) f(8) [of rid] su by (auto simp: racks_of_su_def set_dict_pick)
  ultimately have "co_tenant_racks s' d \<noteq> []"
    using assms(6) f(1) \<open>e \<noteq> d\<close> by (force simp: co_tenant_racks_def filter_empty_conv)
  moreover have "map_of (st_tenants s') d = Some td" using assms(2) f(2) by simp
  ultimately show ?thesis using run isolation_report_ok_iff [OF inv'] assms(3) by blast
qed

text \<open>The demo state with a second, shared tenant.\<close>

definition demo_shared :: store where
  "demo_shared = demo_granted\<lparr>st_tenants := AList.update ''tnt-b''
     (demo_tenant\<lparr>tn_id := ''tnt-b'', isolation_tier := vm_multitenant\<rparr>) (st_tenants demo_granted)\<rparr>"

theorem shared_tenant_breaks_dedicated_unit_witness:
  "\<exists>a s' rep. create_allocation \<lparr>ac_tenant_id = ''tnt-b'', ac_scope = Scope_rack_set, ac_su_id = ''su-1'',
        ac_rack_ids = Some [''su-1-rack-01''], ac_dpu_mode = None\<rparr> demo_shared = (Inr a, s')
     \<and> isolation_report ''tnt-a'' s' = (Inr rep, s') \<and> \<not> ir_ok rep"
proof -
  have inv: "tenancy_inv demo_shared"
    unfolding demo_shared_def by (rule add_tenant_keeps [OF demo_granted_inv]) simp_all
  have su: "alloc_su_id demo_alloc = ''su-1''" "alloc_tenant_id demo_alloc = ''tnt-a''"
    by (simp_all add: demo_alloc_def demo_alloc_body_def)
  show ?thesis
    by (rule shared_tenant_breaks_dedicated_unit [OF inv, of "''tnt-a''" demo_tenant "''alloc-1''" demo_alloc demo_su "''tnt-b''"
          "demo_tenant\<lparr>tn_id := ''tnt-b'', isolation_tier := vm_multitenant\<rparr>" "''su-1-rack-01''" "demo_rack ''su-1-rack-01''",
          unfolded su])
       (simp_all add: demo_shared_def demo_granted_def demo_tenant_def demo_su_def demo_rack_def)
qed

end
