(* ===== verification/Trace.thy ===== *)
theory Trace
  imports Guard Bounded_Log
begin

text \<open>
  \<open>app/trace.py\<close>: the bus of operation events, a bounded queue that drops its oldest entry. \<open>payload\<close>
  is never read back and is left out; free text is ASCII.
\<close>

record trace_event =
  te_seq :: nat
  te_at :: int
  te_src :: string
  te_dst :: string
  te_channel :: string
  te_op :: string
  te_detail :: string
  te_order_id :: "string option"
  te_host_id :: "string option"

record tracer =
  tc_capacity :: nat
  tc_events :: "trace_event list"
  tc_seq :: nat

definition new_tracer :: "nat \<Rightarrow> tracer" where
  "new_tracer cap = \<lparr>tc_capacity = cap, tc_events = [], tc_seq = 0\<rparr>"

text \<open>\<open>deque(maxlen=c)\<close>: appending to a full queue drops from the left.\<close>

definition push_bounded :: "nat \<Rightarrow> 'a \<Rightarrow> 'a list \<Rightarrow> 'a list" where
  "push_bounded cap x xs = drop (length xs + 1 - cap) (xs @ [x])"

definition emit :: "(nat \<Rightarrow> trace_event) \<Rightarrow> tracer \<Rightarrow> tracer" where
  "emit mk tr = (let n = tc_seq tr + 1 in
     tr\<lparr>tc_seq := n, tc_events := push_bounded (tc_capacity tr) ((mk n)\<lparr>te_seq := n\<rparr>) (tc_events tr)\<rparr>)"

fun is_infix :: "string \<Rightarrow> string \<Rightarrow> bool" where
  "is_infix q [] = (q = [])"
| "is_infix q (c # cs) = (take (length q) (c # cs) = q \<or> is_infix q cs)"

definition str_option :: "string option \<Rightarrow> string" where
  "str_option x = (case x of None \<Rightarrow> ''None'' | Some v \<Rightarrow> v)"

definition haystack :: "trace_event \<Rightarrow> string" where
  "haystack e = te_src e @ '' '' @ te_dst e @ '' '' @ te_op e @ '' '' @ te_detail e @ '' '' @ str_option (te_host_id e)"

definition given :: "string option \<Rightarrow> (string \<Rightarrow> bool) \<Rightarrow> bool" where
  "given p f = (case p of None \<Rightarrow> True | Some v \<Rightarrow> v = [] \<or> f v)"

definition trace_match :: "string option \<Rightarrow> string option \<Rightarrow> string option \<Rightarrow> int \<Rightarrow> trace_event \<Rightarrow> bool" where
  "trace_match oid channel q since e \<longleftrightarrow> since < int (te_seq e) \<and> given oid (\<lambda>v. te_order_id e = Some v)
     \<and> given channel (\<lambda>v. te_channel e = v)
     \<and> given q (\<lambda>v. is_infix (map lower_char v) (map lower_char (haystack e)))"

text \<open>\<open>xs[-n:]\<close>: the last \<open>n\<close> elements, all of them for \<open>n = 0\<close>, and a suffix for a negative \<open>n\<close>.\<close>

definition py_last :: "int \<Rightarrow> 'a list \<Rightarrow> 'a list" where
  "py_last n xs = (if n = 0 then xs else if n < 0 then drop (nat (- n)) xs else drop (length xs - nat n) xs)"

definition trace_query :: "string option \<Rightarrow> string option \<Rightarrow> string option \<Rightarrow> int \<Rightarrow> int \<Rightarrow> tracer \<Rightarrow> trace_event list" where
  "trace_query oid channel q since limit tr = py_last limit (filter (trace_match oid channel q since) (tc_events tr))"

definition trace_count :: "tracer \<Rightarrow> nat" where
  "trace_count tr = length (tc_events tr)"

definition trace_clear :: "tracer \<Rightarrow> tracer" where
  "trace_clear tr = tr\<lparr>tc_events := [], tc_seq := 0\<rparr>"

definition get_trace :: "string option \<Rightarrow> string option \<Rightarrow> string option \<Rightarrow> int \<Rightarrow> int \<Rightarrow> tracer \<Rightarrow> trace_event list" where
  "get_trace oid channel q since limit tr = trace_query oid channel q since (min limit 2000) tr"

interpretation trace_log: bounded_log "push_bounded cap" cap for cap
proof unfold_locales
  show "\<exists>ys. xs @ [x] = ys @ push_bounded cap x xs" for x :: 'a and xs
    by (intro exI [of _ "take (length xs + 1 - cap) (xs @ [x])"]) (simp only: push_bounded_def append_take_drop_id)
qed (simp add: push_bounded_def)

end
