(* ===== verification/Listings.thy ===== *)
theory Listings
  imports Reconcile Inventory K8s_Api Trace
begin

text \<open>
  The read routes of \<open>app/lifecycle.py\<close> and \<open>app/tenancy.py\<close>, the rack listing of \<open>app/topology.py\<close>, and
  the flow of an order, which buckets trace events by the stages of the order's history.
\<close>

section \<open>Orders, nodes and clusters\<close>

definition list_orders :: "string option \<Rightarrow> store \<Rightarrow> service_order list" where
  "list_orders tid s = by_param tid order_tenant_id (dict_values (st_orders s))"

definition get_order :: "string \<Rightarrow> service_order sprog" where
  "get_order oid = order_or_404 oid"

text \<open>As \<open>by_param\<close>, for an attribute that may be \<open>None\<close>.\<close>

definition by_opt_param :: "string option \<Rightarrow> ('a \<Rightarrow> string option) \<Rightarrow> 'a list \<Rightarrow> 'a list" where
  "by_opt_param p f xs = (if truthy p then filter (\<lambda>x. f x = p) xs else xs)"

definition list_nodes :: "string option \<Rightarrow> string option \<Rightarrow> store \<Rightarrow> node_instance list" where
  "list_nodes st tid s = by_opt_param tid node_tenant_id
     (by_param st (\<lambda>n. node_state_value (node_state n)) (dict_values (st_node_instances s)))"

definition list_k8s_clusters :: "string option \<Rightarrow> store \<Rightarrow> k8s_cluster list" where
  "list_k8s_clusters tid s = by_param tid kc_tenant_id (dict_values (st_k8s_clusters s))"

definition list_cpu_nodes :: "string option \<Rightarrow> store \<Rightarrow> cpu_node list" where
  "list_cpu_nodes tid s = sort_key cn_id (by_opt_param tid cn_tenant_id (dict_values (st_cpu_nodes s)))"

definition get_node :: "string \<Rightarrow> node_instance sprog" where
  "get_node nid = bindE (getsE (\<lambda>s. map_of (st_node_instances s) nid)) (someE (HTTPException 404 ''node not found''))"

text \<open>\<open>d[k] = d.get(k, 0) + 1\<close> for each key of a list.\<close>

definition tally :: "string list \<Rightarrow> nat dict" where
  "tally ks = fold (\<lambda>k d. AList.update k (Suc (case map_of d k of Some n \<Rightarrow> n | None \<Rightarrow> 0)) d) ks []"

definition nodes_summary :: "store \<Rightarrow> nat \<times> nat dict" where
  "nodes_summary s = (length (st_node_instances s),
     tally (map (\<lambda>n. node_state_value (node_state n)) (dict_values (st_node_instances s))))"

section \<open>Tenancy\<close>

definition list_tenants :: "store \<Rightarrow> tenant list" where
  "list_tenants s = dict_values (st_tenants s)"

definition get_tenant :: "string \<Rightarrow> (tenant \<times> network_isolation option \<times> allocation list) sprog" where
  "get_tenant tid = bindE (getsE (\<lambda>s. map_of (st_tenants s) tid)) (\<lambda>t0.
     bindE (someE (HTTPException 404 ''tenant not found'') t0) (\<lambda>t.
     getsE (\<lambda>s. (t, map_of (st_netiso s) tid, allocations_of_tenant s tid))))"

definition vni_map :: "store \<Rightarrow> network_isolation list" where
  "vni_map s = dict_values (st_netiso s)"

section \<open>Inventory\<close>

definition list_racks :: "string option \<Rightarrow> string option \<Rightarrow> store \<Rightarrow> rack list" where
  "list_racks su tid s = by_opt_param tid rack_tenant_id (by_param su rack_su_id (dict_values (st_racks s)))"

definition get_rack_gpus :: "string \<Rightarrow> gpu list sprog" where
  "get_rack_gpus rid = bindE (getsE (\<lambda>s. has_key (st_racks s) rid)) (\<lambda>k.
     thenE (raise_if (\<not> k) (HTTPException 404 ''rack not found'')) (getsE (\<lambda>s. gpus_of_rack s rid)))"

section \<open>The flow of an order\<close>

definition order_hosts :: "service_order \<Rightarrow> store \<Rightarrow> string list" where
  "order_hosts x s = map nico_host_id (dict_pick (st_node_instances s) (order_node_ids x))
     @ List.map_filter cn_nico_host_id (filter (\<lambda>c. cn_order_id c = Some (order_id x) \<and> truthy (cn_nico_host_id c)) (dict_values (st_cpu_nodes s)))"

text \<open>The window of each stage: up to the next stage, two seconds for the last one.\<close>

fun stage_windows :: "lifecycle_event list \<Rightarrow> (lifecycle_event \<times> int) list" where
  "stage_windows [] = []"
| "stage_windows [e] = [(e, ev_at e + 2000000)]"
| "stage_windows (e # f # es) = (e, ev_at f) # stage_windows (f # es)"

definition attributed :: "string \<Rightarrow> string list \<Rightarrow> trace_event \<Rightarrow> bool" where
  "attributed oid hosts e \<longleftrightarrow> te_order_id e = Some oid
     \<or> (truthy (te_host_id e) \<and> the (te_host_id e) \<in> set hosts) \<or> (te_order_id e = None \<and> te_host_id e = None)"

definition get_order_flow :: "tracer \<Rightarrow> string \<Rightarrow> (lifecycle_event \<times> trace_event list) list sprog" where
  "get_order_flow tr oid =
     bindE (order_or_404 oid) (\<lambda>x.
     getsE (\<lambda>s. map (\<lambda>(h, end_at). (h, filter (\<lambda>e. ev_at h \<le> te_at e \<and> te_at e < end_at \<and> attributed oid (order_hosts x s) e)
                        (trace_query None None None 0 25000 tr))) (stage_windows (order_history x))))"

end
