(* ===== verification/Access_Spec.thy ===== *)
theory Access_Spec
  imports Allocation_Spec Listings "HOL-Library.Multiset"
begin

text \<open>
  What the tenancy guard promises for a request on the customer plane, for every handler behind it, and
  what the listings behind it then answer.
\<close>

section \<open>Helpers\<close>

lemma starts_with_append [simp]: "starts_with p (p @ s)"
  by (simp add: starts_with_def)

text \<open>A path of a resource: the prefix, the id and what follows.\<close>

lemma segment_after_path:
  assumes "x \<noteq> []" "CHR ''/'' \<notin> set x" "rest = [] \<or> hd rest = CHR ''/''"
  shows "segment_after p (p @ x @ rest) = Some x"
proof -
  have "takeWhile (\<lambda>c. c \<noteq> CHR ''/'') rest = []" using assms(3) by (cases rest) auto
  moreover have "takeWhile (\<lambda>c. c \<noteq> CHR ''/'') (x @ rest) = x @ takeWhile (\<lambda>c. c \<noteq> CHR ''/'') rest"
    using assms(2) by (intro takeWhile_append2) auto
  ultimately have "takeWhile (\<lambda>c. c \<noteq> CHR ''/'') (x @ rest) = x" by simp
  with assms(1) show ?thesis by (simp add: segment_after_def)
qed

lemma scope_prefixes:
  "p \<in> {TENANT_PATH, ORDER_PATH, CLUSTER_PATH} \<Longrightarrow> starts_with ''/api/'' (p @ s)
     \<and> \<not> list_ex (\<lambda>q. starts_with q (p @ s)) PUBLIC_PREFIXES \<and> \<not> starts_with ''/api/v1/admin'' (p @ s)"
  by (elim insertE emptyE)
     (simp_all add: TENANT_PATH_def ORDER_PATH_def CLUSTER_PATH_def starts_with_def PUBLIC_PREFIXES_def)

definition demo_request :: "string \<Rightarrow> string \<Rightarrow> request" where
  "demo_request m p = \<lparr>rq_method = m, rq_path = p, rq_tenant = Some ''tnt-b'', rq_role = None, rq_query = [], rq_body_tenant = None\<rparr>"

section \<open>The listings behind the guard\<close>

text \<open>
  The objects of the listings, and what of an object's JSON the guard's filter can read: the value under \<open>id\<close> or \<open>tenant_ref\<close>
  where it is a text. The text of an object is an argument (the serialisation of the models), as is that of a usage report.
\<close>

datatype listed = L_order service_order | L_cluster k8s_cluster | L_install k8s_install | L_ticket ticket | L_node node_instance
  | L_cpu cpu_node | L_partition nvlink_partition | L_tenant tenant | L_view vast_view | L_host nico_host

fun json_id :: "listed \<Rightarrow> string option" where
  "json_id (L_order x) = Some (order_id x)"
| "json_id (L_cluster x) = Some (kc_id x)"
| "json_id (L_install x) = None"
| "json_id (L_ticket x) = Some (tk_id x)"
| "json_id (L_node x) = Some (node_id x)"
| "json_id (L_cpu x) = Some (cn_id x)"
| "json_id (L_partition x) = Some (part_id x)"
| "json_id (L_tenant x) = Some (tn_id x)"
| "json_id (L_view x) = None"
| "json_id (L_host x) = None"

fun json_tenant_ref :: "listed \<Rightarrow> string option" where
  "json_tenant_ref (L_view x) = Some (vv_tenant_ref x)"
| "json_tenant_ref (L_host x) = nh_tenant_ref x"
| "json_tenant_ref _ = None"

definition item_of :: "(listed \<Rightarrow> string) \<Rightarrow> listed \<Rightarrow> item" where
  "item_of json x = \<lparr>it_id = json_id x, it_tenant_ref = json_tenant_ref x, it_text = json x\<rparr>"

definition ok_items :: "(listed \<Rightarrow> string) \<Rightarrow> listed list \<Rightarrow> response" where
  "ok_items json xs = \<lparr>rs_status = 200, rs_body = Items (map (item_of json) xs)\<rparr>"

definition answer_list :: "(listed \<Rightarrow> string) \<Rightarrow> ('a \<Rightarrow> listed) \<Rightarrow> (err + 'a list) \<times> 's \<Rightarrow> response" where
  "answer_list json c r = (case fst r of Inr xs \<Rightarrow> ok_items json (map c xs) | Inl _ \<Rightarrow> \<lparr>rs_status = 500, rs_body = Opaque ''Internal Server Error''\<rparr>)"

text \<open>The routes: each path with the function its decorator registers, called with the query parameters it declares.\<close>

definition list_routes :: "(listed \<Rightarrow> string) \<Rightarrow> (usage \<Rightarrow> string) \<Rightarrow> (string \<Rightarrow> string option) \<Rightarrow> nico world \<Rightarrow> response dict" where
  "list_routes json ujson q w = (let s = w_store w; tid = q ''tenant_id'' in
     [(''/api/v1/orders'', ok_items json (map L_order (list_orders tid s))),
      (''/api/v1/k8s/clusters'', ok_items json (map L_cluster (list_k8s_clusters tid s))),
      (''/api/v1/k8s/installs'', ok_items json (map L_install (list_k8s_installs tid s))),
      (''/api/v1/tickets'', ok_items json (map L_ticket (list_tickets tid (q ''status'') (q ''type'') (q ''routed_to'') s))),
      (''/api/v1/billing/usage'', \<lparr>rs_status = 200, rs_body = Opaque (ujson (billing_usage tid s))\<rparr>),
      (''/api/v1/nodes'', ok_items json (map L_node (list_nodes (q ''state'') tid s))),
      (''/api/v1/cpu-nodes'', ok_items json (map L_cpu (list_cpu_nodes tid s))),
      (''/api/v1/nvlink-partitions'', ok_items json (map L_partition (list_partitions (q ''rack_id'') tid s))),
      (''/api/v1/tenants'', ok_items json (map L_tenant (list_tenants s))),
      (''/fake-vast/views'', answer_list json L_view (vast_list_views (w_vast w))),
      (''/fake-nico/hosts'', answer_list json L_host (catch_all (ca_list_hosts LocalNicoAdapter) nico_list_hosts (w_nico w)))])"

definition list_route :: "(listed \<Rightarrow> string) \<Rightarrow> (usage \<Rightarrow> string) \<Rightarrow> request \<Rightarrow> nico world \<Rightarrow> response \<times> nico world" where
  "list_route json ujson rq w = (case map_of (list_routes json ujson (map_of (rq_query rq)) w) (rq_path rq) of
     None \<Rightarrow> (\<lparr>rs_status = 404, rs_body = Opaque ''Not Found''\<rparr>, w) | Some rs \<Rightarrow> (rs, w))"

text \<open>What a customer is meant to see: every object there is, its owner, and the other parameters of the request.\<close>

definition everything :: "nico world \<Rightarrow> string \<Rightarrow> listed list" where
  "everything w p = (let s = w_store w in
     if p = ''/api/v1/orders'' then map L_order (dict_values (st_orders s))
     else if p = ''/api/v1/k8s/clusters'' then map L_cluster (dict_values (st_k8s_clusters s))
     else if p = ''/api/v1/k8s/installs'' then map L_install (dict_values (st_k8s_installs s))
     else if p = ''/api/v1/tickets'' then map L_ticket (dict_values (st_tickets s))
     else if p = ''/api/v1/nodes'' then map L_node (dict_values (st_node_instances s))
     else if p = ''/api/v1/cpu-nodes'' then map L_cpu (dict_values (st_cpu_nodes s))
     else if p = ''/api/v1/nvlink-partitions'' then map L_partition (dict_values (st_partitions s))
     else if p = ''/api/v1/tenants'' then map L_tenant (dict_values (st_tenants s))
     else if p = ''/fake-vast/views'' then map L_view (dict_values (va_views (w_vast w)))
     else map L_host (dict_values (nk_hosts (w_nico w))))"

fun owner_of :: "listed \<Rightarrow> string option" where
  "owner_of (L_order x) = Some (order_tenant_id x)"
| "owner_of (L_cluster x) = Some (kc_tenant_id x)"
| "owner_of (L_install x) = Some (ki_tenant_id x)"
| "owner_of (L_ticket x) = Some (tk_tenant_id x)"
| "owner_of (L_node x) = node_tenant_id x"
| "owner_of (L_cpu x) = cn_tenant_id x"
| "owner_of (L_partition x) = Some (part_tenant_id x)"
| "owner_of (L_tenant x) = Some (tn_id x)"
| "owner_of (L_view x) = Some (vv_tenant_ref x)"
| "owner_of (L_host x) = nh_tenant_ref x"

definition asked :: "string dict \<Rightarrow> string \<Rightarrow> string \<Rightarrow> bool" where
  "asked q k v \<longleftrightarrow> map_of q k \<in> {None, Some [], Some v}"

fun wanted :: "string dict \<Rightarrow> listed \<Rightarrow> bool" where
  "wanted q (L_ticket x) \<longleftrightarrow> asked q ''status'' (tk_status x) \<and> asked q ''type'' (tk_type x) \<and> asked q ''routed_to'' (tk_routed_to x)"
| "wanted q (L_node x) \<longleftrightarrow> asked q ''state'' (node_state_value (node_state x))"
| "wanted q (L_partition x) \<longleftrightarrow> asked q ''rack_id'' (part_rack_id x)"
| "wanted q _ \<longleftrightarrow> True"

lemma by_tenant:
  "tid \<noteq> [] \<Longrightarrow> by_param (Some tid) f xs = filter (\<lambda>x. f x = tid) xs"
  "tid \<noteq> [] \<Longrightarrow> by_opt_param (Some tid) g xs = filter (\<lambda>x. g x = Some tid) xs"
  by (simp_all add: by_param_def by_opt_param_def truthy_def)

lemma by_asked: "by_param (map_of q k) f xs = filter (\<lambda>x. asked q k (f x)) xs"
  by (cases "map_of q k") (auto simp: by_param_def asked_def truthy_def intro: filter_cong)

lemma list_partitions_by:
  "list_partitions rid tid s = by_param tid part_tenant_id (by_param rid part_rack_id (dict_values (st_partitions s)))"
  by (auto simp: list_partitions_def by_param_def truthy_def Let_def split: option.splits intro!: filter_cong)

lemma mset_sort_desc: "mset (sort_desc f xs) = mset xs"
  by (simp add: sort_desc_def)

lemma bill_lines_tenant:
  assumes "tid \<noteq> []"
  shows "bill_lines (Some tid) s = filter (\<lambda>l. bl_tenant_id l = tid) (bill_lines None s)"
proof -
  have "List.map_filter (\<lambda>x. map_option (bill_order e n x) (delivered_at x)) (filter (billable (Some tid)) xs)
      = filter (\<lambda>l. bl_tenant_id l = tid) (List.map_filter (\<lambda>x. map_option (bill_order e n x) (delivered_at x)) (filter (billable None) xs))" for e n xs
    using assms by (induction xs) (auto simp: map_filter_simps billable_def truthy_def bill_order_def Let_def split: option.splits)
  then show ?thesis by (simp add: bill_lines_def)
qed

text \<open>What the guard lets through to a listing, and what it does with the answer.\<close>

lemma scoped_passes:
  assumes "rq_tenant rq = Some tid" "tid \<noteq> []" "rq_method rq = ''GET''" "rq_path rq \<in> set QUERY_SCOPED_LISTS"
  shows "dispatch get h rq s = h (force_tenant_query tid rq) s"
proof -
  have "\<not> unguarded rq" "\<not> starts_with ''/api/v1/admin'' (rq_path rq)" "\<not> scope_violation (get s) rq tid"
      "map_of RESPONSE_FILTERED_LISTS (rq_path rq) = None"
    using assms unfolding QUERY_SCOPED_LISTS_def
    by (auto simp: unguarded_def starts_with_def PUBLIC_PREFIXES_def scope_violation_def segment_after_def
          TENANT_PATH_def ORDER_PATH_def CLUSTER_PATH_def RESPONSE_FILTERED_LISTS_def)
  with assms show ?thesis by (simp add: dispatch_def body_tenant_mismatch_def READ_METHODS_def Let_def split: prod.splits)
qed

lemma filtered_passes:
  assumes "rq_tenant rq = Some tid" "tid \<noteq> []" "rq_method rq = ''GET''" "map_of RESPONSE_FILTERED_LISTS (rq_path rq) = Some key"
    and "h rq s = (rs, s')"
  shows "dispatch get h rq s = (filter_json_list key tid rs, s')"
proof -
  have "\<not> unguarded rq" "\<not> starts_with ''/api/v1/admin'' (rq_path rq)" "\<not> scope_violation (get s) rq tid" "rq_path rq \<notin> set QUERY_SCOPED_LISTS"
    using assms unfolding RESPONSE_FILTERED_LISTS_def
    by (auto simp: unguarded_def starts_with_def PUBLIC_PREFIXES_def scope_violation_def segment_after_def
          TENANT_PATH_def ORDER_PATH_def CLUSTER_PATH_def QUERY_SCOPED_LISTS_def split: if_splits)
  with assms show ?thesis by (simp add: dispatch_def body_tenant_mismatch_def READ_METHODS_def Let_def)
qed

lemma filter_ok_items:
  "filter_json_list key tid (ok_items json xs) = ok_items json (filter (\<lambda>x. key (item_of json x) = Some tid) xs)"
  by (simp add: filter_json_list_def ok_items_def filter_map comp_def)

lemma forced_query: "map_of (rq_query (force_tenant_query tid rq)) ''tenant_id'' = Some tid"
  "k \<noteq> ''tenant_id'' \<Longrightarrow> map_of (rq_query (force_tenant_query tid rq)) k = map_of (rq_query rq) k"
  "rq_path (force_tenant_query tid rq) = rq_path rq"
  by (simp_all add: force_tenant_query_def update_conv')

lemma scoped_listings:
  assumes "tid \<noteq> []"
  shows "mset (list_orders (Some tid) s) = mset (filter (\<lambda>x. order_tenant_id x = tid) (dict_values (st_orders s)))"
    "mset (list_k8s_clusters (Some tid) s) = mset (filter (\<lambda>x. kc_tenant_id x = tid) (dict_values (st_k8s_clusters s)))"
    "mset (list_k8s_installs (Some tid) s) = mset (filter (\<lambda>x. ki_tenant_id x = tid) (dict_values (st_k8s_installs s)))"
    "mset (list_tickets (Some tid) (map_of q a) (map_of q b) (map_of q c) s) = mset (filter (\<lambda>x. tk_tenant_id x = tid
       \<and> asked q a (tk_status x) \<and> asked q b (tk_type x) \<and> asked q c (tk_routed_to x)) (dict_values (st_tickets s)))"
    "mset (list_nodes (map_of q a) (Some tid) s) = mset (filter (\<lambda>x. node_tenant_id x = Some tid
       \<and> asked q a (node_state_value (node_state x))) (dict_values (st_node_instances s)))"
    "mset (list_cpu_nodes (Some tid) s) = mset (filter (\<lambda>x. cn_tenant_id x = Some tid) (dict_values (st_cpu_nodes s)))"
    "mset (list_partitions (map_of q a) (Some tid) s) = mset (filter (\<lambda>x. part_tenant_id x = tid \<and> asked q a (part_rack_id x)) (dict_values (st_partitions s)))"
  using assms
  by (simp_all add: by_tenant by_asked list_orders_def list_k8s_clusters_def list_k8s_installs_def list_tickets_def list_nodes_def
       list_cpu_nodes_def list_partitions_by mset_sort_desc conj_ac flip: mset_filter)

lemma shown_list:
  assumes "mset ys = mset (filter P zs)" "d = (ok_items json (map c ys), w)" "E = map c zs" "\<And>x. own (c x) \<longleftrightarrow> P x"
  shows "\<exists>xs. d = (ok_items json xs, w) \<and> mset xs = mset (filter own E)"
  using assms by (intro exI [of _ "map c ys"]) (simp add: filter_map comp_def)

lemma filtered_list:
  assumes "rq_tenant rq = Some tid" "tid \<noteq> []" "rq_method rq = ''GET''" "map_of RESPONSE_FILTERED_LISTS (rq_path rq) = Some key"
    and "map_of (list_routes json ujson (map_of (rq_query rq)) w) (rq_path rq) = Some (ok_items json (map c zs))"
    and "E = map c zs" and "\<And>x. own (c x) \<longleftrightarrow> key (item_of json (c x)) = Some tid"
  shows "\<exists>xs. dispatch w_store (list_route json ujson) rq w = (ok_items json xs, w) \<and> mset xs = mset (filter own E)"
proof -
  have "list_route json ujson rq w = (ok_items json (map c zs), w)" by (simp add: list_route_def assms(5))
  from filtered_passes [where h = "list_route json ujson" and get = w_store, OF assms(1-4) this]
  have "dispatch w_store (list_route json ujson) rq w = (ok_items json (map c (filter (\<lambda>x. own (c x)) zs)), w)"
    using assms(7) by (simp add: filter_ok_items filter_map comp_def)
  then show ?thesis using assms(6) by (intro shown_list [OF refl]) simp_all
qed

lemma scoped_answer:
  assumes "rq_tenant rq = Some tid" "tid \<noteq> []" "rq_method rq = ''GET''" "rq_path rq \<in> set QUERY_SCOPED_LISTS"
  shows "dispatch w_store (list_route json ujson) rq w
     = (the (map_of (list_routes json ujson (map_of (rq_query (force_tenant_query tid rq))) w) (rq_path rq)), w)"
  unfolding scoped_passes [OF assms] list_route_def forced_query(3)
  using assms(4) by (auto simp: QUERY_SCOPED_LISTS_def list_routes_def Let_def)

lemmas owner_simps = owner_of.simps wanted.simps option.inject simp_thms

lemma scoped_shown:
  assumes "rq_tenant rq = Some tid" "tid \<noteq> []" "rq_method rq = ''GET''"
    and p: "rq_path rq \<in> {''/api/v1/orders'', ''/api/v1/k8s/clusters'', ''/api/v1/k8s/installs'', ''/api/v1/tickets'', ''/api/v1/nodes'',
      ''/api/v1/cpu-nodes'', ''/api/v1/nvlink-partitions''}"
  shows "\<exists>xs. dispatch w_store (list_route json ujson) rq w = (ok_items json xs, w)
      \<and> mset xs = mset (filter (\<lambda>x. owner_of x = Some tid \<and> wanted (rq_query rq) x) (everything w (rq_path rq)))"
proof -
  note ls = scoped_listings [OF assms(2)]
  from p have "rq_path rq \<in> set QUERY_SCOPED_LISTS" by (auto simp: QUERY_SCOPED_LISTS_def)
  note rt = scoped_answer [OF assms(1-3) this] forced_query list_routes_def everything_def Let_def
  from p show ?thesis
  proof (elim insertE emptyE)
    assume "rq_path rq = ''/api/v1/orders''"
    then show ?thesis by (intro shown_list [OF ls(1)]) (simp add: rt, simp add: rt, simp only: owner_simps)
  next
    assume "rq_path rq = ''/api/v1/k8s/clusters''"
    then show ?thesis by (intro shown_list [OF ls(2)]) (simp add: rt, simp add: rt, simp only: owner_simps)
  next
    assume "rq_path rq = ''/api/v1/k8s/installs''"
    then show ?thesis by (intro shown_list [OF ls(3)]) (simp add: rt, simp add: rt, simp only: owner_simps)
  next
    assume "rq_path rq = ''/api/v1/tickets''"
    then show ?thesis by (intro shown_list [OF ls(4)]) (simp add: rt, simp add: rt, simp only: owner_simps)
  next
    assume "rq_path rq = ''/api/v1/nodes''"
    then show ?thesis by (intro shown_list [OF ls(5)]) (simp add: rt, simp add: rt, simp only: owner_simps)
  next
    assume "rq_path rq = ''/api/v1/cpu-nodes''"
    then show ?thesis by (intro shown_list [OF ls(6)]) (simp add: rt, simp add: rt, simp only: owner_simps)
  next
    assume "rq_path rq = ''/api/v1/nvlink-partitions''"
    then show ?thesis by (intro shown_list [OF ls(7)]) (simp add: rt, simp add: rt, simp only: owner_simps)
  qed
qed

lemma filtered_shown:
  assumes "rq_tenant rq = Some tid" "tid \<noteq> []" "rq_method rq = ''GET''"
    and p: "rq_path rq \<in> {''/api/v1/tenants'', ''/fake-vast/views'', ''/fake-nico/hosts''}"
  shows "\<exists>xs. dispatch w_store (list_route json ujson) rq w = (ok_items json xs, w)
      \<and> mset xs = mset (filter (\<lambda>x. owner_of x = Some tid \<and> wanted (rq_query rq) x) (everything w (rq_path rq)))"
proof -
  note rt = list_routes_def everything_def Let_def RESPONSE_FILTERED_LISTS_def answer_list_def list_tenants_def vast_list_views_def
    LocalNicoAdapter_def nico_list_hosts_def catch_all_def
  from p show ?thesis
  proof (elim insertE emptyE)
    assume "rq_path rq = ''/api/v1/tenants''"
    then show ?thesis
      by (intro filtered_list [OF assms(1-3), where key = it_id and c = L_tenant and zs = "dict_values (st_tenants (w_store w))"])
         (simp add: rt, simp add: rt, simp add: rt, simp add: item_of_def)
  next
    assume "rq_path rq = ''/fake-vast/views''"
    then show ?thesis
      by (intro filtered_list [OF assms(1-3), where key = it_tenant_ref and c = L_view and zs = "dict_values (va_views (w_vast w))"])
         (simp add: rt, simp add: rt, simp add: rt, simp add: item_of_def)
  next
    assume "rq_path rq = ''/fake-nico/hosts''"
    then show ?thesis
      by (intro filtered_list [OF assms(1-3), where key = it_tenant_ref and c = L_host and zs = "dict_values (nk_hosts (w_nico w))"])
         (simp add: rt, simp add: rt, simp add: rt, simp add: item_of_def)
  qed
qed

lemma usage_shown:
  assumes "rq_tenant rq = Some tid" "tid \<noteq> []" "rq_method rq = ''GET''" and p: "rq_path rq = ''/api/v1/billing/usage''"
  shows "\<exists>u. dispatch w_store (list_route json ujson) rq w = (\<lparr>rs_status = 200, rs_body = Opaque (ujson u)\<rparr>, w)
      \<and> us_lines u = filter (\<lambda>l. bl_tenant_id l = tid) (us_lines (billing_usage None (w_store w)))
      \<and> us_amount_usd u = round_dp 2 (sum_list (map bl_amount_usd (us_lines u)))"
proof -
  have "rq_path rq \<in> set QUERY_SCOPED_LISTS" using p by (simp add: QUERY_SCOPED_LISTS_def)
  from scoped_answer [OF assms(1-3) this, of json ujson w]
  have "dispatch w_store (list_route json ujson) rq w = (\<lparr>rs_status = 200, rs_body = Opaque (ujson (billing_usage (Some tid) (w_store w)))\<rparr>, w)"
    using p by (simp add: list_routes_def Let_def forced_query)
  then show ?thesis
    by (intro exI [of _ "billing_usage (Some tid) (w_store w)"]) (simp add: billing_usage_def Let_def bill_lines_tenant [OF assms(2)])
qed

section \<open>Properties\<close>

text \<open>
  C21. A customer-plane request for another tenant's resource never reaches a handler: on the path of
  another tenant, of an order or of a cluster that belongs to another tenant, the guard answers 403 and
  nothing changes, whatever method, role, body or sub-path.
\<close>

theorem cross_tenant_denied:
  assumes "rq_tenant rq = Some tid" and "tid \<noteq> []"
    and "x \<noteq> []" and "CHR ''/'' \<notin> set x" and "rest = [] \<or> hd rest = CHR ''/''"
    and "rq_path rq = TENANT_PATH @ x @ rest \<and> x \<noteq> tid
       \<or> rq_path rq = ORDER_PATH @ x @ rest \<and> (\<exists>y. map_of (st_orders (get s)) x = Some y \<and> order_tenant_id y \<noteq> tid)
       \<or> rq_path rq = CLUSTER_PATH @ x @ rest \<and> (\<exists>c. map_of (st_k8s_clusters (get s)) x = Some c \<and> kc_tenant_id c \<noteq> tid)"
  shows "dispatch get call_next rq s = (forbidden ''tenant scope violation'', s)"
proof -
  have seg: "segment_after p (p @ x @ rest) = Some x" for p by (rule segment_after_path [OF assms(3-5)])
  obtain p where p: "p \<in> {TENANT_PATH, ORDER_PATH, CLUSTER_PATH}" "rq_path rq = p @ x @ rest" using assms(6) by blast
  have v: "scope_violation (get s) rq tid"
    using assms(6) by (elim disjE conjE exE) (simp_all add: scope_violation_def seg)
  have "\<not> unguarded rq" "\<not> starts_with ''/api/v1/admin'' (rq_path rq)"
    using scope_prefixes [OF p(1), of "x @ rest"] p(2) assms(1,2) by (simp_all add: unguarded_def)
  with v assms(1) show ?thesis by (simp add: dispatch_def Let_def)
qed

theorem cross_tenant_denied_witness:
  "dispatch (\<lambda>s. s) (\<lambda>rq s. (\<lparr>rs_status = 200, rs_body = Opaque ''secret''\<rparr>, empty_store 1))
     (demo_request ''GET'' (TENANT_PATH @ ''tnt-a'' @ ''/isolation'')) demo_store = (forbidden ''tenant scope violation'', demo_store)"
  by (rule cross_tenant_denied [of _ "''tnt-b''" "''tnt-a''" "''/isolation''"]) (simp_all add: demo_request_def)

text \<open>
  C22. On a guarded path no request that changes state gets through with the read-only role, however the
  header spells it, nor with a body that names another tenant: the answer is 403 and nothing changes. The
  administration surface is closed to every customer request.
\<close>

theorem mutations_guarded:
  assumes "\<not> unguarded rq"
    and "rq_method rq \<notin> {''GET'', ''HEAD'', ''OPTIONS''} \<and> (role_of rq = ''viewer'' \<or> rq_body_tenant rq \<notin> {None, Some (rq_tenant rq)})
       \<or> starts_with ''/api/v1/admin'' (rq_path rq)"
  shows "\<exists>d. dispatch get call_next rq s = (forbidden d, s)"
proof -
  obtain tid where tid: "rq_tenant rq = Some tid" using assms(1) by (auto simp: unguarded_def split: option.splits)
  have "role_of rq = ''viewer'' \<and> rq_method rq \<notin> set READ_METHODS \<or> body_tenant_mismatch rq tid \<or> starts_with ''/api/v1/admin'' (rq_path rq)"
    using assms(2) tid by (auto simp: body_tenant_mismatch_def READ_METHODS_def split: option.splits)
  then show ?thesis using assms(1) tid by (auto simp: dispatch_def Let_def)
qed

theorem mutations_guarded_witness:
  "\<exists>d. dispatch (\<lambda>s. s) (\<lambda>rq s. (\<lparr>rs_status = 200, rs_body = Opaque ''done''\<rparr>, empty_store 1))
     ((demo_request ''POST'' ''/api/v1/tickets'')\<lparr>rq_role := Some '' Viewer ''\<rparr>) demo_store = (forbidden d, demo_store)"
proof -
  have "role_of ((demo_request ''POST'' ''/api/v1/tickets'')\<lparr>rq_role := Some '' Viewer ''\<rparr>) = ''viewer''" by code_simp
  then show ?thesis
    by (intro mutations_guarded) (simp_all add: unguarded_def demo_request_def starts_with_def PUBLIC_PREFIXES_def)
qed

text \<open>
  C23. A customer's list request shows the customer's objects, all of them, and no others. On each of the ten lists named here, whatever tenant
  the client wrote in the query, the answer behind the guard holds exactly the objects of the header's tenant that match the other
  parameters, each once, and nothing changes; the usage report holds exactly the tenant's bill lines and the totals over them.
\<close>

theorem listings_scoped:
  assumes "rq_tenant rq = Some tid" and "tid \<noteq> []" and "rq_method rq = ''GET''"
  shows "(rq_path rq \<in> {''/api/v1/orders'', ''/api/v1/k8s/clusters'', ''/api/v1/k8s/installs'', ''/api/v1/tickets'', ''/api/v1/nodes'',
            ''/api/v1/cpu-nodes'', ''/api/v1/nvlink-partitions'', ''/api/v1/tenants'', ''/fake-vast/views'', ''/fake-nico/hosts''} \<longrightarrow>
          (\<exists>xs. dispatch w_store (list_route json ujson) rq w = (\<lparr>rs_status = 200, rs_body = Items (map (item_of json) xs)\<rparr>, w)
             \<and> mset xs = mset (filter (\<lambda>x. owner_of x = Some tid \<and> wanted (rq_query rq) x) (everything w (rq_path rq)))))
    \<and> (rq_path rq = ''/api/v1/billing/usage'' \<longrightarrow>
          (\<exists>u. dispatch w_store (list_route json ujson) rq w = (\<lparr>rs_status = 200, rs_body = Opaque (ujson u)\<rparr>, w)
             \<and> us_lines u = filter (\<lambda>l. bl_tenant_id l = tid) (us_lines (billing_usage None (w_store w)))
             \<and> us_amount_usd u = round_dp 2 (sum_list (map bl_amount_usd (us_lines u)))))"
  using scoped_shown [OF assms, of json ujson w] filtered_shown [OF assms, of json ujson w] usage_shown [OF assms, of json ujson w]
  unfolding ok_items_def by blast

text \<open>Two tenants with an order each; the second one asks for the orders of the first.\<close>

definition two_orders :: store where
  "two_orders = demo_store\<lparr>st_orders := [(''ord-1'', demo_order [O_received]),
     (''ord-2'', (demo_order [O_received])\<lparr>order_id := ''ord-2'', order_tenant_id := ''tnt-b''\<rparr>)]\<rparr>"

theorem listings_scoped_witness:
  "dispatch w_store (list_route (\<lambda>x. the (json_id x)) (\<lambda>u. ''usage''))
     ((demo_request ''GET'' ''/api/v1/orders'')\<lparr>rq_query := [(''tenant_id'', ''tnt-a'')]\<rparr>) (demo_world two_orders demo_nico)
   = (\<lparr>rs_status = 200, rs_body = Items [\<lparr>it_id = Some ''ord-2'', it_tenant_ref = None, it_text = ''ord-2''\<rparr>]\<rparr>, demo_world two_orders demo_nico)"
proof -
  let ?rq = "(demo_request ''GET'' ''/api/v1/orders'')\<lparr>rq_query := [(''tenant_id'', ''tnt-a'')]\<rparr>" and ?w = "demo_world two_orders demo_nico"
  have rq: "rq_tenant ?rq = Some ''tnt-b''" "''tnt-b'' \<noteq> []" "rq_method ?rq = ''GET''" "rq_path ?rq = ''/api/v1/orders''" by (simp_all add: demo_request_def)
  from listings_scoped [OF rq(1-3), of "\<lambda>x. the (json_id x)" "\<lambda>u. ''usage''" ?w] obtain xs where
    "dispatch w_store (list_route (\<lambda>x. the (json_id x)) (\<lambda>u. ''usage'')) ?rq ?w
       = (\<lparr>rs_status = 200, rs_body = Items (map (item_of (\<lambda>x. the (json_id x))) xs)\<rparr>, ?w)"
    "mset xs = mset (filter (\<lambda>x. owner_of x = Some ''tnt-b'' \<and> wanted (rq_query ?rq) x) (everything ?w ''/api/v1/orders''))"
    unfolding rq(4) by blast
  moreover have own: "filter (\<lambda>x. owner_of x = Some ''tnt-b'' \<and> wanted (rq_query ?rq) x) (everything ?w ''/api/v1/orders'')
      = [L_order ((demo_order [O_received])\<lparr>order_id := ''ord-2'', order_tenant_id := ''tnt-b''\<rparr>)]"
    by (simp add: everything_def demo_world_def two_orders_def dict_values_def demo_order_def)
  ultimately show ?thesis unfolding own by (simp add: item_of_def)
qed

text \<open>
  C24. The guard knows tenants, orders and clusters by path, and no other resource: a customer's request
  to delete an allocation reaches the handler whoever owns it, and with \<open>delete_allocation\<close> behind the
  guard another tenant's allocation is gone.
\<close>

definition delete_route :: "string \<Rightarrow> request \<Rightarrow> store \<Rightarrow> response \<times> store" where
  "delete_route aid rq s = (case delete_allocation aid s of
     (Inr _, s') \<Rightarrow> (\<lparr>rs_status = 200, rs_body = Opaque ''released''\<rparr>, s')
   | (Inl e, s') \<Rightarrow> (\<lparr>rs_status = 404, rs_body = Opaque ''''\<rparr>, s'))"

theorem allocation_delete_unguarded:
  assumes "tenancy_inv s" and "rq_path rq = ''/api/v1/allocations/'' @ aid" and "rq_method rq = ''DELETE''" and "role_of rq \<noteq> ''viewer''"
    and "rq_body_tenant rq = None" and "map_of (st_allocations s) aid = Some a" and "rq_tenant rq \<noteq> Some (alloc_tenant_id a)"
  shows "map_of (st_allocations (snd (dispatch (\<lambda>s. s) (delete_route aid) rq s))) aid = None"
proof -
  have "\<not> scope_violation s rq tid" for tid
    using assms(2) by (simp add: scope_violation_def segment_after_def starts_with_def TENANT_PATH_def ORDER_PATH_def CLUSTER_PATH_def)
  moreover have "\<not> starts_with ''/api/v1/admin'' (rq_path rq)" "map_of RESPONSE_FILTERED_LISTS (rq_path rq) = None"
    using assms(2) by (simp_all add: starts_with_def RESPONSE_FILTERED_LISTS_def)
  ultimately have "dispatch (\<lambda>s. s) (delete_route aid) rq s = delete_route aid rq s"
    using assms(3-5) by (simp add: dispatch_def Let_def body_tenant_mismatch_def split: prod.splits)
  moreover have "map_of (st_allocations (snd (delete_allocation aid s))) aid = None"
  proof -
    from assms(1) have al: "alloc_ok s" and pt: "part_ok s" by (simp_all add: tenancy_inv_def)
    from delete_allocation_run [OF al pt assms(6)] obtain s' where
        "delete_allocation aid s = (Inr (aid, alloc_rack_ids a), s')" "released s a s'" by blast
    moreover have "alloc_id a = aid" using al assms(6) unfolding alloc_ok_def by blast
    ultimately show ?thesis using released_fields(6) by simp
  qed
  ultimately show ?thesis by (simp add: delete_route_def split: prod.splits sum.splits)
qed

theorem allocation_delete_unguarded_witness:
  "map_of (st_allocations demo_granted) ''alloc-1'' \<noteq> None \<and>
   map_of (st_allocations (snd (dispatch (\<lambda>s. s) (delete_route ''alloc-1'') (demo_request ''DELETE'' ''/api/v1/allocations/alloc-1'') demo_granted))) ''alloc-1'' = None"
proof -
  have "role_of (demo_request ''DELETE'' ''/api/v1/allocations/alloc-1'') \<noteq> ''viewer''" by code_simp
  moreover have "map_of (st_allocations demo_granted) ''alloc-1'' = Some demo_alloc" "alloc_tenant_id demo_alloc = ''tnt-a''"
    by (simp_all add: demo_granted_def demo_alloc_def demo_alloc_body_def)
  ultimately show ?thesis
    using allocation_delete_unguarded [OF demo_granted_inv, of "demo_request ''DELETE'' ''/api/v1/allocations/alloc-1''" "''alloc-1''" demo_alloc]
    by (simp add: demo_request_def)
qed

end
