(* ===== verification/Controller_Spec.thy ===== *)
theory Controller_Spec
  imports Demo
begin

text \<open>
  What the order saga may expect of the site controller and of the storage system: reservations are
  exclusive and reversible, sanitizing returns a verdict and not just an answer, polling ends, views
  are created and removed without touching others.
\<close>

section \<open>A job from start to end\<close>

definition fails :: "nico \<Rightarrow> string \<Rightarrow> string \<Rightarrow> bool" where
  "fails n hid op \<longleftrightarrow> (case map_of (nk_fail_flags n) hid of None \<Rightarrow> False | Some fs \<Rightarrow> op \<in> set fs)"

lemma consume_failure_run:
  obtains n' where "consume_failure hid op n = (Inr (fails n hid op), n')" "nk_hosts n' = nk_hosts n"
    "nk_job_latency n' = nk_job_latency n"
  by (cases "consume_failure hid op n") (auto simp: consume_failure_def fails_def split: option.splits if_splits)

text \<open>A sanitize request on a released host starts a job.\<close>

lemma sanitize_starts:
  assumes "map_of (nk_hosts n) hid = Some h" "nh_state h = H_released"
  obtains n' where "nico_sanitize hid n = new_job ''sanitize'' hid (fails n hid ''sanitize'') n'"
    "nk_hosts n' = dict_mod hid (\<lambda>h. h\<lparr>nh_state := H_sanitizing\<rparr>) (nk_hosts n)" "nk_job_latency n' = nk_job_latency n"
proof -
  let ?n1 = "n\<lparr>nk_hosts := dict_mod hid (\<lambda>h. h\<lparr>nh_state := H_sanitizing\<rparr>) (nk_hosts n)\<rparr>"
  obtain n' where c: "consume_failure hid ''sanitize'' ?n1 = (Inr (fails ?n1 hid ''sanitize''), n')" "nk_hosts n' = nk_hosts ?n1"
      "nk_job_latency n' = nk_job_latency ?n1"
    by (rule consume_failure_run)
  have "fails ?n1 hid ''sanitize'' = fails n hid ''sanitize''" by (simp add: fails_def)
  with c show thesis
    using assms
    by (intro that [of n']) (simp_all add: nico_sanitize_def bindE_run thenE_run host_or_404_run nico_require_def upd_host_def)
qed

text \<open>What a finished sanitize job leaves behind.\<close>

definition sanitized :: "bool \<Rightarrow> string \<Rightarrow> nico \<Rightarrow> nico_job \<Rightarrow> nico \<Rightarrow> bool" where
  "sanitized fail hid n j n' \<longleftrightarrow>
     (if fail then jb_state j = J_failed else jb_state j = J_succeeded)
     \<and> host_state n' = (host_state n)(hid \<mapsto> (if fail then H_rma else H_pool_ready))
     \<and> (\<exists>rep. map_of (nk_sanitize_reports n') hid = Some rep \<and> rp_passed rep = (\<not> fail)
          \<and> (\<not> fail \<longrightarrow> rp_steps rep = map (\<lambda>st. (st, True)) SANITIZE_STEPS))"

lemma finish_sanitize:
  assumes "jb_op j = ''sanitize''" "map_of (nk_hosts n) (jb_host_id j) = Some h" "map_of (nk_jobs n) (jb_job_id j) = Some x"
  shows "\<exists>n' k. finish_job j fail n = (Inr (), n') \<and> map_of (nk_jobs n') (jb_job_id j) = Some k
     \<and> sanitized fail (jb_host_id j) n k n'"
proof (cases fail)
  case True
  with assms show ?thesis
    by (auto simp: finish_job_def Let_def bindE_run thenE_run host_or_404_run upd_job_def upd_host_def sanitized_def
          sanitize_steps_fail host_state_def fun_eq_iff)
next
  case False
  with assms show ?thesis
    by (auto simp: finish_job_def Let_def bindE_run thenE_run host_or_404_run upd_job_def upd_host_def sanitized_def
          sanitize_steps_pass host_state_def fun_eq_iff)
qed

lemma get_job_sanitize_last:
  assumes "job_ok n j" "jb_op j = ''sanitize''" "jb_state j = J_running" "jb_remaining_polls j \<le> 1"
  shows "\<exists>k n'. nico_get_job (jb_job_id j) n = (Inr k, n') \<and> sanitized (jb_detail j = ''will-fail'') (jb_host_id j) n k n'"
proof -
  let ?n1 = "n\<lparr>nk_jobs := dict_mod (jb_job_id j) (\<lambda>j. j\<lparr>jb_remaining_polls := jb_remaining_polls j - 1\<rparr>) (nk_jobs n)\<rparr>"
  from assms(1) obtain h where h: "map_of (nk_hosts ?n1) (jb_host_id j) = Some h" by (auto simp: job_ok_def)
  have x: "map_of (nk_jobs ?n1) (jb_job_id j) = Some (j\<lparr>jb_remaining_polls := jb_remaining_polls j - 1\<rparr>)"
    using assms(1) by (simp add: job_ok_def)
  from finish_sanitize [OF assms(2) h x] obtain n' k where
      "finish_job j (jb_detail j = ''will-fail'') ?n1 = (Inr (), n')" "map_of (nk_jobs n') (jb_job_id j) = Some k"
      "sanitized (jb_detail j = ''will-fail'') (jb_host_id j) ?n1 k n'" by blast
  moreover have "sanitized f g ?n1 k n' = sanitized f g n k n'" for f g k n' by (simp add: sanitized_def host_state_def fun_eq_iff)
  ultimately show ?thesis
    using assms by (auto simp: nico_get_job_def read_job_def bindE_run thenE_run someE_run upd_job_def job_ok_def)
qed

lemma poll_sanitize:
  assumes "job_ok n j" "jb_op j = ''sanitize''" "jb_state j = J_running" "jb_remaining_polls j \<le> int r" "r < k" "0 < r"
  shows "\<exists>j' n'. pollL k j n = (Inr j', n') \<and> sanitized (jb_detail j = ''will-fail'') (jb_host_id j) n j' n'"
  using assms
proof (induction k arbitrary: j n r)
  case 0
  then show ?case by simp
next
  case (Suc k)
  show ?case
  proof (cases "jb_remaining_polls j \<le> 1")
    case True
    from get_job_sanitize_last [OF Suc.prems(1-3) True] obtain j1 n1 where
        g: "nico_get_job (jb_job_id j) n = (Inr j1, n1)" "sanitized (jb_detail j = ''will-fail'') (jb_host_id j) n j1 n1" by blast
    then have "jb_state j1 \<noteq> J_running" by (auto simp: sanitized_def split: if_splits)
    moreover from Suc.prems(5,6) obtain m where "k = Suc m" by (cases k) auto
    ultimately show ?thesis using g Suc.prems(3) by (simp add: ca_get_job_local bindE_run)
  next
    case False
    then have gt: "1 < jb_remaining_polls j" by simp
    let ?j1 = "j\<lparr>jb_remaining_polls := jb_remaining_polls j - 1\<rparr>"
    from get_job_running [OF Suc.prems(1,3) gt] obtain n1 where
        g: "nico_get_job (jb_job_id j) n = (Inr ?j1, n1)" "job_ok n1 ?j1" by blast
    have same: "host_state n1 = host_state n"
      using g(1) Suc.prems(1,3) gt
      by (auto simp: nico_get_job_def read_job_def bindE_run thenE_run someE_run upd_job_def job_ok_def host_state_def fun_eq_iff)
    have "\<exists>j' n'. pollL k ?j1 n1 = (Inr j', n') \<and> sanitized (jb_detail ?j1 = ''will-fail'') (jb_host_id ?j1) n1 j' n'"
      using Suc.prems gt by (intro Suc.IH [OF g(2), of "r - 1"]) auto
    with same g(1) Suc.prems(3) show ?thesis by (auto simp: ca_get_job_local bindE_run sanitized_def)
  qed
qed

lemma wait_terminal: "jb_state j \<noteq> J_running \<Longrightarrow> wait_job A j n = (Inr j, n)"
  by (simp add: wait_job_def MAX_POLLS_def numeral_eq_Suc)

text \<open>The job a request creates, before it is polled.\<close>

lemma new_job_run:
  assumes "0 < nk_job_latency n"
  shows "\<exists>j n'. new_job op hid fail n = (Inr j, n') \<and> jb_op j = op \<and> jb_host_id j = hid \<and> jb_state j = J_running
     \<and> jb_remaining_polls j = nk_job_latency n \<and> (jb_detail j = ''will-fail'' \<longleftrightarrow> fail)
     \<and> map_of (nk_jobs n') (jb_job_id j) = Some j \<and> nk_hosts n' = nk_hosts n"
  using assms
  by (cases fail) (simp_all add: new_job_def bindE_run thenE_run upd_job_def read_job_def someE_run)

lemma new_job_sanitize:
  assumes "map_of (nk_hosts n) hid = Some h" "nk_job_latency n < int MAX_POLLS"
  shows "\<exists>j n'. bindE (new_job ''sanitize'' hid fail) (wait_job LocalNicoAdapter) n = (Inr j, n') \<and> sanitized fail hid n j n'"
proof (cases "0 < nk_job_latency n")
  case True
  then obtain j n1 where j: "new_job ''sanitize'' hid fail n = (Inr j, n1)" "jb_op j = ''sanitize''" "jb_host_id j = hid"
      "jb_state j = J_running" "jb_remaining_polls j = nk_job_latency n" "jb_detail j = ''will-fail'' \<longleftrightarrow> fail"
      "map_of (nk_jobs n1) (jb_job_id j) = Some j" "nk_hosts n1 = nk_hosts n"
    using new_job_run by blast
  then have "job_ok n1 j" using assms(1) by (simp add: job_ok_def)
  moreover have "jb_remaining_polls j \<le> int (nat (nk_job_latency n))" "nat (nk_job_latency n) < MAX_POLLS" "0 < nat (nk_job_latency n)"
    using True assms(2) j(5) by auto
  ultimately obtain j' n' where p: "pollL MAX_POLLS j n1 = (Inr j', n')" "sanitized (jb_detail j = ''will-fail'') hid n1 j' n'"
    using poll_sanitize j(2-4) by metis
  moreover have "host_state n1 = host_state n" using j(8) by (simp add: host_state_def fun_eq_iff)
  ultimately have "sanitized fail hid n j' n'" using j(6) by (simp add: sanitized_def)
  with p(1) j(1) show ?thesis by (simp add: bindE_run wait_job_def)
next
  case False
  let ?j = "\<lparr>jb_job_id = ''job-'' @ dec (nk_seq n + 1), jb_op = ''sanitize'', jb_host_id = hid, jb_state = J_running,
     jb_detail = '''', jb_remaining_polls = nk_job_latency n\<rparr>"
  let ?n1 = "n\<lparr>nk_seq := nk_seq n + 1, nk_jobs := AList.update (jb_job_id ?j) ?j (nk_jobs n)\<rparr>"
  obtain n' k where f: "finish_job ?j fail ?n1 = (Inr (), n')" "map_of (nk_jobs n') (jb_job_id ?j) = Some k"
      "sanitized fail hid ?n1 k n'"
    using finish_sanitize [of ?j ?n1 h ?j fail] assms(1) by auto
  have "sanitized fail hid n k n'" using f(3) by (simp add: sanitized_def host_state_def fun_eq_iff)
  moreover have "jb_state k \<noteq> J_running" using f(3) by (auto simp: sanitized_def split: if_splits)
  moreover have "new_job ''sanitize'' hid fail n = (Inr k, n')"
    using False f(1,2) by (simp add: new_job_def bindE_run thenE_run read_job_def someE_run)
  ultimately have "bindE (new_job ''sanitize'' hid fail) (wait_job LocalNicoAdapter) n = (Inr k, n')"
    using wait_terminal [of k LocalNicoAdapter n'] by (simp add: bindE_run)
  with \<open>sanitized fail hid n k n'\<close> show ?thesis by blast
qed

section \<open>Properties\<close>

text \<open>
  C17. Sanitizing a released host gives a verdict within the polling bound, whatever the job latency
  below it: without an injected failure all seven steps pass, the report says so and the host is back in
  the pool; with one the job fails, the report fails and the host goes to RMA. No other host changes.
\<close>

theorem sanitize_verdict:
  assumes "map_of (nk_hosts n) hid = Some h" and "nh_state h = H_released" and "nk_job_latency n < 60"
    and "fail \<longleftrightarrow> fails n hid ''sanitize''"
  shows "\<exists>j n'. bindE (ca_sanitize LocalNicoAdapter hid) (wait_job LocalNicoAdapter) n = (Inr j, n')
     \<and> jb_state j = (if fail then J_failed else J_succeeded)
     \<and> host_state n' = (host_state n)(hid \<mapsto> (if fail then H_rma else H_pool_ready))
     \<and> (\<exists>rep. map_of (nk_sanitize_reports n') hid = Some rep \<and> rp_passed rep = (\<not> fail)
          \<and> (\<not> fail \<longrightarrow> rp_steps rep = map (\<lambda>st. (st, True)) SANITIZE_STEPS))"
proof -
  obtain n1 where st: "nico_sanitize hid n = new_job ''sanitize'' hid fail n1"
      and h1: "nk_hosts n1 = dict_mod hid (\<lambda>h. h\<lparr>nh_state := H_sanitizing\<rparr>) (nk_hosts n)" and lat: "nk_job_latency n1 = nk_job_latency n"
    using sanitize_starts [OF assms(1,2)] assms(4) by metis
  have "map_of (nk_hosts n1) hid = Some (h\<lparr>nh_state := H_sanitizing\<rparr>)" "nk_job_latency n1 < int MAX_POLLS"
    using assms(1,3) h1 lat by (simp_all add: MAX_POLLS_def)
  from new_job_sanitize [OF this, of fail] obtain j n' where
      run: "bindE (new_job ''sanitize'' hid fail) (wait_job LocalNicoAdapter) n1 = (Inr j, n')" and s: "sanitized fail hid n1 j n'"
    by blast
  have "ca_sanitize LocalNicoAdapter = nico_sanitize" by (simp add: LocalNicoAdapter_def)
  with run st have "bindE (ca_sanitize LocalNicoAdapter hid) (wait_job LocalNicoAdapter) n = (Inr j, n')" by (simp add: bindE_run)
  moreover have "(host_state n1)(hid \<mapsto> x) = (host_state n)(hid \<mapsto> x)" for x
    using h1 by (simp add: host_state_def fun_eq_iff)
  ultimately show ?thesis using s by (auto simp: sanitized_def)
qed

theorem sanitize_verdict_witness:
  "\<exists>j n'. bindE (ca_sanitize LocalNicoAdapter ''h-1'') (wait_job LocalNicoAdapter) (demo_fleet H_released) = (Inr j, n')
     \<and> jb_state j = J_succeeded \<and> host_state n' ''h-1'' = Some H_pool_ready"
proof -
  have "map_of (nk_hosts (demo_fleet H_released)) ''h-1'' = Some (demo_host H_released)" "nh_state (demo_host H_released) = H_released"
      "nk_job_latency (demo_fleet H_released) < 60" "False \<longleftrightarrow> fails (demo_fleet H_released) ''h-1'' ''sanitize''"
    by (simp_all add: demo_fleet_def demo_nico_def demo_host_def fails_def)
  from sanitize_verdict [OF this] show ?thesis by (auto simp: fun_upd_def)
qed

text \<open>
  Polling a job that needs \<open>r\<close> more polls, for \<open>k\<close> rounds: the job ends with its verdict when the controller has been asked \<open>r\<close>
  times, but the answer of the last round is not looked at.
\<close>

definition verdict :: "nico_job \<Rightarrow> job_state" where
  "verdict j = (if jb_detail j = ''will-fail'' \<and> jb_op j \<noteq> ''release'' then J_failed else J_succeeded)"

lemma finish_job_verdict:
  assumes "map_of (nk_jobs n) (jb_job_id j) = Some j'" "jb_job_id j' = jb_job_id j" "jb_op j \<in> {''provision'', ''release'', ''sanitize''}"
    "map_of (nk_hosts n) (jb_host_id j) \<noteq> None"
  shows "\<exists>n' k. finish_job j (jb_detail j = ''will-fail'') n = (Inr (), n') \<and> map_of (nk_jobs n') (jb_job_id j) = Some k
     \<and> jb_job_id k = jb_job_id j \<and> jb_state k = verdict j"
  using assms sanitize_steps_fail sanitize_steps_pass
  by (cases "jb_detail j = ''will-fail''")
     (auto simp: finish_job_def Let_def bindE_run thenE_run host_or_404_run upd_job_def upd_host_def verdict_def split: prod.splits)

lemma get_job_verdict:
  assumes "job_ok n j" "jb_state j = J_running" "jb_remaining_polls j = 1"
  shows "\<exists>k n'. nico_get_job (jb_job_id j) n = (Inr k, n') \<and> map_of (nk_jobs n') (jb_job_id j) = Some k
     \<and> jb_job_id k = jb_job_id j \<and> jb_state k = verdict j"
proof -
  let ?n1 = "n\<lparr>nk_jobs := dict_mod (jb_job_id j) (\<lambda>j. j\<lparr>jb_remaining_polls := jb_remaining_polls j - 1\<rparr>) (nk_jobs n)\<rparr>"
  have "\<exists>n' k. finish_job j (jb_detail j = ''will-fail'') ?n1 = (Inr (), n') \<and> map_of (nk_jobs n') (jb_job_id j) = Some k
      \<and> jb_job_id k = jb_job_id j \<and> jb_state k = verdict j"
    using assms(1) by (intro finish_job_verdict [where j' = "j\<lparr>jb_remaining_polls := jb_remaining_polls j - 1\<rparr>"]) (auto simp: job_ok_def)
  then show ?thesis
    using assms by (auto simp: nico_get_job_def read_job_def bindE_run thenE_run someE_run upd_job_def job_ok_def)
qed

lemma poll_exact:
  assumes "job_ok n j" "jb_state j = J_running" "jb_remaining_polls j = int r" "0 < r"
  shows "\<exists>n' j'. map_of (nk_jobs n') (jb_job_id j) = Some j'
     \<and> pollL k j n = (if r < k then Inr j' else Inl (HTTPException 504 ''nico job still running''), n')
     \<and> (if r \<le> k then jb_state j' = verdict j else jb_state j' = J_running \<and> jb_remaining_polls j' = int r - int k)"
  using assms
proof (induction k arbitrary: j n r)
  case 0
  then show ?case by (auto simp: job_ok_def)
next
  case (Suc k)
  show ?case
  proof (cases "r = 1")
    case True
    with Suc.prems obtain j1 n1 where "nico_get_job (jb_job_id j) n = (Inr j1, n1)" "map_of (nk_jobs n1) (jb_job_id j) = Some j1"
        "jb_state j1 = verdict j"
      using get_job_verdict [of n j] by auto
    moreover have "verdict j \<noteq> J_running" by (simp add: verdict_def)
    ultimately show ?thesis using True Suc.prems(2) by (cases k) (auto simp: ca_get_job_local bindE_run)
  next
    case False
    let ?j1 = "j\<lparr>jb_remaining_polls := jb_remaining_polls j - 1\<rparr>"
    from False Suc.prems(3,4) have "1 < jb_remaining_polls j" by simp
    from get_job_running [OF Suc.prems(1,2) this] obtain n1 where
        g: "nico_get_job (jb_job_id j) n = (Inr ?j1, n1)" "job_ok n1 ?j1" by blast
    have v: "verdict ?j1 = verdict j" "jb_job_id ?j1 = jb_job_id j" "jb_state ?j1 = jb_state j" by (simp_all add: verdict_def)
    have "0 < r - 1" "jb_remaining_polls ?j1 = int (r - 1)" using False Suc.prems(3,4) by auto
    from Suc.IH [OF g(2) _ this(2,1)] Suc.prems(2) obtain n' j' where
        "map_of (nk_jobs n') (jb_job_id j) = Some j'"
        "pollL k ?j1 n1 = (if r - 1 < k then Inr j' else Inl (HTTPException 504 ''nico job still running''), n')"
        "if r - 1 \<le> k then jb_state j' = verdict j else jb_state j' = J_running \<and> jb_remaining_polls j' = int (r - 1) - int k"
      unfolding v by blast
    with g(1) Suc.prems(2,4) show ?thesis
      by (intro exI [of _ n'] exI [of _ j']) (auto simp: ca_get_job_local bindE_run split: if_splits)
  qed
qed

text \<open>
  C18. What waiting for a job answers, by the number \<open>r\<close> of polls the job still needs: with \<open>r < 60\<close> the finished job, failed
  when a failure was injected (a release cannot fail) and succeeded otherwise; with \<open>r > 60\<close> a 504 and the job runs on. The bound is off by
  one: with \<open>r = 60\<close> the answer is the 504 too, although that very job has finished and, without a failure, succeeded.
\<close>

theorem wait_job_off_by_one:
  assumes "map_of (nk_jobs n) (jb_job_id j) = Some j" and "jb_op j \<in> {''provision'', ''release'', ''sanitize''}"
    and "map_of (nk_hosts n) (jb_host_id j) \<noteq> None" and "jb_state j = J_running" and "jb_remaining_polls j = int r" and "0 < r"
  shows "\<exists>n' j'. map_of (nk_jobs n') (jb_job_id j) = Some j'
     \<and> wait_job LocalNicoAdapter j n = (if r < 60 then Inr j' else Inl (HTTPException 504 ''nico job still running''), n')
     \<and> (if r \<le> 60 then jb_state j' = (if jb_detail j = ''will-fail'' \<and> jb_op j \<noteq> ''release'' then J_failed else J_succeeded)
        else jb_state j' = J_running \<and> jb_remaining_polls j' = int r - 60)"
proof -
  have "job_ok n j" using assms(1-3) by (simp add: job_ok_def)
  from poll_exact [OF this assms(4-6), of MAX_POLLS] show ?thesis
    unfolding wait_job_def by (auto simp only: MAX_POLLS_def verdict_def of_nat_numeral)
qed

definition slow_job :: nico_job where
  "slow_job = \<lparr>jb_job_id = ''job-1'', jb_op = ''provision'', jb_host_id = ''h-1'', jb_state = J_running, jb_detail = [],
     jb_remaining_polls = 60\<rparr>"

theorem wait_job_off_by_one_witness:
  "\<exists>n' j'. wait_job LocalNicoAdapter slow_job ((demo_fleet H_provisioning)\<lparr>nk_jobs := [(''job-1'', slow_job)]\<rparr>)
       = (Inl (HTTPException 504 ''nico job still running''), n')
     \<and> map_of (nk_jobs n') ''job-1'' = Some j' \<and> jb_state j' = J_succeeded"
  using wait_job_off_by_one [of "(demo_fleet H_provisioning)\<lparr>nk_jobs := [(''job-1'', slow_job)]\<rparr>" slow_job 60]
  by (auto simp: slow_job_def demo_fleet_def demo_nico_def)

text \<open>
  C19. Reservations are exclusive and reversible: a pool host is reserved once, a second
  reservation is refused without effect, and handing a reserved set of hosts back restores the state
  of every host.
\<close>

theorem reservations_exclusive_reversible:
  assumes "distinct hs" and "\<forall>h \<in> set hs. host_state n h = Some H_pool_ready" and "g \<in> set hs"
  shows "(\<exists>x n' c d. ca_reserve LocalNicoAdapter g n = (Inr x, n') \<and> ca_reserve LocalNicoAdapter g n' = (Inl (HTTPException c d), n'))
     \<and> (\<exists>n'. thenE (forE hs (\<lambda>h. doE (ca_reserve LocalNicoAdapter h))) (forE hs (\<lambda>h. doE (ca_unreserve LocalNicoAdapter h))) n = (Inr (), n')
          \<and> host_state n' = host_state n)"
  using local_res.reserve_once [of n g] local_res.reserve_unreserve_all [OF assms(1,2)] assms(2,3) by blast

theorem reservations_exclusive_reversible_witness:
  "\<exists>x n' c d. ca_reserve LocalNicoAdapter ''h-1'' (demo_fleet H_pool_ready) = (Inr x, n')
     \<and> ca_reserve LocalNicoAdapter ''h-1'' n' = (Inl (HTTPException c d), n')"
  using reservations_exclusive_reversible [of "[''h-1'']" "demo_fleet H_pool_ready" "''h-1''"]
  by (simp add: host_state_def demo_fleet_def demo_host_def)

text \<open>
  Storage views: creating a view and deleting it restores the set of exports, a new view with quota
  and QoS carries exactly those attributes, an existing path is refused with 409 and nothing changes.
\<close>

theorem views_round_trip:
  "if map_of (va_views v) p = None
   then map_of (va_views (snd (thenE (vast_create_view p t e a) (vast_delete_view p) v))) = map_of (va_views v)
      \<and> (\<exists>x v'. thenE (vast_create_view p t e a) (thenE (vast_set_quota p cap) (vast_set_qos p gbps kiops)) v = (Inr x, v')
           \<and> map_of (va_views v') = (map_of (va_views v))(p \<mapsto> x)
           \<and> vv_capacity_tb x = cap \<and> vv_qos_gbps x = gbps \<and> vv_qos_iops_k x = kiops \<and> vv_tenant_ref x = t)
   else \<exists>d. vast_create_view p t e a v = (Inl (HTTPException 409 d), v)"
proof (cases "map_of (va_views v) p")
  case None
  then have "map_of (va_views (snd (thenE (vast_create_view p t e a) (vast_delete_view p) v))) = map_of (va_views v)"
    by (rule vast_sa.create_delete)
  moreover have "\<exists>x v'. thenE (vast_create_view p t e a) (thenE (vast_set_quota p cap) (vast_set_qos p gbps kiops)) v = (Inr x, v')
           \<and> map_of (va_views v') = (map_of (va_views v))(p \<mapsto> x)
           \<and> vv_capacity_tb x = cap \<and> vv_qos_gbps x = gbps \<and> vv_qos_iops_k x = kiops \<and> vv_tenant_ref x = t"
    using None
    by (auto simp: thenE_run vast_create_view_run vast_set_quota_def vast_set_qos_def vast_upd_view_run has_key_def Let_def fun_eq_iff)
  ultimately show ?thesis using None by simp
next
  case (Some x)
  then show ?thesis using vast_sa.create_old [of v p t e a] by simp
qed

end
