(* ===== verification/Metrics.thy ===== *)
theory Metrics
  imports Trace Business
begin

text \<open>
  \<open>app/metrics.py\<close>: request counters per control-plane module with a sliding window of 60 seconds.
  Times are rationals (seconds).
\<close>

definition MODULES :: "string list" where
  "MODULES = [''cp-api'', ''cp-intake'', ''cp-fulfill'', ''cp-policy'', ''cp-model'', ''cp-provision'', ''cp-obs'', ''cp-sla'',
     ''d-compute'', ''d-sdn'', ''d-storage'', ''d-shared'', ''cp-delivery'', ''cp-reclaim'']"

definition WINDOW_S :: rat where "WINDOW_S = 60"

text \<open>\<open>(path or "/").rstrip("/") or "/"\<close>.\<close>

definition norm_path :: "string \<Rightarrow> string" where
  "norm_path p = (let q = rev (dropWhile (\<lambda>c. c = CHR ''/'') (rev p)) in if q = [] then ''/'' else q)"

definition starts_any :: "string list \<Rightarrow> string \<Rightarrow> bool" where
  "starts_any ps s \<longleftrightarrow> list_ex (\<lambda>p. starts_with p s) ps"

definition modules_for_path :: "string \<Rightarrow> string list" where
  "modules_for_path path0 = (let p = norm_path path0 in
     if starts_any [''/api/v1/orders'', ''/api/v1/k8s''] p then [''cp-intake'', ''cp-fulfill'']
     else if starts_any [''/api/v1/tenants''] p then [''cp-intake'']
     else if starts_any [''/api/v1/fabric'', ''/api/v1/network'', ''/api/v1/nvlink''] p then [''d-sdn'']
     else if starts_any [''/api/v1/reconcile''] p then [''cp-policy'']
     else if starts_any [''/api/v1/billing''] p then [''cp-sla'']
     else if starts_any [''/api/v1/tickets''] p then [''cp-delivery'']
     else if starts_any [''/api/v1/racks'', ''/api/v1/nodes'', ''/api/v1/cpu-nodes'', ''/api/v1/scalable-units'',
        ''/api/v1/allocations'', ''/api/v1/nvlink-partitions'', ''/api/v1/factories'', ''/api/v1/trays'',
        ''/api/v1/inventory'', ''/api/v1/blueprints'', ''/api/v1/equipment''] p then [''cp-provision'']
     else if starts_any [''/api/v1/integration'', ''/api/v1/trace'', ''/api/v1/emu'', ''/api/v1/topology''] p then [''cp-obs'']
     else if starts_any [''/fake-nico''] p then [''d-compute'']
     else if starts_any [''/fake-vast''] p then [''d-storage'']
     else if starts_any [''/fake-shared''] p then [''d-shared'']
     else if p \<in> set [''/'', ''/health''] \<or> starts_any [''/static'', ''/api/v1/admin''] p
        \<or> p \<in> set [''/customer'', ''/ops'', ''/biz'', ''/arch'', ''/flow'', ''/nico'', ''/docs'', ''/openapi.json''] then [''cp-api'']
     else [''other''])"

definition module_for_trace_src :: "string \<Rightarrow> string option" where
  "module_for_trace_src src =
     (if src = [] then None
      else if starts_any [''NeoCloudOS.M1'', ''NeoCloudOS.M6''] src then Some ''cp-fulfill''
      else if starts_with ''NeoCloudOS.M3'' src then Some ''cp-model''
      else if starts_with ''NeoCloudOS.M4'' src then Some ''cp-policy''
      else if starts_with ''NeoCloudOS.M5'' src then Some ''cp-obs''
      else if starts_with ''NeoCloudOS.D1'' src then Some ''cp-provision''
      else if starts_with ''NeoCloudOS.D2'' src then Some ''d-sdn''
      else if starts_with ''NeoCloudOS.D4'' src then Some ''d-storage''
      else if starts_any [''Portal/API'', ''Operator''] src then Some ''cp-api''
      else if starts_with ''NICo'' src then Some ''d-compute'' else None)"

record collector =
  mc_total :: "nat dict"
  mc_win :: "rat list dict"
  mc_last :: "rat dict"
  mc_grand_total :: nat
  mc_grand_win :: "rat list"

definition new_collector :: collector where
  "new_collector = \<lparr>mc_total = [], mc_win = [], mc_last = [], mc_grand_total = 0, mc_grand_win = []\<rparr>"

text \<open>A \<open>defaultdict\<close> read: the stored value or the default.\<close>

definition dget :: "'v \<Rightarrow> 'v dict \<Rightarrow> string \<Rightarrow> 'v" where
  "dget d m k = (case map_of m k of Some v \<Rightarrow> v | None \<Rightarrow> d)"

definition count_module :: "rat \<Rightarrow> string \<Rightarrow> collector \<Rightarrow> collector" where
  "count_module t m c = c\<lparr>mc_total := AList.update m (dget 0 (mc_total c) m + 1) (mc_total c),
     mc_win := AList.update m (dget [] (mc_win c) m @ [t]) (mc_win c), mc_last := AList.update m t (mc_last c)\<rparr>"

definition record_call :: "string \<Rightarrow> rat \<Rightarrow> collector \<Rightarrow> collector" where
  "record_call p t c = fold (count_module t) (modules_for_path p)
     (c\<lparr>mc_grand_total := mc_grand_total c + 1, mc_grand_win := mc_grand_win c @ [t]\<rparr>)"

text \<open>\<open>_eps\<close>: stale timestamps are dropped from the left, the rest is the rate over the window.\<close>

definition prune :: "rat \<Rightarrow> rat list \<Rightarrow> rat list" where
  "prune t dq = dropWhile (\<lambda>x. x < t - WINDOW_S) dq"

definition rate_of :: "rat list \<Rightarrow> rat" where
  "rate_of dq = round_dp 3 (of_nat (length dq) / WINDOW_S)"

record module_stat =
  ms_id :: string
  ms_calls :: nat
  ms_eps :: rat
  ms_last_active_s :: "rat option"

definition module_stat_of :: "rat \<Rightarrow> collector \<Rightarrow> string \<Rightarrow> module_stat" where
  "module_stat_of t c m = \<lparr>ms_id = m, ms_calls = dget 0 (mc_total c) m, ms_eps = rate_of (prune t (dget [] (mc_win c) m)),
     ms_last_active_s = map_option (\<lambda>l. round1 (t - l)) (map_of (mc_last c) m)\<rparr>"

definition prune_all :: "rat \<Rightarrow> collector \<Rightarrow> collector" where
  "prune_all t c = c\<lparr>mc_win := fold (\<lambda>m w. AList.update m (prune t (dget [] w m)) w) MODULES (mc_win c),
     mc_grand_win := prune t (mc_grand_win c)\<rparr>"

definition metrics_snapshot :: "rat \<Rightarrow> collector \<Rightarrow> (module_stat list \<times> nat \<times> rat) \<times> collector" where
  "metrics_snapshot t c =
     ((map (module_stat_of t c) MODULES, mc_grand_total c, rate_of (prune t (mc_grand_win c))), prune_all t c)"

definition metrics_reset :: "collector \<Rightarrow> collector" where
  "metrics_reset c = new_collector"

end
