(* ===== verification/Credentials_Spec.thy ===== *)
theory Credentials_Spec
  imports Demo Metrics
begin

text \<open>
  What the shared services promise: an audit trail that stays bounded and ordered, service-account
  secrets handed out once, revocation that leaves no usable credential; and the same bound for the trace bus.
\<close>

section \<open>The audit trail\<close>

text \<open>Any use of the shared services, by any caller in any order.\<close>

inductive shared_step :: "shared \<Rightarrow> shared \<Rightarrow> bool" where
  "shared_step s (snd (create_realm tid nm s))"
| "shared_step s (snd (issue_token cid actor s))"
| "shared_step s (snd (issue_service_account tid oid s))"
| "shared_step s (snd (pop_sa_secret oid s))"
| "shared_step s (snd (write_secret p kind tref ord s))"
| "shared_step s (snd (revoke_order_credentials tid oid s))"
| "shared_step s (snd (pam_open op tgt why ttl s))"
| "shared_step s (snd (pam_close sid s))"
| "shared_step s (snd (audit actor action tgt res tref s))"
| "shared_step s (snd (shared_reset s))"

definition audit_ok :: "shared \<Rightarrow> bool" where
  "audit_ok s \<longleftrightarrow> length (sh_audit_log s) \<le> 2000 \<and> sorted_wrt (<) (map au_seq (sh_audit_log s))
     \<and> (\<forall>e \<in> set (sh_audit_log s). au_seq e \<le> sh_seq s)"

lemma keeps_audit [keeps_rules]: "keeps audit_ok (audit actor action tgt res tref)"
proof (rule keepsI)
  fix s
  assume ok: "audit_ok s"
  let ?e = "\<lparr>au_seq = sh_seq s + 1, au_actor = actor, au_action = action, au_target = tgt, au_result = res, au_tenant_ref = tref\<rparr>"
  let ?log = "audit_push ?e (sh_audit_log s)"
  have "length ?log \<le> 2000" using ok by (intro audit_trail.push_bound) (simp add: audit_ok_def)
  moreover have "sorted_wrt (\<lambda>a b. au_seq a < au_seq b) (sh_audit_log s @ [?e])"
    using ok by (auto simp: audit_ok_def sorted_wrt_append sorted_wrt_map le_imp_less_Suc)
  then have "sorted_wrt (<) (map au_seq ?log)" by (simp add: sorted_wrt_map audit_trail.push_sorted)
  moreover have "au_seq e \<le> sh_seq s + 1" if "e \<in> set ?log" for e
    using that audit_trail.push_subset [of ?e "sh_audit_log s"] ok by (fastforce simp: audit_ok_def)
  ultimately show "audit_ok (snd (audit actor action tgt res tref s))" by (simp add: audit_def audit_ok_def)
qed

lemma keeps_elsewhere:
  "(\<And>s. sh_audit_log (f s) = sh_audit_log s \<and> sh_seq s \<le> sh_seq (f s)) \<Longrightarrow> keeps audit_ok (modifyE f)"
  by (rule keeps_modifyE) (auto simp: audit_ok_def intro: order_trans)

lemma keeps_token [keeps_rules]: "keeps audit_ok token_hex"
  by (simp add: keeps_def token_hex_def audit_ok_def)

lemma keeps_create_realm [keeps_rules]: "keeps audit_ok (create_realm tid nm)"
  unfolding create_realm_def Let_def by (intro keeps_rules keeps_elsewhere) simp

lemma keeps_issue_token [keeps_rules]: "keeps audit_ok (issue_token cid actor)"
  unfolding issue_token_def upd_client_def by (intro keeps_rules keeps_elsewhere) simp

lemma keeps_shared_ops:
  "keeps audit_ok (issue_service_account tid oid)" "keeps audit_ok (pop_sa_secret oid)" "keeps audit_ok (write_secret p kind tref ord)"
  "keeps audit_ok (revoke_order_credentials tid oid)" "keeps audit_ok (pam_open op tgt why ttl)" "keeps audit_ok (pam_close sid)"
  unfolding issue_service_account_def pop_sa_secret_def write_secret_def revoke_order_credentials_def pam_open_def pam_close_def Let_def
  by (intro keeps_rules keeps_elsewhere; simp)+

lemma shared_step_audit: "shared_step s s' \<Longrightarrow> audit_ok s \<Longrightarrow> audit_ok s'"
  by (induction rule: shared_step.induct)
     (auto intro: keepsD [OF keeps_create_realm] keepsD [OF keeps_issue_token] keepsD [OF keeps_audit] keepsD [OF keeps_shared_ops(1)]
        keepsD [OF keeps_shared_ops(2)] keepsD [OF keeps_shared_ops(3)] keepsD [OF keeps_shared_ops(4)] keepsD [OF keeps_shared_ops(5)]
        keepsD [OF keeps_shared_ops(6)], simp add: shared_reset_def audit_ok_def)

text \<open>
  C25. Whatever the callers of the shared services do, the audit trail never holds more than 2000 entries
  and their sequence numbers rise strictly, none beyond the counter: no entry is duplicated or reordered.
\<close>

theorem audit_trail_bounded:
  assumes "shared_step\<^sup>*\<^sup>* s s'" and "sh_audit_log s = []"
  shows "length (sh_audit_log s') \<le> 2000 \<and> sorted_wrt (<) (map au_seq (sh_audit_log s'))
     \<and> (\<forall>e \<in> set (sh_audit_log s'). au_seq e \<le> sh_seq s')"
proof -
  have "audit_ok s" using assms(2) by (simp add: audit_ok_def)
  with assms(1) have "audit_ok s'" by (induction rule: rtranclp_induct) (auto intro: shared_step_audit)
  then show ?thesis by (simp add: audit_ok_def)
qed

definition demo_shared0 :: shared where
  "demo_shared0 = w_shared (demo_world (empty_store 0) demo_nico)"

theorem audit_trail_bounded_witness:
  "length (sh_audit_log (snd (pam_open ''op'' ''h-1'' ''fix'' 900 demo_shared0))) \<le> 2000
   \<and> sh_audit_log (snd (pam_open ''op'' ''h-1'' ''fix'' 900 demo_shared0)) \<noteq> []"
proof -
  have "shared_step\<^sup>*\<^sup>* demo_shared0 (snd (pam_open ''op'' ''h-1'' ''fix'' 900 demo_shared0))"
    by (intro r_into_rtranclp shared_step.intros)
  moreover have "sh_audit_log demo_shared0 = []" by (simp add: demo_shared0_def demo_world_def)
  ultimately show ?thesis
    using audit_trail_bounded by (auto simp: pam_open_def audit_def audit_push_def thenE_run bindE_run demo_shared0_def demo_world_def)
qed

section \<open>Revocation\<close>

definition demo_shared1 :: shared where
  "demo_shared1 = demo_shared0\<lparr>sh_realms := [(''t1'', \<lparr>rl_realm = ''t1'', rl_display = ''t1'', rl_roles = DEFAULT_ROLES,
      rl_clients = [mk_client ''t1-portal'' ''portal'' ''openid'' None True ''-'',
                    mk_client ''sa-o1'' ''service-account'' ''nodes:read'' (Some ''o1'') False ''nc_****''],
      rl_state = ''active''\<rparr>)], sh_secrets := []\<rparr>"

definition revoke_realm :: "string \<Rightarrow> iam_realm \<Rightarrow> iam_realm" where
  "revoke_realm oid r = r\<lparr>rl_clients := map (\<lambda>c. if revocable oid c then c\<lparr>cl_state := ''revoked''\<rparr> else c) (rl_clients r)\<rparr>"

lemma revoke_realm_inactive: "c \<in> set (rl_clients (revoke_realm oid r)) \<Longrightarrow> cl_order_id c = Some oid \<Longrightarrow> cl_state c \<noteq> ''active''"
  by (auto simp: revoke_realm_def revocable_def split: if_splits)

lemma revoke_realm_origin:
  "c \<in> set (rl_clients (revoke_realm oid r)) \<Longrightarrow> \<exists>c0 \<in> set (rl_clients r). cl_client_id c0 = cl_client_id c \<and> cl_order_id c0 = cl_order_id c"
  by (auto simp: revoke_realm_def split: if_splits)

lemma revoke_realm_others:
  "filter (\<lambda>c. cl_order_id c \<noteq> Some oid) (rl_clients (revoke_realm oid r)) = filter (\<lambda>c. cl_order_id c \<noteq> Some oid) (rl_clients r)"
proof -
  have "filter (\<lambda>c. cl_order_id c \<noteq> Some oid) (map (\<lambda>c. if revocable oid c then c\<lparr>cl_state := ''revoked''\<rparr> else c) cs)
      = filter (\<lambda>c. cl_order_id c \<noteq> Some oid) cs" for cs
    by (induction cs) (auto simp: revocable_def)
  then show ?thesis by (simp add: revoke_realm_def)
qed

lemma filter_keys:
  assumes "dict_wf d"
  shows "filter (\<lambda>(p, e). p \<notin> set (map fst (filter (\<lambda>(p, e). P e) d))) d = filter (\<lambda>(p, e). \<not> P e) d"
proof (rule filter_cong [OF refl])
  fix x
  assume "x \<in> set d"
  then have "x = y" if "y \<in> set d" "fst x = fst y" for y
    using that assms by (auto simp: dict_wf_def distinct_map dest: inj_onD)
  then have "fst x \<in> fst ` {y \<in> set d. P (snd y)} \<longleftrightarrow> P (snd x)" using \<open>x \<in> set d\<close> by (metis (mono_tags, lifting) image_iff mem_Collect_eq)
  then show "(case x of (p, e) \<Rightarrow> p \<notin> set (map fst (filter (\<lambda>(p, e). P e) d))) = (case x of (p, e) \<Rightarrow> \<not> P e)"
    by (simp add: case_prod_beta)
qed

lemma find_client_in:
  assumes "find_client s cid = Some (rn, c)"
  obtains k r where "(k, r) \<in> set (sh_realms s)" "c \<in> set (rl_clients r)" "cl_client_id c = cid"
proof -
  have "(rn, c) \<in> set (concat (map (\<lambda>r. map (Pair (rl_realm r)) (rl_clients r)) (dict_values (sh_realms s)))) \<and> cl_client_id c = cid"
    using assms unfolding find_client_def find_Some_iff by (auto simp: set_conv_nth)
  then show thesis using that by (auto simp: dict_values_def)
qed

lemma issue_token_denied:
  assumes "\<And>rn c. find_client s cid = Some (rn, c) \<Longrightarrow> cl_state c \<noteq> ''active''"
  shows "fst (issue_token cid actor s) = Inl (HTTPException 403 ''iam: client not active'')"
  using assms by (auto simp: issue_token_def bindE_run thenE_run audit_def split: option.splits)

text \<open>
  C26. Reclaim leaves no usable credential of the order: after revocation every client of the order in the
  tenant's realm is inactive, no secret of the order is left in the vault, a token request for a client
  id that only the order's clients of this realm carry is refused with 403, and the clients and secrets of
  other orders and other realms are untouched.
\<close>

theorem revocation_complete:
  assumes wf: "dict_wf (sh_secrets s)" and run: "revoke_order_credentials tid oid s = (res, s')"
  shows "(\<forall>r c. map_of (sh_realms s') tid = Some r \<longrightarrow> c \<in> set (rl_clients r) \<longrightarrow> cl_order_id c = Some oid \<longrightarrow> cl_state c \<noteq> ''active'')
     \<and> sh_secrets s' = filter (\<lambda>(p, e). se_order_id e \<noteq> Some oid) (sh_secrets s)
     \<and> (\<forall>k. k \<noteq> tid \<longrightarrow> map_of (sh_realms s') k = map_of (sh_realms s) k)
     \<and> (\<forall>r. map_of (sh_realms s) tid = Some r \<longrightarrow> (\<exists>r'. map_of (sh_realms s') tid = Some r'
          \<and> filter (\<lambda>c. cl_order_id c \<noteq> Some oid) (rl_clients r') = filter (\<lambda>c. cl_order_id c \<noteq> Some oid) (rl_clients r)))
     \<and> (\<forall>cid actor. (\<forall>k r c. (k, r) \<in> set (sh_realms s) \<longrightarrow> c \<in> set (rl_clients r) \<longrightarrow> cl_client_id c = cid \<longrightarrow>
              k = tid \<and> cl_order_id c = Some oid) \<longrightarrow>
          fst (issue_token cid actor s') = Inl (HTTPException 403 ''iam: client not active''))"
proof (intro conjI)
  have realms: "sh_realms s' = dict_mod tid (revoke_realm oid) (sh_realms s)"
    and secrets: "sh_secrets s' = filter (\<lambda>(p, e). p \<notin> set (map fst (filter (\<lambda>(p, e). se_order_id e = Some oid) (sh_secrets s)))) (sh_secrets s)"
    using run by (auto simp: revoke_order_credentials_def bindE_run thenE_run audit_def revoke_realm_def [abs_def] split: if_splits)
  show "\<forall>r c. map_of (sh_realms s') tid = Some r \<longrightarrow> c \<in> set (rl_clients r) \<longrightarrow> cl_order_id c = Some oid \<longrightarrow> cl_state c \<noteq> ''active''"
    by (auto simp: realms dest: revoke_realm_inactive)
  show "sh_secrets s' = filter (\<lambda>(p, e). se_order_id e \<noteq> Some oid) (sh_secrets s)"
    unfolding secrets using wf by (rule filter_keys)
  show "\<forall>k. k \<noteq> tid \<longrightarrow> map_of (sh_realms s') k = map_of (sh_realms s) k" by (simp add: realms)
  show "\<forall>r. map_of (sh_realms s) tid = Some r \<longrightarrow> (\<exists>r'. map_of (sh_realms s') tid = Some r'
          \<and> filter (\<lambda>c. cl_order_id c \<noteq> Some oid) (rl_clients r') = filter (\<lambda>c. cl_order_id c \<noteq> Some oid) (rl_clients r))"
    by (simp add: realms revoke_realm_others)
  show "\<forall>cid actor. (\<forall>k r c. (k, r) \<in> set (sh_realms s) \<longrightarrow> c \<in> set (rl_clients r) \<longrightarrow> cl_client_id c = cid \<longrightarrow>
              k = tid \<and> cl_order_id c = Some oid) \<longrightarrow>
          fst (issue_token cid actor s') = Inl (HTTPException 403 ''iam: client not active'')"
  proof (intro allI impI)
    fix cid actor
    assume only: "\<forall>k r c. (k, r) \<in> set (sh_realms s) \<longrightarrow> c \<in> set (rl_clients r) \<longrightarrow> cl_client_id c = cid \<longrightarrow>
              k = tid \<and> cl_order_id c = Some oid"
    have "cl_state c \<noteq> ''active''" if found: "find_client s' cid = Some (rn, c)" for rn c
    proof -
      obtain k r where kr: "(k, r) \<in> set (sh_realms s')" "c \<in> set (rl_clients r)" and cid: "cl_client_id c = cid"
        using found by (rule find_client_in)
      from kr(1) obtain r0 where r0: "(k, r0) \<in> set (sh_realms s)" "r = (if k = tid then revoke_realm oid r0 else r0)"
        by (auto simp: realms dict_mod_def split: if_splits)
      show ?thesis
      proof (cases "k = tid")
        case True
        with kr r0 cid only show ?thesis using revoke_realm_origin revoke_realm_inactive by metis
      qed (use kr r0 cid only in auto)
    qed
    then show "fst (issue_token cid actor s') = Inl (HTTPException 403 ''iam: client not active'')"
      by (rule issue_token_denied)
  qed
qed

theorem revocation_complete_witness:
  "fst (issue_token ''sa-o1'' ''tenant'' (snd (revoke_order_credentials ''t1'' ''o1'' demo_shared1)))
     = Inl (HTTPException 403 ''iam: client not active'')
   \<and> fst (issue_token ''sa-o1'' ''tenant'' demo_shared1) = Inr (''eyJ.fake.'' @ sh_entropy demo_shared1 (sh_drawn demo_shared1))"
proof -
  have wf: "dict_wf (sh_secrets demo_shared1)" by (simp add: demo_shared1_def dict_wf_def)
  have only: "\<forall>k r c. (k, r) \<in> set (sh_realms demo_shared1) \<longrightarrow> c \<in> set (rl_clients r) \<longrightarrow> cl_client_id c = ''sa-o1'' \<longrightarrow>
     k = ''t1'' \<and> cl_order_id c = Some ''o1''"
    by (auto simp: demo_shared1_def mk_client_def)
  obtain res s' where run: "revoke_order_credentials ''t1'' ''o1'' demo_shared1 = (res, s')" by fastforce
  note facts = revocation_complete [OF wf run]
  have "fst (issue_token ''sa-o1'' ''tenant'' s') = Inl (HTTPException 403 ''iam: client not active'')"
    using facts only by blast
  moreover have "find_client demo_shared1 ''sa-o1'' = Some (''t1'', mk_client ''sa-o1'' ''service-account'' ''nodes:read'' (Some ''o1'') False ''nc_****'')"
    by (simp add: find_client_def demo_shared1_def mk_client_def dict_values_def)
  ultimately show ?thesis
    by (simp add: run) (simp add: issue_token_def mk_client_def bindE_run thenE_run upd_client_def token_hex_def audit_def)
qed

section \<open>One-time secrets\<close>

text \<open>
  The secret of a service account can be withdrawn once. Right after the account is issued, the first
  withdrawal returns exactly the secret whose masked form the client record shows; it is then gone from
  the vault, and a second withdrawal returns a token drawn afresh from the generator.
\<close>

theorem secret_shown_once:
  assumes "issue_service_account tid oid s = (Inr c, s1)"
  shows "\<exists>i j sec s2. pop_sa_secret oid s1 = (Inr sec, s2) \<and> i < j \<and> sec = ''nc_'' @ sh_entropy s i
     \<and> cl_secret_masked c = ''nc_****'' @ last4 sec \<and> map_of (sh_sa_secrets s2) oid = None
     \<and> fst (pop_sa_secret oid s2) = Inr (''nc_'' @ sh_entropy s j)"
proof -
  have ent: "sh_entropy (snd (audit a b x y z u)) = sh_entropy u" "sh_drawn (snd (audit a b x y z u)) = sh_drawn u"
    "sh_sa_secrets (snd (audit a b x y z u)) = sh_sa_secrets u" for a b x y z u
    by (simp_all add: audit_def)
  have "map_of (sh_sa_secrets s1) oid = Some (''nc_'' @ sh_entropy s (sh_drawn s)) \<and> sh_entropy s1 = sh_entropy s
     \<and> sh_drawn s < sh_drawn s1 \<and> cl_secret_masked c = ''nc_****'' @ last4 (''nc_'' @ sh_entropy s (sh_drawn s))"
    using assms by (auto simp: issue_service_account_def create_realm_def issue_token_def upd_client_def token_hex_def audit_def
        mk_client_def bindE_run thenE_run Let_def split: option.splits if_splits)
  then show ?thesis
    by (intro exI [of _ "sh_drawn s"] exI [of _ "sh_drawn s1 + 1"] exI [of _ "''nc_'' @ sh_entropy s (sh_drawn s)"])
       (auto simp: pop_sa_secret_def token_hex_def bindE_run thenE_run)
qed

theorem secret_shown_once_witness:
  "\<exists>sec s2 j. pop_sa_secret ''o1'' (snd (issue_service_account ''t1'' ''o1'' demo_shared0)) = (Inr sec, s2) \<and> 0 < j
     \<and> fst (pop_sa_secret ''o1'' s2) = Inr (''nc_'' @ sh_entropy demo_shared0 j)"
proof -
  obtain c where "issue_service_account ''t1'' ''o1'' demo_shared0 = (Inr c, snd (issue_service_account ''t1'' ''o1'' demo_shared0))"
    by (simp add: issue_service_account_def create_realm_def issue_token_def upd_client_def token_hex_def audit_def find_client_def
        mk_client_def bindE_run thenE_run Let_def demo_shared0_def demo_world_def dict_mod_def dict_values_def)
  from secret_shown_once [OF this] show ?thesis by (metis gr_zeroI not_less0)
qed

end
