(* ===== verification/Operations_Spec.thy ===== *)
theory Operations_Spec
  imports Demo Metrics
begin

text \<open>
  What the operator relies on: a reconcile that completes, reports every host and repairs additively, and a
  trace bus that keeps the newest events without gaps.
\<close>

section \<open>Reconcile\<close>

lemma orphan_ok:
  assumes "map_of (st_node_instances s) nid = Some n"
  shows "\<exists>s'. reconcile_orphan nid n s = (Inr (), s') \<and> map fst (st_node_instances s') = map fst (st_node_instances s)"
  using assms by (auto simp: reconcile_orphan_def advance_node_run step_node_def note_node_def upd_node_def bindE_run)

lemma keys_has_key: "map fst d' = map fst d \<Longrightarrow> has_key d' k = has_key d k"
  by (metis has_key_def map_of_eq_None_iff set_map)

lemma reconcile_nodes_total:
  assumes "\<And>nid. nid \<in> set nids \<Longrightarrow> has_key (st_node_instances s) nid"
  shows "\<exists>r' s'. reconcile_nodes nids r s = (Inr r', s')"
  using assms
proof (induction nids arbitrary: r s)
  case (Cons nid nids)
  obtain n where n: "map_of (st_node_instances s) nid = Some n" using Cons.prems by (auto simp: has_key_def)
  obtain t where t: "reconcile_orphan nid n s = (Inr (), t)" "map fst (st_node_instances t) = map fst (st_node_instances s)"
    using orphan_ok [OF n] by blast
  have "\<exists>r' s'. reconcile_nodes nids r1 t = (Inr r', s')" "\<exists>r' s'. reconcile_nodes nids r1 s = (Inr r', s')" for r1
    using Cons keys_has_key [OF t(2)] by simp_all
  with n t show ?case by (simp add: the_node_def bindE_run thenE_run Let_def split: option.splits)
qed simp

lemma register_all_total: "\<exists>w'. forE hs (\<lambda>h. onStore (register_ghost h)) w = (Inr (), w')"
  by (induction hs arbitrary: w) (simp_all add: thenE_run bindE_run on_runs register_ghost_def)

text \<open>
  C28. Reconcile completes whenever the controller lists its hosts, whatever the two sides disagree on. It
  never removes a node, never rewrites whose node it is, sets no state but \<open>cordoned\<close>, leaves racks,
  allocations, partitions and orders alone, and gives the controller no command.
\<close>

theorem reconcile_completes_additively:
  assumes "ca_list_hosts A (w_nico w) = (Inr hs, nk)"
  shows "\<exists>rep w'. reconcile A w = (Inr rep, w') \<and> only_cordons (w_store w) (w_store w') \<and> w_nico w' = nk"
proof -
  obtain r s' where rn: "reconcile_nodes (map fst (st_node_instances (w_store w)))
      \<lparr>rc_hosts = drop_cpu_hosts (w_store w) (hosts_by_id hs), rc_orphans = 0, rc_mismatches = 0, rc_findings = []\<rparr> (w_store w)
      = (Inr r, s')"
    using reconcile_nodes_total by (metis has_key_def map_of_eq_None_iff set_map)
  obtain w1 where w1: "forE (dict_values (rc_hosts r)) (\<lambda>h. onStore (register_ghost h)) (w\<lparr>w_nico := nk, w_store := s'\<rparr>) = (Inr (), w1)"
    using register_all_total by blast
  have "w_nico w1 = nk"
  proof -
    have "keeps (\<lambda>w. w_nico w = nk) (forE (dict_values (rc_hosts r)) (\<lambda>h. onStore (register_ghost h)))"
      by (intro keeps_rules) (simp add: keeps_def on_runs)
    from keepsD_eq [OF this w1] show ?thesis by simp
  qed
  moreover have "\<exists>rep. reconcile A w = (Inr rep, w1)"
    using assms rn w1 by (simp add: reconcile_def bindE_run thenE_run on_runs Let_def)
  ultimately show ?thesis using reconcile_only_cordons [of w A] by auto
qed

theorem reconcile_completes_additively_witness:
  "\<exists>rep w'. reconcile LocalNicoAdapter (demo_world demo_store (demo_fleet H_pool_ready)) = (Inr rep, w')
     \<and> only_cordons demo_store (w_store w') \<and> w_nico w' = demo_fleet H_pool_ready"
proof -
  have "ca_list_hosts LocalNicoAdapter (w_nico (demo_world demo_store (demo_fleet H_pool_ready)))
      = (Inr [demo_host H_pool_ready], demo_fleet H_pool_ready)"
    by (simp add: LocalNicoAdapter_def nico_list_hosts_def demo_world_def demo_fleet_def demo_nico_def dict_values_def)
  from reconcile_completes_additively [OF this] show ?thesis by (simp add: demo_world_def)
qed

section \<open>The trace bus\<close>

definition emits :: "(nat \<Rightarrow> trace_event) list \<Rightarrow> tracer \<Rightarrow> tracer" where
  "emits mks tr = foldl (\<lambda>tr mk. emit mk tr) tr mks"

lemma emits_state:
  "tc_capacity (emits mks (new_tracer cap)) = cap \<and> tc_seq (emits mks (new_tracer cap)) = length mks
   \<and> map te_seq (tc_events (emits mks (new_tracer cap))) = [Suc (length mks - cap)..<Suc (length mks)]"
proof (induction mks rule: rev_induct)
  case Nil
  show ?case by (simp add: emits_def new_tracer_def)
next
  case (snoc mk mks)
  let ?tr = "emits mks (new_tracer cap)"
  have len: "length (tc_events ?tr) = length mks - (length mks - cap)"
    using snoc by (metis diff_Suc_Suc length_map length_upt)
  have "emits (mks @ [mk]) (new_tracer cap) = emit mk ?tr" by (simp add: emits_def)
  moreover have "map te_seq (tc_events (emit mk ?tr)) = drop (length (tc_events ?tr) + 1 - cap) ([Suc (length mks - cap)..<Suc (length mks)] @ [Suc (length mks)])"
    using snoc by (simp add: emit_def Let_def push_bounded_def drop_map [symmetric] del: upt_Suc drop_append)
  moreover have "[Suc (length mks - cap)..<Suc (length mks)] @ [Suc (length mks)] = [Suc (length mks - cap)..<Suc (Suc (length mks))]"
    by (simp add: upt_Suc)
  moreover have "length mks - cap + (Suc (length mks) - (length mks - cap + cap)) = Suc (length mks) - cap" by arith
  ultimately show ?case using snoc len by (auto simp: emit_def Let_def simp del: upt_Suc)
qed

lemma upt_same_end: "[a..<b] = [c..<b] \<longleftrightarrow> a = c \<or> (b \<le> a \<and> b \<le> c)" for a b c :: nat
  by (auto dest: arg_cong [of _ _ length])

lemma map_py_last: "map f (py_last k xs) = py_last k (map f xs)"
  by (simp add: py_last_def drop_map)

lemma py_last_upt:
  assumes "0 < n"
  shows "py_last (int n) [Suc a..<Suc b] = [Suc (max a (b - n))..<Suc b]"
proof -
  have "Suc a + (b - a - n) = Suc (max a (b - n)) \<or> b \<le> a" by arith
  then show ?thesis using assms by (auto simp: py_last_def simp del: upt_Suc)
qed

lemma unseen_events:
  "map te_seq (filter (trace_match None None None (int seen)) (tc_events (emits mks (new_tracer cap))))
     = [Suc (max seen (length mks - cap))..<Suc (length mks)]"
proof -
  let ?es = "tc_events (emits mks (new_tracer cap))"
  have "map te_seq (filter (trace_match None None None (int seen)) ?es) = filter (\<lambda>i. seen < i) (map te_seq ?es)"
    by (simp add: filter_map comp_def trace_match_def [abs_def] given_def)
  also have "\<dots> = filter (\<lambda>i. seen < i) [Suc (length mks - cap)..<Suc (length mks)]" using emits_state [of mks cap] by metis
  also have "\<dots> = [Suc (max seen (length mks - cap))..<Suc (length mks)]"
    by (intro sorted_distinct_set_unique) (auto simp: sorted_wrt_filter simp del: upt_Suc)
  finally show ?thesis .
qed

text \<open>
  C29. After any number of events the bus holds exactly the newest ones, up to its capacity, numbered without a gap. A
  poll for what came after event \<open>seen\<close> with a positive limit \<open>n\<close> answers exactly the newest of those events, in order
  and without a gap: as many as the bus still holds, but at most \<open>n\<close> and at most 2000. So it misses nothing if and only if no more than
  \<open>min n 2000\<close> events came since and none of them has left the bus; otherwise it is the oldest that are lost. A limit of 0 is
  no limit: it answers every match.
\<close>

theorem trace_keeps_newest:
  "trace_count (emits mks (new_tracer cap)) = min (length mks) cap
   \<and> map te_seq (tc_events (emits mks (new_tracer cap))) = [Suc (length mks - cap)..<Suc (length mks)]
   \<and> (0 < n \<longrightarrow> map te_seq (get_trace None None None (int seen) (int n) (emits mks (new_tracer cap)))
        = [Suc (max (max seen (length mks - cap)) (length mks - min n 2000))..<Suc (length mks)])
   \<and> (0 < n \<longrightarrow> (map te_seq (get_trace None None None (int seen) (int n) (emits mks (new_tracer cap))) = [Suc seen..<Suc (length mks)]
        \<longleftrightarrow> length mks - seen \<le> min cap (min n 2000)))
   \<and> get_trace oid ch q since 0 (emits mks (new_tracer cap))
       = filter (trace_match oid ch q since) (tc_events (emits mks (new_tracer cap)))"
proof -
  let ?tr = "emits mks (new_tracer cap)" and ?from = "max (max seen (length mks - cap)) (length mks - min n 2000)"
  note st = emits_state [of mks cap]
  have len: "length (tc_events ?tr) = length mks - (length mks - cap)"
    using st by (metis diff_Suc_Suc length_map length_upt)
  have poll: "map te_seq (get_trace None None None (int seen) (int n) ?tr) = [Suc ?from..<Suc (length mks)]" if "0 < n"
  proof -
    have "min (int n) 2000 = int (min n 2000)" by simp
    with that show ?thesis
      unfolding get_trace_def trace_query_def map_py_last unseen_events by (simp only: py_last_upt)
  qed
  have "[Suc ?from..<Suc (length mks)] = [Suc seen..<Suc (length mks)] \<longleftrightarrow> length mks - seen \<le> min cap (min n 2000)"
    unfolding upt_same_end by auto
  with poll st len show ?thesis by (simp add: trace_count_def get_trace_def trace_query_def py_last_def del: upt_Suc)
qed

theorem trace_keeps_newest_witness:
  "map te_seq (get_trace None None None 1 2 (emits (replicate 5 (\<lambda>i. \<lparr>te_seq = i, te_at = 0, te_src = ''a'', te_dst = ''b'',
      te_channel = ''REST'', te_op = ''op'', te_detail = [], te_order_id = None, te_host_id = None\<rparr>)) (new_tracer 3))) = [4, 5]"
proof -
  have "[Suc (Suc (Suc (Suc 0)))..<6] = [4, 5 :: nat]" by (simp add: upt_rec)
  then show ?thesis using trace_keeps_newest [of "replicate 5 (\<lambda>i. \<lparr>te_seq = i, te_at = 0, te_src = ''a'', te_dst = ''b'',
      te_channel = ''REST'', te_op = ''op'', te_detail = [], te_order_id = None, te_host_id = None\<rparr>)" 3 2 1] by simp
qed

end
