(* ===== verification/Reclaim_Frame.thy ===== *)
theory Reclaim_Frame
  imports Portal_Safe
begin

text \<open>
  What reclaim leaves alone. A view of the store that ignores orders, nodes, counters, storage, CPU nodes and
  clusters is kept by everything reclaim does before and after it deletes the allocation; one that
  also ignores the hardware bindings is kept by the whole of it. The allocations are a view of the first
  kind, the portals' records of the second.
\<close>

section \<open>Sequencing\<close>

abbreviation on_return :: "('s \<Rightarrow> bool) \<Rightarrow> ('s, 'a) prog \<Rightarrow> ('s \<Rightarrow> bool) \<Rightarrow> bool" where
  "on_return P m Q \<equiv> triple P m (\<lambda>_. Q) (\<lambda>_ _. True)"

lemma on_return_bind: "on_return P m R \<Longrightarrow> (\<And>x. on_return R (f x) Q) \<Longrightarrow> on_return P (bindE m f) Q"
  by (fastforce simp: triple_def bindE_run split: prod.splits sum.splits)

lemma on_return_then: "on_return P m R \<Longrightarrow> on_return R k Q \<Longrightarrow> on_return P (thenE m k) Q"
  by (fastforce simp: triple_def thenE_run split: prod.splits sum.splits)

lemma on_return_keeps: "keeps I m \<Longrightarrow> on_return I m I"
  by (fastforce simp: triple_def keeps_def split: prod.splits sum.splits)

lemma on_return_after: "keeps I m \<Longrightarrow> (\<And>x. on_return I (f x) Q) \<Longrightarrow> on_return I (bindE m f) Q"
  by (rule on_return_bind [OF on_return_keeps])

lemma on_return_after_then: "keeps I m \<Longrightarrow> on_return I k Q \<Longrightarrow> on_return I (thenE m k) Q"
  by (rule on_return_then [OF on_return_keeps])

lemma on_returnD: "on_return P m Q \<Longrightarrow> m s = (Inr x, s') \<Longrightarrow> P s \<Longrightarrow> Q s'"
  by (force simp: triple_def)

section \<open>Views that reclaim keeps\<close>

locale reclaim_view_frame =
  fixes view :: "store \<Rightarrow> 'v"
  assumes view_orders: "view (s\<lparr>st_orders := os\<rparr>) = view s"
    and view_nodes: "view (s\<lparr>st_node_instances := ns\<rparr>) = view s"
    and view_counters: "view (s\<lparr>st_counters := cs\<rparr>) = view s"
    and view_storage: "view (s\<lparr>st_storage_allocs := sas\<rparr>) = view s"
    and view_cpus: "view (s\<lparr>st_cpu_nodes := cns\<rparr>) = view s"
    and view_clusters: "view (s\<lparr>st_k8s_clusters := kcs\<rparr>) = view s"
begin

abbreviation viewW :: "('v \<Rightarrow> bool) \<Rightarrow> 'n world \<Rightarrow> bool" where
  "viewW Q w \<equiv> Q (view (w_store w))"

lemma keeps_view: "(\<And>s. view (f s) = view s) \<Longrightarrow> keeps (\<lambda>s. Q (view s)) (modifyE f)"
  by (rule keeps_modifyE) simp

lemma in_world: "keeps (\<lambda>s. Q (view s)) m \<Longrightarrow> keeps (viewW Q) (onStore m)"
  by (rule keeps_onStore)

lemma elsewhere: "keeps (viewW Q) (onNico m1)" "keeps (viewW Q) (onVast m2)" "keeps (viewW Q) (onShared m3)"
  by (rule keeps_onNico keeps_onVast keeps_onShared)+

lemma keeps_writes:
  "keeps (\<lambda>s. Q (view s)) (upd_node nid fn)" "keeps (\<lambda>s. Q (view s)) (upd_order oid fo)" "keeps (\<lambda>s. Q (view s)) (upd_cpu k fc)"
  "keeps (\<lambda>s. Q (view s)) (upd_cluster cid fk)" "keeps (\<lambda>s. Q (view s)) (upd_storage sid fs)" "keeps (\<lambda>s. Q (view s)) (put_order oid x)"
  unfolding upd_node_def upd_order_def upd_cpu_def upd_cluster_def upd_storage_def put_order_def
  by (rule keeps_view, simp add: view_orders view_nodes view_storage view_cpus view_clusters)+

lemma keeps_steps:
  "keeps (\<lambda>s. Q (view s)) (next_seq nm)" "keeps (\<lambda>s. Q (view s)) (note_node nid d)" "keeps (\<lambda>s. Q (view s)) (note_cluster cid st d)"
  "keeps (\<lambda>s. Q (view s)) (advance_node nid nto d)" "keeps (\<lambda>s. Q (view s)) (advance_order oid oto d)"
  "keeps (\<lambda>s. Q (view s)) (sync_cpu_nodes tid seg)"
  unfolding note_node_def note_cluster_def advance_node_def advance_order_def sync_cpu_nodes_def grant_cpu_def the_node_def the_order_def
  by (simp add: keeps_def next_seq_def Let_def view_counters, (intro keeps_rules keeps_writes)+)

lemmas frame_rules = keeps_rules in_world elsewhere keeps_writes keeps_steps

lemma keeps_teardown_view: "keeps (viewW Q) (teardown_storage_and_segment A sids seg)"
  unfolding teardown_storage_and_segment_def Fulfillment.reclaim_view_def by (intro frame_rules)

lemma keeps_reclaim_node_view: "keeps (viewW Q) (reclaim_node A oid nid)"
  unfolding reclaim_node_def reclaim_body_def the_node_def by (intro frame_rules)

lemma keeps_teardown_cluster_view: "keeps (viewW Q) (teardown_cluster A tid aid cid)"
  unfolding teardown_cluster_def return_cp_def by (intro frame_rules)

lemma keeps_reject_view: "keeps (viewW Q) (reject_order oid d)"
  unfolding reject_order_def by (intro frame_rules)

text \<open>What holds of the view before the allocation goes, and after.\<close>

lemma reclaim_allocation_view:
  fixes A :: "'n compute_adapter"
  assumes "on_return (viewW P :: 'n world \<Rightarrow> bool) (onStore (delete_allocation (alloc_id alloc))) (viewW Q)"
  shows "on_return (viewW P) (reclaim_allocation A oid tid alloc) (viewW Q)"
  unfolding reclaim_allocation_def
  by ((rule on_return_then [OF assms] on_return_after on_return_after_then on_return_keeps | intro frame_rules
      keeps_teardown_view keeps_reclaim_node_view keeps_teardown_cluster_view)+)

end

locale release_view_frame = reclaim_view_frame +
  assumes view_racks: "view (s\<lparr>st_racks := rs\<rparr>) = view s"
    and view_trays: "view (s\<lparr>st_trays := ts, st_dpus := ds, st_gpus := gs\<rparr>) = view s"
    and view_parts: "view (s\<lparr>st_partitions := ps\<rparr>) = view s"
    and view_allocs: "view (s\<lparr>st_allocations := als\<rparr>) = view s"
begin

lemma view_tray_bindings: "view (fold (set_tray_binding who hw mode) ts s) = view s"
  by (induction ts arbitrary: s) (auto simp: set_tray_binding_def view_trays split: option.splits)

lemma keeps_release_view: "keeps (\<lambda>s. Q (view s)) (release_rack rid)"
  by (simp add: keeps_def release_rack_def set_rack_binding_def view_tray_bindings view_racks split: option.splits)

lemma keeps_delete_allocation_view: "keeps (\<lambda>s. Q (view s)) (delete_allocation aid)"
  unfolding delete_allocation_def drop_partitions_def
  by (intro keeps_rules keeps_release_view keeps_view) (simp_all add: view_parts view_allocs)

lemma keeps_run_terminate_view: "keeps (viewW Q) (run_terminate_order A body)"
  unfolding run_terminate_order_def reclaim_allocation_def the_order_def
  by (intro frame_rules keeps_reject_view keeps_teardown_view keeps_reclaim_node_view keeps_teardown_cluster_view
      keeps_delete_allocation_view)

end

interpretation alloc_view: reclaim_view_frame st_allocations
  by unfold_locales simp_all

interpretation term_view: release_view_frame st_terminations
  by unfold_locales simp_all

interpretation acc_view: release_view_frame st_acceptances
  by unfold_locales simp_all

end
