(* ===== verification/Termination_Spec.thy ===== *)
theory Termination_Spec
  imports Reclaim_Frame Allocation_Spec
begin

text \<open>
  The termination workflow: nothing is erased before every backup item is confirmed, a completed run leaves
  the tenant without allocations and racks, and what a run that fails leaves behind.
\<close>

section \<open>Reclaim of one allocation\<close>

lemma on_return_gets: "(\<And>s. P s \<Longrightarrow> g s = c) \<Longrightarrow> on_return P (f c) Q \<Longrightarrow> on_return P (bindE (getsE g) f) Q"
  by (simp add: triple_def)

lemma keeps_allocs:
  "keeps (\<lambda>s. Q (st_allocations s)) (release_rack rid)" "keeps (\<lambda>s. Q (st_allocations s)) (drop_partitions rid tid)"
proof -
  have "st_allocations (fold (set_tray_binding who hw mode) ts s) = st_allocations s" for who hw mode ts s
    by (induction ts arbitrary: s) (auto simp: set_tray_binding_def split: option.splits)
  then show "keeps (\<lambda>s. Q (st_allocations s)) (release_rack rid)"
    by (simp add: keeps_def release_rack_def set_rack_binding_def split: option.splits)
qed (unfold drop_partitions_def, intro keeps_rules alloc_view.keeps_view, simp)

lemma delete_allocation_view:
  "on_return (\<lambda>s. st_allocations s = X) (delete_allocation aid) (\<lambda>s. st_allocations s = AList.delete aid X)"
  unfolding delete_allocation_def
proof (rule on_return_after [OF keeps_getsE], rule on_return_after [OF keeps_someE], rule on_return_after_then)
  show "keeps (\<lambda>s. st_allocations s = X) (forE (alloc_rack_ids x) (\<lambda>rid. thenE (drop_partitions rid (alloc_tenant_id x)) (release_rack rid)))" for x
    by (intro keeps_rules keeps_allocs)
  show "on_return (\<lambda>s. st_allocations s = X)
      (thenE (modifyE (\<lambda>s. s\<lparr>st_allocations := AList.delete aid (st_allocations s)\<rparr>)) (returnE (aid, alloc_rack_ids x)))
      (\<lambda>s. st_allocations s = AList.delete aid X)" for x
    by (simp add: triple_def)
qed

lemma terminate_deletes:
  fixes A :: "'n compute_adapter"
  assumes a: "map_of X aid = Some a" "alloc_tenant_id a = tid" "alloc_id a = aid"
  shows "on_return (\<lambda>w. st_allocations (w_store w) = X) (run_terminate_order A (terminate_body tid aid))
     (\<lambda>w. st_allocations (w_store w) = AList.delete aid X)"
proof -
  have del: "on_return (\<lambda>w. st_allocations (w_store w) = X) (onStore (delete_allocation (alloc_id a)) :: ('n, _) wprog)
      (\<lambda>w. st_allocations (w_store w) = AList.delete aid X)"
    using delete_allocation_view [of X "alloc_id a"] a(3)
    by (force simp: triple_def onStore_run split: prod.splits sum.splits)
  have rec: "on_return (\<lambda>w. st_allocations (w_store w) = X) (reclaim_allocation A oid tid a)
      (\<lambda>w. st_allocations (w_store w) = AList.delete aid X)" for oid
    by (rule alloc_view.reclaim_allocation_view [OF del])
  have body: "oc_tenant_id (terminate_body tid aid) = tid" "str_or (oc_allocation_id (terminate_body tid aid)) '''' = aid"
    by (simp_all add: terminate_body_def str_or_def)
  show ?thesis
    unfolding run_terminate_order_def Let_def body
  proof (rule on_return_after [OF alloc_view.in_world [OF alloc_view.keeps_steps(1)]], rule on_return_after [OF keeps_getsE],
      rule on_return_after_then [OF alloc_view.in_world [OF alloc_view.keeps_writes(6)]])
    fix n t
    let ?oid = "''ord-'' @ dec n"
    show "on_return (\<lambda>w. st_allocations (w_store w) = X)
       (bindE (getsS (\<lambda>s. map_of (st_allocations s) aid)) (\<lambda>a0. thenE (case a0 of None \<Rightarrow> reject_order ?oid ''allocation not found for tenant''
             | Some alloc \<Rightarrow> if alloc_tenant_id alloc \<noteq> tid then reject_order ?oid ''allocation not found for tenant''
                 else reclaim_allocation A ?oid tid alloc) (orderW ?oid)))
       (\<lambda>w. st_allocations (w_store w) = AList.delete aid X)"
      by (rule on_return_gets [where c = "Some a"])
         (use a in \<open>simp_all, intro on_return_then [OF rec] on_return_keeps alloc_view.in_world, simp add: the_order_def keeps_def bindE_run someE_run split: option.splits\<close>)
  qed
qed

section \<open>The erasing saga\<close>

lemma keeps_term_writes:
  "keeps (\<lambda>s. Q (st_allocations s)) (upd_termination k f)" "keeps (\<lambda>s. Q (st_allocations s)) (term_progress k st d tot)"
  "keeps (\<lambda>s. Q (st_allocations s)) (issue_certificate env k tid tot cs)"
  unfolding term_progress_def upd_termination_def issue_certificate_def Let_def
  by (intro keeps_rules alloc_view.keeps_view alloc_view.keeps_steps; simp)+

lemma keeps_check_backup: "keeps (\<lambda>w. st_allocations (w_store w) = X) (onStore (check_backup tid checklist))"
  unfolding check_backup_def by (intro alloc_view.in_world keeps_rules keeps_term_writes)

lemma keeps_stages_allocs: "keeps (\<lambda>s. Q (st_allocations s)) (show_stages k aid d tot sts)"
proof (induction sts arbitrary: d)
  case Nil
  show ?case unfolding show_stages.simps by (intro keeps_rules)
next
  case (Cons st sts)
  show ?case unfolding show_stages.simps by (intro keeps_rules keeps_term_writes Cons.IH)
qed

definition erased :: "string list \<Rightarrow> cert_allocation list \<Rightarrow> bool" where
  "erased aids cs \<longleftrightarrow> map ct_allocation_id cs = aids \<and> (\<forall>c \<in> set cs. ct_erase_steps c = map (\<lambda>st. (st, True)) SANITIZE_STEPS)"

lemma erase_allocation_run:
  assumes run: "erase_allocation A k tid d tot aid w = (Inr c, w')"
    and a: "map_of (st_allocations (w_store w)) aid = Some a" "alloc_tenant_id a = tid" "alloc_id a = aid"
  shows "st_allocations (w_store w') = AList.delete aid (st_allocations (w_store w)) \<and> erased [aid] [c]"
proof -
  let ?X = "st_allocations (w_store w)"
  have "on_return (\<lambda>w. st_allocations (w_store w) = ?X) (erase_allocation A k tid d tot aid)
      (\<lambda>w. st_allocations (w_store w) = AList.delete aid ?X)"
    unfolding erase_allocation_def case_prod_beta
    by (intro on_return_after on_return_after_then on_return_bind [OF terminate_deletes [OF a]] on_return_keeps
        alloc_view.in_world keeps_rules keeps_term_writes keeps_stages_allocs)
  then have "st_allocations (w_store w') = AList.delete aid ?X" using run by (rule on_returnD) simp
  moreover have "erased [aid] [c]"
    using run by (auto simp: erase_allocation_def erased_def dest!: bindE_ok thenE_ok split: prod.splits)
  ultimately show ?thesis ..
qed

lemma erase_allocations_run:
  assumes "erase_allocations A k tid d tot aids w = (Inr cs, w')" "distinct aids"
    and "\<And>aid. aid \<in> set aids \<Longrightarrow> \<exists>a. map_of (st_allocations (w_store w)) aid = Some a \<and> alloc_tenant_id a = tid \<and> alloc_id a = aid"
  shows "map_of (st_allocations (w_store w')) = (map_of (st_allocations (w_store w))) |` (- set aids) \<and> erased aids cs"
  using assms
proof (induction aids arbitrary: d w cs)
  case Nil
  then show ?case by (simp add: erased_def)
next
  case (Cons aid aids)
  from bindE_ok [OF Cons.prems(1) [unfolded erase_allocations.simps]] obtain c w1 cs1 where one: "erase_allocation A k tid d tot aid w = (Inr c, w1)"
    and rest: "erase_allocations A k tid (d + length erase_stage_names + 1) tot aids w1 = (Inr cs1, w')" and cs: "cs = c # cs1"
    by (auto dest: bindE_ok)
  from Cons.prems(3) [of aid] obtain a where a: "map_of (st_allocations (w_store w)) aid = Some a" "alloc_tenant_id a = tid" "alloc_id a = aid"
    by auto
  have w1: "st_allocations (w_store w1) = AList.delete aid (st_allocations (w_store w))" and e1: "erased [aid] [c]"
    using erase_allocation_run [OF one a] by simp_all
  have "map_of (st_allocations (w_store w')) = (map_of (st_allocations (w_store w1))) |` (- set aids) \<and> erased aids cs1"
  proof (rule Cons.IH [OF rest])
    show "distinct aids" using Cons.prems(2) by simp
    show "\<exists>a. map_of (st_allocations (w_store w1)) b = Some a \<and> alloc_tenant_id a = tid \<and> alloc_id a = b" if "b \<in> set aids" for b
      using Cons.prems(2) Cons.prems(3) [of b] that by (auto simp: w1)
  qed
  then have "map_of (st_allocations (w_store w')) = (map_of (st_allocations (w_store w))) |` (- set (aid # aids))" and e2: "erased aids cs1"
    by (simp_all add: w1 restrict_map_def fun_eq_iff)
  moreover have "erased (aid # aids) cs" using e1 e2 cs by (simp add: erased_def)
  ultimately show ?case by blast
qed

lemma tenant_allocation_ids_ok:
  assumes "alloc_ok s"
  shows "distinct (tenant_allocation_ids s tid)"
    and "aid \<in> set (tenant_allocation_ids s tid) \<longleftrightarrow> (\<exists>a. map_of (st_allocations s) aid = Some a \<and> alloc_tenant_id a = tid \<and> alloc_id a = aid)"
proof -
  have wf: "dict_wf (st_allocations s)" and key: "\<And>k a. map_of (st_allocations s) k = Some a \<Longrightarrow> alloc_id a = k"
    using assms by (auto simp: alloc_ok_def)
  have pair: "alloc_id a = k" if "(k, a) \<in> set (st_allocations s)" for k a
    using that wf key by (simp add: dict_wf_def)
  have "map (alloc_id \<circ> snd) (st_allocations s) = map fst (st_allocations s)" using pair by auto
  then have "distinct (map alloc_id (dict_values (st_allocations s)))" using wf unfolding dict_wf_def dict_values_def map_map by (simp only:)
  then show "distinct (tenant_allocation_ids s tid)" by (simp add: tenant_allocation_ids_def distinct_map_filter)
  show "aid \<in> set (tenant_allocation_ids s tid) \<longleftrightarrow> (\<exists>a. map_of (st_allocations s) aid = Some a \<and> alloc_tenant_id a = tid \<and> alloc_id a = aid)"
    using wf key by (auto simp: tenant_allocation_ids_def in_dict_values)
qed

text \<open>
  C30. The backup gate. A confirmation changes something only if the tenant's latest termination is waiting
  for it and the request confirms every item of its checklist; in every other case the request is
  refused (404 without a workflow, 409 otherwise) and the world, the controller included, is as before.
\<close>

theorem backup_gate:
  "(confirm_backup A env tid checklist w \<noteq> (Inl (HTTPException 404 ''no termination workflow''), w)
    \<and> confirm_backup A env tid checklist w \<noteq> (Inl (HTTPException 409 ''not awaiting backup confirmation''), w)
    \<and> confirm_backup A env tid checklist w \<noteq> (Inl (HTTPException 409 ''backup not confirmed''), w)) \<longrightarrow>
   (\<exists>r. latest_termination (w_store w) tid = Some r \<and> tr_state r = ''awaiting_backup''
      \<and> (\<forall>(i, b) \<in> set (tr_checklist r). confirmed_in checklist i))"
proof -
  have same: "w\<lparr>w_store := w_store w\<rparr> = w" by simp
  show ?thesis
    by (cases "latest_termination (w_store w) tid")
       (auto simp: confirm_backup_def check_backup_def bindE_run thenE_run onStore_run list_all_iff same)
qed

theorem backup_gate_witness:
  "confirm_backup LocalNicoAdapter \<lparr>env_deemed_days = None, env_sha256 = (\<lambda>_. ''0'')\<rparr> ''tnt-a'' []
      (demo_world demo_store demo_nico)
     = (Inl (HTTPException 404 ''no termination workflow''), demo_world demo_store demo_nico)"
proof -
  have none: "latest_termination (w_store (demo_world demo_store demo_nico)) ''tnt-a'' = None"
    by (simp add: latest_termination_def demo_world_def demo_store_def empty_store_def dict_values_def)
  then show ?thesis
    using backup_gate [of LocalNicoAdapter "\<lparr>env_deemed_days = None, env_sha256 = (\<lambda>_. ''0'')\<rparr>" "''tnt-a''" "[]" "demo_world demo_store demo_nico"]
    by (auto simp: confirm_backup_def check_backup_def bindE_run onStore_run)
qed

text \<open>
  C31. A termination that completes leaves nothing of the tenant: no allocation, no rack bound to it, while
  every other tenant keeps its allocations. The workflow is \<open>wiped\<close>, with a certificate that lists
  exactly the allocations the tenant had. Every erase step on it reads as done: the certificate is written
  without looking at what the controller's sanitizer reported.
\<close>

theorem termination_clears_tenant:
  assumes safe: "safe (w_store w)" and run: "confirm_backup A env tid checklist w = (Inr r, w')"
  shows "(\<forall>k. map_of (st_allocations (w_store w')) k = (case map_of (st_allocations (w_store w)) k of None \<Rightarrow> None
            | Some a \<Rightarrow> if alloc_tenant_id a = tid then None else Some a))
     \<and> (\<forall>rid x. map_of (st_racks (w_store w')) rid = Some x \<longrightarrow> rack_tenant_id x \<noteq> Some tid)
     \<and> tr_state r = ''wiped''
     \<and> (\<exists>c. tr_certificate r = Some c \<and> wc_tenant_id c = tid
          \<and> map ct_allocation_id (wc_allocations c) = tenant_allocation_ids (w_store w) tid
          \<and> (\<forall>x \<in> set (wc_allocations c). ct_erase_steps x = map (\<lambda>st. (st, True)) SANITIZE_STEPS))"
proof -
  have al: "alloc_ok (w_store w)" using safe by (simp add: safe_def tenancy_inv_def)
  obtain k w1 w2 where chk: "onStore (check_backup tid checklist) w = (Inr k, w1)"
    and saga: "run_termination_saga A env k tid w1 = (Inr (), w2)" and fin: "onStore (the_termination k) w2 = (Inr r, w')"
    using run unfolding confirm_backup_def by (auto dest!: bindE_ok thenE_ok)
  have X: "st_allocations (w_store w1) = st_allocations (w_store w)"
    using on_returnD [OF on_return_keeps [OF keeps_check_backup] chk] by simp
  then have ids: "tenant_allocation_ids (w_store w1) tid = tenant_allocation_ids (w_store w) tid" by (simp add: tenant_allocation_ids_def)
  obtain w3 cs tot w4 where upd: "onStore (upd_termination k (\<lambda>r. r\<lparr>tr_allocations := tenant_allocation_ids (w_store w) tid\<rparr>)) w1 = (Inr (), w3)"
    and er: "erase_allocations A k tid 0 tot (tenant_allocation_ids (w_store w) tid) w3 = (Inr cs, w4)"
    and cert: "onStore (issue_certificate env k tid tot cs) w4 = (Inr (), w2)"
    using saga unfolding run_termination_saga_def Let_def by (auto simp: ids dest!: bindE_ok thenE_ok)
  have X3: "st_allocations (w_store w3) = st_allocations (w_store w)"
    using upd X by (auto simp: onStore_run upd_termination_def)
  note erun = erase_allocations_run [OF er tenant_allocation_ids_ok(1) [OF al], unfolded X3]
  have gone: "map_of (st_allocations (w_store w4)) = (map_of (st_allocations (w_store w))) |` (- set (tenant_allocation_ids (w_store w) tid))"
    and cs: "erased (tenant_allocation_ids (w_store w) tid) cs"
    using erun tenant_allocation_ids_ok(2) [OF al] by blast+
  have X2: "st_allocations (w_store w2) = st_allocations (w_store w4)"
    using keepsD [OF keeps_term_writes(3) [of "\<lambda>v. v = st_allocations (w_store w4)" env k tid tot cs], of "w_store w4"] cert
    by (auto simp: onStore_run)
  have w': "w' = w2" and r: "map_of (st_terminations (w_store w2)) k = Some r"
    using fin by (auto simp: onStore_run the_termination_def bindE_run someE_run split: option.splits)
  have allocs: "map_of (st_allocations (w_store w')) k = (case map_of (st_allocations (w_store w)) k of None \<Rightarrow> None
            | Some a \<Rightarrow> if alloc_tenant_id a = tid then None else Some a)" for k
    using tenant_allocation_ids_ok(2) [OF al, of k tid] al
    by (auto simp: w' X2 gone restrict_map_def alloc_ok_def split: option.splits)
  have "safe (w_store w')" using keepsD_eq [OF keeps_termination_routes(2) run] safe by simp
  then have al': "alloc_ok (w_store w')" by (simp add: safe_def tenancy_inv_def)
  have racks: "rack_tenant_id x \<noteq> Some tid" if "map_of (st_racks (w_store w')) rid = Some x" for rid x
  proof
    assume "rack_tenant_id x = Some tid"
    with that al' obtain k a where "map_of (st_allocations (w_store w')) k = Some a" "alloc_tenant_id a = tid"
      unfolding alloc_ok_def by blast
    with allocs [of k] show False by (simp split: option.splits if_splits)
  qed
  have "tr_state r = ''wiped'' \<and> (\<exists>c. tr_certificate r = Some c \<and> wc_tenant_id c = tid \<and> wc_allocations c = cs)"
    using cert r by (auto simp: onStore_run issue_certificate_def term_progress_def upd_termination_def bindE_run thenE_run next_seq_def Let_def)
  with allocs racks cs show ?thesis by (auto simp: erased_def)
qed

text \<open>A tenant with one rack whose termination waits for the backup confirmation.\<close>

definition demo_termination :: termination_rec where
  "demo_termination = \<lparr>tr_id = ''term-1'', tr_tenant_id = ''tnt-a'', tr_state = ''awaiting_backup'', tr_requested_at = 0,
     tr_checklist = map (\<lambda>i. (i, False)) TERMINATION_CHECKLIST, tr_backup_confirmed_at = None,
     tr_progress = (''awaiting_backup'', 0), tr_allocations = [''alloc-1''], tr_orders = [], tr_certificate = None, tr_closed_at = None\<rparr>"

definition demo_leaving :: "nico world" where
  "demo_leaving = demo_world (demo_granted\<lparr>st_terminations := [(''term-1'', demo_termination)]\<rparr>) demo_nico"

definition demo_env :: scenario_env where
  "demo_env = \<lparr>env_deemed_days = None, env_sha256 = (\<lambda>_. ''0'')\<rparr>"

definition demo_confirmed :: "(string \<times> bool) list" where
  "demo_confirmed = map (\<lambda>i. (i, True)) TERMINATION_CHECKLIST"

lemma demo_leaving_safe: "safe (w_store demo_leaving)"
proof -
  have "safe demo_granted" using demo_granted_inv by (simp add: safe_def life_inv_def demo_granted_def)
  then show ?thesis by (rule safe_cong [rotated -1]) (auto simp: demo_leaving_def demo_world_def seq_of_def)
qed

lemma demo_gate: "\<exists>r. check_backup ''tnt-a'' demo_confirmed (w_store demo_leaving)
     = (Inr ''term-1'', (w_store demo_leaving)\<lparr>st_terminations := [(''term-1'', r)]\<rparr>)"
  by (intro exI) (simp add: check_backup_def latest_termination_def demo_leaving_def demo_world_def demo_termination_def demo_confirmed_def
      dict_values_def TERMINATION_CHECKLIST_def confirmed_in_def upd_termination_def term_progress_def bindE_run thenE_run dict_mod_def)

lemma demo_alloc_fields:
  "alloc_id demo_alloc = ''alloc-1''" "alloc_tenant_id demo_alloc = ''tnt-a''" "alloc_rack_ids demo_alloc = [''su-1-rack-00'']"
proof -
  have "dec (Suc 0) = ''1''" by code_simp
  then show "alloc_id demo_alloc = ''alloc-1''" "alloc_tenant_id demo_alloc = ''tnt-a''" "alloc_rack_ids demo_alloc = [''su-1-rack-00'']"
    by (simp_all add: demo_alloc_def new_allocation_def demo_alloc_body_def seq_of_def)
qed

lemma demo_advance:
  assumes "st_orders s = [(oid, x)]" "to \<in> set (ORDER_TRANSITIONS (order_state x))" "order_allocation_ids x = []"
  shows "\<exists>x'. advance_order oid to d s = (Inr (), s\<lparr>st_orders := [(oid, x')]\<rparr>) \<and> order_state x' = to \<and> order_allocation_ids x' = []"
  using assms by (intro exI [of _ "x\<lparr>order_state := to, order_history := order_history x @ [event (order_state_value to) d (now s)]\<rparr>"])
     (simp add: advance_order_run step_order_def dict_mod_def)

lemma demo_delete:
  assumes "st_allocations s = [(''alloc-1'', demo_alloc)]" "st_partitions s = []" "st_racks s = st_racks demo_granted"
  shows "\<exists>r s'. delete_allocation ''alloc-1'' s = (Inr r, s') \<and> st_orders s' = st_orders s \<and> st_cpu_nodes s' = st_cpu_nodes s
     \<and> st_allocations s' = []"
  using assms by (simp add: delete_allocation_def demo_alloc_fields thenE_run bindE_run drop_partitions_def partitions_of_rack_def
      dict_values_def release_rack_def set_rack_binding_def demo_granted_def demo_rack_def)

lemma demo_reclaim:
  assumes "st_allocations (w_store w) = [(''alloc-1'', demo_alloc)]" "st_orders (w_store w) = []" "st_node_instances (w_store w) = []"
    "st_storage_allocs (w_store w) = []" "st_k8s_clusters (w_store w) = []" "st_cpu_nodes (w_store w) = []" "st_partitions (w_store w) = []"
    "st_racks (w_store w) = st_racks demo_granted" "nk_segments (w_nico w) = []"
  shows "\<exists>x w'. run_terminate_order LocalNicoAdapter (terminate_body ''tnt-a'' ''alloc-1'') w = (Inr x, w')"
proof -
  define n where "n = seq_of (w_store w) ''order'' + 1"
  define oid where "oid = ''ord-'' @ dec n"
  define S where "S = (w_store w)\<lparr>st_counters := AList.update ''order'' n (st_counters (w_store w))\<rparr>"
  let ?W = "\<lambda>x. w\<lparr>w_store := S\<lparr>st_orders := [(oid, x)]\<rparr>\<rparr>"
  let ?x0 = "new_terminate_order oid (terminate_body ''tnt-a'' ''alloc-1'') (now S)"
  have adv: "\<exists>x'. advO oid to d (?W x) = (Inr (), ?W x') \<and> order_state x' = to \<and> order_allocation_ids x' = []"
    if "to \<in> set (ORDER_TRANSITIONS (order_state x))" "order_allocation_ids x = []" for to d x
    using demo_advance [of "S\<lparr>st_orders := [(oid, x)]\<rparr>" oid x to d] that by (auto simp: onStore_run)
  have upd: "updO oid f (?W x) = (Inr (), ?W (f x))" for f x by (simp add: onStore_run upd_order_def dict_mod_def)
  obtain x1 where x1: "advO oid O_validated ''reclaiming allocation'' (?W ?x0) = (Inr (), ?W x1)" "order_state x1 = O_validated" "order_allocation_ids x1 = []"
    using adv [of O_validated ?x0] by (auto simp: new_terminate_order_def new_order_def)
  obtain x2 where x2: "advO oid O_reclaiming ''nodes'' (?W (x1\<lparr>order_node_ids := []\<rparr>)) = (Inr (), ?W x2)" "order_state x2 = O_reclaiming" "order_allocation_ids x2 = []"
    using adv [of O_reclaiming "x1\<lparr>order_node_ids := []\<rparr>"] x1 by auto
  obtain r s3 where s3: "delete_allocation ''alloc-1'' (S\<lparr>st_orders := [(oid, x2)]\<rparr>) = (Inr r, s3)" "st_orders s3 = [(oid, x2)]"
      "st_cpu_nodes s3 = []" "st_allocations s3 = []"
    using demo_delete [of "S\<lparr>st_orders := [(oid, x2)]\<rparr>"] assms by (auto simp: S_def)
  obtain x4 where x4: "advance_order oid O_closed ''reclaim complete'' s3 = (Inr (), s3\<lparr>st_orders := [(oid, x4)]\<rparr>)"
    using demo_advance [OF s3(2), of O_closed] x2 by auto
  have S: "st_node_instances S = []" "st_storage_allocs S = []" "st_k8s_clusters S = []" "st_allocations S = [(''alloc-1'', demo_alloc)]"
    using assms by (simp_all add: S_def)
  have segs: "catch_all (onNico (ca_list_segments LocalNicoAdapter)) (onNico (ca_local_segments LocalNicoAdapter)) (?W x) = (Inr [], ?W x)" for x
    using assms(9) by (simp add: catch_all_def LocalNicoAdapter_def on_runs nico_list_segments_def dict_values_def)
  have "reclaim_allocation LocalNicoAdapter oid ''tnt-a'' demo_alloc (?W ?x0) = (Inr (), w\<lparr>w_store := s3\<lparr>st_orders := [(oid, x4)]\<rparr>\<rparr>)"
    unfolding reclaim_allocation_def
    using x1 upd x2 x4 S segs s3
    by (simp only: bindE_run thenE_run sum.case prod.case demo_alloc_fields getsE_run nodes_of_rack_def dict_values_def list.map filter.simps concat.simps
         append_Nil world.simps store.simps sort_key_simps collectE.simps forE.simps)
       (simp add: segment_of_def truthy_def teardown_storage_and_segment_def on_runs sync_cpu_nodes_def cpu_keys_def dict_values_def bindE_run thenE_run)
  then have rec: "reclaim_allocation LocalNicoAdapter (''ord-'' @ dec n) ''tnt-a'' demo_alloc
      (w\<lparr>w_store := S\<lparr>st_orders := [(''ord-'' @ dec n, new_terminate_order (''ord-'' @ dec n) (terminate_body ''tnt-a'' ''alloc-1'') (now S))]\<rparr>\<rparr>)
     = (Inr (), w\<lparr>w_store := s3\<lparr>st_orders := [(''ord-'' @ dec n, x4)]\<rparr>\<rparr>)"
    by (simp add: oid_def)
  have body: "oc_tenant_id (terminate_body ''tnt-a'' ''alloc-1'') = ''tnt-a''" "str_or (oc_allocation_id (terminate_body ''tnt-a'' ''alloc-1'')) '''' = ''alloc-1''"
    by (simp_all add: terminate_body_def str_or_def)
  have "next_seq ''order'' (w_store w) = (Inr n, S)" "st_orders S = []" by (simp_all add: next_seq_def Let_def n_def S_def assms(2))
  then show ?thesis
    unfolding run_terminate_order_def body Let_def using S(4)
    by (simp add: bindE_run thenE_run onStore_run put_order_def rec [simplified] demo_alloc_fields)
       (simp add: the_order_def)
qed

lemma saga_one:
  assumes "tenant_allocation_ids (w_store w) tid = [aid]"
    and "onStore (upd_termination k (\<lambda>r. r\<lparr>tr_allocations := [aid]\<rparr>)) w = (Inr (), w1)"
  shows "run_termination_saga A env k tid w = (case erase_allocation A k tid 0 (length erase_stage_names + 1) aid w1 of
      (Inl e, w2) \<Rightarrow> (Inl e, w2) | (Inr c, w2) \<Rightarrow> onStore (issue_certificate env k tid (length erase_stage_names + 1) [c]) w2)"
  using assms by (simp add: run_termination_saga_def bindE_run thenE_run Let_def split: prod.splits sum.splits)

lemma issue_certificate_ok:
  "\<exists>w'. onStore (issue_certificate env k tid tot cs) w = (Inr (), w')
     \<and> map fst (st_terminations (w_store w')) = map fst (st_terminations (w_store w))"
  by (simp add: onStore_run issue_certificate_def term_progress_def upd_termination_def bindE_run thenE_run next_seq_def Let_def)

lemma demo_termination_run:
  "\<exists>r w'. confirm_backup LocalNicoAdapter demo_env ''tnt-a'' demo_confirmed demo_leaving = (Inr r, w')"
proof -
  obtain r where gate: "check_backup ''tnt-a'' demo_confirmed (w_store demo_leaving)
     = (Inr ''term-1'', (w_store demo_leaving)\<lparr>st_terminations := [(''term-1'', r)]\<rparr>)"
    using demo_gate by blast
  let ?w = "\<lambda>r. demo_leaving\<lparr>w_store := (w_store demo_leaving)\<lparr>st_terminations := [(''term-1'', r)]\<rparr>\<rparr>"
  have ids: "tenant_allocation_ids (w_store (?w r)) ''tnt-a'' = [''alloc-1'']" for r
    by (simp add: tenant_allocation_ids_def demo_leaving_def demo_world_def demo_granted_def dict_values_def demo_alloc_fields)
  have stages: "\<exists>r'. onStore (show_stages ''term-1'' aid d tot sts) (?w r) = (Inr (), ?w r')" for aid d tot sts r
  proof (induction sts arbitrary: d r)
    case (Cons st sts)
    then show ?case by (simp add: onStore_run term_progress_def upd_termination_def thenE_run dict_mod_def)
  qed (auto simp: onStore_run)
  have rec: "\<exists>x w'. run_terminate_order LocalNicoAdapter (terminate_body ''tnt-a'' ''alloc-1'') (?w r) = (Inr x, w')" for r
    by (rule demo_reclaim) (simp_all add: demo_leaving_def demo_world_def demo_granted_def demo_store_def empty_store_def demo_nico_def)
  have one: "\<exists>c w'. erase_allocation LocalNicoAdapter ''term-1'' ''tnt-a'' 0 tot ''alloc-1'' (?w r) = (Inr c, w')
      \<and> map fst (st_terminations (w_store w')) = [''term-1'']" for r tot
  proof -
    obtain r1 where r1: "onStore (show_stages ''term-1'' ''alloc-1'' 0 tot erase_stage_names) (?w r) = (Inr (), ?w r1)" using stages by blast
    obtain x w2 where w2: "run_terminate_order LocalNicoAdapter (terminate_body ''tnt-a'' ''alloc-1'') (?w r1) = (Inr x, w2)" using rec by blast
    have "map fst (st_terminations (w_store w2)) = [''term-1'']"
      using keepsD_eq [OF term_view.keeps_run_terminate_view [of "\<lambda>v. map fst v = [''term-1'']"] w2] by simp
    with r1 w2 show ?thesis
      by (simp add: erase_allocation_def bindE_run thenE_run onStore_run upd_termination_def term_progress_def case_prod_beta)
  qed
  obtain r2 where r2: "onStore (upd_termination ''term-1'' (\<lambda>r. r\<lparr>tr_allocations := [''alloc-1'']\<rparr>)) (?w r) = (Inr (), ?w r2)"
    by (simp add: onStore_run upd_termination_def dict_mod_def)
  obtain c w3 where c: "erase_allocation LocalNicoAdapter ''term-1'' ''tnt-a'' 0 (length erase_stage_names + 1) ''alloc-1'' (?w r2) = (Inr c, w3)"
    "map fst (st_terminations (w_store w3)) = [''term-1'']" using one [of "length erase_stage_names + 1" r2] by (elim exE conjE)
  have "\<exists>w4. run_termination_saga LocalNicoAdapter demo_env ''term-1'' ''tnt-a'' (?w r) = (Inr (), w4)
      \<and> map fst (st_terminations (w_store w4)) = [''term-1'']"
    unfolding saga_one [OF ids r2] c(1) prod.case sum.case using issue_certificate_ok [of demo_env "''term-1''" "''tnt-a''" _ "[c]" w3] c(2) by auto
  then obtain w4 where w4: "run_termination_saga LocalNicoAdapter demo_env ''term-1'' ''tnt-a'' (?w r) = (Inr (), w4)"
      "map fst (st_terminations (w_store w4)) = [''term-1'']" by (elim exE conjE)
  have "map_of (st_terminations (w_store w4)) ''term-1'' \<noteq> None"
    unfolding map_of_eq_None_iff set_map [symmetric] w4(2) by simp
  then obtain r' where r': "map_of (st_terminations (w_store w4)) ''term-1'' = Some r'" by blast
  have chk: "onStore (check_backup ''tnt-a'' demo_confirmed) demo_leaving = (Inr ''term-1'', ?w r)" by (simp add: onStore_run gate)
  have "onStore (the_termination ''term-1'') w4 = (Inr r', w4)" by (simp add: onStore_run the_termination_def r')
  then show ?thesis unfolding confirm_backup_def bindE_run thenE_run chk prod.case sum.case w4(1) by blast
qed

theorem termination_clears_tenant_witness:
  "\<exists>r w'. confirm_backup LocalNicoAdapter demo_env ''tnt-a'' demo_confirmed demo_leaving = (Inr r, w')
     \<and> map_of (st_allocations (w_store demo_leaving)) ''alloc-1'' = Some demo_alloc
     \<and> map_of (st_allocations (w_store w')) ''alloc-1'' = None \<and> tr_state r = ''wiped''"
proof -
  obtain r w' where run: "confirm_backup LocalNicoAdapter demo_env ''tnt-a'' demo_confirmed demo_leaving = (Inr r, w')"
    using demo_termination_run by blast
  have a: "map_of (st_allocations (w_store demo_leaving)) ''alloc-1'' = Some demo_alloc"
    by (simp add: demo_leaving_def demo_world_def demo_granted_def)
  with termination_clears_tenant [OF demo_leaving_safe run] run show ?thesis by (simp add: demo_alloc_fields)
qed

section \<open>A run that fails\<close>

definition erasing :: "string \<Rightarrow> termination_rec dict \<Rightarrow> bool" where
  "erasing k d \<longleftrightarrow> (\<exists>r. map_of d k = Some r \<and> tr_state r = ''erasing'')"

lemma keeps_erasing_upd: "(\<And>r. tr_state (f r) = tr_state r) \<Longrightarrow> keeps (\<lambda>s. erasing k (st_terminations s)) (upd_termination l f)"
  by (auto simp: keeps_def upd_termination_def erasing_def)

lemma keeps_erasing_stages: "keeps (\<lambda>s. erasing k (st_terminations s)) (show_stages l aid d tot sts)"
proof (induction sts arbitrary: d)
  case Nil
  show ?case unfolding show_stages.simps by (intro keeps_rules)
next
  case (Cons st sts)
  show ?case unfolding show_stages.simps term_progress_def by (intro keeps_rules keeps_erasing_upd Cons.IH) simp
qed

lemma keeps_erasing_allocations: "keeps (\<lambda>w. erasing k (st_terminations (w_store w))) (erase_allocations A l tid d tot aids)"
proof (induction aids arbitrary: d)
  case Nil
  show ?case unfolding erase_allocations.simps by (intro keeps_rules)
next
  case (Cons aid aids)
  have "keeps (\<lambda>w. erasing k (st_terminations (w_store w))) (erase_allocation A l tid d tot aid)"
    unfolding erase_allocation_def term_progress_def
    by (intro keeps_rules term_view.in_world term_view.keeps_run_terminate_view keeps_erasing_stages keeps_erasing_upd) simp_all
  then show ?case unfolding erase_allocations.simps by (intro keeps_rules Cons.IH)
qed

lemma erasing_blocks:
  assumes "latest_termination (w_store w) tid = Some r" "tr_state r = ''erasing''"
  shows "request_termination tid (w_store w) \<in> {(Inl (HTTPException 404 ''tenant not found''), w_store w),
        (Inl (HTTPException 409 ''termination already in progress''), w_store w)}"
    and "confirm_backup A env tid checklist w = (Inl (HTTPException 409 ''not awaiting backup confirmation''), w)"
    and "get_wipe_certificate tid (w_store w) = (Inl (HTTPException 409 ''not wiped yet''), w_store w)"
proof -
  have same: "w\<lparr>w_store := w_store w\<rparr> = w" by simp
  show "request_termination tid (w_store w) \<in> {(Inl (HTTPException 404 ''tenant not found''), w_store w),
        (Inl (HTTPException 409 ''termination already in progress''), w_store w)}"
    using assms by (simp add: request_termination_def bindE_run thenE_run)
  show "confirm_backup A env tid checklist w = (Inl (HTTPException 409 ''not awaiting backup confirmation''), w)"
    using assms by (simp add: confirm_backup_def check_backup_def bindE_run thenE_run onStore_run same)
  show "get_wipe_certificate tid (w_store w) = (Inl (HTTPException 409 ''not wiped yet''), w_store w)"
    using assms by (simp add: get_wipe_certificate_def get_termination_def bindE_run thenE_run)
qed

text \<open>
  C32. A termination whose saga raises stays \<open>erasing\<close>, and no route leads out of that state: a new
  request, a second confirmation and the certificate are all refused without effect. The rest of the
  tenant's allocations stay with it.
\<close>

theorem failed_termination_is_stuck:
  fixes A :: "'n compute_adapter"
  assumes "map_of (st_terminations (w_store w)) k = Some r" "tr_state r = ''erasing''"
    and "run_termination_saga A env k tid w = (Inl e, w')"
  shows "(\<exists>r'. map_of (st_terminations (w_store w')) k = Some r' \<and> tr_state r' = ''erasing''
       \<and> (latest_termination (w_store w') tid = Some r' \<longrightarrow>
            request_termination tid (w_store w') \<in> {(Inl (HTTPException 404 ''tenant not found''), w_store w'),
               (Inl (HTTPException 409 ''termination already in progress''), w_store w')}
          \<and> confirm_backup A env tid checklist w' = (Inl (HTTPException 409 ''not awaiting backup confirmation''), w')
          \<and> get_wipe_certificate tid (w_store w') = (Inl (HTTPException 409 ''not wiped yet''), w_store w')))"
proof -
  have start: "erasing k (st_terminations (w_store w))" using assms(1,2) by (simp add: erasing_def)
  let ?aids = "tenant_allocation_ids (w_store w) tid"
  obtain w1 where w1: "onStore (upd_termination k (\<lambda>r. r\<lparr>tr_allocations := ?aids\<rparr>)) w = (Inr (), w1)"
    by (simp add: onStore_run upd_termination_def)
  have e1: "erasing k (st_terminations (w_store w1))" using w1 start by (auto simp: onStore_run upd_termination_def erasing_def)
  obtain tot where "thenE (onStore (upd_termination k (\<lambda>r. r\<lparr>tr_allocations := ?aids\<rparr>)))
      (bindE (erase_allocations A k tid 0 tot ?aids) (\<lambda>cs. onStore (issue_certificate env k tid tot cs))) w = (Inl e, w')"
    using assms(3) by (auto simp: run_termination_saga_def Let_def)
  then have "bindE (erase_allocations A k tid 0 tot ?aids) (\<lambda>cs. onStore (issue_certificate env k tid tot cs)) w1 = (Inl e, w')"
    using w1 by (simp add: thenE_run)
  moreover have "fst (onStore (issue_certificate env k tid tot cs) v) = Inr ()" for cs and v :: "'n world"
    by (simp add: onStore_run issue_certificate_def term_progress_def upd_termination_def bindE_run thenE_run next_seq_def Let_def)
  ultimately have "erase_allocations A k tid 0 tot ?aids w1 = (Inl e, w')"
    by (auto simp: bindE_run split: prod.splits sum.splits) (metis fst_conv sum.distinct(1))
  with keepsD_eq [OF keeps_erasing_allocations] e1 have "erasing k (st_terminations (w_store w'))" by blast
  then obtain r' where "map_of (st_terminations (w_store w')) k = Some r'" "tr_state r' = ''erasing''" by (auto simp: erasing_def)
  then show ?thesis using erasing_blocks [of w' tid r'] by blast
qed

text \<open>The controller cannot be reached when the tenant's segment is to be deleted.\<close>

definition demo_unreachable :: "nico compute_adapter" where
  "demo_unreachable = LocalNicoAdapter\<lparr>ca_delete_segment := \<lambda>_. raiseE (PyError ''ConnectError'')\<rparr>"

definition demo_wired :: "nico world" where
  "demo_wired = demo_leaving\<lparr>w_nico := demo_nico\<lparr>nk_segments := [(''seg-1'', \<lparr>sg_segment_id = ''seg-1'', sg_tenant_ref = ''tnt-a'',
     sg_vrf = ''VRF-a'', sg_l3vni = 10000, sg_converged_vni = 20000, sg_vrf_dataplane = ''VRF-a'', sg_host_ids = [], sg_allocation_id = Some ''alloc-1'',
     sg_ib_pkey = None, sg_state = ''active''\<rparr>)]\<rparr>,
     w_store := (w_store demo_leaving)\<lparr>st_terminations := [(''term-1'', demo_termination\<lparr>tr_state := ''erasing''\<rparr>)]\<rparr>\<rparr>"

lemma demo_reclaim_fails:
  assumes "st_allocations (w_store w) = [(''alloc-1'', demo_alloc)]" "st_orders (w_store w) = []" "st_node_instances (w_store w) = []"
    "st_storage_allocs (w_store w) = []" "nk_segments (w_nico w) = nk_segments (w_nico demo_wired)"
  shows "\<exists>w'. run_terminate_order demo_unreachable (terminate_body ''tnt-a'' ''alloc-1'') w = (Inl (PyError ''ConnectError''), w')"
proof -
  define n where "n = seq_of (w_store w) ''order'' + 1"
  define S where "S = (w_store w)\<lparr>st_counters := AList.update ''order'' n (st_counters (w_store w))\<rparr>"
  let ?oid = "''ord-'' @ dec n"
  let ?W = "\<lambda>x. w\<lparr>w_store := S\<lparr>st_orders := [(?oid, x)]\<rparr>\<rparr>"
  let ?x0 = "new_terminate_order ?oid (terminate_body ''tnt-a'' ''alloc-1'') (now S)"
  have S: "st_node_instances S = []" "st_storage_allocs S = []" "st_allocations S = [(''alloc-1'', demo_alloc)]" "st_orders S = []"
    "next_seq ''order'' (w_store w) = (Inr n, S)"
    using assms by (simp_all add: S_def next_seq_def Let_def n_def)
  have body: "oc_tenant_id (terminate_body ''tnt-a'' ''alloc-1'') = ''tnt-a''" "str_or (oc_allocation_id (terminate_body ''tnt-a'' ''alloc-1'')) '''' = ''alloc-1''"
    by (simp_all add: terminate_body_def str_or_def)
  have upd: "updO ?oid f (?W x) = (Inr (), ?W (f x))" for f x by (simp add: onStore_run upd_order_def dict_mod_def)
  have adv: "\<exists>x'. advO ?oid to d (?W x) = (Inr (), ?W x') \<and> order_state x' = to \<and> order_allocation_ids x' = []"
    if "to \<in> set (ORDER_TRANSITIONS (order_state x))" "order_allocation_ids x = []" for to d x
    using demo_advance [of "S\<lparr>st_orders := [(?oid, x)]\<rparr>" ?oid x to d] that by (auto simp: onStore_run)
  obtain x1 where x1: "advO ?oid O_validated ''reclaiming allocation'' (?W ?x0) = (Inr (), ?W x1)" "order_state x1 = O_validated" "order_allocation_ids x1 = []"
    using adv [of O_validated ?x0] by (auto simp: new_terminate_order_def new_order_def)
  obtain x2 where x2: "advO ?oid O_reclaiming ''nodes'' (?W (x1\<lparr>order_node_ids := []\<rparr>)) = (Inr (), ?W x2)"
    using adv [of O_reclaiming "x1\<lparr>order_node_ids := []\<rparr>"] x1 by auto
  have segs: "catch_all (onNico (ca_list_segments demo_unreachable)) (onNico (ca_local_segments demo_unreachable)) (?W x)
      = (Inr (dict_values (nk_segments (w_nico demo_wired))), ?W x)" for x
    using assms(5) by (simp add: catch_all_def demo_unreachable_def LocalNicoAdapter_def on_runs nico_list_segments_def)
  have seg: "segment_of (dict_values (nk_segments (w_nico demo_wired))) ''alloc-1'' ''tnt-a'' = Some ''seg-1''"
    by (simp add: segment_of_def demo_wired_def dict_values_def truthy_def)
  have down: "teardown_storage_and_segment demo_unreachable [] (Some ''seg-1'') (?W x) = (Inl (PyError ''ConnectError''), ?W x)" for x
    by (simp add: teardown_storage_and_segment_def catchE_run doE_run onNico_run demo_unreachable_def)
  have "reclaim_allocation demo_unreachable ?oid ''tnt-a'' demo_alloc (?W ?x0) = (Inl (PyError ''ConnectError''), ?W x2)"
    unfolding reclaim_allocation_def
    using x1 upd x2 S segs down seg
    by (simp add: bindE_run thenE_run demo_alloc_fields nodes_of_rack_def dict_values_def)
  then show ?thesis
    unfolding run_terminate_order_def body Let_def using S
    by (simp add: bindE_run thenE_run onStore_run put_order_def demo_alloc_fields)
qed

theorem failed_termination_is_stuck_witness:
  "\<exists>w' r'. run_termination_saga demo_unreachable demo_env ''term-1'' ''tnt-a'' demo_wired = (Inl (PyError ''ConnectError''), w')
     \<and> map_of (st_terminations (w_store w')) ''term-1'' = Some r' \<and> tr_state r' = ''erasing''"
proof -
  let ?r = "demo_termination\<lparr>tr_state := ''erasing''\<rparr>"
  let ?w = "\<lambda>r. demo_wired\<lparr>w_store := (w_store demo_wired)\<lparr>st_terminations := [(''term-1'', r)]\<rparr>\<rparr>"
  have w0: "demo_wired = ?w ?r" by (simp add: demo_wired_def)
  have ids: "tenant_allocation_ids (w_store demo_wired) ''tnt-a'' = [''alloc-1'']"
    by (simp add: tenant_allocation_ids_def demo_wired_def demo_leaving_def demo_world_def demo_granted_def dict_values_def demo_alloc_fields)
  have stages: "\<exists>r'. onStore (show_stages ''term-1'' aid d tot sts) (?w r) = (Inr (), ?w r')" for aid d tot sts r
  proof (induction sts arbitrary: d r)
    case (Cons st sts)
    then show ?case by (simp add: onStore_run term_progress_def upd_termination_def thenE_run dict_mod_def)
  qed (auto simp: onStore_run)
  have rec: "\<exists>w'. run_terminate_order demo_unreachable (terminate_body ''tnt-a'' ''alloc-1'') (?w r) = (Inl (PyError ''ConnectError''), w')" for r
    by (rule demo_reclaim_fails) (simp_all add: demo_wired_def demo_leaving_def demo_world_def demo_granted_def demo_store_def empty_store_def)
  have one: "\<exists>w'. erase_allocation demo_unreachable ''term-1'' ''tnt-a'' d tot ''alloc-1'' (?w r) = (Inl (PyError ''ConnectError''), w')" for d tot r
  proof -
    obtain r1 where r1: "onStore (show_stages ''term-1'' ''alloc-1'' d tot erase_stage_names) (?w r) = (Inr (), ?w r1)" using stages by blast
    obtain w2 where "run_terminate_order demo_unreachable (terminate_body ''tnt-a'' ''alloc-1'') (?w r1) = (Inl (PyError ''ConnectError''), w2)"
      using rec by blast
    with r1 show ?thesis by (simp add: erase_allocation_def bindE_run thenE_run case_prod_beta)
  qed
  obtain r2 where "onStore (upd_termination ''term-1'' (\<lambda>r. r\<lparr>tr_allocations := [''alloc-1'']\<rparr>)) demo_wired = (Inr (), ?w r2)"
    by (simp add: onStore_run upd_termination_def dict_mod_def demo_wired_def)
  note one_saga = saga_one [OF ids this]
  obtain w' where run: "run_termination_saga demo_unreachable demo_env ''term-1'' ''tnt-a'' demo_wired = (Inl (PyError ''ConnectError''), w')"
    unfolding one_saga using one [of 0 "length erase_stage_names + 1" r2] by auto
  have "map_of (st_terminations (w_store demo_wired)) ''term-1'' = Some ?r" "tr_state ?r = ''erasing''" by (simp_all add: demo_wired_def)
  from failed_termination_is_stuck [OF this run] run show ?thesis by blast
qed

end
