(* ===== verification/Acceptance_Spec.thy ===== *)
theory Acceptance_Spec
  imports Termination_Spec
begin

text \<open>
  Acceptance of a delivery: which decisions are final, which are refused without effect, and what an
  approval records.
\<close>

section \<open>Decided records\<close>

lemma ensure_existing:
  "map_of (st_acceptances s) (order_id x) = Some r \<Longrightarrow> order_kind x = K_new \<Longrightarrow> ensure_acceptance env x s = (Inr (Some r), s)"
  by (simp add: ensure_acceptance_def bindE_run thenE_run)

lemma ensure_other_kind:
  "order_kind x \<noteq> K_new \<Longrightarrow> ensure_acceptance env x s = (Inl (HTTPException 409 ''acceptance: new orders only''), s)"
  by (simp add: ensure_acceptance_def thenE_run)

lemma check_decided:
  assumes "map_of (st_orders s) oid = Some x" "order_id x = oid" "map_of (st_acceptances s) oid = Some r"
    and "acc_status r \<in> {''approved'', ''deemed''}"
  shows "\<exists>e. check_decision env oid decision reason s = (Inl e, s)"
proof (cases "order_kind x = K_new")
  case True
  then show ?thesis using assms ensure_existing [of s x r env]
    by (auto simp: check_decision_def order_or_404_def bindE_run thenE_run)
next
  case False
  then show ?thesis using assms ensure_other_kind [of x env s]
    by (auto simp: check_decision_def order_or_404_def bindE_run thenE_run)
qed

text \<open>
  C33. A decision is final. Once an acceptance is approved, by the customer or by the deadline, a further
  decision of either kind is refused and changes nothing, and reading the report changes nothing either: the
  billing start and the order stay as they were decided.
\<close>

theorem decided_acceptance_is_final:
  assumes "map_of (st_orders (w_store w)) oid = Some x" "order_id x = oid"
    and "map_of (st_acceptances (w_store w)) oid = Some r" "acc_status r \<in> {''approved'', ''deemed''}"
  shows "(\<exists>e. decide_acceptance A env oid decision reason w = (Inl e, w))
     \<and> snd (acceptance_report_route A env oid w) = w"
proof
  obtain e where "check_decision env oid decision reason (w_store w) = (Inl e, w_store w)"
    using check_decided [OF assms] by blast
  then show "\<exists>e. decide_acceptance A env oid decision reason w = (Inl e, w)"
    by (simp add: decide_acceptance_def thenE_run onStore_run)
  have found: "onStore (order_or_404 oid) w = (Inr x, w)"
    using assms(1) by (simp add: onStore_run order_or_404_def)
  show "snd (acceptance_report_route A env oid w) = w"
  proof (cases "order_kind x = K_new")
    case True
    have "due_for_deeming (w_store w) oid = None" using assms by (auto simp: due_for_deeming_def)
    moreover have "onStore (ensure_acceptance env x) w = (Inr (Some r), w)"
      using True assms ensure_existing [of "w_store w" x r env] by (simp add: onStore_run)
    ultimately show ?thesis by (simp add: acceptance_report_route_def bindE_run thenE_run found maybe_deem_def)
  next
    case False
    then have "onStore (ensure_acceptance env x) w = (Inl (HTTPException 409 ''acceptance: new orders only''), w)"
      using ensure_other_kind [of x env "w_store w"] by (simp add: onStore_run)
    then show ?thesis by (simp add: acceptance_report_route_def bindE_run found)
  qed
qed

definition demo_acceptance :: "string \<Rightarrow> acceptance_rec" where
  "demo_acceptance st = \<lparr>acc_order_id = ''ord-1'', acc_tenant_id = ''tnt-a'', acc_status = st,
     acc_report = \<lparr>ar_checks = [], ar_nodes_tested = 0, ar_gbps = 40, ar_report_ts = 0\<rparr>, acc_deemed_deadline = 7 * DAY,
     acc_billing_start = None, acc_reject_reason = None, acc_decided_at = None, acc_decided_by = None\<rparr>"

definition demo_accepting :: "OrderState list \<Rightarrow> string \<Rightarrow> nico world" where
  "demo_accepting sts st = demo_world (demo_store\<lparr>st_orders := [(''ord-1'', demo_order sts)],
     st_acceptances := [(''ord-1'', demo_acceptance st)]\<rparr>) demo_nico"

lemma demo_accepting_lookups:
  "map_of (st_orders (w_store (demo_accepting sts st))) ''ord-1'' = Some (demo_order sts)"
  "map_of (st_acceptances (w_store (demo_accepting sts st))) ''ord-1'' = Some (demo_acceptance st)"
  "order_id (demo_order sts) = ''ord-1''" "acc_status (demo_acceptance st) = st"
  by (simp_all add: demo_accepting_def demo_world_def demo_order_def demo_acceptance_def)

theorem decided_acceptance_is_final_witness:
  "\<exists>e. decide_acceptance LocalNicoAdapter demo_env ''ord-1'' ''reject'' (Some ''slow'') (demo_accepting [O_received, O_delivered] ''approved'')
     = (Inl e, demo_accepting [O_received, O_delivered] ''approved'')"
proof -
  have "acc_status (demo_acceptance ''approved'') \<in> {''approved'', ''deemed''}" by (simp add: demo_acceptance_def)
  from decided_acceptance_is_final [OF demo_accepting_lookups(1,3,2) this] show ?thesis by blast
qed

section \<open>Approval\<close>

text \<open>
  Approval does not wait for delivery: while the managed cluster of an order is still being installed,
  the customer's approval is accepted whatever the adapter does, billing starts at once, and the order
  stays undelivered.
\<close>

lemma finalize_k8s:
  assumes "map_of (st_orders (w_store w)) oid = Some x" "order_state x = O_k8s_installing" "pending_stage x = None"
  shows "finalize_delivery A oid w = (Inr (), w)"
  using assms by (simp add: finalize_delivery_def bindE_run onStore_run the_order_def)

text \<open>
  And approval does not wait for the install either: an order at \<open>acceptance\<close> whose stages run in the background is delivered by it directly,
  with or without managed Kubernetes.
\<close>

lemma finalize_skips_install:
  assumes "map_of (st_orders (w_store w)) oid = Some x" "order_state x = O_acceptance" "pending_stage x = None"
    "forE (order_node_ids x) pass_node w = (Inr (), w)"
  shows "\<exists>w' y ev. finalize_delivery A oid w = (Inr (), w') \<and> map_of (st_orders (w_store w')) oid = Some y
     \<and> order_state y = O_delivered \<and> managed_k8s y = managed_k8s x
     \<and> order_history y = order_history x @ [ev] \<and> ev_state ev = order_state_value O_delivered"
  using assms
  by (cases "order_access_package x")
     (simp_all add: finalize_delivery_def build_access_package_def bindE_run thenE_run on_runs the_order_def advance_order_def step_order_def
        upd_order_def pop_sa_secret_def token_hex_def audit_def Let_def someE_run now_def event_def)

theorem approval_bills_before_delivery:
  assumes x: "map_of (st_orders (w_store w)) oid = Some x" "order_id x = oid" "order_kind x = K_new"
      "order_state x = O_k8s_installing" "pending_stage x = None"
    and r: "map_of (st_acceptances (w_store w)) oid = Some r" "acc_status r \<in> {''pending'', ''rejected''}"
  shows "\<exists>r' w' y. decide_acceptance A env oid ''approve'' reason w = (Inr (Some r'), w')
     \<and> acc_status r' = ''approved'' \<and> acc_billing_start r' = Some (now (w_store w))
     \<and> map_of (st_orders (w_store w')) oid = Some y \<and> order_state y = O_k8s_installing"
proof -
  have "check_decision env oid ''approve'' reason (w_store w) = (Inr (), w_store w)"
    using x r ensure_existing [of "w_store w" x r env]
    by (auto simp: check_decision_def order_or_404_def bindE_run thenE_run)
  then have chk: "onStore (check_decision env oid ''approve'' reason) w = (Inr (), w)" by (simp add: onStore_run)
  have "finalize_delivery A oid w = (Inr (), w)" using finalize_k8s x by blast
  with chk x r show ?thesis
    by (simp add: decide_acceptance_def thenE_run)
       (simp add: onStore_run record_approval_def upd_acceptance_def note_order_def upd_order_def bindE_run thenE_run now_def)
qed

theorem approval_bills_before_delivery_witness:
  "\<exists>r' w'. decide_acceptance LocalNicoAdapter demo_env ''ord-1'' ''approve'' None (demo_accepting [O_received, O_k8s_installing] ''pending'')
     = (Inr (Some r'), w') \<and> acc_status r' = ''approved'' \<and> acc_billing_start r' = Some 0"
proof -
  let ?w = "demo_accepting [O_received, O_k8s_installing] ''pending''"
  have o: "order_kind (demo_order [O_received, O_k8s_installing]) = K_new" "order_state (demo_order [O_received, O_k8s_installing]) = O_k8s_installing"
    "pending_stage (demo_order [O_received, O_k8s_installing]) = None" by (simp_all add: demo_order_def)
  have st: "acc_status (demo_acceptance ''pending'') \<in> {''pending'', ''rejected''}" by (simp add: demo_acceptance_def)
  have now: "now (w_store ?w) = 0" by (simp add: now_def demo_accepting_def demo_world_def demo_store_def empty_store_def)
  show ?thesis
    using approval_bills_before_delivery [OF demo_accepting_lookups(1,3) o demo_accepting_lookups(2) st, of LocalNicoAdapter demo_env None] now
    by auto
qed

end
