(* ===== verification/Approval_Spec.thy ===== *)
theory Approval_Spec
  imports Portal_Safe
begin

text \<open>
  The loop that approves an order's remaining stages ends: each round moves the gate one stage on, and no
  stage touches the gate itself.
\<close>

section \<open>What the pipeline leaves of an order\<close>

text \<open>
  An invariant of the orders that ignores every attribute but the gate is kept by all stages.
\<close>

locale gate_frame =
  fixes I :: "store \<Rightarrow> bool"
  assumes elsewhere: "st_orders s' = st_orders s \<Longrightarrow> I s \<Longrightarrow> I s'"
    and order_write: "(\<And>x. map_of (st_orders s) k = Some x \<Longrightarrow> pending_stage (f x) = pending_stage x) \<Longrightarrow> I s \<Longrightarrow> I (s\<lparr>st_orders := dict_mod k f (st_orders s)\<rparr>)"
begin

abbreviation IW :: "'n world \<Rightarrow> bool" where "IW w \<equiv> I (w_store w)"
abbreviation IK :: "'n world \<times> k8s_ctx \<Rightarrow> bool" where "IK p \<equiv> I (w_store (fst p))"

lemma keeps_write: "(\<And>s. st_orders (f s) = st_orders s) \<Longrightarrow> keeps I (modifyE f)"
  by (rule keeps_modifyE) (rule elsewhere)

lemma keeps_writeS: "(\<And>s. st_orders (f s) = st_orders s) \<Longrightarrow> keeps IW (modifyS f)"
  by (rule keeps_modifyS) (rule elsewhere)

lemma keeps_order_write: "(\<And>x. pending_stage (f x) = pending_stage x) \<Longrightarrow> keeps I (upd_order k f)"
  unfolding upd_order_def by (rule keeps_modifyE) (rule order_write)

lemma keeps_transition: "keeps I (advance_order oid oto d)"
proof (rule keepsI)
  fix s
  assume "I s"
  then show "I (snd (advance_order oid oto d s))"
    by (auto simp: advance_order_run step_order_def upd_order_def split: option.splits if_splits intro: order_write)
qed

lemma lift: "keeps I m \<Longrightarrow> keeps IW (onStore m)" "keeps IW (onNico m1)" "keeps IW (onVast m2)" "keeps IW (onShared m3)"
  by (rule keeps_onStore, assumption) (rule keeps_onNico keeps_onVast keeps_onShared)+

lemma store_steps:
  "keeps I (next_seq nm)" "keeps I (upd_node nid fn)" "keeps I (upd_cpu k fc)" "keeps I (upd_storage sid fs)"
  "keeps I (upd_cluster cid fk)" "keeps I (upd_install iid fi)"
  unfolding upd_node_def upd_cpu_def upd_storage_def upd_cluster_def upd_install_def
  by (rule keepsI, erule elsewhere [rotated], simp add: next_seq_run) (rule keeps_write, simp)+

lemma lifecycle_steps:
  "keeps I (advance_node nid nto d)" "keeps I (advance_order oid oto d)" "keeps I (note_node nid d)"
  unfolding advance_node_def note_node_def the_node_def
  by (intro keeps_rules store_steps keeps_transition)+

lemma tray_bindings: "st_orders (fold (set_tray_binding who hw mode) ts s) = st_orders s"
  by (induction ts arbitrary: s) (auto simp: set_tray_binding_def split: option.splits)

lemma rack_binding: "keeps I (set_rack_binding who hw m rid)"
  by (rule keepsI) (auto simp: set_rack_binding_def tray_bindings split: option.splits elim: elsewhere [rotated])

lemma tenancy_steps:
  "keeps I (create_allocation b)" "keeps I (delete_allocation aid)" "keeps I (create_partition p)" "keeps I (tenant_pkey tid)"
  unfolding create_allocation_def delete_allocation_def create_partition_def tenant_pkey_def
    bind_rack_def release_rack_def drop_partitions_def the_netiso_def
  by (intro keeps_rules store_steps rack_binding keeps_write; simp)+

lemma cluster_notes: "keeps I (note_cluster cid st d)" "keeps I (k8s_mark iid cl nm st)" "keeps I (sync_cpu_nodes tid seg)"
  unfolding note_cluster_def k8s_mark_def sync_cpu_nodes_def grant_cpu_def by (intro keeps_rules store_steps)+

lemma order_notes: "keeps I (upd_order k (set_last_detail d))"
  by (rule keeps_order_write) (simp add: set_last_detail_def)

lemmas gate_rules = keeps_rules lift store_steps lifecycle_steps tenancy_steps cluster_notes order_notes keeps_order_write

lemma compensation: "keeps IW (compensate A oid nids reason)" "keeps IW (reject_order oid d)"
  unfolding compensate_def compensate_node_def escalate_node_def rollback_node_def drop_allocation_def reject_order_def
    teardown_storage_and_segment_def reclaim_view_def the_order_def the_node_def
  by (intro gate_rules; simp)+

lemma early_stages: "keeps IW (stage_validated oid)"
  unfolding stage_validated_def place_order_def the_order_def the_tenant_def
  by (intro gate_rules compensation; simp)+

lemma loops: "keeps IW (reserve_loop A oid ns done)" "keeps IW (provision_loop A oid tid all ns)"
proof -
  show "keeps IW (reserve_loop A oid ns done)"
  proof (induction ns arbitrary: "done")
    case (Cons n ns)
    show ?case unfolding reserve_loop.simps the_node_def by (intro gate_rules compensation Cons.IH)
  qed (unfold reserve_loop.simps, intro gate_rules)
  show "keeps IW (provision_loop A oid tid all ns)"
  proof (induction ns)
    case (Cons n ns)
    show ?case unfolding provision_loop.simps the_node_def by (intro gate_rules compensation Cons.IH)
  qed (unfold provision_loop.simps, intro gate_rules)
qed

lemma host_stages: "keeps IW (stage_reserved A oid)" "keeps IW (stage_provisioning A oid)"
  unfolding stage_reserved_def stage_provisioning_def the_order_def by (intro gate_rules loops compensation)+

lemma late_stages:
  "keeps IW (stage_isolating A oid)" "keeps IW (stage_storage_binding A oid)" "keeps IW (stage_acceptance A oid)" "keeps IW (stage_delivered oid)"
  unfolding stage_isolating_def isolate_body_def isolate_su_def first_allocation_def stage_storage_binding_def bind_storage_def
    stage_acceptance_def issue_credentials_def stage_delivered_def build_access_package_def the_order_def the_tenant_def the_netiso_def
  by (intro gate_rules compensation keeps_writeS; simp)+

lemma kube_rules:
  "keeps IW m \<Longrightarrow> keeps IK (inW m)" "keeps IK (modifyC f)" "keeps IW (rollback_k8s_cp A oid)" "keeps I (begin_k8s_install oid)"
  unfolding rollback_k8s_cp_def begin_k8s_install_def the_order_def the_cpu_def
  by (simp add: keeps_def inW_def, simp add: keeps_def, (intro gate_rules keeps_write; simp)+)

lemma kube_steps: "keeps IK m \<Longrightarrow> keeps IK (or_rollback A m)" "(\<And>cid c. keeps IW (f cid c)) \<Longrightarrow> keeps IK (on_cluster f)"
  unfolding or_rollback_def on_cluster_def by (intro gate_rules kube_rules; simp)+

lemma kube_stages: "f \<in> set (K8S_STAGE_FNS A) \<Longrightarrow> keeps IK f"
proof -
  have "keeps IK (k8s_st_cp_reserve A)"
    unfolding k8s_st_cp_reserve_def reserve_cp_def the_order_def the_cpu_def
    by (intro gate_rules kube_rules kube_steps keeps_writeS; simp)
  moreover have "keeps IK (k8s_st_os_provision A)" "keeps IK (k8s_st_net_attach A)"
    unfolding k8s_st_os_provision_def provision_cp_def k8s_st_net_attach_def the_netiso_def the_cpu_def the_order_def the_cluster_def
    by (intro gate_rules kube_rules kube_steps)+
  moreover have "keeps IK k8s_st_nkd_bootstrap" "keeps IK k8s_st_addons" "keeps IK k8s_st_acceptance"
    "keeps IK k8s_st_telemetry" "keeps IK k8s_st_active"
    unfolding k8s_st_nkd_bootstrap_def k8s_st_addons_def k8s_st_acceptance_def k8s_st_telemetry_def k8s_st_active_def the_cluster_def
    by (intro gate_rules kube_rules kube_steps)+
  ultimately show "f \<in> set (K8S_STAGE_FNS A) \<Longrightarrow> keeps IK f" by (auto simp: K8S_STAGE_FNS_def)
qed

lemma kube_install:
  fixes A :: "'n compute_adapter"
  shows "keeps IW (stage_k8s_install A oid)"
proof -
  have "keeps IK (run_k8s_stage nf)" if "keeps IK (snd nf)" for nf :: "string \<times> ('n, unit) kprog"
    unfolding run_k8s_stage_def fail_stage_def using that by (intro gate_rules kube_rules)
  then have loop: "keeps IK (forE (zip K8S_INSTALL_STAGES (K8S_STAGE_FNS A)) run_k8s_stage)"
    by (intro keeps_forE) (auto dest!: set_zip_rightD kube_stages)
  have "keeps IW (\<lambda>w. let (r, p) = forE (zip K8S_INSTALL_STAGES (K8S_STAGE_FNS A)) run_k8s_stage (w, ctx) in (r, fst p))" for ctx
    by (rule keepsI) (auto dest: keepsD_eq [OF loop] split: prod.splits)
  then show ?thesis unfolding stage_k8s_install_def install_k8s_def run_k8s_install_def Let_def the_order_def
    by (intro gate_rules kube_rules compensation)
qed

lemma stages: "keeps IW (stage_fn A st oid)"
  by (cases st) (simp_all only: stage_fn.simps, (intro gate_rules early_stages host_stages late_stages kube_install)+)

end

section \<open>The gate\<close>

definition unpended :: "string \<Rightarrow> store \<Rightarrow> bool" where
  "unpended oid s \<longleftrightarrow> (case map_of (st_orders s) oid of None \<Rightarrow> True | Some x \<Rightarrow> pending_stage x = None)"

interpretation gate: gate_frame "unpended oid"
  by unfold_locales (auto simp: unpended_def split: option.splits)

text \<open>The position of a stage in the longest pipeline.\<close>

definition stage_rank :: "OrderState \<Rightarrow> nat" where
  "stage_rank st = length (takeWhile (\<lambda>x. x \<noteq> st) FULFILL_STAGES_K8S)"

lemma stages_for_cases: "stages_for x = FULFILL_STAGES \<or> stages_for x = FULFILL_STAGES_K8S"
  by (simp add: stages_for_def)

lemma stage_after_rank:
  "stage_after st (stages_for x) = Some nx \<Longrightarrow> stage_rank st < stage_rank nx \<and> stage_rank nx < 8"
  using stages_for_cases [of x]
  by (cases st) (auto simp: stage_rank_def FULFILL_STAGES_K8S_def FULFILL_STAGES_def)

section \<open>One round, and all of them\<close>

definition waiting :: "string \<Rightarrow> 'n world \<Rightarrow> OrderState \<Rightarrow> bool" where
  "waiting oid w st \<longleftrightarrow> (\<exists>x. map_of (st_orders (w_store w)) oid = Some x \<and> pending_stage x = Some st)"

lemma orderW_lookup:
  "orderW oid w = (case map_of (st_orders (w_store w)) oid of Some x \<Rightarrow> (Inr x, w) | None \<Rightarrow> (Inl (PyError ''KeyError''), w))"
  by (simp add: the_order_def onStore_run bindE_run split: option.splits)

lemma updO_write: "updO oid f w = (Inr (), w\<lparr>w_store := (w_store w)\<lparr>st_orders := dict_mod oid f (st_orders (w_store w))\<rparr>\<rparr>)"
  by (simp add: upd_order_def onStore_run)

lemma approve_round:
  assumes "approve_next_stage A oid w = (Inr y, w')" and "map_of (st_orders (w_store w)) oid = Some x" "pending_stage x = Some st"
  shows "(\<exists>y. map_of (st_orders (w_store w')) oid = Some y \<and> pending_stage y = None)
    \<or> (\<exists>nx. waiting oid w' nx \<and> stage_rank st < stage_rank nx \<and> stage_rank nx < 8)"
proof -
  let ?w1 = "snd (updO oid (\<lambda>x. x\<lparr>pending_stage := None\<rparr>) w)"
  have clear: "unpended oid (w_store ?w1)"
    using assms(2) by (simp add: unpended_def upd_order_def onStore_run)
  obtain w2 where run: "stage_fn A st oid ?w1 = (Inr (), w2)" and mem: "st \<in> set (stages_for x)"
      and rest: "(bindE (orderW oid) (\<lambda>y.
      if order_state y \<in> set TERMINAL_STATES then returnE y
      else bindE (someE (PyError ''IndexError'') (stage_after st (stages_for x))) (\<lambda>nx.
           thenE (updO oid (\<lambda>y. y\<lparr>pending_stage := Some nx\<rparr>)) (orderW oid)))) w2 = (Inr y, w')"
    using assms
    by (auto simp: approve_next_stage_def order_or_404_def pending_or_409_def bindE_run thenE_run onStore_run upd_order_def
      split: if_splits prod.splits sum.splits)
  have keep: "unpended oid (w_store w2)"
    using keepsD_eq [OF gate.stages run clear] .
  show ?thesis
  proof (cases "w' = w2")
    case True
    have "map_of (st_orders (w_store w2)) oid \<noteq> None" using rest
      by (cases "map_of (st_orders (w_store w2)) oid") (simp_all add: orderW_lookup bindE_run)
    with keep True show ?thesis by (auto simp: unpended_def)
  next
    case False
    with rest obtain nx z where "stage_after st (stages_for x) = Some nx" "map_of (st_orders (w_store w2)) oid = Some z"
        "w_store w' = (w_store w2)\<lparr>st_orders := dict_mod oid (\<lambda>y. y\<lparr>pending_stage := Some nx\<rparr>) (st_orders (w_store w2))\<rparr>"
      by (cases "map_of (st_orders (w_store w2)) oid"; cases "stage_after st (stages_for x)")
        (auto simp: orderW_lookup updO_write bindE_run thenE_run split: if_splits)
    then show ?thesis using stage_after_rank by (auto simp: waiting_def)
  qed
qed

definition settled :: "string \<Rightarrow> 'n world \<Rightarrow> bool" where
  "settled oid w \<longleftrightarrow> (case map_of (st_orders (w_store w)) oid of None \<Rightarrow> False
     | Some x \<Rightarrow> pending_stage x = None \<or> order_state x \<in> {O_delivered, O_failed, O_rejected})"

text \<open>Once settled, further rounds do nothing.\<close>

lemma approve_rest_settled: "settled oid w \<Longrightarrow> approve_rest A k oid w = (Inr (), w)"
  by (cases k) (auto simp: bindE_run orderW_lookup settled_def split: option.splits)

lemma approve_rest_round:
  assumes "map_of (st_orders (w_store w)) oid = Some x" "\<not> settled oid w"
  shows "approve_rest A (Suc k) oid w = (case approve_next_stage A oid w of (Inl e, w') \<Rightarrow> (Inl e, w') | (Inr _, w') \<Rightarrow> approve_rest A k oid w')"
  using assms by (auto simp: bindE_run orderW_lookup settled_def thenE_run split: prod.splits sum.splits)

definition ends_settled :: "string \<Rightarrow> (err + unit) \<times> 'n world \<Rightarrow> bool" where
  "ends_settled oid r \<longleftrightarrow> (case r of (Inl _, _) \<Rightarrow> True | (Inr _, w') \<Rightarrow> settled oid w')"

lemma approve_rest_ends:
  assumes "settled oid w \<or> (\<exists>st. waiting oid w st \<and> stage_rank st < 8 \<and> 8 \<le> stage_rank st + k)"
  shows "approve_rest A (k + j) oid w = approve_rest A k oid w \<and> ends_settled oid (approve_rest A k oid w)"
  using assms
proof (induction k arbitrary: w)
  case 0
  then show ?case by (auto simp: approve_rest_settled ends_settled_def)
next
  case (Suc k)
  show ?case
  proof (cases "settled oid w")
    case True
    then show ?thesis by (simp only: approve_rest_settled ends_settled_def prod.case sum.case simp_thms)
  next
    case False
    with Suc.prems obtain st x where st: "stage_rank st < 8" "8 \<le> stage_rank st + Suc k"
        and x: "map_of (st_orders (w_store w)) oid = Some x" "pending_stage x = Some st"
      by (auto simp: waiting_def)
    obtain r w' where r: "approve_next_stage A oid w = (r, w')" by (cases "approve_next_stage A oid w")
    note unfold = approve_rest_round [OF x(1) False, of A, unfolded r prod.case]
    show ?thesis
    proof (cases r)
      case (Inl e)
      then show ?thesis unfolding add_Suc unfold by (simp add: ends_settled_def)
    next
      case (Inr y)
      have "settled oid w' \<or> (\<exists>nx. waiting oid w' nx \<and> stage_rank nx < 8 \<and> 8 \<le> stage_rank nx + k)"
        using approve_round [OF r [unfolded Inr] x] st by (auto simp: settled_def)
      from Suc.IH [OF this] show ?thesis unfolding add_Suc unfold Inr by simp
    qed
  qed
qed

text \<open>
  C35. The approval loop of a delivery ends within as many rounds as the longest pipeline has stages, whatever the
  adapter answers: further rounds would change nothing, and when no round raised the order is delivered,
  failed or rejected, or no stage awaits approval. Every round moves the gate on to a later stage.
\<close>

theorem approval_loop_ends:
  "approve_rest A (length FULFILL_STAGES_K8S + j) oid w = approve_rest A (length FULFILL_STAGES_K8S) oid w
     \<and> (case approve_rest A (length FULFILL_STAGES_K8S) oid w of
          (Inl _, _) \<Rightarrow> True
        | (Inr _, w') \<Rightarrow> \<exists>x. map_of (st_orders (w_store w')) oid = Some x
            \<and> (pending_stage x = None \<or> order_state x \<in> {O_delivered, O_failed, O_rejected}))"
proof -
  have eight: "length FULFILL_STAGES_K8S = 8" by (simp add: FULFILL_STAGES_K8S_def FULFILL_STAGES_def)
  have "approve_rest A (8 + j) oid w = approve_rest A 8 oid w \<and> ends_settled oid (approve_rest A 8 oid w)"
  proof (cases "map_of (st_orders (w_store w)) oid")
    case None
    then show ?thesis by (simp add: eval_nat_numeral bindE_run orderW_lookup ends_settled_def)
  next
    case (Some x)
    show ?thesis
    proof (cases "\<exists>st. pending_stage x = Some st \<and> \<not> settled oid w \<and> st \<notin> set (stages_for x)")
      case True
      then obtain e w' where "approve_next_stage A oid w = (Inl e, w')"
        using Some
        by (cases "approval_mode x") (auto simp: approve_next_stage_def order_or_404_def pending_or_409_def bindE_run thenE_run onStore_run upd_order_def)
      moreover have "\<not> settled oid w" using True by blast
      ultimately show ?thesis using approve_rest_round [OF Some, of A] by (simp add: eval_nat_numeral ends_settled_def)
    next
      case False
      moreover have "stage_rank st < 8" if "st \<in> set (stages_for x)" for st
        using that stages_for_cases [of x] by (cases st) (auto simp: stage_rank_def FULFILL_STAGES_K8S_def FULFILL_STAGES_def)
      ultimately show ?thesis using Some by (intro approve_rest_ends) (auto simp: settled_def waiting_def)
    qed
  qed
  then show ?thesis unfolding eight by (auto simp: ends_settled_def settled_def split: sum.splits prod.splits option.splits)
qed

end
