(* ===== verification/K8s_Spec.thy ===== *)
theory K8s_Spec
  imports Termination_Spec
begin

text \<open>
  Operations on a managed cluster: when an upgrade is admitted, that the rolling upgrade amounts to one atomic
  change, and the life of a kubeconfig.
\<close>

section \<open>Admission\<close>

definition upgrading :: "store \<Rightarrow> string \<Rightarrow> k8s_upgrade list" where
  "upgrading s cid = filter (\<lambda>u. up_cluster_id u = cid \<and> up_state u = ''running'') (dict_values (st_k8s_upgrades s))"

text \<open>What the upgrade policy demands, stated on its own.\<close>

definition admissible :: "store \<Rightarrow> string \<Rightarrow> string \<Rightarrow> bool" where
  "admissible s cid tv \<longleftrightarrow> (\<exists>c. map_of (st_k8s_clusters s) cid = Some c \<and> kc_state c = ''running''
     \<and> (kc_version c, tv) \<noteq> (''v1.33.2'', ''v1.32.4'') \<and> tv \<in> {''v1.32.4'', ''v1.33.2''} \<and> tv \<noteq> kc_version c) \<and> upgrading s cid = []"

lemma downgrade_iff: "tv \<in> {''v1.32.4'', ''v1.33.2''} \<Longrightarrow> downgrade cur tv \<longleftrightarrow> (cur, tv) = (''v1.33.2'', ''v1.32.4'')"
  by (auto simp: downgrade_def K8S_SUPPORTED_VERSIONS_def)

lemma busy_iff: "list_ex (\<lambda>u. up_cluster_id u = cid \<and> up_state u = ''running'') (dict_values (st_k8s_upgrades s)) \<longleftrightarrow> upgrading s cid \<noteq> []"
  by (auto simp: upgrading_def list_ex_iff filter_empty_conv)

lemma dict_values_fresh: "map_of d k = None \<Longrightarrow> dict_values (AList.update k v d) = dict_values d @ [v]"
  by (induction d) (auto simp: dict_values_def split: if_splits)

text \<open>
  C37. An upgrade is admitted exactly when the cluster is running, the target is one of the two supported
  versions, differs from the current one and is not older, and no upgrade of the cluster is running. A refused
  request changes nothing. An admitted one adds a single running upgrade for the cluster, whose plan is the
  control-plane nodes first and then the workers.
\<close>

theorem upgrade_admission:
  assumes "map_of (st_k8s_upgrades s) (''k8u-'' @ dec (seq_of s ''k8s_upgrade'' + 1)) = None"
  shows "if admissible s cid tv then
       \<exists>uid names s' c u. start_upgrade cid tv s = (Inr (uid, names), s') \<and> map_of (st_k8s_clusters s) cid = Some c
         \<and> names = kc_cp_node_ids c @ map node_tray_id (dict_pick (st_node_instances s) (kc_worker_node_ids c))
         \<and> upgrading s' cid = [u] \<and> up_id u = uid \<and> up_target_version u = tv \<and> up_total u = length names
         \<and> (\<forall>k. k \<noteq> cid \<longrightarrow> upgrading s' k = upgrading s k)
     else \<exists>e. start_upgrade cid tv s = (Inl e, s)"
proof (cases "admissible s cid tv")
  case True
  then obtain c where c: "map_of (st_k8s_clusters s) cid = Some c" "kc_state c = ''running''" "tv \<in> {''v1.32.4'', ''v1.33.2''}"
      "tv \<noteq> kc_version c" "\<not> downgrade (kc_version c) tv" and idle: "upgrading s cid = []"
    unfolding admissible_def using downgrade_iff by blast
  have sup: "tv \<in> set K8S_SUPPORTED_VERSIONS" using c(3) by (simp add: K8S_SUPPORTED_VERSIONS_def)
  show ?thesis
    unfolding if_P [OF True] start_upgrade_def cluster_or_404_def
    using c(1,2,4,5) sup idle busy_iff [of cid s] assms
    by (auto simp: bindE_run thenE_run next_seq_def Let_def rolling_order_def upgrading_def dict_values_fresh now_def)
next
  case False
  have "\<exists>e. start_upgrade cid tv s = (Inl e, s)"
  proof (cases "map_of (st_k8s_clusters s) cid")
    case None
    then show ?thesis by (simp add: start_upgrade_def cluster_or_404_def bindE_run)
  next
    case (Some c)
    with False have "kc_state c \<noteq> ''running'' \<or> tv \<notin> set K8S_SUPPORTED_VERSIONS \<or> tv = kc_version c
        \<or> downgrade (kc_version c) tv \<or> upgrading s cid \<noteq> []"
      unfolding admissible_def using downgrade_iff [of tv "kc_version c"] by (auto simp: K8S_SUPPORTED_VERSIONS_def)
    with Some show ?thesis using busy_iff [of cid s]
      by (auto simp: start_upgrade_def cluster_or_404_def bindE_run thenE_run)
  qed
  with False show ?thesis by simp
qed

definition demo_cluster :: k8s_cluster where
  "demo_cluster = \<lparr>kc_id = ''kc-1'', kc_tenant_id = ''tnt-a'', kc_order_id = ''ord-1'', kc_allocation_id = None, kc_name = ''c'',
     kc_version = ''v1.32.4'', kc_nkd_version = ''1'', kc_state = ''running'', kc_api_vip = '''', kc_oidc_issuer = '''',
     kc_cp_node_ids = [''cp-1''], kc_worker_node_ids = [], kc_gpus_total = 0, kc_addons = [], kc_dcgm_mode = '''',
     kc_conditions = [], kc_stage = '''', kc_stage_history = [], kc_progress_pct = 100, kc_acceptance = None,
     kc_quarantined_nodes = [], kc_node_versions = [(''cp-1'', ''v1.32.4'')], kc_created_at = 0, kc_history = []\<rparr>"

definition demo_upgrade :: k8s_upgrade where
  "demo_upgrade = \<lparr>up_id = ''k8u-1'', up_cluster_id = ''kc-1'', up_tenant_id = ''tnt-a'', up_from_version = ''v1.32.4'',
     up_target_version = ''v1.33.2'', up_state = ''running'', up_current_node = None, up_done = 0, up_total = 1,
     up_events = [], up_created_at = 0\<rparr>"

definition demo_clustered :: store where
  "demo_clustered = demo_store\<lparr>st_k8s_clusters := [(''kc-1'', demo_cluster)]\<rparr>"

theorem upgrade_admission_witness:
  "\<exists>uid s' u. start_upgrade ''kc-1'' ''v1.33.2'' demo_clustered = (Inr (uid, [''cp-1'']), s') \<and> upgrading s' ''kc-1'' = [u]"
proof -
  have free: "map_of (st_k8s_upgrades demo_clustered) k = None" for k
    by (simp add: demo_clustered_def demo_store_def empty_store_def)
  have "admissible demo_clustered ''kc-1'' ''v1.33.2''"
    by (simp add: admissible_def upgrading_def demo_clustered_def demo_cluster_def demo_store_def empty_store_def dict_values_def)
  with upgrade_admission [OF free, of "''kc-1''" "''v1.33.2''"]
  obtain uid names s' c u where st: "start_upgrade ''kc-1'' ''v1.33.2'' demo_clustered = (Inr (uid, names), s')"
      "map_of (st_k8s_clusters demo_clustered) ''kc-1'' = Some c"
      "names = kc_cp_node_ids c @ map node_tray_id (dict_pick (st_node_instances demo_clustered) (kc_worker_node_ids c))"
      "upgrading s' ''kc-1'' = [u]"
    by (auto simp only: if_P)
  have c: "c = demo_cluster" using st(2) by (simp add: demo_clustered_def)
  have names: "names = [''cp-1'']" using st(3) by (simp add: c demo_cluster_def)
  show ?thesis using st(1,4) unfolding names by blast
qed

section \<open>The rolling upgrade as one change\<close>

definition node_events :: "int \<Rightarrow> string \<Rightarrow> upgrade_event list" where
  "node_events t nm = map (\<lambda>st. \<lparr>ue_ts = t, ue_node = nm, ue_step = st\<rparr>) UPGRADE_STEPS"

text \<open>The abstract upgrade: every node and the cluster at the target, the record complete.\<close>

definition rolled :: "int \<Rightarrow> string list \<Rightarrow> k8s_upgrade \<Rightarrow> k8s_upgrade" where
  "rolled t names u = u\<lparr>up_done := up_done u + length names, up_events := up_events u @ concat (map (node_events t) names)\<rparr>"

definition at_version :: "string \<Rightarrow> string list \<Rightarrow> k8s_cluster \<Rightarrow> k8s_cluster" where
  "at_version tv names c = c\<lparr>kc_node_versions := fold (\<lambda>nm. AList.update nm tv) names (kc_node_versions c)\<rparr>"

definition atomic_upgrade :: "string \<Rightarrow> string list \<Rightarrow> store \<Rightarrow> store" where
  "atomic_upgrade uid names s = (case map_of (st_k8s_upgrades s) uid of None \<Rightarrow> s | Some u \<Rightarrow>
     s\<lparr>st_k8s_upgrades := dict_mod uid (\<lambda>u. (rolled (now s) names u)\<lparr>up_state := ''succeeded'', up_current_node := None\<rparr>) (st_k8s_upgrades s),
       st_k8s_clusters := dict_mod (up_cluster_id u) (\<lambda>c. (at_version (up_target_version u) names c)\<lparr>kc_version := up_target_version u,
         kc_history := kc_history c @ [event (kc_state c) ''upgraded'' (now s)]\<rparr>) (st_k8s_clusters s)\<rparr>)"

lemma dict_mod_mod: "dict_mod k f (dict_mod k g d) = dict_mod k (\<lambda>x. f (g x)) d"
  by (induction d) (auto simp: dict_mod_def)

definition nodes_rolled :: "string \<Rightarrow> k8s_upgrade \<Rightarrow> string list \<Rightarrow> string option \<Rightarrow> store \<Rightarrow> store" where
  "nodes_rolled uid u names cur s =
     s\<lparr>st_k8s_upgrades := dict_mod uid (\<lambda>u. (rolled (now s) names u)\<lparr>up_current_node := cur\<rparr>) (st_k8s_upgrades s),
       st_k8s_clusters := dict_mod (up_cluster_id u) (at_version (up_target_version u) names) (st_k8s_clusters s)\<rparr>"

lemma dict_mod_cong: "(\<And>v. f v = g v) \<Longrightarrow> dict_mod k f d = dict_mod k g d"
  by (simp add: dict_mod_def ext [of f g])

lemma upgrade_node_run:
  assumes "map_of (st_k8s_upgrades s) uid = Some u"
  shows "upgrade_node uid nm s = (Inr (), nodes_rolled uid u [nm] (Some nm) s)"
proof -
  let ?ev = "node_events (now s) nm"
  have "upgrade_node uid nm s = (Inr (), s\<lparr>
      st_k8s_upgrades := dict_mod uid (\<lambda>x. x\<lparr>up_current_node := Some nm, up_events := up_events x @ ?ev, up_done := up_done x + 1\<rparr>) (st_k8s_upgrades s),
      st_k8s_clusters := dict_mod (up_cluster_id u) (at_version (up_target_version u) [nm]) (st_k8s_clusters s)\<rparr>)"
    using assms
    by (simp add: upgrade_node_def upgrade_begin_node_def upgrade_node_step_def upgrade_end_node_def upd_upgrade_def upd_cluster_def
      the_upgrade_def UPGRADE_STEPS_def bindE_run thenE_run dict_mod_mod at_version_def [abs_def] node_events_def now_def)
  also have "dict_mod uid (\<lambda>x. x\<lparr>up_current_node := Some nm, up_events := up_events x @ ?ev, up_done := up_done x + 1\<rparr>) (st_k8s_upgrades s)
      = dict_mod uid (\<lambda>u. (rolled (now s) [nm] u)\<lparr>up_current_node := Some nm\<rparr>) (st_k8s_upgrades s)"
    by (rule dict_mod_cong) (simp add: rolled_def)
  finally show ?thesis by (simp add: nodes_rolled_def)
qed

lemma rolled_append: "rolled t ys ((rolled t xs u)\<lparr>up_current_node := c\<rparr>) = (rolled t (xs @ ys) u)\<lparr>up_current_node := c\<rparr>"
  by (simp add: rolled_def)

lemma at_version_append: "at_version tv ys (at_version tv xs c) = at_version tv (xs @ ys) c"
  by (simp add: at_version_def)

lemma nodes_rolled_append:
  assumes "map_of (st_k8s_upgrades s) uid = Some u"
  shows "nodes_rolled uid u ys d (nodes_rolled uid u xs c s) = nodes_rolled uid u (xs @ ys) d s"
proof -
  have "(rolled t ys ((rolled t xs v)\<lparr>up_current_node := c\<rparr>))\<lparr>up_current_node := d\<rparr> = (rolled t (xs @ ys) v)\<lparr>up_current_node := d\<rparr>" for t v
    by (simp add: rolled_append)
  then show ?thesis by (simp add: nodes_rolled_def dict_mod_mod now_def at_version_append [abs_def])
qed

lemma nodes_rolled_lookup:
  "map_of (st_k8s_upgrades s) uid = Some u \<Longrightarrow>
     \<exists>v. map_of (st_k8s_upgrades (nodes_rolled uid u names c s)) uid = Some v \<and> up_cluster_id v = up_cluster_id u
       \<and> up_target_version v = up_target_version u"
  by (simp add: nodes_rolled_def rolled_def)

lemma nodes_rolled_cong: "up_cluster_id v = up_cluster_id u \<Longrightarrow> up_target_version v = up_target_version u \<Longrightarrow> nodes_rolled uid v = nodes_rolled uid u"
  by (simp add: nodes_rolled_def fun_eq_iff)

lemma upgrade_nodes_run:
  assumes "map_of (st_k8s_upgrades s) uid = Some u"
  shows "\<exists>c. forE (nm # names) (upgrade_node uid) s = (Inr (), nodes_rolled uid u (nm # names) c s)"
  using assms
proof (induction names arbitrary: nm s u)
  case Nil
  then show ?case by (auto simp: upgrade_node_run thenE_run)
next
  case (Cons nm' names)
  let ?s1 = "nodes_rolled uid u [nm] (Some nm) s"
  obtain v where v: "map_of (st_k8s_upgrades ?s1) uid = Some v" "up_cluster_id v = up_cluster_id u" "up_target_version v = up_target_version u"
    using nodes_rolled_lookup [OF Cons.prems, of "[nm]" "Some nm"] by blast
  obtain c where "forE (nm' # names) (upgrade_node uid) ?s1 = (Inr (), nodes_rolled uid v (nm' # names) c ?s1)"
    using Cons.IH [OF v(1)] by blast
  then have "forE (nm # nm' # names) (upgrade_node uid) s = (Inr (), nodes_rolled uid u (nm # nm' # names) c s)"
    unfolding forE.simps(2) [of nm] thenE_run upgrade_node_run [OF Cons.prems] prod.case sum.case
    by (simp only: nodes_rolled_cong [OF v(2,3)] nodes_rolled_append [OF Cons.prems]) simp
  then show ?case by blast
qed

text \<open>
  C36. The rolling upgrade refines one atomic change. Run to the end, its steps (cordon, drain, upgrade and
  uncordon for each node, in the order of the plan) leave exactly the state of the atomic upgrade: every
  planned node and the cluster at the target version, as many nodes counted as planned, the events of each node in
  order, the record \<open>succeeded\<close>, and nothing else touched.
\<close>

theorem upgrade_refines_atomic:
  assumes u: "map_of (st_k8s_upgrades s) uid = Some u"
  shows "run_upgrade uid names s = (Inr (), atomic_upgrade uid names s)"
proof -
  have fin: "upgrade_finish uid (nodes_rolled uid u names c s) = (Inr (), atomic_upgrade uid names s)" for c
    using u by (simp add: upgrade_finish_def atomic_upgrade_def upd_upgrade_def the_upgrade_def upd_cluster_def nodes_rolled_def
        bindE_run thenE_run dict_mod_mod rolled_def at_version_def now_def)
  show ?thesis
  proof (cases names)
    case Nil
    have "upgrade_finish uid s = (Inr (), atomic_upgrade uid [] s)"
      using u by (simp add: upgrade_finish_def atomic_upgrade_def upd_upgrade_def the_upgrade_def upd_cluster_def
        bindE_run thenE_run rolled_def at_version_def now_def)
    with Nil show ?thesis by (simp add: run_upgrade_def thenE_run)
  next
    case (Cons nm nms)
    then show ?thesis using upgrade_nodes_run [OF u, of nm nms] fin by (auto simp: run_upgrade_def thenE_run simp del: forE.simps)
  qed
qed

theorem upgrade_refines_atomic_witness:
  "\<exists>s' c. run_upgrade ''k8u-1'' [''cp-1''] (demo_clustered\<lparr>st_k8s_upgrades := [(''k8u-1'', demo_upgrade)]\<rparr>) = (Inr (), s')
     \<and> map_of (st_k8s_clusters s') ''kc-1'' = Some c \<and> kc_version c = ''v1.33.2'' \<and> kc_node_versions c = [(''cp-1'', ''v1.33.2'')]"
proof -
  let ?s = "demo_clustered\<lparr>st_k8s_upgrades := [(''k8u-1'', demo_upgrade)]\<rparr>"
  have u: "map_of (st_k8s_upgrades ?s) ''k8u-1'' = Some demo_upgrade" by simp
  show ?thesis unfolding upgrade_refines_atomic [OF u]
    by (simp add: atomic_upgrade_def demo_clustered_def demo_upgrade_def demo_cluster_def at_version_def dict_mod_def)
qed

end
