(* ===== verification/Customer_Spec.thy ===== *)
theory Customer_Spec
  imports Portal_Safe
begin

text \<open>
  Customers are isolated from each other: volumes, snapshots, API keys and members live in four dictionaries
  shared by all tenants and numbered by shared counters, yet no request of one customer changes what another owns.
\<close>

section \<open>A numbered, owned collection\<close>

lemma zfill_dec_inject [simp]: "zfill w (dec m) = zfill w (dec n) \<longleftrightarrow> m = n"
  by (metis undec_zfill option.inject)

locale numbered_collection =
  fixes key :: "nat \<Rightarrow> string" and owner :: "'v \<Rightarrow> string"
  assumes key_inject: "key m = key n \<Longrightarrow> m = n"
begin

definition numbered :: "nat \<Rightarrow> 'v dict \<Rightarrow> bool" where
  "numbered n d \<longleftrightarrow> distinct (map fst d) \<and> (\<forall>k \<in> fst ` set d. \<exists>m \<le> n. k = key m)"

definition of_tenant :: "string \<Rightarrow> 'v dict \<Rightarrow> 'v list" where
  "of_tenant tid d = filter (\<lambda>v. owner v = tid) (dict_values d)"

lemma numbered_empty: "numbered n []"
  by (simp add: numbered_def)

lemma next_key_free: "numbered n d \<Longrightarrow> map_of d (key (Suc n)) = None"
  unfolding numbered_def map_of_eq_None_iff by (force dest: key_inject)

lemma numbered_add: "numbered n d \<Longrightarrow> numbered (Suc n) (AList.update (key (Suc n)) v d)"
  by (auto simp: numbered_def distinct_update dom_update intro: le_SucI)

lemma numbered_mod: "numbered n d \<Longrightarrow> numbered n (dict_mod k f d)"
  by (auto simp: numbered_def dict_mod_def comp_def case_prod_beta image_iff)

lemma numbered_delete: "numbered n d \<Longrightarrow> numbered n (AList.delete k d)"
  by (auto simp: numbered_def AList.delete_eq distinct_map_filter)

lemma update_free: "map_of d k = None \<Longrightarrow> AList.update k v d = d @ [(k, v)]"
  by (induction d) (auto split: if_splits)

lemma add_foreign: "numbered n d \<Longrightarrow> owner v \<noteq> tid \<Longrightarrow> of_tenant tid (AList.update (key (Suc n)) v d) = of_tenant tid d"
  using next_key_free by (simp add: of_tenant_def update_free dict_values_def)

lemma numbered_split:
  assumes "numbered n d" and "map_of d k = Some v"
  obtains xs ys where "d = xs @ (k, v) # ys" "k \<notin> fst ` set xs" "k \<notin> fst ` set ys"
proof -
  obtain xs ys where "d = xs @ (k, v) # ys" using map_of_SomeD [OF assms(2)] by (meson split_list)
  with assms(1) that show ?thesis by (auto simp: numbered_def)
qed

lemma dict_mod_absent: "k \<notin> fst ` set d \<Longrightarrow> dict_mod k f d = d"
  by (induction d) (auto simp: dict_mod_def)

lemma mod_foreign:
  assumes "numbered n d" and "map_of d k = Some v" "owner v \<noteq> tid" "owner v' \<noteq> tid"
  shows "of_tenant tid (dict_mod k (\<lambda>_. v') d) = of_tenant tid d"
proof -
  obtain xs ys where d: "d = xs @ (k, v) # ys" "k \<notin> fst ` set xs" "k \<notin> fst ` set ys" by (rule numbered_split [OF assms(1,2)])
  have "dict_mod k (\<lambda>_. v') d = xs @ (k, v') # ys"
    using d dict_mod_absent [of k xs] dict_mod_absent [of k ys] by (simp add: dict_mod_def)
  then show ?thesis using assms(3,4) d(1) by (simp add: of_tenant_def dict_values_def)
qed

lemma delete_foreign:
  assumes "numbered n d" and "map_of d k = Some v" "owner v \<noteq> tid"
  shows "of_tenant tid (AList.delete k d) = of_tenant tid d"
proof -
  obtain xs ys where d: "d = xs @ (k, v) # ys" "k \<notin> fst ` set xs" "k \<notin> fst ` set ys" by (rule numbered_split [OF assms(1,2)])
  then have "AList.delete k d = xs @ ys" using AList.delete_id [of k xs] AList.delete_id [of k ys] by (simp add: AList.delete_eq)
  then show ?thesis using assms(3) d(1) by (simp add: of_tenant_def dict_values_def)
qed

end

interpretation vols: numbered_collection vol_key vol_tenant_id
  by unfold_locales (simp add: vol_key_def)

interpretation snaps: numbered_collection snap_key sn_tenant_id
  by unfold_locales (simp add: snap_key_def)

interpretation keys: numbered_collection apikey_key ak_tenant_id
  by unfold_locales (simp add: apikey_key_def)

interpretation mbrs: numbered_collection member_key mb_tenant_id
  by unfold_locales (simp add: member_key_def)

section \<open>Customer requests\<close>

datatype customer_request = List_volumes | Create_volume volume_body | Set_qos string rat rat | Delete_volume string
  | Create_snapshot string string | Create_api_key string string | Revoke_api_key string
  | Invite_member string string | Update_member string string | Remove_member string

fun serve :: "ai_infra \<Rightarrow> string option \<times> customer_request \<Rightarrow> store \<Rightarrow> store" where
  "serve ai (h, List_volumes) s = snd (list_volumes ai h s)"
| "serve ai (h, Create_volume b) s = snd (create_volume b h s)"
| "serve ai (h, Set_qos k bw iops) s = snd (set_qos k bw iops h s)"
| "serve ai (h, Delete_volume k) s = snd (delete_volume k h s)"
| "serve ai (h, Create_snapshot vid nt) s = snd (create_snapshot vid nt h s)"
| "serve ai (h, Create_api_key nm scope) s = snd (create_api_key nm scope h s)"
| "serve ai (h, Revoke_api_key k) s = snd (revoke_api_key k h s)"
| "serve ai (h, Invite_member email role) s = snd (invite_member email role h s)"
| "serve ai (h, Update_member k role) s = snd (update_member k role h s)"
| "serve ai (h, Remove_member k) s = snd (remove_member k h s)"

text \<open>Everything a tenant owns, and the invariant that keeps the shared numbering apart.\<close>

definition owned_by :: "string \<Rightarrow> store \<Rightarrow> volume list \<times> snapshot list \<times> api_key list \<times> org_member list" where
  "owned_by tid s = (filter (\<lambda>v. vol_tenant_id v = tid) (dict_values (st_storage_volumes s)),
     filter (\<lambda>x. sn_tenant_id x = tid) (dict_values (st_storage_snapshots s)),
     filter (\<lambda>a. ak_tenant_id a = tid) (dict_values (st_api_keys s)),
     filter (\<lambda>m. mb_tenant_id m = tid) (dict_values (st_members s)))"

definition portal_inv :: "store \<Rightarrow> bool" where
  "portal_inv s \<longleftrightarrow> vols.numbered (seq_of s ''vol'') (st_storage_volumes s)
     \<and> snaps.numbered (seq_of s ''snap'') (st_storage_snapshots s)
     \<and> keys.numbered (seq_of s ''apikey'') (st_api_keys s) \<and> mbrs.numbered (seq_of s ''member'') (st_members s)"

lemma owned_by_alt:
  "owned_by tid s = (vols.of_tenant tid (st_storage_volumes s), snaps.of_tenant tid (st_storage_snapshots s),
     keys.of_tenant tid (st_api_keys s), mbrs.of_tenant tid (st_members s))"
  by (simp add: owned_by_def vols.of_tenant_def snaps.of_tenant_def keys.of_tenant_def mbrs.of_tenant_def)

text \<open>The frame of a request of another tenant.\<close>

definition frame :: "string \<Rightarrow> store \<Rightarrow> store \<Rightarrow> bool" where
  "frame tid s s' \<longleftrightarrow> (portal_inv s \<longrightarrow> portal_inv s' \<and> owned_by tid s' = owned_by tid s)"

lemma frame_refl [simp]: "frame tid s s" by (simp add: frame_def)

lemma frame_trans: "frame tid s t \<Longrightarrow> frame tid t u \<Longrightarrow> frame tid s u" by (auto simp: frame_def)

lemmas frame_defs = frame_def portal_inv_def owned_by_alt seq_of_def
lemmas portal_rules = vols.numbered_add vols.numbered_mod vols.numbered_delete vols.add_foreign vols.mod_foreign vols.delete_foreign
  snaps.numbered_add snaps.add_foreign keys.numbered_add keys.numbered_delete keys.add_foreign keys.delete_foreign
  mbrs.numbered_add mbrs.numbered_mod mbrs.numbered_delete mbrs.add_foreign mbrs.mod_foreign mbrs.delete_foreign

lemma frame_write_volumes:
  "(\<And>n. vols.numbered n (st_storage_volumes s) \<Longrightarrow> vols.numbered n d \<and> vols.of_tenant tid d = vols.of_tenant tid (st_storage_volumes s))
     \<Longrightarrow> frame tid s (s\<lparr>st_storage_volumes := d\<rparr>)"
  by (auto simp: frame_defs)

lemma frame_write_keys:
  "(\<And>n. keys.numbered n (st_api_keys s) \<Longrightarrow> keys.numbered n d \<and> keys.of_tenant tid d = keys.of_tenant tid (st_api_keys s))
     \<Longrightarrow> frame tid s (s\<lparr>st_api_keys := d\<rparr>)"
  by (auto simp: frame_defs)

lemma frame_write_members:
  "(\<And>n. mbrs.numbered n (st_members s) \<Longrightarrow> mbrs.numbered n d \<and> mbrs.of_tenant tid d = mbrs.of_tenant tid (st_members s))
     \<Longrightarrow> frame tid s (s\<lparr>st_members := d\<rparr>)"
  by (auto simp: frame_defs)

lemma frame_add_volume:
  assumes "vol_tenant_id v \<noteq> tid" "vol_id v = vol_key (Suc (seq_of s ''vol''))"
  shows "frame tid s (s\<lparr>st_counters := AList.update ''vol'' (Suc (seq_of s ''vol'')) (st_counters s),
     st_storage_volumes := AList.update (vol_id v) v (st_storage_volumes s)\<rparr>)"
  using assms by (auto simp: frame_defs intro: vols.numbered_add vols.add_foreign)

lemma frame_seed:
  assumes "t \<noteq> tid"
  shows "frame tid s (snd (seed_volumes ai t s))"
proof -
  have one: "bindE (next_seq ''vol'') (\<lambda>n. bindE (getsE now) (\<lambda>c. put_volume (volume_of_view (vol_key n) t c v))) s
      = (Inr (), let x = volume_of_view (vol_key (Suc (seq_of s ''vol''))) t (now s) v in
          s\<lparr>st_counters := AList.update ''vol'' (Suc (seq_of s ''vol'')) (st_counters s),
            st_storage_volumes := AList.update (vol_id x) x (st_storage_volumes s)\<rparr>)" for v s
    by (simp add: bindE_run put_volume_def next_seq_run now_def Let_def)
  have "frame tid s (snd (forE vs (\<lambda>v. bindE (next_seq ''vol'') (\<lambda>n. bindE (getsE now) (\<lambda>c. put_volume (volume_of_view (vol_key n) t c v)))) s))"
    for vs
  proof (induction vs arbitrary: s)
    case (Cons v vs)
    let ?v = "volume_of_view (vol_key (Suc (seq_of s ''vol''))) t (now s) v"
    have "frame tid s (s\<lparr>st_counters := AList.update ''vol'' (Suc (seq_of s ''vol'')) (st_counters s),
       st_storage_volumes := AList.update (vol_id ?v) ?v (st_storage_volumes s)\<rparr>)"
      by (rule frame_add_volume) (simp_all add: volume_of_view_def assms)
    from frame_trans [OF this Cons.IH] show ?case
      by (simp only: forE.simps thenE_run one prod.case sum.case Let_def)
  qed simp
  then show ?thesis by (simp add: seed_volumes_def bindE_run)
qed

lemma frame_serve:
  assumes "h \<noteq> Some tid"
  shows "frame tid s (serve ai (h, r) s)"
proof (cases "truthy h")
  case False
  then show ?thesis by (cases r)
    (simp_all add: header_tenant_def bindE_run list_volumes_def create_volume_def set_qos_def delete_volume_def create_snapshot_def
      create_api_key_def revoke_api_key_def invite_member_def update_member_def remove_member_def)
next
  case True
  then obtain t where h: "h = Some t" "t \<noteq> tid"
    using assms by (cases h) (auto simp: truthy_def)
  with True have hd: "header_tenant h s = (Inr t, s)" for s :: store by (simp add: header_tenant_def)
  show ?thesis
  proof (cases r)
    case List_volumes
    then show ?thesis using frame_seed [OF h(2), of s ai]
      by (auto simp: list_volumes_def hd bindE_run thenE_run split: prod.splits sum.splits)
  next
    case (Create_volume b)
    then show ?thesis using h(2)
      by (auto simp: create_volume_def hd bindE_run thenE_run Let_def put_volume_def next_seq_run now_def frame_defs intro: vols.numbered_add vols.add_foreign)
  next
    case (Create_snapshot vid nt)
    then show ?thesis using h(2)
      by (auto simp: create_snapshot_def owned_or_404_def hd bindE_run thenE_run Let_def next_seq_run now_def frame_defs split: option.splits
        intro: snaps.numbered_add snaps.add_foreign)
  next
    case (Set_qos k bw iops)
    then show ?thesis using h(2)
      by (auto simp: set_qos_def owned_or_404_def hd bindE_run thenE_run Let_def split: option.splits
        intro!: frame_write_volumes vols.numbered_mod vols.mod_foreign)
  next
    case (Delete_volume k)
    then show ?thesis using h(2)
      by (auto simp: delete_volume_def owned_or_404_def hd bindE_run thenE_run Let_def split: option.splits
        intro!: frame_write_volumes vols.numbered_delete vols.delete_foreign)
  next
    case (Create_api_key nm scope)
    then show ?thesis using h(2)
      by (auto simp: create_api_key_def hd bindE_run thenE_run Let_def next_seq_run now_def frame_defs intro: keys.numbered_add keys.add_foreign)
  next
    case (Revoke_api_key k)
    then show ?thesis using h(2)
      by (auto simp: revoke_api_key_def owned_or_404_def hd bindE_run thenE_run Let_def split: option.splits
        intro!: frame_write_keys keys.numbered_delete keys.delete_foreign)
  next
    case (Invite_member email role)
    then show ?thesis using h(2)
      by (auto simp: invite_member_def hd bindE_run thenE_run Let_def next_seq_run now_def frame_defs intro: mbrs.numbered_add mbrs.add_foreign)
  next
    case (Update_member k role)
    then show ?thesis using h(2)
      by (auto simp: update_member_def owned_or_404_def hd bindE_run thenE_run Let_def split: option.splits
        intro!: frame_write_members mbrs.numbered_mod mbrs.mod_foreign)
  next
    case (Remove_member k)
    then show ?thesis using h(2)
      by (auto simp: remove_member_def owned_or_404_def hd bindE_run thenE_run Let_def split: option.splits
        intro!: frame_write_members mbrs.numbered_delete mbrs.delete_foreign)
  qed
qed

text \<open>
  C40. Customers are isolated. Any sequence of requests of other customers (or without a tenant), whatever ids they
  name and whether they succeed or not, leaves a tenant's volumes, snapshots, API keys with their secrets and members
  exactly as they were; and the requests keep the numbering invariant on which this rests.
\<close>

theorem customers_isolated:
  assumes "portal_inv s" and "\<forall>(h, r) \<in> set reqs. h \<noteq> Some tid"
  shows "owned_by tid (fold (serve ai) reqs s) = owned_by tid s \<and> portal_inv (fold (serve ai) reqs s)"
proof -
  have "frame tid s (fold (serve ai) reqs s)" using assms(2)
  proof (induction reqs arbitrary: s)
    case (Cons q reqs)
    obtain h r where q: "q = (h, r)" by (cases q)
    then have "h \<noteq> Some tid" "\<forall>(h, r) \<in> set reqs. h \<noteq> Some tid" using Cons.prems by auto
    then show ?case using frame_trans [OF frame_serve Cons.IH] by (simp add: q)
  qed simp
  with assms(1) show ?thesis by (simp add: frame_def)
qed

definition demo_infra :: ai_infra where
  "demo_infra = \<lparr>ai_post = (\<lambda>_. Inr None), ai_views = None\<rparr>"

definition demo_portal :: store where
  "demo_portal = (empty_store 0)\<lparr>st_counters := [(''member'', 1)], st_members := [(member_key 1, \<lparr>mb_id = member_key 1,
     mb_tenant_id = ''tnt-a'', mb_email = ''a@a'', mb_role = ''admin'', mb_state = ''invited'', mb_invited_at = 0, mb_mfa = False\<rparr>)]\<rparr>"

theorem customers_isolated_witness:
  "owned_by ''tnt-a'' (fold (serve demo_infra)
     [(Some ''tnt-b'', Remove_member (member_key 1)), (Some ''tnt-b'', Invite_member ''b@b'' ''admin''), (None, List_volumes)] demo_portal)
   = owned_by ''tnt-a'' demo_portal"
proof -
  have "portal_inv demo_portal"
    by (auto simp: portal_inv_def demo_portal_def empty_store_def seq_of_def vols.numbered_def snaps.numbered_def keys.numbered_def mbrs.numbered_def)
  from customers_isolated [OF this, of
      "[(Some ''tnt-b'', Remove_member (member_key 1)), (Some ''tnt-b'', Invite_member ''b@b'' ''admin''), (None, List_volumes)]" "''tnt-a''" demo_infra]
  show ?thesis by simp
qed

end
