(* ===== verification/Sla_Spec.thy ===== *)
theory Sla_Spec
  imports Customer_Spec Demo
begin

text \<open>
  The ledger of service credits: what SLA reports may do to it, and what a report says about it.
\<close>

section \<open>The ledger\<close>

definition credit_id :: "nat \<Rightarrow> string" where
  "credit_id n = ''crd-'' @ dec n"

interpretation crd: numbered_collection credit_id cr_tenant_id
  by unfold_locales (simp add: credit_id_def)

text \<open>One credit per tenant and month, numbered, at a rate of the table, and filed under the key of its tenant and month.\<close>

definition filed :: "sla_credit \<Rightarrow> bool" where
  "filed c \<longleftrightarrow> cr_key c = credit_key (cr_tenant_id c) (cr_month c) \<and> CHR ''|'' \<notin> set (cr_month c) \<and> cr_pct c \<in> {10, 25, 50}"

definition ledger_ok :: "store \<Rightarrow> bool" where
  "ledger_ok s \<longleftrightarrow> crd.numbered (seq_of s ''sla_credit'') (st_sla_credits s)
     \<and> distinct (map (\<lambda>c. (cr_tenant_id c, cr_month c)) (dict_values (st_sla_credits s)))
     \<and> (\<forall>c \<in> set (dict_values (st_sla_credits s)). filed c)"

text \<open>The key tells tenants and months apart: the text of a month has no bar.\<close>

lemma credit_key_inject:
  assumes "credit_key a m = credit_key b k" "CHR ''|'' \<notin> set m" "CHR ''|'' \<notin> set k"
  shows "a = b \<and> m = k"
proof -
  have "takeWhile (\<lambda>c. c \<noteq> CHR ''|'') (rev (x @ ''|'' @ t)) = rev t" if "CHR ''|'' \<notin> set t" for x t :: string
    using that by (simp add: takeWhile_tail) (metis set_rev takeWhile_eq_all_conv)
  with assms have "rev m = rev k" unfolding credit_key_def by metis
  with assms(1) show ?thesis by (simp add: credit_key_def)
qed

lemma undec_digits: "undec t = Some n \<Longrightarrow> list_all is_digit t"
  by (simp add: undec_def list_all_iff split: if_splits)

lemma parsed_month_plain:
  assumes "parse_month t = Some m"
  shows "CHR ''|'' \<notin> set t"
proof -
  have bar: "\<not> is_digit CHR ''|''" by (simp add: is_digit_def)
  from assms have len: "length t \<in> {6, 7}" "t ! 4 = CHR ''-''" by (auto simp: parse_month_def split: if_splits)
  from assms obtain y k where "undec (take 4 t) = Some y" "undec (drop 5 t) = Some k"
    by (auto simp: parse_month_def split: if_splits option.splits)
  then have "CHR ''|'' \<notin> set (take 4 t)" "CHR ''|'' \<notin> set (drop 5 t)"
    using bar by (auto dest!: undec_digits simp: list_all_iff)
  moreover have "t = take 4 t @ t ! 4 # drop 5 t" using len(1) id_take_nth_drop [of 4 t] by auto
  moreover have "CHR ''-'' \<noteq> CHR ''|''" by simp
  ultimately show ?thesis unfolding len(2) by (metis Un_iff list.set(2) insert_iff set_append)
qed

text \<open>The ledger is in order and only ever grows at its end.\<close>

definition ledger_from :: "sla_credit dict \<Rightarrow> store \<Rightarrow> bool" where
  "ledger_from L s \<longleftrightarrow> ledger_ok s \<and> (\<exists>new. st_sla_credits s = L @ new)"

lemma numbered_mono: "crd.numbered n d \<Longrightarrow> n \<le> m \<Longrightarrow> crd.numbered m d"
  unfolding crd.numbered_def by (meson order_trans)

lemma ledger_cong: "st_sla_credits s' = st_sla_credits s \<Longrightarrow> seq_of s ''sla_credit'' \<le> seq_of s' ''sla_credit''
    \<Longrightarrow> ledger_from L s \<Longrightarrow> ledger_from L s'"
  by (auto simp: ledger_from_def ledger_ok_def intro: numbered_mono)

lemma keeps_ledger_write:
  "(\<And>s. st_sla_credits (f s) = st_sla_credits s \<and> st_counters (f s) = st_counters s) \<Longrightarrow> keeps (ledger_from L) (modifyE f)"
  by (rule keeps_modifyE, erule ledger_cong [rotated -1]) (simp_all add: seq_of_def)

lemma keeps_ledger_seq: "keeps (ledger_from L) (next_seq nm)"
  by (rule keepsI, erule ledger_cong [rotated -1]) (simp_all add: next_seq_run)

lemma keeps_ledger_incidents:
  "keeps (ledger_from L) (sync_incidents feed)" "keeps (ledger_from L) (synthesize tid mo m)"
  unfolding sync_incidents_def sync_fault_def synthesize_def publish_rca_def put_incident_def Let_def
  by (intro keeps_rules keeps_ledger_seq keeps_ledger_write; simp)+

lemma credit_pct_cases: "avail < SLA_TARGET_PCT \<Longrightarrow> credit_pct_for avail \<in> {10, 25, 50}"
  by (simp add: credit_pct_for_def SLA_CREDIT_TABLE_def SLA_TARGET_PCT_def)

text \<open>A credit is found by its tenant and month, or added under the next number.\<close>

definition priced :: "string \<Rightarrow> string \<Rightarrow> month \<Rightarrow> rat \<Rightarrow> store \<Rightarrow> sla_credit" where
  "priced tid mo m avail s = \<lparr>cr_id = credit_id (Suc (seq_of s ''sla_credit'')), cr_key = credit_key tid mo, cr_tenant_id = tid,
     cr_month = mo,
     cr_incident_id = map_option in_id (max_by (\<lambda>i. case in_mttr_min i of Some x \<Rightarrow> x | None \<Rightarrow> 0) (month_incidents s tid mo m)),
     cr_amount_usd = round_dp 2 (tenant_monthly_usd s tid * of_nat (credit_pct_for avail) / 100),
     cr_pct = credit_pct_for avail, cr_status = ''calculated'', cr_applied_invoice = None\<rparr>"

lemma credit_for_run:
  "credit_for tid mo m avail s = (case List.find (\<lambda>c. cr_key c = credit_key tid mo) (dict_values (st_sla_credits s)) of
     Some c \<Rightarrow> (Inr c, s)
   | None \<Rightarrow> (Inr (priced tid mo m avail s), s\<lparr>st_counters := AList.update ''sla_credit'' (Suc (seq_of s ''sla_credit'')) (st_counters s),
       st_sla_credits := AList.update (credit_id (Suc (seq_of s ''sla_credit''))) (priced tid mo m avail s) (st_sla_credits s)\<rparr>))"
  by (simp add: credit_for_def bindE_run thenE_run next_seq_run Let_def priced_def credit_id_def split: option.splits)

lemma found_credit:
  assumes "ledger_ok s" "CHR ''|'' \<notin> set mo" "List.find (\<lambda>c. cr_key c = credit_key tid mo) (dict_values (st_sla_credits s)) = Some c"
  shows "c \<in> set (dict_values (st_sla_credits s)) \<and> cr_tenant_id c = tid \<and> cr_month c = mo"
proof -
  from find_SomeD [OF assms(3)] have c: "c \<in> set (dict_values (st_sla_credits s))" "cr_key c = credit_key tid mo" by auto
  with assms(1) have "filed c" by (simp add: ledger_ok_def)
  with c(2) assms(2) credit_key_inject [of "cr_tenant_id c" "cr_month c" tid "mo"] c(1) show ?thesis by (simp add: filed_def)
qed

lemma no_credit:
  assumes "ledger_ok s" "List.find (\<lambda>c. cr_key c = credit_key tid mo) (dict_values (st_sla_credits s)) = None"
    and "c \<in> set (dict_values (st_sla_credits s))"
  shows "(cr_tenant_id c, cr_month c) \<noteq> (tid, mo)"
  using assms by (auto simp: ledger_ok_def filed_def find_None_iff)

lemma ledger_add:
  assumes "ledger_from L s" "List.find (\<lambda>c. cr_key c = credit_key tid mo) (dict_values (st_sla_credits s)) = None"
    and "cr_tenant_id c = tid" "cr_month c = mo" "filed c"
  shows "ledger_from L (s\<lparr>st_counters := AList.update ''sla_credit'' (Suc (seq_of s ''sla_credit'')) (st_counters s),
       st_sla_credits := AList.update (credit_id (Suc (seq_of s ''sla_credit''))) c (st_sla_credits s)\<rparr>)"
proof -
  let ?k = "credit_id (Suc (seq_of s ''sla_credit''))"
  from assms(1) have ok: "ledger_ok s" and num: "crd.numbered (seq_of s ''sla_credit'') (st_sla_credits s)"
    by (simp_all add: ledger_from_def ledger_ok_def)
  then have free: "AList.update ?k c (st_sla_credits s) = st_sla_credits s @ [(?k, c)]"
    by (intro crd.update_free crd.next_key_free)
  have "crd.numbered (Suc (seq_of s ''sla_credit'')) (st_sla_credits s @ [(?k, c)])" using crd.numbered_add [OF num, of c] free by simp
  moreover have "(tid, mo) \<notin> (\<lambda>c. (cr_tenant_id c, cr_month c)) ` set (dict_values (st_sla_credits s))"
    using no_credit [OF ok assms(2)] by (metis (mono_tags, lifting) imageE)
  ultimately show ?thesis using assms unfolding free
    by (auto simp: ledger_from_def ledger_ok_def dict_values_def seq_of_def)
qed

lemma keeps_credit_for:
  assumes "avail < SLA_TARGET_PCT" "CHR ''|'' \<notin> set mo"
  shows "keeps (ledger_from L) (credit_for tid mo m avail)"
proof (rule keepsI)
  fix s
  assume "ledger_from L s"
  moreover have "filed (priced tid mo m avail s)" using assms credit_pct_cases by (simp add: filed_def priced_def)
  ultimately show "ledger_from L (snd (credit_for tid mo m avail s))"
    by (auto simp: credit_for_run priced_def intro!: ledger_add [where tid = tid and mo = "mo"] split: option.splits)
qed

text \<open>The rest of a report, once the month is parsed and incidents are in.\<close>

definition settle :: "string \<Rightarrow> string \<Rightarrow> month \<Rightarrow> sla sprog" where
  "settle tid mo m = bindE (getsE (\<lambda>s. availability s tid mo m)) (\<lambda>avail.
       bindE (if avail < SLA_TARGET_PCT then bindE (credit_for tid mo m avail) (\<lambda>c. returnE [c]) else returnE []) (\<lambda>cs.
       getsE (\<lambda>s. \<lparr>sl_month = mo, sl_availability_pct = avail, sl_violated = (avail < SLA_TARGET_PCT),
          sl_incidents = map (\<lambda>i. (in_id i, round_dp 2 (downtime_min (now s) i))) (month_incidents s tid mo m),
          sl_credits = cs, sl_monthly_amount_usd = tenant_monthly_usd s tid\<rparr>)))"

lemma keeps_settle: "CHR ''|'' \<notin> set mo \<Longrightarrow> keeps (ledger_from L) (settle tid mo m)"
  unfolding settle_def by (intro keeps_rules keeps_credit_for)

lemma report_via_settle:
  "sla_report feed tid month0 synth =
     thenE (known_tenant tid)
     (bindE (getsE (\<lambda>s. if truthy month0 then the month0 else month_text (month_of (now s)))) (\<lambda>mo.
      bindE (someE (HTTPException 422 ''month must be YYYY-MM'') (parse_month mo)) (\<lambda>m.
      thenE (sync_incidents feed) (thenE (if synth then synthesize tid mo m else returnE ())
      (thenE (raise_if (m = (9999, 12)) (PyError ''ValueError'')) (settle tid mo m))))))"
  unfolding sla_report_def settle_def ..

section \<open>Reports\<close>

definition sla_serve :: "fault list \<times> string \<times> string option \<times> bool \<Rightarrow> store \<Rightarrow> store" where
  "sla_serve = (\<lambda>(feed, tid, month0, synth) s. snd (sla_report feed tid month0 synth s))"

lemma round_dp_nonneg: "0 \<le> x \<Longrightarrow> 0 \<le> round_dp k x"
proof -
  assume "0 \<le> x"
  then have "0 \<le> \<lfloor>x * 10 ^ k\<rfloor>" by simp
  then show ?thesis by (simp add: round_dp_def round_even_def Let_def)
qed

lemma availability_nonneg: "0 \<le> availability s tid mo m"
  by (simp add: availability_def round_dp_nonneg)

lemma ledger_from_Nil: "ledger_from [] = ledger_ok"
  by (simp add: fun_eq_iff ledger_from_def)

text \<open>Before it settles, a report touches neither the ledger nor its numbering.\<close>

definition credits_are :: "sla_credit dict \<Rightarrow> store \<Rightarrow> bool" where
  "credits_are L s \<longleftrightarrow> st_sla_credits s = L \<and> ledger_ok s"

lemma credits_are_alt: "credits_are L s \<Longrightarrow> st_sla_credits s' = st_sla_credits s \<Longrightarrow> seq_of s ''sla_credit'' \<le> seq_of s' ''sla_credit''
    \<Longrightarrow> credits_are L s'"
  by (auto simp: credits_are_def ledger_ok_def intro: numbered_mono)

lemma keeps_credits_write:
  "(\<And>s. st_sla_credits (f s) = st_sla_credits s \<and> st_counters (f s) = st_counters s) \<Longrightarrow> keeps (credits_are L) (modifyE f)"
  by (rule keeps_modifyE, erule credits_are_alt) (simp_all add: seq_of_def)

lemma keeps_credits_seq: "keeps (credits_are L) (next_seq nm)"
  by (rule keepsI, erule credits_are_alt) (simp_all add: next_seq_run)

lemma keeps_credits_incidents:
  "keeps (credits_are L) (sync_incidents feed)" "keeps (credits_are L) (synthesize tid mo m)"
  unfolding sync_incidents_def sync_fault_def synthesize_def publish_rca_def put_incident_def Let_def
  by (intro keeps_rules keeps_credits_seq keeps_credits_write; simp)+

lemma known_tenant_run:
  "known_tenant tid s = (if has_key (st_tenants s) tid then Inr () else Inl (HTTPException 404 ''tenant not found''), s)"
  by (simp add: known_tenant_def bindE_run raise_if_run)

lemma report_prelude:
  assumes "sla_report feed tid month0 synth s = (Inr r, s')" "ledger_ok s"
  shows "\<exists>m s1. parse_month (if truthy month0 then the month0 else month_text (month_of (now s))) = Some m
     \<and> settle tid (if truthy month0 then the month0 else month_text (month_of (now s))) m s1 = (Inr r, s')
     \<and> st_sla_credits s1 = st_sla_credits s \<and> ledger_ok s1"
proof -
  let ?mo = "if truthy month0 then the month0 else month_text (month_of (now s))"
  let ?I = "credits_are (st_sla_credits s)"
  have I: "?I s" using assms(2) by (simp add: credits_are_def)
  let ?rest = "\<lambda>m. thenE (sync_incidents feed) (thenE (if synth then synthesize tid ?mo m else returnE ())
        (thenE (raise_if (m = (9999, 12)) (PyError ''ValueError'')) (settle tid ?mo m)))"
  have "bindE (someE (HTTPException 422 ''month must be YYYY-MM'') (parse_month ?mo)) ?rest s = (Inr r, s')"
    using assms(1) unfolding report_via_settle thenE_run known_tenant_run by (simp add: bindE_run split: if_splits)
  then obtain m where m: "parse_month ?mo = Some m" and run: "?rest m s = (Inr r, s')"
    by (cases "parse_month ?mo") (simp_all add: bindE_run someE_run)
  from thenE_ok [OF run] obtain s2 where s2: "?I s2"
      and run2: "thenE (if synth then synthesize tid ?mo m else returnE ())
        (thenE (raise_if (m = (9999, 12)) (PyError ''ValueError'')) (settle tid ?mo m)) s2 = (Inr r, s')"
    using keepsD_eq [OF keeps_credits_incidents(1)] I by metis
  have "keeps ?I (if synth then synthesize tid ?mo m else returnE ())" by (intro keeps_rules keeps_credits_incidents)
  with thenE_ok [OF run2] s2 obtain s3 where s3: "?I s3"
      and run3: "thenE (raise_if (m = (9999, 12)) (PyError ''ValueError'')) (settle tid ?mo m) s3 = (Inr r, s')"
    using keepsD_eq by metis
  then have "settle tid ?mo m s3 = (Inr r, s')" by (auto simp: thenE_run raise_if_run split: if_splits)
  with m s3 show ?thesis by (auto simp: credits_are_def)
qed

text \<open>What a report says of the ledger it found, by the availability it reports.\<close>

definition rate_of :: "rat \<Rightarrow> nat" where
  "rate_of avail = (if avail < 95 then 50 else if avail < 99 then 25 else 10)"

definition settled_by :: "sla_credit dict \<Rightarrow> string \<Rightarrow> sla \<Rightarrow> store \<Rightarrow> bool" where
  "settled_by L tid r s' \<longleftrightarrow> 0 \<le> sl_availability_pct r \<and> (sl_violated r \<longleftrightarrow> sl_availability_pct r < 999 / 10) \<and>
     (if sl_availability_pct r < 999 / 10
      then \<exists>c. sl_credits r = [c] \<and> c \<in> set (dict_values (st_sla_credits s')) \<and> cr_tenant_id c = tid \<and> cr_month c = sl_month r
         \<and> (c \<in> set (dict_values L) \<or> cr_pct c = rate_of (sl_availability_pct r)
              \<and> cr_amount_usd c = round_dp 2 (sl_monthly_amount_usd r * of_nat (cr_pct c) / 100))
      else sl_credits r = [] \<and> st_sla_credits s' = L)"

lemma settle_result:
  assumes "settle tid mo m s = (Inr r, s')" "ledger_ok s" "CHR ''|'' \<notin> set mo"
  shows "sl_month r = mo \<and> settled_by (st_sla_credits s) tid r s'"
proof (cases "availability s tid mo m < SLA_TARGET_PCT")
  case False
  with assms(1) availability_nonneg [of s tid "mo" m] show ?thesis
    by (auto simp: settle_def bindE_run settled_by_def SLA_TARGET_PCT_def)
next
  case True
  let ?a = "availability s tid mo m"
  have pct: "credit_pct_for ?a = rate_of ?a" using True by (simp add: credit_pct_for_def SLA_CREDIT_TABLE_def SLA_TARGET_PCT_def rate_of_def)
  show ?thesis
  proof (cases "List.find (\<lambda>c. cr_key c = credit_key tid mo) (dict_values (st_sla_credits s))")
    case (Some c)
    with found_credit [OF assms(2,3) Some] True assms(1) availability_nonneg [of s tid "mo" m] show ?thesis
      by (auto simp: settle_def bindE_run credit_for_run settled_by_def SLA_TARGET_PCT_def)
  next
    case None
    have num: "crd.numbered (seq_of s ''sla_credit'') (st_sla_credits s)" using assms(2) by (simp add: ledger_ok_def)
    have "tenant_monthly_usd (s\<lparr>st_counters := d, st_sla_credits := e\<rparr>) tid = tenant_monthly_usd s tid" for d e
      by (simp add: tenant_monthly_usd_def)
    with None True assms(1) availability_nonneg [of s tid "mo" m] pct crd.update_free [OF crd.next_key_free [OF num]] show ?thesis
      by (auto simp: settle_def bindE_run credit_for_run settled_by_def SLA_TARGET_PCT_def priced_def dict_values_def)
  qed
qed

lemma report_result:
  assumes "sla_report feed tid month0 synth s = (Inr r, s')" "ledger_ok s"
  shows "(\<forall>t. month0 = Some t \<and> t \<noteq> [] \<longrightarrow> sl_month r = t) \<and> settled_by (st_sla_credits s) tid r s' \<and> ledger_ok s'"
proof -
  let ?mo = "if truthy month0 then the month0 else month_text (month_of (now s))"
  from assms(1) obtain m s1 where m: "parse_month ?mo = Some m" and s1: "settle tid ?mo m s1 = (Inr r, s')"
      and pre: "st_sla_credits s1 = st_sla_credits s" "ledger_ok s1"
    using report_prelude [OF assms] by metis
  note plain = parsed_month_plain [OF m]
  from settle_result [OF s1 pre(2) plain] pre(1) have "sl_month r = ?mo" "settled_by (st_sla_credits s) tid r s'" by simp_all
  moreover have "ledger_ok s'"
    using keepsD [OF keeps_settle [OF plain], of "[]" s1 tid m] s1 pre(2) by (simp add: ledger_from_Nil)
  moreover have "?mo = t" if "month0 = Some t" "t \<noteq> []" for t using that by (simp add: truthy_def)
  ultimately show ?thesis by auto
qed

lemma keeps_ledger_report: "keeps (ledger_from L) (sla_report feed tid m0 synth)"
  unfolding report_via_settle thenE_def [symmetric]
proof (rule keepsI)
  fix s
  assume I: "ledger_from L s"
  let ?mo = "if truthy m0 then the m0 else month_text (month_of (now s))"
  show "ledger_from L (snd (thenE (known_tenant tid) (bindE (getsE (\<lambda>s. if truthy m0 then the m0 else month_text (month_of (now s)))) (\<lambda>mo.
      bindE (someE (HTTPException 422 ''month must be YYYY-MM'') (parse_month mo)) (\<lambda>m.
      thenE (sync_incidents feed) (thenE (if synth then synthesize tid mo m else returnE ())
      (thenE (raise_if (m = (9999, 12)) (PyError ''ValueError'')) (settle tid mo m)))))) s))"
  proof (cases "parse_month ?mo")
    case None
    with I show ?thesis by (simp add: known_tenant_def thenE_run bindE_run raise_if_run split: if_splits)
  next
    case (Some m)
    have "keeps (ledger_from L) (thenE (sync_incidents feed) (thenE (if synth then synthesize tid ?mo m else returnE ())
      (thenE (raise_if (m = (9999, 12)) (PyError ''ValueError'')) (settle tid ?mo m))))"
      by (intro keeps_rules keeps_ledger_incidents keeps_settle parsed_month_plain [OF Some])
    from keepsD [OF this I] Some I show ?thesis by (simp add: known_tenant_def thenE_run [of "raise_if _ _"] bindE_run raise_if_run thenE_run)
  qed
qed

lemma ledger_serve: "ledger_from L s \<Longrightarrow> ledger_from L (fold sla_serve reqs s)"
  by (induction reqs arbitrary: s) (auto simp: sla_serve_def intro: keepsD [OF keeps_ledger_report])

text \<open>
  C38. The ledger of service credits. Whatever reports are asked for, for any tenants and months and whatever faults
  come in between, there is at most one credit per tenant and month, its rate is 10, 25 or 50 percent, and no
  credit once booked is changed or lost: the ledger only grows at its end. A report for a month says that month. With availability below
  99.9 percent it is marked violated and carries exactly one credit, the tenant's own for that month: the one booked before, or a new one at 50 percent below
  95, 25 below 99 and 10 otherwise, of the tenant's monthly amount; any other report carries none and books none. Availability is never
  negative.
\<close>

theorem sla_ledger_sound:
  assumes "ledger_ok s"
  shows "ledger_ok (fold sla_serve reqs s) \<and> (\<exists>new. st_sla_credits (fold sla_serve reqs s) = st_sla_credits s @ new)
     \<and> distinct (map (\<lambda>c. (cr_tenant_id c, cr_month c)) (dict_values (st_sla_credits (fold sla_serve reqs s))))
     \<and> (\<forall>r s'. sla_report feed tid month0 synth (fold sla_serve reqs s) = (Inr r, s') \<longrightarrow>
          (\<forall>t. month0 = Some t \<and> t \<noteq> [] \<longrightarrow> sl_month r = t) \<and> 0 \<le> sl_availability_pct r \<and> (sl_violated r \<longleftrightarrow> sl_availability_pct r < 999 / 10) \<and>
          (if sl_availability_pct r < 999 / 10
           then \<exists>c. sl_credits r = [c] \<and> c \<in> set (dict_values (st_sla_credits s')) \<and> cr_tenant_id c = tid \<and> cr_month c = sl_month r
              \<and> (c \<in> set (dict_values (st_sla_credits (fold sla_serve reqs s)))
                 \<or> cr_pct c = (if sl_availability_pct r < 95 then 50 else if sl_availability_pct r < 99 then 25 else 10)
                   \<and> cr_amount_usd c = round_dp 2 (sl_monthly_amount_usd r * of_nat (cr_pct c) / 100))
           else sl_credits r = [] \<and> st_sla_credits s' = st_sla_credits (fold sla_serve reqs s)))"
proof -
  let ?s = "fold sla_serve reqs s"
  have "ledger_from (st_sla_credits s) ?s" using assms by (intro ledger_serve) (simp add: ledger_from_def)
  then have ok: "ledger_ok ?s" "\<exists>new. st_sla_credits ?s = st_sla_credits s @ new" by (simp_all add: ledger_from_def)
  moreover have "distinct (map (\<lambda>c. (cr_tenant_id c, cr_month c)) (dict_values (st_sla_credits ?s)))" using ok(1) by (simp add: ledger_ok_def)
  ultimately show ?thesis using report_result [of feed tid month0 synth ?s] unfolding settled_by_def rate_of_def by blast
qed

text \<open>A month of 28 days in which a tenant was down for a tenth of the time.\<close>

definition outage_store :: store where
  "outage_store = demo_store\<lparr>st_incidents := [(''inc-1'',
     (synthetic_incident ''inc-1'' ''tnt-a'' ''2026-02'' (2026, 2))\<lparr>in_mttr_min := Some 4032\<rparr>)]\<rparr>"

lemma february:
  "parse_month ''2026-02'' = Some (2026, 2)" "month_text (2026, 2) = ''2026-02''"
  "month_start (2026, 2) = 63905500800000000" "month_start (2026, 3) = 63907920000000000"
  by code_simp+

lemma february_window: "next_month (2026, 2) = (2026, 3)" "window_min (2026, 2) = 40320"
  by (simp_all add: window_min_def february next_month_def MINUTE_def)

lemma outage: "availability outage_store ''tnt-a'' ''2026-02'' (2026, 2) = 90"
  by (simp add: availability_def month_incidents_def in_month_def february february_window outage_store_def synthetic_incident_def
        dict_values_def downtime_min_def Let_def DAY_def HOUR_def round_dp_def round_even_def)

theorem sla_ledger_sound_witness:
  "\<exists>r s' c. sla_report [] ''tnt-a'' (Some ''2026-02'') False outage_store = (Inr r, s') \<and> sl_credits r = [c]
     \<and> cr_tenant_id c = ''tnt-a'' \<and> cr_month c = ''2026-02'' \<and> cr_pct c = 50"
proof -
  have none: "st_sla_credits outage_store = []" by (simp add: outage_store_def demo_store_def empty_store_def)
  then have "ledger_ok outage_store" by (simp add: ledger_ok_def crd.numbered_def dict_values_def)
  note sound = sla_ledger_sound [OF this, of "[]" "[]" "''tnt-a''" "Some ''2026-02''" False]
  have "has_key (st_tenants outage_store) ''tnt-a''" by code_simp
  then have "\<exists>r s'. sla_report [] ''tnt-a'' (Some ''2026-02'') False outage_store = (Inr r, s') \<and> sl_availability_pct r = 90"
    by (simp add: sla_report_def thenE_run known_tenant_run bindE_run truthy_def february someE_run sync_incidents_def outage
          SLA_TARGET_PCT_def credit_for_run split: option.splits)
  then obtain r s' where "sla_report [] ''tnt-a'' (Some ''2026-02'') False outage_store = (Inr r, s')" "sl_availability_pct r = 90" by blast
  with sound show ?thesis by (auto simp: none dict_values_def)
qed

end
