(* ===== verification/Typing_Spec.thy ===== *)
theory Typing_Spec
  imports Demo
begin

text \<open>
  The tenancy routes answer every request: with a value, or with one of the status codes they document,
  never with an internal error.
\<close>

definition answers :: "nat set \<Rightarrow> (err + 'a) \<times> 's \<Rightarrow> bool" where
  "answers codes r \<longleftrightarrow> (case fst r of Inr _ \<Rightarrow> True | Inl (HTTPException c _) \<Rightarrow> c \<in> codes | Inl (PyError _) \<Rightarrow> False)"

lemma answers_simps [simp]:
  "answers C (Inr x, s)" "answers C (Inl (HTTPException c d), s) \<longleftrightarrow> c \<in> C" "\<not> answers C (Inl (PyError d), s)"
  by (simp_all add: answers_def)

lemma answers_onStore [simp]: "answers C (onStore m w) \<longleftrightarrow> answers C (m (w_store w))"
  by (simp add: answers_def onStore_run)

lemma resolve_racks_answers: "answers {422} (resolve_racks body su s)"
proof -
  have member: "forE rids (\<lambda>rid. bindE (getsE (\<lambda>s. map_of (st_racks s) rid)) (\<lambda>r.
       raise_if (case r of None \<Rightarrow> True | Some r \<Rightarrow> rack_su_id r \<noteq> su_id su) (HTTPException 422 ''rack not in scalable unit''))) s
     = (if \<exists>rid \<in> set rids. (case map_of (st_racks s) rid of None \<Rightarrow> True | Some r \<Rightarrow> rack_su_id r \<noteq> su_id su)
        then (Inl (HTTPException 422 ''rack not in scalable unit''), s) else (Inr (), s))" for rids
    by (rule forE_guard) (simp add: bindE_run)
  show ?thesis
    by (auto simp: resolve_racks_def bindE_run thenE_run member split: AllocationScope.splits option.splits)
qed

lemma create_allocation_answers:
  assumes "topo_ok s"
  shows "answers {404, 409, 422} (create_allocation body s)"
proof (cases "map_of (st_tenants s) (ac_tenant_id body)")
  case None
  then show ?thesis by (simp add: create_allocation_def)
next
  case t: (Some t)
  show ?thesis
  proof (cases "map_of (st_sus s) (ac_su_id body)")
    case None
    with t show ?thesis by (simp add: create_allocation_def)
  next
    case su: (Some su)
    obtain res where res: "resolve_racks body su s = (res, s)"
      using resolve_racks_pure [of body su s] by (cases "resolve_racks body su s") auto
    show ?thesis
    proof (cases res)
      case (Inl e)
      then have "create_allocation body s = (Inl e, s)" using t su res by (simp add: create_allocation_def bindE_Inl)
      then show ?thesis using resolve_racks_answers [of body su s] res Inl by (auto simp: answers_def split: err.splits)
    next
      case (Inr rids)
      with res have r: "resolve_racks body su s = (Inr rids, s)" by simp
      have keys: "\<forall>rid \<in> set rids. has_key (st_racks s) rid"
        using resolve_racks_in_su [OF assms su, of body] r by (fastforce simp: has_key_def)
      show ?thesis
      proof (cases "(\<exists>rid \<in> set rids. allocation_for_rack s rid \<noteq> None) \<or> shares_su s t su rids")
        case True
        with t su r show ?thesis
          by (cases "\<exists>rid \<in> set rids. allocation_for_rack s rid \<noteq> None")
             (simp_all add: create_allocation_def bindE_Inr thenE_run check_free_run check_dedicated_run)
      next
        case False
        with create_allocation_success [OF assms t su r keys] show ?thesis by (auto simp: answers_def)
      qed
    qed
  qed
qed

lemma delete_allocation_answers:
  assumes "tenancy_inv s"
  shows "answers {404} (delete_allocation aid s)"
proof (cases "map_of (st_allocations s) aid")
  case None
  then show ?thesis by (simp add: delete_allocation_def)
next
  case (Some a)
  with delete_allocation_run [of s aid a] assms show ?thesis by (auto simp: tenancy_inv_def)
qed

lemma create_partition_answers: "answers {404, 409, 422} (create_partition body s)"
  by (cases "map_of (st_racks s) (pc_rack_id body)") (auto simp: create_partition_def thenE_run bindE_run Let_def)

lemma isolation_report_answers: "answers {404} (Tenancy.isolation_report tid s)"
  by (cases "map_of (st_tenants s) tid") (simp_all add: isolation_report_def bindE_run)

text \<open>A composition answers when its parts do.\<close>

lemma answers_bind: "answers C (m s) \<Longrightarrow> (\<And>x s'. answers C (f x s')) \<Longrightarrow> answers C (bindE m f s)"
  by (cases "m s") (auto simp: bindE_run answers_def [of C "(Inl _, _)"] split: sum.splits)

lemma answers_then: "answers C (m s) \<Longrightarrow> (\<And>s'. answers C (k s')) \<Longrightarrow> answers C (thenE m k s)"
  by (simp add: thenE_def answers_bind)

lemma create_realm_answers: "answers C (onShared (create_realm tid d) w)"
  by (cases "map_of (sh_realms (w_shared w)) tid")
     (simp_all add: answers_def onShared_run create_realm_def audit_def bindE_run thenE_run Let_def)

lemma alloc_vni_answers: "answers {409, 507} (alloc_vni f s)"
  by (simp add: alloc_vni_run split: option.splits)

lemma create_tenant_answers: "answers {409, 507} (create_tenant body w)"
  unfolding create_tenant_def Let_def
  by (intro answers_bind answers_then create_realm_answers) (simp_all add: alloc_vni_answers raise_if_def)

text \<open>
  C39. In every reachable state the routes of the tenancy API answer any request with a result or with one of the
  status codes they document: 409 or 507 for a new tenant, 404, 409 or 422 for allocations and partitions, 404 for a
  release and for the isolation report. None ends in an internal error: no rack or allocation they follow is missing.
\<close>

theorem tenancy_routes_answer:
  assumes "reachable A w"
  shows "answers {409, 507} (create_tenant tb w) \<and> answers {404, 409, 422} (onStore (create_allocation ab) w)
     \<and> answers {404} (onStore (delete_allocation aid) w) \<and> answers {404, 409, 422} (onStore (create_partition pb) w)
     \<and> answers {404} (onStore (Tenancy.isolation_report tid) w)"
  using reachable_invs [OF assms] create_tenant_answers create_allocation_answers delete_allocation_answers
    create_partition_answers isolation_report_answers
  by (simp add: tenancy_inv_def)

theorem tenancy_routes_answer_witness:
  "answers {404} (onStore (delete_allocation ''alloc-9'') run_alloc)"
  using tenancy_routes_answer [OF run_reachable(3)] by blast

end
