(* ===== verification/Topology_Views.thy ===== *)
theory Topology_Views
  imports Listings
begin

text \<open>
  The reports of \<open>app/topology.py\<close>: inventory totals, the nested topology, the composition of a scalable
  unit, capacity per site and equipment health, with the fabric constants of \<open>app/spec.py\<close> they print.
  Free-text notes are left out. A dangling id raises \<open>KeyError\<close> where the code indexes a dictionary.
\<close>

section \<open>Single objects\<close>

definition list_factories :: "store \<Rightarrow> ai_factory list" where
  "list_factories s = dict_values (st_factories s)"

definition list_sus :: "store \<Rightarrow> scalable_unit list" where
  "list_sus s = dict_values (st_sus s)"

definition get_su :: "string \<Rightarrow> scalable_unit sprog" where
  "get_su k = bindE (getsE (\<lambda>s. map_of (st_sus s) k)) (someE (HTTPException 404 ''scalable unit not found''))"

definition get_rack :: "string \<Rightarrow> rack sprog" where
  "get_rack k = bindE (getsE (\<lambda>s. map_of (st_racks s) k)) (someE (HTTPException 404 ''rack not found''))"

definition get_tray :: "string \<Rightarrow> compute_tray sprog" where
  "get_tray k = bindE (getsE (\<lambda>s. map_of (st_trays s) k)) (someE (HTTPException 404 ''tray not found''))"

definition list_blueprints :: "rack_blueprint list" where
  "list_blueprints = dict_values BLUEPRINTS"

section \<open>Inventory totals\<close>

definition hw_value :: "HwState \<Rightarrow> string" where
  "hw_value h = (case h of Hw_provisioning \<Rightarrow> ''provisioning'' | Hw_ready \<Rightarrow> ''ready'' | Hw_allocated \<Rightarrow> ''allocated''
     | Hw_draining \<Rightarrow> ''draining'' | Hw_faulted \<Rightarrow> ''faulted'' | Hw_maintenance \<Rightarrow> ''maintenance'')"

record inventory_summary =
  is_factories :: nat
  is_scalable_units :: nat
  is_racks :: nat
  is_compute_trays :: nat
  is_gpus :: nat
  is_cpus :: nat
  is_dpus :: nat
  is_hbm_total_tb :: rat
  is_design_power_mw :: rat
  is_capped_power_mw :: rat
  is_gpus_by_state :: "nat dict"
  is_gpus_by_arch :: "nat dict"
  is_racks_by_generation :: "nat dict"

definition inventory_summary_of :: "store \<Rightarrow> inventory_summary" where
  "inventory_summary_of s =
     \<lparr>is_factories = length (st_factories s), is_scalable_units = length (st_sus s), is_racks = length (st_racks s),
      is_compute_trays = length (st_trays s), is_gpus = length (st_gpus s), is_cpus = length (st_cpus s),
      is_dpus = length (st_dpus s),
      is_hbm_total_tb = round_dp 2 (of_nat (sum_list (map hbm_gb (dict_values (st_gpus s)))) / 1000),
      is_design_power_mw = round_dp 2 (of_nat (sum_list (map tdp_kw (dict_values (st_racks s)))) / 1000),
      is_capped_power_mw = round_dp 2 (of_nat (sum_list (map power_cap_kw (dict_values (st_racks s)))) / 1000),
      is_gpus_by_state = tally (map (\<lambda>g. hw_value (gpu_state g)) (dict_values (st_gpus s))),
      is_gpus_by_arch = tally (map gpu_arch (dict_values (st_gpus s))),
      is_racks_by_generation = tally (map rack_model (dict_values (st_racks s)))\<rparr>"

text \<open>A lookup that raises \<open>KeyError\<close> on a dangling id.\<close>

definition item_of :: "(store \<Rightarrow> 'v dict) \<Rightarrow> string \<Rightarrow> 'v sprog" where
  "item_of coll k = bindE (getsE (\<lambda>s. map_of (coll s) k)) (someE (PyError ''KeyError''))"

section \<open>The topology tree\<close>

record rack_leaf =
  rl_rack :: rack
  rl_gpus :: nat
  rl_gpus_allocated :: nat

record su_leaf =
  sl_su :: scalable_unit
  sl_model :: "string option"
  sl_gpu_count :: nat
  sl_racks :: "rack_leaf list"

definition rack_node :: "store \<Rightarrow> rack \<Rightarrow> rack_leaf" where
  "rack_node s r = (let gs = gpus_of_rack s (rack_id r) in
     \<lparr>rl_rack = r, rl_gpus = length gs, rl_gpus_allocated = length (filter (\<lambda>g. truthy (gpu_tenant_id g)) gs)\<rparr>)"

definition su_node :: "scalable_unit \<Rightarrow> su_leaf sprog" where
  "su_node su =
     bindE (case su_rack_ids su of [] \<Rightarrow> returnE None
            | r # _ \<Rightarrow> bindE (item_of st_racks r) (\<lambda>x. returnE (Some (rack_model x)))) (\<lambda>model.
     getsE (\<lambda>s. let racks = racks_of_su s (su_id su) in
       \<lparr>sl_su = su, sl_model = model, sl_gpu_count = sum_list (map (\<lambda>r. length (gpus_of_rack s (rack_id r))) racks),
        sl_racks = map (rack_node s) racks\<rparr>))"

definition du_node :: "string \<Rightarrow> (deployment_unit \<times> su_leaf list) sprog" where
  "du_node did =
     bindE (item_of st_dus did) (\<lambda>d.
     bindE (getsE (\<lambda>s. dict_pick (st_sus s) (du_su_ids d))) (\<lambda>us.
     bindE (collectE us su_node) (\<lambda>ls. returnE (d, ls))))"

definition block_node :: "string \<Rightarrow> (compute_block \<times> (deployment_unit \<times> su_leaf list) list) sprog" where
  "block_node bid =
     bindE (item_of st_blocks bid) (\<lambda>b. bindE (collectE (block_du_ids b) du_node) (\<lambda>ds. returnE (b, ds)))"

definition topology_tree :: "(ai_factory \<times> (compute_block \<times> (deployment_unit \<times> su_leaf list) list) list) list sprog" where
  "topology_tree =
     bindE (getsE (\<lambda>s. dict_values (st_factories s))) (\<lambda>fs.
     collectE fs (\<lambda>f. bindE (collectE (factory_block_ids f) block_node) (\<lambda>bs. returnE (f, bs))))"

section \<open>The composition of a unit\<close>

record ib_fabric =
  ib_networks :: "string list"
  rails_per_network :: nat
  leaves_per_network_per_su :: nat
  node_links_per_su :: nat
  link_speed_gbps :: nat
  ib_tier2_max_su :: nat
  ib_tier3_max_su :: nat
  ib_spine_racks_per_su :: nat
  ib_spine_rack_kw :: nat

definition IB_FABRIC :: ib_fabric where
  "IB_FABRIC = \<lparr>ib_networks = [''Fabric-A'', ''Fabric-B''], rails_per_network = 4, leaves_per_network_per_su = 16,
     node_links_per_su = 2304, link_speed_gbps = 800, ib_tier2_max_su = 9, ib_tier3_max_su = 32,
     ib_spine_racks_per_su = 4, ib_spine_rack_kw = 56\<rparr>"

record converged_fabric =
  cv_tier2_max_su :: nat
  spines_per_su_tier3 :: nat
  leaves_per_su_tier3 :: nat

definition CONVERGED_FABRIC :: converged_fabric where
  "CONVERGED_FABRIC = \<lparr>cv_tier2_max_su = 4, spines_per_su_tier3 = 4, leaves_per_su_tier3 = 12\<rparr>"

record cooling =
  cdu_per_su :: nat
  cdu_type :: string
  cdu_capacity_kw :: nat

definition COOLING :: cooling where
  "COOLING = \<lparr>cdu_per_su = 2, cdu_type = ''Liquid-to-Liquid in-row CDU'', cdu_capacity_kw = 2000\<rparr>"

record composition =
  co_su_id :: string
  co_hac_id :: string
  co_site :: "string option"
  co_blueprint :: string
  co_model :: string
  co_racks :: nat
  co_trays :: nat
  co_gpus :: nat
  co_rack_kw_maxq :: nat
  co_rack_kw_maxp :: nat
  co_cmx_racks :: nat
  co_cms_chassis :: nat
  co_ib_networks :: nat
  co_ib_leaves :: nat
  co_ib_leaves_per_network :: nat
  co_ib_spine_racks :: nat
  co_ib_spine_rack_kw :: nat
  co_node_links_800g :: nat
  co_spines :: nat
  co_leaves :: nat
  co_cdu :: nat
  co_cdu_type :: string
  co_cdu_capacity_kw :: nat
  co_hac_tdp_mw :: rat
  co_cooling_class :: string
  co_cpu_total :: nat
  co_cpu_allocated :: nat
  co_cpu_per_tenant :: nat

definition su_composition :: "string \<Rightarrow> composition sprog" where
  "su_composition k =
     bindE (getsE (\<lambda>s. map_of (st_sus s) k)) (\<lambda>su0.
     bindE (someE (HTTPException 404 ''scalable unit not found'') su0) (\<lambda>su.
     bindE (get_blueprint (su_blueprint_key su)) (\<lambda>bp.
     getsE (\<lambda>s. let racks = length (su_rack_ids su); trays = racks * compute_trays bp in
       \<lparr>co_su_id = su_id su, co_hac_id = su_hac_id su, co_site = map_option factory_name (factory_of_su s k),
        co_blueprint = bp_key bp, co_model = bp_model bp, co_racks = racks, co_trays = trays, co_gpus = racks * gpu_per_rack bp,
        co_rack_kw_maxq = maxq_rack_kw bp, co_rack_kw_maxp = maxp_rack_kw bp,
        co_cmx_racks = cmx_racks su, co_cms_chassis = cmx_racks su * 16,
        co_ib_networks = length (ib_networks IB_FABRIC),
        co_ib_leaves = leaves_per_network_per_su IB_FABRIC * length (ib_networks IB_FABRIC),
        co_ib_leaves_per_network = leaves_per_network_per_su IB_FABRIC, co_ib_spine_racks = ib_spine_racks_per_su IB_FABRIC,
        co_ib_spine_rack_kw = ib_spine_rack_kw IB_FABRIC, co_node_links_800g = trays * connectx_supernics_per_tray bp,
        co_spines = spines_per_su_tier3 CONVERGED_FABRIC, co_leaves = leaves_per_su_tier3 CONVERGED_FABRIC,
        co_cdu = cdu_per_su COOLING, co_cdu_type = cdu_type COOLING, co_cdu_capacity_kw = cdu_capacity_kw COOLING,
        co_hac_tdp_mw = hac_tdp_mw bp, co_cooling_class = bp_cooling bp, co_cpu_total = length (st_cpu_nodes s),
        co_cpu_allocated = length (filter (\<lambda>c. truthy (cn_tenant_id c)) (dict_values (st_cpu_nodes s))),
        co_cpu_per_tenant = 5\<rparr>))))"

section \<open>Capacity per site\<close>

definition factory_su_ids :: "ai_factory \<Rightarrow> string list sprog" where
  "factory_su_ids f =
     bindE (collectE (factory_block_ids f) (item_of st_blocks)) (\<lambda>bs.
     bindE (collectE (concat (map block_du_ids bs)) (item_of st_dus)) (\<lambda>ds. returnE (concat (map du_su_ids ds))))"

record site_view =
  sv_factory_id :: string
  sv_name :: string
  sv_site :: string
  sv_racks_total :: nat
  sv_racks_sellable :: nat
  sv_racks_contractable :: nat
  sv_racks_locked :: int
  sv_racks_allocated :: nat
  sv_racks_unhealthy :: nat
  sv_gpus_total :: nat
  sv_gpus_sellable :: nat
  sv_gpus_allocated :: nat
  sv_power_cap_kw :: nat
  sv_nodes_by_state :: "nat dict"
  sv_tenants :: "string list"
  sv_max_single_cluster_racks :: nat
  sv_floors :: "(string \<times> string \<times> rat) list"

definition unhealthy :: "HwState \<Rightarrow> bool" where
  "unhealthy h \<longleftrightarrow> h = Hw_faulted \<or> h = Hw_maintenance"

text \<open>Racks a new contract may use: none of a unit where a dedicated tenant holds one.\<close>

definition su_contractable :: "store \<Rightarrow> string \<Rightarrow> nat" where
  "su_contractable s su = (let rs = racks_of_su s su in
     if list_ex (\<lambda>r. truthy (rack_tenant_id r) \<and> is_dedicated s (the (rack_tenant_id r))) rs then 0
     else length (filter (rack_sellable s) rs))"

definition gpus_in :: "store \<Rightarrow> rack list \<Rightarrow> nat" where
  "gpus_in s rs = sum_list (map (\<lambda>r. length (gpus_of_rack s (rack_id r))) rs)"

definition site_view_of :: "ai_factory \<Rightarrow> site_view sprog" where
  "site_view_of f =
     bindE (factory_su_ids f) (\<lambda>sus.
     bindE (collectE sus (item_of st_sus)) (\<lambda>us.
     bindE (collectE (concat (map su_rack_ids us)) (item_of st_racks)) (\<lambda>racks.
     bindE (collectE (factory_block_ids f) (item_of st_blocks)) (\<lambda>bs.
     getsE (\<lambda>s. let sellable = filter (rack_sellable s) racks;
                   contractable = sum_list (map (su_contractable s) sus);
                   held = filter (\<lambda>r. truthy (rack_tenant_id r)) racks;
                   nodes = filter (\<lambda>n. node_rack_id n \<in> rack_id ` set racks) (dict_values (st_node_instances s)) in
       \<lparr>sv_factory_id = factory_id f, sv_name = factory_name f, sv_site = factory_site f,
        sv_racks_total = length racks, sv_racks_sellable = length sellable,
        sv_racks_contractable = contractable, sv_racks_locked = int (length sellable) - int contractable,
        sv_racks_allocated = length held,
        sv_racks_unhealthy = length (filter (\<lambda>r. unhealthy (rack_state r)) racks),
        sv_gpus_total = gpus_in s racks, sv_gpus_sellable = gpus_in s sellable, sv_gpus_allocated = gpus_in s held,
        sv_power_cap_kw = sum_list (map power_cap_kw racks),
        sv_nodes_by_state = tally (map (\<lambda>n. node_state_value (node_state n)) nodes),
        sv_tenants = sort (remdups (map (\<lambda>r. the (rack_tenant_id r)) held)),
        sv_max_single_cluster_racks = contractable,
        sv_floors = map (\<lambda>b. (block_name b, block_ready b, power_mw b)) bs\<rparr>)))))"

record site_totals =
  so_racks_total :: nat
  so_racks_sellable :: nat
  so_racks_contractable :: nat
  so_racks_locked :: int
  so_racks_allocated :: nat
  so_racks_unhealthy :: nat
  so_gpus_total :: nat
  so_gpus_sellable :: nat
  so_gpus_allocated :: nat
  so_power_cap_kw :: nat

definition totals_of :: "site_view list \<Rightarrow> site_totals" where
  "totals_of vs = \<lparr>so_racks_total = sum_list (map sv_racks_total vs), so_racks_sellable = sum_list (map sv_racks_sellable vs),
     so_racks_contractable = sum_list (map sv_racks_contractable vs), so_racks_locked = sum_list (map sv_racks_locked vs),
     so_racks_allocated = sum_list (map sv_racks_allocated vs), so_racks_unhealthy = sum_list (map sv_racks_unhealthy vs),
     so_gpus_total = sum_list (map sv_gpus_total vs), so_gpus_sellable = sum_list (map sv_gpus_sellable vs),
     so_gpus_allocated = sum_list (map sv_gpus_allocated vs), so_power_cap_kw = sum_list (map sv_power_cap_kw vs)\<rparr>"

definition inventory_sites :: "(site_view list \<times> site_totals) sprog" where
  "inventory_sites = bindE (getsE (\<lambda>s. dict_values (st_factories s))) (\<lambda>fs.
     bindE (collectE fs site_view_of) (\<lambda>vs. returnE (vs, totals_of vs)))"

section \<open>Equipment health\<close>

definition count_states :: "HwState list \<Rightarrow> nat dict" where
  "count_states hs = tally (map hw_value hs)"

record floor_health =
  fh_block_id :: string
  fh_name :: string
  fh_ready :: string
  fh_power_mw :: rat
  fh_racks :: nat
  fh_gpus :: nat
  fh_rack_states :: "nat dict"
  fh_gpu_states :: "nat dict"
  fh_unhealthy :: nat

definition floor_health_of :: "string \<Rightarrow> floor_health sprog" where
  "floor_health_of bid =
     bindE (item_of st_blocks bid) (\<lambda>b.
     bindE (collectE (block_du_ids b) (item_of st_dus)) (\<lambda>ds.
     bindE (collectE (concat (map du_su_ids ds)) (item_of st_sus)) (\<lambda>us.
     bindE (collectE (concat (map su_rack_ids us)) (item_of st_racks)) (\<lambda>racks.
     getsE (\<lambda>s. let trays = concat (map (\<lambda>r. trays_of_rack s (rack_id r)) racks);
                   gpus = concat (map (\<lambda>r. gpus_of_rack s (rack_id r)) racks) in
       \<lparr>fh_block_id = block_id b, fh_name = block_name b, fh_ready = block_ready b, fh_power_mw = power_mw b,
        fh_racks = length racks, fh_gpus = length gpus, fh_rack_states = count_states (map rack_state racks),
        fh_gpu_states = count_states (map gpu_state gpus),
        fh_unhealthy = length (filter (\<lambda>r. unhealthy (rack_state r)) racks)
          + length (filter (\<lambda>t. unhealthy (tray_state t)) trays)\<rparr>)))))"

record bad_item =
  bi_kind :: string
  bi_id :: string
  bi_state :: HwState
  bi_tenant_id :: "string option"

definition bad_items :: "store \<Rightarrow> bad_item list" where
  "bad_items s = filter (\<lambda>b. unhealthy (bi_state b))
     (map (\<lambda>r. \<lparr>bi_kind = ''rack'', bi_id = rack_id r, bi_state = rack_state r, bi_tenant_id = rack_tenant_id r\<rparr>) (dict_values (st_racks s))
      @ map (\<lambda>t. \<lparr>bi_kind = ''tray'', bi_id = tray_id t, bi_state = tray_state t, bi_tenant_id = tray_tenant_id t\<rparr>) (dict_values (st_trays s))
      @ map (\<lambda>g. \<lparr>bi_kind = ''gpu'', bi_id = gpu_id g, bi_state = gpu_state g, bi_tenant_id = gpu_tenant_id g\<rparr>) (dict_values (st_gpus s)))"

definition breakfix_nodes :: "store \<Rightarrow> nat" where
  "breakfix_nodes s = length (filter (\<lambda>n. node_state n \<in> {N_quarantined, N_rma, N_cordoned}) (dict_values (st_node_instances s)))"

record equipment =
  eq_sites :: "(string \<times> string \<times> string \<times> floor_health list) list"
  eq_racks :: "nat dict"
  eq_trays :: "nat dict"
  eq_gpus :: "nat dict"
  eq_unhealthy_equipment :: nat
  eq_breakfix_nodes :: nat
  eq_faulted_equipment :: "bad_item list"

definition equipment_health :: "equipment sprog" where
  "equipment_health =
     bindE (getsE (\<lambda>s. dict_values (st_factories s))) (\<lambda>fs.
     bindE (collectE fs (\<lambda>f. bindE (collectE (factory_block_ids f) floor_health_of) (\<lambda>fl.
              returnE (factory_id f, factory_name f, factory_site f, fl)))) (\<lambda>sites.
     getsE (\<lambda>s. \<lparr>eq_sites = sites, eq_racks = count_states (map rack_state (dict_values (st_racks s))),
        eq_trays = count_states (map tray_state (dict_values (st_trays s))),
        eq_gpus = count_states (map gpu_state (dict_values (st_gpus s))),
        eq_unhealthy_equipment = length (bad_items s), eq_breakfix_nodes = breakfix_nodes s,
        eq_faulted_equipment = take 100 (sort_key bi_id (bad_items s))\<rparr>)))"

end
