(* ===== verification/K8s_Views.thy ===== *)
theory K8s_Views
  imports Topology_Views
begin

text \<open>
  The read routes of a managed cluster in \<open>app/k8s_api.py\<close> and \<open>app/lifecycle.py\<close>: the cluster itself, its
  acceptance report, node pools and exposed services. Machine descriptions and other display texts are left out.
\<close>

definition get_k8s_cluster :: "string \<Rightarrow> k8s_cluster sprog" where
  "get_k8s_cluster cid = cluster_or_404 cid"

definition ACCEPTANCE_CHECKS :: "string list" where
  "ACCEPTANCE_CHECKS = [''node-ready'', ''nccl-allreduce'', ''dcgm-diag'', ''storage-mount'']"

datatype acceptance_view = Stored "(string \<times> string) list" | Synthetic (av_status: string) (av_checks: "(string \<times> string) list")

definition cluster_acceptance :: "string \<Rightarrow> acceptance_view sprog" where
  "cluster_acceptance cid =
     bindE (cluster_or_404 cid) (\<lambda>c.
     returnE (case kc_acceptance c of
        Some (r # rs) \<Rightarrow> Stored (r # rs)
      | _ \<Rightarrow> if kc_state c = ''installing'' then Synthetic ''running'' (map (\<lambda>n. (n, ''pending'')) ACCEPTANCE_CHECKS)
             else if kc_state c = ''failed'' then Synthetic ''fail'' [] else Synthetic ''n/a'' []))"

definition K8S_WORKER_IMAGE :: string where "K8S_WORKER_IMAGE = ''dgx-os-7.0''"

record nodepool =
  np_name :: string
  np_role :: string
  np_count :: nat
  np_image :: string
  np_version :: string

definition cluster_nodepools :: "string \<Rightarrow> nodepool list sprog" where
  "cluster_nodepools cid =
     bindE (cluster_or_404 cid) (\<lambda>c.
     returnE [\<lparr>np_name = ''control-plane'', np_role = ''cp'', np_count = length (kc_cp_node_ids c), np_image = K8S_CP_IMAGE,
                np_version = kc_version c\<rparr>,
              \<lparr>np_name = ''gpu-workers'', np_role = ''gpu-worker'', np_count = length (kc_worker_node_ids c),
                np_image = K8S_WORKER_IMAGE, np_version = kc_version c\<rparr>])"

record exposed =
  ex_name :: string
  ex_type :: string
  ex_vip_or_host :: string
  ex_ports :: "nat list"
  ex_state :: string

text \<open>\<open>int(id.rsplit("-", 1)[1])\<close>, 0 without a dash; other text than digits raises \<open>ValueError\<close>.\<close>

definition cluster_seq :: "string \<Rightarrow> ('s, nat) prog" where
  "cluster_seq cid = (case after_last CHR ''-'' cid of None \<Rightarrow> returnE 0
     | Some t \<Rightarrow> someE (PyError ''ValueError'') (undec t))"

definition cluster_services :: "string \<Rightarrow> exposed list sprog" where
  "cluster_services cid =
     bindE (cluster_or_404 cid) (\<lambda>c.
     bindE (cluster_seq (kc_id c)) (\<lambda>n.
     let st = (if kc_state c = ''running'' then ''active'' else ''pending''); host = kc_name c @ ''.k8s.neocloud.skt'' in
     returnE [\<lparr>ex_name = ''kube-apiserver'', ex_type = ''LB'', ex_vip_or_host = kc_api_vip c, ex_ports = [6443], ex_state = st\<rparr>,
              \<lparr>ex_name = host, ex_type = ''DNS'', ex_vip_or_host = host, ex_ports = [], ex_state = st\<rparr>,
              \<lparr>ex_name = ''ingress-default'', ex_type = ''Ingress'', ex_vip_or_host = ''10.250.3.'' @ dec (n mod 200 + 10),
                ex_ports = [80, 443], ex_state = st\<rparr>]))"

end
