(* ===== verification/Tray_Emu.thy ===== *)
theory Tray_Emu
  imports Service_Levels Trace
begin

text \<open>
  \<open>app/tray_emu.py\<close>: the emulator of compute trays. A tray in service runs its tenant's workload, its GPUs may fault
  and recover, and the log of fault episodes feeds incidents and cluster health. \<open>random.random()\<close> is a stream,
  an argument; the state counts the draws. The store is read, never written.
\<close>

section \<open>Constants and state\<close>

definition GPU_IDLE_W :: rat where "GPU_IDLE_W = 90"
definition TRAY_BASE_W :: rat where "TRAY_BASE_W = 800"
definition TICK_S :: rat where "TICK_S = 2"
definition HISTORY_LEN :: nat where "HISTORY_LEN = 240"
definition FAULT_LOG_LEN :: nat where "FAULT_LOG_LEN = 500"

record profile =
  pf_util :: "rat \<times> rat"
  pf_nvlink :: "rat \<times> rat"
  pf_ckpt_every :: nat

definition PROFILES :: "profile dict" where
  "PROFILES = [(''training'', \<lparr>pf_util = (88, 99), pf_nvlink = (22 / 10, 34 / 10), pf_ckpt_every = 40\<rparr>),
     (''inference'', \<lparr>pf_util = (35, 75), pf_nvlink = (5 / 10, 15 / 10), pf_ckpt_every = 0\<rparr>),
     (''idle'', \<lparr>pf_util = (0, 4), pf_nvlink = (0, 5 / 100), pf_ckpt_every = 0\<rparr>)]"

definition TOKENS_K_PER_GPU :: "rat dict" where
  "TOKENS_K_PER_GPU = [(''Rubin'', 60), (''Blackwell Ultra (B300)'', 38), (''Blackwell (B200)'', 30)]"

definition XID_POOL :: "nat list" where "XID_POOL = [63, 79, 48]"

record gpu_telemetry =
  gt_index :: nat
  gt_state :: string
  gt_util_pct :: rat
  gt_hbm_used_gb :: rat
  gt_hbm_total_gb :: nat
  gt_temp_c :: rat
  gt_power_w :: rat
  gt_ecc_corrected :: nat
  gt_xid_events :: "nat list"
  gt_fault_ttl :: nat

record tray_runtime =
  rt_tray_id :: string
  rt_host_id :: string
  rt_rack_id :: string
  rt_tenant_id :: "string option"
  rt_workload :: string
  rt_job_name :: "string option"
  rt_cpu_util_pct :: rat
  rt_nvlink_tx_tbps :: rat
  rt_nvlink_rx_tbps :: rat
  rt_power_w :: rat
  rt_gpu_max_w :: rat
  rt_gpu_arch :: string
  rt_step :: nat
  rt_gpus :: "gpu_telemetry list"

record cluster_summary =
  cs_tenant_id :: string
  cs_profile :: string
  cs_trays :: nat
  cs_gpus :: nat
  cs_avg_util_pct :: rat
  cs_power_kw :: rat
  cs_power_cap_kw :: nat
  cs_max_gpu_temp_c :: rat
  cs_nvlink_tbps :: rat
  cs_tokens_ks :: rat
  cs_ecc_corrected_total :: nat
  cs_fault_gpus :: nat

record episode =
  ep_tray_id :: string
  ep_host_id :: string
  ep_gpu :: nat
  ep_xid :: nat
  ep_tenant_id :: "string option"
  ep_started_at :: int
  ep_started_step :: nat
  ep_detail :: "string option"
  ep_tta_s :: rat
  ep_resolved_at :: "int option"
  ep_ttr_s :: "rat option"
  ep_state :: string

record global_point =
  gp_at :: int
  gp_step :: nat
  gp_total_gpus :: nat
  gp_active_gpus :: nat
  gp_alloc_pct :: rat
  gp_avg_util_pct :: rat
  gp_power_kw :: rat
  gp_tokens_ks :: rat
  gp_max_gpu_temp_c :: rat
  gp_fault_gpus :: nat

record tenant_point =
  tp_at :: int
  tp_step :: nat
  tp_summary :: cluster_summary

record emu =
  em_trays :: "tray_runtime dict"
  em_cluster_profile :: "string dict"
  em_step :: nat
  em_history_global :: "global_point list"
  em_history_tenants :: "tenant_point list dict"
  em_fault_log :: "episode list"
  em_drawn :: nat

definition emu_reset :: "emu \<Rightarrow> emu" where
  "emu_reset e = \<lparr>em_trays = [], em_cluster_profile = [], em_step = 0, em_history_global = [], em_history_tenants = [],
     em_fault_log = [], em_drawn = em_drawn e\<rparr>"

definition round0 :: "rat \<Rightarrow> rat" where "round0 x = of_int (round_even x)"

section \<open>Alignment with the topology\<close>

definition new_gpu :: "nat \<Rightarrow> nat \<Rightarrow> gpu_telemetry" where
  "new_gpu hbm i = \<lparr>gt_index = i, gt_state = ''idle'', gt_util_pct = 0, gt_hbm_used_gb = 0, gt_hbm_total_gb = hbm, gt_temp_c = 34,
     gt_power_w = GPU_IDLE_W, gt_ecc_corrected = 0, gt_xid_events = [], gt_fault_ttl = 0\<rparr>"

definition new_runtime :: "store \<Rightarrow> compute_tray \<Rightarrow> tray_runtime" where
  "new_runtime s t = (let r0 = map_of (st_racks s) (tray_rack_id t);
       bp0 = Option.bind r0 (\<lambda>r. map_of BLUEPRINTS (rack_blueprint_key r)) in
     \<lparr>rt_tray_id = tray_id t, rt_host_id = ''nh-'' @ tray_id t, rt_rack_id = tray_rack_id t, rt_tenant_id = None,
      rt_workload = ''standby'', rt_job_name = None, rt_cpu_util_pct = 2, rt_nvlink_tx_tbps = 0, rt_nvlink_rx_tbps = 0,
      rt_power_w = 350,
      rt_gpu_max_w = (case (r0, bp0) of
          (Some r, Some bp) \<Rightarrow> round0 (of_nat (tdp_kw r) * 1000 * (72 / 100) / of_nat (gpu_per_rack bp)) | _ \<Rightarrow> 1200),
      rt_gpu_arch = (case bp0 of Some bp \<Rightarrow> bp_gpu_arch bp | None \<Rightarrow> ''''), rt_step = 0,
      rt_gpus = (case bp0 of Some bp \<Rightarrow> map (new_gpu (gpu_hbm_gb bp)) [0..<gpu_per_tray bp] | None \<Rightarrow> map (new_gpu 192) [0..<4])\<rparr>)"

definition serving :: "store \<Rightarrow> string \<Rightarrow> node_instance option" where
  "serving s t = (case map_of (st_node_instances s) (''ni-'' @ t) of
     Some n \<Rightarrow> if node_state n = N_in_service \<and> truthy (node_tenant_id n) then Some n else None | None \<Rightarrow> None)"

definition profile_of :: "string dict \<Rightarrow> string \<Rightarrow> string" where
  "profile_of ps tid = (case map_of ps tid of Some p \<Rightarrow> p | None \<Rightarrow> ''training'')"

definition clear_gpu :: "gpu_telemetry \<Rightarrow> gpu_telemetry" where
  "clear_gpu g = g\<lparr>gt_state := ''idle'', gt_util_pct := 0, gt_hbm_used_gb := 0, gt_xid_events := []\<rparr>"

definition job_of :: "string \<Rightarrow> node_instance \<Rightarrow> string" where
  "job_of tid n = tid @ ''-job-'' @ (case node_order_id n of Some x \<Rightarrow> x | None \<Rightarrow> ''None'')"

definition bind_runtime :: "store \<Rightarrow> tray_runtime \<Rightarrow> string dict \<Rightarrow> tray_runtime \<times> string dict" where
  "bind_runtime s rt ps = (case serving s (rt_tray_id rt) of
     Some n \<Rightarrow> (let tid = the (node_tenant_id n);
         (rt1, ps1) = (if rt_tenant_id rt \<noteq> Some tid
            then (rt\<lparr>rt_tenant_id := Some tid, rt_job_name := Some (job_of tid n)\<rparr>,
                  if has_key ps tid then ps else AList.update tid ''training'' ps)
            else (rt, ps)) in (rt1\<lparr>rt_workload := profile_of ps1 tid\<rparr>, ps1))
   | None \<Rightarrow> ((if rt_tenant_id rt \<noteq> None
        then rt\<lparr>rt_tenant_id := None, rt_job_name := None, rt_gpus := map clear_gpu (rt_gpus rt)\<rparr> else rt)\<lparr>rt_workload := ''standby''\<rparr>, ps))"

definition sync_tray :: "store \<Rightarrow> compute_tray \<Rightarrow> emu \<Rightarrow> emu" where
  "sync_tray s t e = (let rt0 = (case map_of (em_trays e) (tray_id t) of Some rt \<Rightarrow> rt | None \<Rightarrow> new_runtime s t);
       (rt, ps) = bind_runtime s rt0 (em_cluster_profile e) in
     e\<lparr>em_trays := AList.update (tray_id t) rt (em_trays e), em_cluster_profile := ps\<rparr>)"

definition prune_emu :: "store \<Rightarrow> emu \<Rightarrow> emu" where
  "prune_emu s e = (let live = map tray_id (dict_values (st_trays s));
       ts = filter (\<lambda>(k, _). k \<in> set live) (em_trays e);
       active = List.map_filter (\<lambda>rt. if truthy (rt_tenant_id rt) then rt_tenant_id rt else None) (dict_values ts) in
     e\<lparr>em_trays := ts, em_cluster_profile := filter (\<lambda>(t, _). t \<in> set active) (em_cluster_profile e)\<rparr>)"

definition sync_from_store :: "store \<Rightarrow> emu \<Rightarrow> emu" where
  "sync_from_store s e = prune_emu s (fold (sync_tray s) (dict_values (st_trays s)) e)"

definition set_profile :: "store \<Rightarrow> string \<Rightarrow> string \<Rightarrow> (emu, unit) prog" where
  "set_profile s tid p =
     thenE (raise_if (\<not> has_key PROFILES p) (HTTPException 422 ''unknown profile''))
     (thenE (modifyE (sync_from_store s))
     (bindE (getsE (\<lambda>e. has_key (em_cluster_profile e) tid)) (\<lambda>known.
      thenE (raise_if (\<not> known) (HTTPException 404 ''no active cluster''))
            (modifyE (\<lambda>e. e\<lparr>em_cluster_profile := AList.update tid p (em_cluster_profile e)\<rparr>)))))"

section \<open>Simulation\<close>

type_synonym draws = "nat \<Rightarrow> rat"

definition draw :: "draws \<Rightarrow> (emu, rat) prog" where
  "draw rnd = bindE (getsE em_drawn) (\<lambda>k. thenE (modifyE (\<lambda>e. e\<lparr>em_drawn := k + 1\<rparr>)) (returnE (rnd k)))"

definition uniform :: "draws \<Rightarrow> rat \<Rightarrow> rat \<Rightarrow> (emu, rat) prog" where
  "uniform rnd lo hi = bindE (draw rnd) (\<lambda>u. returnE (lo + (hi - lo) * u))"

definition choice :: "draws \<Rightarrow> 'a list \<Rightarrow> (emu, 'a) prog" where
  "choice rnd xs = bindE (draw rnd) (\<lambda>u. returnE (xs ! nat \<lfloor>u * of_nat (length xs)\<rfloor>))"

fun upd_first :: "('a \<Rightarrow> bool) \<Rightarrow> ('a \<Rightarrow> 'a) \<Rightarrow> 'a list \<Rightarrow> 'a list" where
  "upd_first P f [] = []"
| "upd_first P f (x # xs) = (if P x then f x # xs else x # upd_first P f xs)"

text \<open>The newest open episode of a GPU is closed.\<close>

definition open_on :: "string \<Rightarrow> nat \<Rightarrow> episode \<Rightarrow> bool" where
  "open_on t g ep \<longleftrightarrow> ep_tray_id ep = t \<and> ep_gpu ep = g \<and> ep_resolved_at ep = None"

definition close_episode :: "int \<Rightarrow> string \<Rightarrow> nat \<Rightarrow> emu \<Rightarrow> emu" where
  "close_episode ts t g e = e\<lparr>em_fault_log := rev (upd_first (open_on t g)
     (\<lambda>ep. ep\<lparr>ep_resolved_at := Some ts, ep_ttr_s := Some (round_dp 1 (of_nat (em_step e - ep_started_step ep) * TICK_S)),
        ep_state := ''resolved''\<rparr>) (rev (em_fault_log e)))\<rparr>"

definition open_episode :: "tray_runtime \<Rightarrow> nat \<Rightarrow> nat \<Rightarrow> string option \<Rightarrow> int \<Rightarrow> nat \<Rightarrow> episode" where
  "open_episode rt g xid d ts st =
     \<lparr>ep_tray_id = rt_tray_id rt, ep_host_id = rt_host_id rt, ep_gpu = g, ep_xid = xid, ep_tenant_id = rt_tenant_id rt,
      ep_started_at = ts, ep_started_step = st, ep_detail = d, ep_tta_s = TICK_S, ep_resolved_at = None, ep_ttr_s = None,
      ep_state = ''open''\<rparr>"

definition log_episode :: "episode \<Rightarrow> (emu, unit) prog" where
  "log_episode ep = modifyE (\<lambda>e. e\<lparr>em_fault_log := push_bounded FAULT_LOG_LEN ep (em_fault_log e)\<rparr>)"

definition faulted_gpu :: "gpu_telemetry \<Rightarrow> gpu_telemetry" where
  "faulted_gpu g = g\<lparr>gt_fault_ttl := gt_fault_ttl g - 1, gt_state := ''fault'', gt_util_pct := 0, gt_power_w := GPU_IDLE_W,
     gt_temp_c := max 40 (gt_temp_c g - 3)\<rparr>"

definition loaded_gpu :: "rat \<Rightarrow> bool \<Rightarrow> rat \<Rightarrow> rat \<Rightarrow> rat \<Rightarrow> gpu_telemetry \<Rightarrow> gpu_telemetry" where
  "loaded_gpu max_w training target u1 u2 g =
     (let util = round_dp 1 (min 100 (max 0 (gt_util_pct g + (target - gt_util_pct g) * (35 / 100) + u1)));
          temp = round_dp 1 (min 92 (34 + util * (1 / 2) + u2)) in
      g\<lparr>gt_util_pct := util, gt_temp_c := temp,
        gt_state := (if temp > 88 then ''throttled'' else if util > 8 then ''active'' else ''idle''),
        gt_power_w := round0 (GPU_IDLE_W + util / 100 * (max_w - GPU_IDLE_W)),
        gt_hbm_used_gb := round_dp 1 (of_nat (gt_hbm_total_gb g) * ((if training then 55 / 100 else 35 / 100) + 4 / 10 * util / 100))\<rparr>)"

definition advance_gpu :: "draws \<Rightarrow> bool \<Rightarrow> int \<Rightarrow> tray_runtime \<Rightarrow> string \<Rightarrow> rat \<Rightarrow> gpu_telemetry \<Rightarrow> (emu, gpu_telemetry) prog" where
  "advance_gpu rnd faults_on ts rt pname target g =
     (if gt_fault_ttl g > 0 then
        (let g' = faulted_gpu g in
         thenE (if gt_fault_ttl g' = 0 then modifyE (close_episode ts (rt_tray_id rt) (gt_index g)) else returnE ()) (returnE g'))
      else
        bindE (uniform rnd (- 3) 3) (\<lambda>u1.
        bindE (uniform rnd (- 15 / 10) (15 / 10)) (\<lambda>u2.
        bindE (draw rnd) (\<lambda>u3.
        let g1 = loaded_gpu (rt_gpu_max_w rt) (pname = ''training'') target u1 u2 g;
            g2 = (if u3 < 2 / 1000 then g1\<lparr>gt_ecc_corrected := gt_ecc_corrected g1 + 1\<rparr> else g1) in
        if \<not> faults_on then returnE g2
        else bindE (draw rnd) (\<lambda>u4.
          if u4 < 1 / 10000 then
            bindE (choice rnd XID_POOL) (\<lambda>xid.
            bindE (getsE em_step) (\<lambda>st.
            thenE (log_episode (open_episode rt (gt_index g) xid None ts st))
                  (returnE (g2\<lparr>gt_xid_events := gt_xid_events g2 @ [xid], gt_fault_ttl := 5, gt_state := ''fault''\<rparr>))))
          else returnE g2)))))"

definition idle_gpu :: "draws \<Rightarrow> gpu_telemetry \<Rightarrow> (emu, gpu_telemetry) prog" where
  "idle_gpu rnd g = bindE (uniform rnd 31 36) (\<lambda>t.
     returnE (g\<lparr>gt_state := ''idle'', gt_util_pct := 0, gt_temp_c := round_dp 1 t, gt_power_w := GPU_IDLE_W\<rparr>))"

definition advance_standby :: "draws \<Rightarrow> tray_runtime \<Rightarrow> (emu, tray_runtime) prog" where
  "advance_standby rnd rt =
     bindE (uniform rnd (- 1 / 2) (1 / 2)) (\<lambda>u.
     bindE (collectE (rt_gpus rt) (idle_gpu rnd)) (\<lambda>gs.
     returnE (rt\<lparr>rt_cpu_util_pct := max (1 / 2) (min 4 (rt_cpu_util_pct rt + u)), rt_nvlink_tx_tbps := 0, rt_nvlink_rx_tbps := 0,
       rt_gpus := gs, rt_power_w := round0 (TRAY_BASE_W / 2 + sum_list (map gt_power_w gs))\<rparr>)))"

definition avg_util :: "gpu_telemetry list \<Rightarrow> rat" where
  "avg_util gs = sum_list (map gt_util_pct gs) / of_nat (max 1 (length gs))"

definition advance_loaded :: "draws \<Rightarrow> bool \<Rightarrow> int \<Rightarrow> tray_runtime \<Rightarrow> string \<Rightarrow> (emu, tray_runtime) prog" where
  "advance_loaded rnd faults_on ts rt tid =
     bindE (getsE (\<lambda>e. (profile_of (em_cluster_profile e) tid, em_step e))) (\<lambda>(pname, st).
     bindE (someE (PyError ''KeyError'') (map_of PROFILES pname)) (\<lambda>prof.
     let ckpt = (pf_ckpt_every prof \<noteq> 0 \<and> st mod pf_ckpt_every prof < 4) in
     bindE (if ckpt then uniform rnd 18 30 else uniform rnd (fst (pf_util prof)) (snd (pf_util prof))) (\<lambda>target.
     bindE (collectE (rt_gpus rt) (advance_gpu rnd faults_on ts rt pname target)) (\<lambda>gs.
     bindE (uniform rnd (fst (pf_nvlink prof)) (snd (pf_nvlink prof))) (\<lambda>tx.
     bindE (uniform rnd (fst (pf_nvlink prof)) (snd (pf_nvlink prof))) (\<lambda>rx.
     bindE (uniform rnd (- 4) 4) (\<lambda>u.
     returnE (rt\<lparr>rt_workload := (if ckpt then ''checkpoint'' else pname), rt_gpus := gs,
       rt_nvlink_tx_tbps := round_dp 2 (tx * (avg_util gs / 100)), rt_nvlink_rx_tbps := round_dp 2 (rx * (avg_util gs / 100)),
       rt_cpu_util_pct := round_dp 1 (min 100 (15 + avg_util gs * (45 / 100) + u)),
       rt_power_w := round0 (TRAY_BASE_W + sum_list (map gt_power_w gs))\<rparr>))))))))"

definition advance :: "draws \<Rightarrow> bool \<Rightarrow> int \<Rightarrow> tray_runtime \<Rightarrow> (emu, tray_runtime) prog" where
  "advance rnd faults_on ts rt0 =
     bindE (getsE em_step) (\<lambda>st. let rt = rt0\<lparr>rt_step := st\<rparr> in
     if rt_workload rt = ''standby'' \<or> rt_tenant_id rt = None then advance_standby rnd rt
     else advance_loaded rnd faults_on ts rt (the (rt_tenant_id rt)))"

section \<open>Summaries and time series\<close>

definition tenant_trays :: "emu \<Rightarrow> string \<Rightarrow> tray_runtime list" where
  "tenant_trays e tid = filter (\<lambda>rt. rt_tenant_id rt = Some tid) (dict_values (em_trays e))"

definition active_tenants :: "emu \<Rightarrow> string list" where
  "active_tenants e = sort (remdups (List.map_filter (\<lambda>rt. if truthy (rt_tenant_id rt) then rt_tenant_id rt else None) (dict_values (em_trays e))))"

definition max_or_0 :: "rat list \<Rightarrow> rat" where
  "max_or_0 xs = (case xs of [] \<Rightarrow> 0 | y # ys \<Rightarrow> fold max ys y)"

definition summary_of :: "store \<Rightarrow> emu \<Rightarrow> string \<Rightarrow> cluster_summary" where
  "summary_of s e tid = (let ts = tenant_trays e tid; gs = concat (map rt_gpus ts);
       coef = (case map_of TOKENS_K_PER_GPU (rt_gpu_arch (hd ts)) of Some c \<Rightarrow> c | None \<Rightarrow> 30) in
     \<lparr>cs_tenant_id = tid, cs_profile = profile_of (em_cluster_profile e) tid, cs_trays = length ts, cs_gpus = length gs,
      cs_avg_util_pct = round_dp 1 (avg_util gs), cs_power_kw = round_dp 1 (sum_list (map rt_power_w ts) / 1000),
      cs_power_cap_kw = sum_list (map power_cap_kw (dict_pick (st_racks s) (remdups (map rt_rack_id ts)))),
      cs_max_gpu_temp_c = max_or_0 (map gt_temp_c gs), cs_nvlink_tbps = round_dp 1 (sum_list (map rt_nvlink_tx_tbps ts)),
      cs_tokens_ks = round_dp 1 (sum_list (map (\<lambda>g. gt_util_pct g / 100 * coef) gs)),
      cs_ecc_corrected_total = sum_list (map gt_ecc_corrected gs),
      cs_fault_gpus = length (filter (\<lambda>g. gt_state g = ''fault'') gs)\<rparr>)"

definition clusters :: "store \<Rightarrow> emu \<Rightarrow> cluster_summary list" where
  "clusters s e = map (summary_of s e) (active_tenants e)"

definition global_point_of :: "int \<Rightarrow> emu \<Rightarrow> cluster_summary list \<Rightarrow> global_point" where
  "global_point_of ts e cs = (let act = sum_list (map cs_gpus cs); tot = sum_list (map (\<lambda>rt. length (rt_gpus rt)) (dict_values (em_trays e))) in
     \<lparr>gp_at = ts, gp_step = em_step e, gp_total_gpus = tot, gp_active_gpus = act,
      gp_alloc_pct = (if tot = 0 then 0 else round_dp 1 (of_nat act / of_nat tot * 100)),
      gp_avg_util_pct = round_dp 1 (if act = 0 then 0 else sum_list (map (\<lambda>c. cs_avg_util_pct c * of_nat (cs_gpus c)) cs) / of_nat act),
      gp_power_kw = round_dp 1 (sum_list (map cs_power_kw cs)), gp_tokens_ks = round_dp 1 (sum_list (map cs_tokens_ks cs)),
      gp_max_gpu_temp_c = max_or_0 (map cs_max_gpu_temp_c cs), gp_fault_gpus = sum_list (map cs_fault_gpus cs)\<rparr>)"

definition push_tenant_point :: "int \<Rightarrow> nat \<Rightarrow> cluster_summary \<Rightarrow> tenant_point list dict \<Rightarrow> tenant_point list dict" where
  "push_tenant_point ts st c d = AList.update (cs_tenant_id c)
     (push_bounded HISTORY_LEN \<lparr>tp_at = ts, tp_step = st, tp_summary = c\<rparr> (case map_of d (cs_tenant_id c) of Some xs \<Rightarrow> xs | None \<Rightarrow> [])) d"

definition record_point :: "store \<Rightarrow> emu \<Rightarrow> emu" where
  "record_point s e = (let cs = clusters s e in
     e\<lparr>em_history_global := push_bounded HISTORY_LEN (global_point_of (now s) e cs) (em_history_global e),
       em_history_tenants := filter (\<lambda>(t, _). t \<in> cs_tenant_id ` set cs)
         (fold (push_tenant_point (now s) (em_step e)) cs (em_history_tenants e))\<rparr>)"

definition advance_tray :: "draws \<Rightarrow> bool \<Rightarrow> int \<Rightarrow> string \<Rightarrow> (emu, unit) prog" where
  "advance_tray rnd faults_on ts k =
     bindE (getsE (\<lambda>e. map_of (em_trays e) k)) (\<lambda>rt0. bindE (someE (PyError ''KeyError'') rt0) (\<lambda>rt.
     bindE (advance rnd faults_on ts rt) (\<lambda>rt'. modifyE (\<lambda>e. e\<lparr>em_trays := AList.update k rt' (em_trays e)\<rparr>))))"

definition tick_once :: "draws \<Rightarrow> bool \<Rightarrow> store \<Rightarrow> (emu, unit) prog" where
  "tick_once rnd faults_on s =
     thenE (modifyE (\<lambda>e. e\<lparr>em_step := em_step e + 1\<rparr>))
     (bindE (getsE (\<lambda>e. map fst (em_trays e))) (\<lambda>ks.
      thenE (forE ks (advance_tray rnd faults_on (now s))) (modifyE (record_point s))))"

fun ticks :: "draws \<Rightarrow> bool \<Rightarrow> store \<Rightarrow> nat \<Rightarrow> (emu, unit) prog" where
  "ticks rnd faults_on s 0 = returnE ()"
| "ticks rnd faults_on s (Suc n) = thenE (tick_once rnd faults_on s) (ticks rnd faults_on s n)"

definition emu_tick :: "draws \<Rightarrow> bool \<Rightarrow> store \<Rightarrow> nat \<Rightarrow> (emu, nat) prog" where
  "emu_tick rnd faults_on s n =
     thenE (modifyE (sync_from_store s)) (thenE (ticks rnd faults_on s n) (getsE em_step))"

definition tick_route :: "draws \<Rightarrow> bool \<Rightarrow> store \<Rightarrow> int \<Rightarrow> (emu, nat) prog" where
  "tick_route rnd faults_on s n = emu_tick rnd faults_on s (nat (min (max n 1) 200))"

section \<open>Reads\<close>

definition clamped :: "int \<Rightarrow> int" where "clamped k = min (max k 1) 240"

definition history_global :: "int \<Rightarrow> emu \<Rightarrow> global_point list" where
  "history_global k e = py_last (clamped k) (em_history_global e)"

definition history_tenant :: "string \<Rightarrow> int \<Rightarrow> emu \<Rightarrow> tenant_point list" where
  "history_tenant tid k e = py_last (clamped k) (case map_of (em_history_tenants e) tid of Some xs \<Rightarrow> xs | None \<Rightarrow> [])"

definition emu_snapshot :: "string option \<Rightarrow> string option \<Rightarrow> emu \<Rightarrow> tray_runtime list" where
  "emu_snapshot tid rid e = sort_key rt_tray_id (filter (\<lambda>rt. (tid = None \<or> rt_tenant_id rt = tid) \<and> (rid = None \<or> Some (rt_rack_id rt) = rid))
     (dict_values (em_trays e)))"

definition emu_tray :: "string \<Rightarrow> (emu, tray_runtime) prog" where
  "emu_tray k = bindE (getsE (\<lambda>e. map_of (em_trays e) k)) (someE (HTTPException 404 ''emu: tray not found''))"

record emu_state =
  es_step :: nat
  es_trays_total :: nat
  es_trays_active :: nat

definition emu_status :: "emu \<Rightarrow> emu_state" where
  "emu_status e = \<lparr>es_step = em_step e, es_trays_total = length (em_trays e),
     es_trays_active = length (filter (\<lambda>rt. truthy (rt_tenant_id rt)) (dict_values (em_trays e)))\<rparr>"

section \<open>Fault episodes\<close>

text \<open>An episode as the feed shows it to incidents and cluster health.\<close>

definition fault_of :: "episode \<Rightarrow> fault" where
  "fault_of ep = \<lparr>fa_tray_id = Some (ep_tray_id ep), fa_gpu = Some (int (ep_gpu ep)), fa_xid = Some (ep_xid ep), fa_kind = None,
     fa_severity = None, fa_detail = ep_detail ep, fa_started_at = Some (ep_started_at ep), fa_at = Some (ep_started_at ep),
     fa_resolved = (ep_resolved_at ep \<noteq> None), fa_resolved_at = ep_resolved_at ep, fa_ttr_s = ep_ttr_s ep, fa_tenant_id = ep_tenant_id ep\<rparr>"

record fault_metrics =
  fm_gpus_total :: nat
  fm_inband :: bool
  fm_faults_open :: nat
  fm_faults_resolved :: nat
  fm_availability_pct :: "rat option"
  fm_mtta_s :: "rat option"
  fm_mttr_s :: "rat option"
  fm_recent :: "fault list"

definition mean1 :: "rat list \<Rightarrow> rat option" where
  "mean1 xs = (if xs = [] then None else Some (round_dp 1 (sum_list xs / of_nat (length xs))))"

definition emu_faults :: "store \<Rightarrow> string option \<Rightarrow> int \<Rightarrow> emu \<Rightarrow> fault_metrics" where
  "emu_faults s tid k e =
     (let all = \<not> truthy tid;
          items = filter (\<lambda>ep. all \<or> ep_tenant_id ep = tid) (em_fault_log e);
          gpus = sum_list (map (\<lambda>rt. length (rt_gpus rt)) (filter (\<lambda>rt. all \<or> rt_tenant_id rt = tid) (dict_values (em_trays e))));
          opened = filter (\<lambda>ep. ep_resolved_at ep = None) items;
          closed = filter (\<lambda>ep. ep_resolved_at ep \<noteq> None) items in
      \<lparr>fm_gpus_total = gpus,
       fm_inband = list_ex (\<lambda>c. (all \<or> Some (kc_tenant_id c) = tid) \<and> kc_state c = ''running'') (dict_values (st_k8s_clusters s)),
       fm_faults_open = length opened, fm_faults_resolved = length closed,
       fm_availability_pct = (if gpus = 0 then None else Some (round_dp 3 ((1 - of_nat (length opened) / of_nat gpus) * 100))),
       fm_mtta_s = mean1 (map ep_tta_s items), fm_mttr_s = mean1 (map (\<lambda>ep. the (ep_ttr_s ep)) closed),
       fm_recent = rev (py_last k (map fault_of (opened @ closed)))\<rparr>)"

text \<open>The route merges the feed of the site controller's emulator, an argument, for requests without a tenant.\<close>

definition faults_route :: "fault list \<Rightarrow> store \<Rightarrow> string option \<Rightarrow> int \<Rightarrow> emu \<Rightarrow> fault_metrics" where
  "faults_route twin s tid k e = (let m = emu_faults s tid k e in
     if truthy tid \<or> twin = [] then m
     else m\<lparr>fm_recent := py_take k (sort_desc (\<lambda>f. case fa_at f of None \<Rightarrow> (0::nat, 0) | Some t \<Rightarrow> (1, t)) (twin @ fm_recent m))\<rparr>)"

definition mark_fault :: "nat \<Rightarrow> nat \<Rightarrow> gpu_telemetry \<Rightarrow> gpu_telemetry" where
  "mark_fault xid ttl g = g\<lparr>gt_xid_events := gt_xid_events g @ [xid], gt_fault_ttl := ttl, gt_state := ''fault''\<rparr>"

definition inject_fault :: "store \<Rightarrow> string \<Rightarrow> int \<Rightarrow> nat \<Rightarrow> int \<Rightarrow> (emu, episode) prog" where
  "inject_fault s k g xid ttl =
     thenE (modifyE (sync_from_store s))
     (bindE (emu_tray k) (\<lambda>rt.
      thenE (raise_if (\<not> (0 \<le> g \<and> g < int (length (rt_gpus rt)))) (HTTPException 422 ''emu: gpu index out of range''))
      (bindE (getsE em_step) (\<lambda>st.
       let i = nat g; gt = rt_gpus rt ! i; ep = open_episode rt (gt_index gt) xid (Some ''injected'') (now s) st in
       thenE (modifyE (\<lambda>e. e\<lparr>em_trays := AList.update k
                (rt\<lparr>rt_gpus := (rt_gpus rt)[i := mark_fault xid (nat (max 1 (min ttl 300))) gt]\<rparr>) (em_trays e)\<rparr>))
       (thenE (log_episode ep) (returnE ep))))))"

definition sample_episode :: "string \<Rightarrow> nat \<Rightarrow> nat \<Rightarrow> int \<Rightarrow> nat \<Rightarrow> bool \<Rightarrow> episode" where
  "sample_episode k g xid ts st solved =
     \<lparr>ep_tray_id = k, ep_host_id = ''nh-'' @ k, ep_gpu = g, ep_xid = xid, ep_tenant_id = None, ep_started_at = ts, ep_started_step = st,
      ep_detail = Some ''sample'', ep_tta_s = TICK_S, ep_resolved_at = (if solved then Some ts else None),
      ep_ttr_s = (if solved then Some 10 else None), ep_state = (if solved then ''resolved'' else ''open'')\<rparr>"

definition seed_sample_faults :: "store \<Rightarrow> (emu, unit) prog" where
  "seed_sample_faults s = (case sort (map fst (st_trays s)) of [] \<Rightarrow> returnE ()
     | t # ts \<Rightarrow> bindE (getsE em_step) (\<lambda>st.
         thenE (log_episode (sample_episode t 0 63 (now s) st True))
               (log_episode (sample_episode ((t # ts) ! (1 mod length (t # ts))) 1 79 (now s) st False))))"

end
