(* ===== verification/Fault_Spec.thy ===== *)
theory Fault_Spec
  imports Tray_Emu
begin

text \<open>
  The life of a fault episode. On a tray in service a fault ends after exactly as many ticks as it was given, and its
  episode is closed with the time it took; on a tray that is not in service it never ends.
\<close>

section \<open>Specifying emulator programs\<close>

text \<open>\<open>ends P m Q\<close>: from a state satisfying \<open>P\<close> the program returns, never raises, and \<open>Q\<close> holds of its result and state.\<close>

definition ends :: "('s \<Rightarrow> bool) \<Rightarrow> ('s, 'a) prog \<Rightarrow> ('a \<Rightarrow> 's \<Rightarrow> bool) \<Rightarrow> bool" where
  "ends P m Q \<longleftrightarrow> (\<forall>s. P s \<longrightarrow> (\<exists>x s'. m s = (Inr x, s') \<and> Q x s'))"

lemma endsD: "ends P m Q \<Longrightarrow> P s \<Longrightarrow> \<exists>x s'. m s = (Inr x, s') \<and> Q x s'"
  by (simp add: ends_def)

lemma endsI: "(\<And>s. P s \<Longrightarrow> \<exists>x s'. m s = (Inr x, s') \<and> Q x s') \<Longrightarrow> ends P m Q"
  by (simp add: ends_def)

lemma ends_bind: "ends P m R \<Longrightarrow> (\<And>x. ends (R x) (f x) Q) \<Longrightarrow> ends P (bindE m f) Q"
  by (rule endsI) (fastforce dest: endsD simp: bindE_run)

lemma ends_then: "ends P m (\<lambda>_. R) \<Longrightarrow> ends R k Q \<Longrightarrow> ends P (thenE m k) Q"
  by (rule endsI) (fastforce dest: endsD simp: thenE_run)

lemma ends_return: "(\<And>s. P s \<Longrightarrow> Q x s) \<Longrightarrow> ends P (returnE x) Q"
  by (rule endsI) simp

lemma ends_gets: "(\<And>s. P s \<Longrightarrow> Q (f s) s) \<Longrightarrow> ends P (getsE f) Q"
  by (rule endsI) simp

lemma ends_modify: "(\<And>s. P s \<Longrightarrow> Q () (f s)) \<Longrightarrow> ends P (modifyE f) Q"
  by (rule endsI) simp

lemma ends_post: "ends P m Q \<Longrightarrow> (\<And>x s. Q x s \<Longrightarrow> R x s) \<Longrightarrow> ends P m R"
  by (rule endsI) (blast dest: endsD)

lemma ends_pre: "ends P m Q \<Longrightarrow> (\<And>s. R s \<Longrightarrow> P s) \<Longrightarrow> ends R m Q"
  by (rule endsI) (blast dest: endsD)

lemma ends_known: "(\<And>s. P s \<Longrightarrow> f s = v) \<Longrightarrow> ends P (g v) Q \<Longrightarrow> ends P (bindE (getsE f) g) Q"
  by (simp add: ends_def bindE_run)

lemma ends_some: "ends P (g v) Q \<Longrightarrow> ends P (bindE (someE e (Some v)) g) Q"
  by (simp add: ends_def bindE_run)

text \<open>One element of a collection, then the others.\<close>

lemma ends_collect:
  assumes "ends P (f x) (\<lambda>y s. A y \<and> R s)" and "ends R (collectE xs f) (\<lambda>ys s. B ys \<and> S s)"
    and "\<And>y ys. A y \<Longrightarrow> B ys \<Longrightarrow> C (y # ys)"
  shows "ends P (collectE (x # xs) f) (\<lambda>zs s. C zs \<and> S s)"
proof (rule endsI)
  fix s
  assume "P s"
  with assms(1) obtain y s1 where y: "f x s = (Inr y, s1)" "A y" "R s1" by (blast dest: endsD)
  with assms(2) obtain ys s2 where "collectE xs f s1 = (Inr ys, s2)" "B ys" "S s2" by (blast dest: endsD)
  with y assms(3) show "\<exists>zs s'. collectE (x # xs) f s = (Inr zs, s') \<and> C zs \<and> S s'" by (simp add: bindE_run)
qed

section \<open>The episodes of one GPU\<close>

definition eps :: "string \<Rightarrow> nat \<Rightarrow> emu \<Rightarrow> episode list" where
  "eps k i e = filter (\<lambda>ep. ep_tray_id ep = k \<and> ep_gpu ep = i) (em_fault_log e)"

definition closed_by :: "int \<Rightarrow> nat \<Rightarrow> episode list \<Rightarrow> episode list" where
  "closed_by ts st xs = rev (upd_first (\<lambda>ep. ep_resolved_at ep = None)
     (\<lambda>ep. ep\<lparr>ep_resolved_at := Some ts, ep_ttr_s := Some (round_dp 1 (of_nat (st - ep_started_step ep) * TICK_S)),
        ep_state := ''resolved''\<rparr>) (rev xs))"

lemma filter_upd_first_same:
  "(\<And>x. P x \<longleftrightarrow> Q x \<and> R x) \<Longrightarrow> (\<And>x. Q (f x) = Q x) \<Longrightarrow> filter Q (upd_first P f xs) = upd_first R f (filter Q xs)"
  by (induction xs) auto

lemma filter_upd_first_other:
  "(\<And>x. P x \<Longrightarrow> \<not> Q x) \<Longrightarrow> (\<And>x. Q (f x) = Q x) \<Longrightarrow> filter Q (upd_first P f xs) = filter Q xs"
  by (induction xs) auto

lemma eps_close_same: "eps k i (close_episode ts k i e) = closed_by ts (em_step e) (eps k i e)"
  unfolding eps_def close_episode_def closed_by_def
  by (simp add: rev_filter [symmetric])
     (subst filter_upd_first_same [where R = "\<lambda>ep. ep_resolved_at ep = None"], auto simp: open_on_def rev_filter)

lemma eps_close_other: "(k', i') \<noteq> (k, i) \<Longrightarrow> eps k i (close_episode ts k' i' e) = eps k i e"
  unfolding eps_def close_episode_def
  by (simp add: rev_filter [symmetric])
     (subst filter_upd_first_other, auto simp: open_on_def rev_filter)

section \<open>A GPU's tick\<close>

text \<open>
  What holds while the trays advance: the step, the trays and the profiles are fixed, and the episodes of GPU \<open>i\<close> of tray \<open>k\<close>
  are \<open>E\<close>.
\<close>

definition during :: "nat \<Rightarrow> tray_runtime dict \<Rightarrow> string dict \<Rightarrow> string \<Rightarrow> nat \<Rightarrow> episode list \<Rightarrow> emu \<Rightarrow> bool" where
  "during st T ps k i E e \<longleftrightarrow> em_step e = st \<and> em_trays e = T \<and> em_cluster_profile e = ps \<and> eps k i e = E"

lemma ends_draw: "ends (during st T ps k i E) (draw rnd) (\<lambda>_. during st T ps k i E)"
  by (rule endsI) (simp add: draw_def bindE_run thenE_run during_def eps_def)

lemma ends_uniform: "ends (during st T ps k i E) (uniform rnd lo hi) (\<lambda>_. during st T ps k i E)"
  unfolding uniform_def by (rule ends_bind [OF ends_draw]) (rule ends_return)

lemma gpu_other:
  assumes "(rt_tray_id rt, gt_index g) \<noteq> (k, i)"
  shows "ends (during st T ps k i E) (advance_gpu rnd False ts rt pname target g)
    (\<lambda>g' e. gt_index g' = gt_index g \<and> during st T ps k i E e)"
proof (cases "gt_fault_ttl g > 0")
  case True
  then show ?thesis using eps_close_other [OF assms]
    by (intro endsI) (auto simp: advance_gpu_def Let_def thenE_run faulted_gpu_def during_def close_episode_def)
next
  case False
  have idx: "gt_index (loaded_gpu w tr t u v g) = gt_index g" for w tr t u v by (simp add: loaded_gpu_def Let_def)
  show ?thesis unfolding advance_gpu_def using False idx
    by (auto intro!: ends_bind [OF ends_uniform] ends_bind [OF ends_draw] ends_return simp: Let_def)
qed

lemma gpu_hit:
  assumes "rt_tray_id rt = k" "gt_index g = i" "gt_fault_ttl g = Suc m"
  shows "ends (during st T ps k i E) (advance_gpu rnd False ts rt pname target g)
    (\<lambda>g' e. gt_index g' = i \<and> gt_fault_ttl g' = m \<and> during st T ps k i (if m = 0 then closed_by ts st E else E) e)"
  using assms eps_close_same [of k i ts]
  by (intro endsI) (auto simp: advance_gpu_def Let_def thenE_run faulted_gpu_def during_def close_episode_def)

definition ttl_of :: "nat \<Rightarrow> gpu_telemetry list \<Rightarrow> nat option" where
  "ttl_of i gs = map_option gt_fault_ttl (List.find (\<lambda>g. gt_index g = i) gs)"

lemma gpus_other:
  assumes "rt_tray_id rt \<noteq> k \<or> i \<notin> gt_index ` set gs"
  shows "ends (during st T ps k i E) (collectE gs (advance_gpu rnd False ts rt pname target))
    (\<lambda>gs' e. map gt_index gs' = map gt_index gs \<and> during st T ps k i E e)"
  using assms
proof (induction gs)
  case (Cons g gs)
  then have "(rt_tray_id rt, gt_index g) \<noteq> (k, i)" and rest: "rt_tray_id rt \<noteq> k \<or> i \<notin> gt_index ` set gs" by auto
  then show ?case by (intro ends_collect [OF gpu_other Cons.IH]) simp_all
qed (simp add: ends_def)

lemma gpus_hit:
  assumes "rt_tray_id rt = k" "distinct (map gt_index gs)" "ttl_of i gs = Some (Suc m)"
  shows "ends (during st T ps k i E) (collectE gs (advance_gpu rnd False ts rt pname target))
    (\<lambda>gs' e. (map gt_index gs' = map gt_index gs \<and> ttl_of i gs' = Some m)
       \<and> during st T ps k i (if m = 0 then closed_by ts st E else E) e)"
  using assms(2,3)
proof (induction gs)
  case (Cons g gs)
  show ?case
  proof (cases "gt_index g = i")
    case True
    then have "gt_fault_ttl g = Suc m" and rest: "rt_tray_id rt \<noteq> k \<or> i \<notin> gt_index ` set gs"
      using Cons.prems by (auto simp: ttl_of_def)
    from gpu_hit [OF assms(1) True this(1), unfolded conj_assoc [symmetric]]
    show ?thesis by (rule ends_collect [OF _ gpus_other [OF rest]]) (use True in \<open>auto simp: ttl_of_def\<close>)
  next
    case False
    then have "ttl_of i gs = Some (Suc m)" "distinct (map gt_index gs)" using Cons.prems by (auto simp: ttl_of_def)
    moreover have "(rt_tray_id rt, gt_index g) \<noteq> (k, i)" using False by simp
    ultimately show ?thesis using False by (intro ends_collect [OF gpu_other Cons.IH]) (auto simp: ttl_of_def)
  qed
qed (simp add: ttl_of_def)

section \<open>A tray's tick\<close>

definition keeps_shape :: "tray_runtime \<Rightarrow> tray_runtime \<Rightarrow> bool" where
  "keeps_shape rt rt' \<longleftrightarrow> rt_tray_id rt' = rt_tray_id rt \<and> rt_tenant_id rt' = rt_tenant_id rt
     \<and> map gt_index (rt_gpus rt') = map gt_index (rt_gpus rt) \<and> (rt_workload rt' = ''standby'' \<longleftrightarrow> rt_workload rt = ''standby'')"

definition running :: "tray_runtime \<Rightarrow> bool" where
  "running rt \<longleftrightarrow> rt_workload rt \<noteq> ''standby'' \<and> rt_tenant_id rt \<noteq> None"

definition profiles_ok :: "string dict \<Rightarrow> bool" where
  "profiles_ok ps \<longleftrightarrow> (\<forall>p \<in> set (dict_values ps). has_key PROFILES p)"

lemma idle_gpus: "ends (during st T ps k i E) (collectE gs (idle_gpu rnd))
    (\<lambda>gs' e. map gt_index gs' = map gt_index gs \<and> during st T ps k i E e)"
proof (induction gs)
  case (Cons g gs)
  have "ends (during st T ps k i E) (idle_gpu rnd g) (\<lambda>g' e. gt_index g' = gt_index g \<and> during st T ps k i E e)"
    unfolding idle_gpu_def by (rule ends_bind [OF ends_uniform]) (auto intro: ends_return)
  then show ?case by (rule ends_collect [OF _ Cons.IH]) simp
qed (simp add: ends_def)

lemma standby_tray:
  assumes "\<not> running rt"
  shows "ends (during st T ps k i E) (advance rnd False ts rt) (\<lambda>rt' e. keeps_shape rt rt' \<and> during st T ps k i E e)"
proof -
  have stand: "ends (during st T ps k i E) (advance_standby rnd rt1)
      (\<lambda>rt' e. keeps_shape rt1 rt' \<and> during st T ps k i E e)" for rt1
    unfolding advance_standby_def
    by (intro ends_bind [OF ends_uniform] ends_bind [OF idle_gpus] ends_return) (auto simp: keeps_shape_def)
  have "keeps_shape (rt\<lparr>rt_step := n\<rparr>) rt' = keeps_shape rt rt'" for n rt' by (simp add: keeps_shape_def)
  with stand [of "rt\<lparr>rt_step := _\<rparr>"] assms show ?thesis
    unfolding advance_def Let_def by (auto simp: ends_def bindE_run running_def)
qed

lemma PROFILES_names: "map_of PROFILES p = Some prof \<Longrightarrow> p \<noteq> ''standby''"
  by (auto simp: PROFILES_def split: if_splits)

lemma profile_known:
  assumes "profiles_ok ps"
  shows "\<exists>prof. map_of PROFILES (profile_of ps tid) = Some prof"
proof -
  have "has_key PROFILES (profile_of ps tid)"
  proof (cases "map_of ps tid")
    case None
    then show ?thesis by (simp add: profile_of_def PROFILES_def has_key_def)
  next
    case (Some p)
    then show ?thesis using assms map_of_dict_values [OF Some] by (simp add: profile_of_def profiles_ok_def)
  qed
  then show ?thesis by (auto simp: has_key_def)
qed

text \<open>A running tray: its GPUs advance, everything else of its shape stays.\<close>

lemma running_tray:
  assumes "profiles_ok ps" "running rt"
    and gpus: "\<And>rt1 pname target. rt_tray_id rt1 = rt_tray_id rt \<Longrightarrow>
        ends (during st T ps k i E) (collectE (rt_gpus rt) (advance_gpu rnd False ts rt1 pname target))
          (\<lambda>gs' e. (map gt_index gs' = map gt_index (rt_gpus rt) \<and> G gs') \<and> during st T ps k i E' e)"
  shows "ends (during st T ps k i E) (advance rnd False ts rt)
    (\<lambda>rt' e. keeps_shape rt rt' \<and> G (rt_gpus rt') \<and> during st T ps k i E' e)"
proof -
  let ?rt = "rt\<lparr>rt_step := st\<rparr>"
  obtain tid where tid: "rt_tenant_id rt = Some tid" and wl: "rt_workload rt \<noteq> ''standby''" using assms(2) by (auto simp: running_def)
  obtain prof where prof: "map_of PROFILES (profile_of ps tid) = Some prof" using profile_known [OF assms(1)] by blast
  define ckpt where "ckpt = (pf_ckpt_every prof \<noteq> 0 \<and> st mod pf_ckpt_every prof < 4)"
  have target: "ends (during st T ps k i E) (if ckpt then uniform rnd 18 30 else uniform rnd (fst (pf_util prof)) (snd (pf_util prof)))
      (\<lambda>_. during st T ps k i E)"
    by (simp add: ends_uniform)
  have gs: "ends (during st T ps k i E) (collectE (rt_gpus ?rt) (advance_gpu rnd False ts ?rt pn tg))
      (\<lambda>gs' e. (map gt_index gs' = map gt_index (rt_gpus rt) \<and> G gs') \<and> during st T ps k i E' e)" for pn tg
    using gpus [of ?rt] by simp
  have draws: "ends (\<lambda>e. X \<and> during st T ps k i E' e) (uniform rnd lo hi) (\<lambda>_ e. X \<and> during st T ps k i E' e)" for X lo hi
    using ends_uniform [of st T ps k i E' rnd lo hi] by (auto simp: ends_def)
  have "ends (during st T ps k i E) (advance_loaded rnd False ts ?rt tid)
      (\<lambda>rt' e. keeps_shape rt rt' \<and> G (rt_gpus rt') \<and> during st T ps k i E' e)"
    unfolding advance_loaded_def Let_def
  proof (rule ends_known [where v = "(profile_of ps tid, st)"], goal_cases)
    case (1 e)
    then show ?case by (simp add: during_def)
  next
    case 2
    show ?case
      by (unfold prod.case prof, rule ends_some, fold ckpt_def, intro ends_bind [OF target] ends_bind [OF gs] ends_bind [OF draws] ends_return)
         (auto simp: keeps_shape_def wl PROFILES_names [OF prof])
  qed
  then show ?thesis unfolding advance_def Let_def using tid wl
    by (auto simp: ends_def bindE_run during_def)
qed

section \<open>A tick of all trays\<close>

definition emu_wf :: "emu \<Rightarrow> bool" where
  "emu_wf e \<longleftrightarrow> distinct (map fst (em_trays e)) \<and> profiles_ok (em_cluster_profile e)
     \<and> (\<forall>k rt. map_of (em_trays e) k = Some rt \<longrightarrow> rt_tray_id rt = k \<and> distinct (map gt_index (rt_gpus rt)))"

text \<open>
  \<open>gpu_at k i E m e\<close>: tray \<open>k\<close> is running, its GPU \<open>i\<close> has \<open>m\<close> ticks of fault left and its episodes are \<open>E\<close>.
\<close>

definition gpu_at :: "string \<Rightarrow> nat \<Rightarrow> episode list \<Rightarrow> nat \<Rightarrow> emu \<Rightarrow> bool" where
  "gpu_at k i E m e \<longleftrightarrow> eps k i e = E \<and> (\<exists>rt. map_of (em_trays e) k = Some rt \<and> running rt \<and> ttl_of i (rt_gpus rt) = Some m)"

definition at_rest :: "string \<Rightarrow> nat \<Rightarrow> episode list \<Rightarrow> emu \<Rightarrow> bool" where
  "at_rest k i E e \<longleftrightarrow> eps k i e = E \<and> (\<exists>rt. map_of (em_trays e) k = Some rt \<and> \<not> running rt)"

lemma emu_wf_put:
  assumes "emu_wf e" "map_of (em_trays e) k = Some rt" "keeps_shape rt rt'"
  shows "emu_wf (e\<lparr>em_trays := AList.update k rt' (em_trays e)\<rparr>)"
  using assms by (auto simp: emu_wf_def keeps_shape_def distinct_update)

text \<open>One tray advances: the invariant holds, keys and step stay, and another tray's GPU is left alone.\<close>

definition tick_inv :: "nat \<Rightarrow> string list \<Rightarrow> emu \<Rightarrow> bool" where
  "tick_inv st ks e \<longleftrightarrow> emu_wf e \<and> em_step e = st \<and> map fst (em_trays e) = ks"

lemma advance_tray_run:
  assumes inv: "tick_inv st ks e" and rt: "map_of (em_trays e) k' = Some rt"
    and adv: "ends (during st (em_trays e) (em_cluster_profile e) k i E) (advance rnd False ts rt)
        (\<lambda>rt' e'. keeps_shape rt rt' \<and> G (rt_gpus rt') \<and> during st (em_trays e) (em_cluster_profile e) k i E' e')"
    and E: "eps k i e = E"
  shows "\<exists>rt' e'. advance_tray rnd False ts k' e = (Inr (), e') \<and> tick_inv st ks e' \<and> keeps_shape rt rt' \<and> G (rt_gpus rt')
     \<and> (\<forall>j. map_of (em_trays e') j = (if j = k' then Some rt' else map_of (em_trays e) j)) \<and> eps k i e' = E'"
proof -
  have d: "during st (em_trays e) (em_cluster_profile e) k i E e" using inv E by (simp add: during_def tick_inv_def)
  from endsD [OF adv d] obtain rt' e1 where r: "advance rnd False ts rt e = (Inr rt', e1)" "keeps_shape rt rt'" "G (rt_gpus rt')"
      "em_step e1 = st" "em_trays e1 = em_trays e" "em_cluster_profile e1 = em_cluster_profile e" "eps k i e1 = E'"
    by (auto simp: during_def)
  let ?e2 = "e1\<lparr>em_trays := AList.update k' rt' (em_trays e1)\<rparr>"
  have "emu_wf e1" using inv r(5,6) by (auto simp: tick_inv_def emu_wf_def)
  then have "emu_wf ?e2" using rt r(2,5) by (intro emu_wf_put [where rt = rt]) simp_all
  moreover have "map fst (em_trays ?e2) = ks" using inv rt r(5)
    by (auto simp: tick_inv_def update_keys dest!: map_of_SomeD) (metis fst_conv image_eqI list.set_map)
  moreover have "advance_tray rnd False ts k' e = (Inr (), ?e2)" using r(1) rt by (simp add: advance_tray_def bindE_run)
  ultimately show ?thesis using r by (intro exI [of _ rt'] exI [of _ ?e2]) (auto simp: tick_inv_def eps_def)
qed

lemma advance_elsewhere:
  assumes "profiles_ok ps" "rt_tray_id rt \<noteq> k \<or> \<not> running rt"
  shows "ends (during st T ps k i E) (advance rnd False ts rt) (\<lambda>rt' e. keeps_shape rt rt' \<and> True \<and> during st T ps k i E e)"
proof (cases "running rt")
  case True
  with assms(2) have "rt_tray_id rt \<noteq> k" by simp
  then show ?thesis using running_tray [OF assms(1) True, where G = "\<lambda>_. True" and E = E and E' = E] gpus_other by simp
next
  case False
  then show ?thesis using standby_tray by simp
qed

lemma key_present: "tick_inv st ks e \<Longrightarrow> k \<in> set ks \<Longrightarrow> \<exists>rt. map_of (em_trays e) k = Some rt \<and> rt_tray_id rt = k \<and> distinct (map gt_index (rt_gpus rt))"
  by (metis emu_wf_def list.set_map map_of_eq_None_iff not_None_eq tick_inv_def)

lemma trays_other:
  assumes "set xs \<subseteq> set ks" "k \<notin> set xs"
  shows "ends (\<lambda>e. tick_inv st ks e \<and> map_of (em_trays e) k = t \<and> eps k i e = E) (forE xs (advance_tray rnd False ts))
    (\<lambda>_ e. tick_inv st ks e \<and> map_of (em_trays e) k = t \<and> eps k i e = E)"
  using assms
proof (induction xs)
  case (Cons x xs)
  have "ends (\<lambda>e. tick_inv st ks e \<and> map_of (em_trays e) k = t \<and> eps k i e = E) (advance_tray rnd False ts x)
      (\<lambda>_ e. tick_inv st ks e \<and> map_of (em_trays e) k = t \<and> eps k i e = E)"
  proof (rule endsI, elim conjE)
    fix e
    assume inv: "tick_inv st ks e" and e: "map_of (em_trays e) k = t" "eps k i e = E"
    obtain rt where rt: "map_of (em_trays e) x = Some rt" "rt_tray_id rt = x" using key_present [OF inv, of x] Cons.prems(1) by auto
    have ok: "profiles_ok (em_cluster_profile e)" using inv by (simp add: tick_inv_def emu_wf_def)
    have "rt_tray_id rt \<noteq> k \<or> \<not> running rt" using rt(2) Cons.prems(2) by auto
    from advance_tray_run [OF inv rt(1) advance_elsewhere [OF ok this, where rnd = rnd and ts = ts] e(2)] e(1) Cons.prems(2)
    show "\<exists>u s'. advance_tray rnd False ts x e = (Inr u, s') \<and> tick_inv st ks s' \<and> map_of (em_trays s') k = t \<and> eps k i s' = E"
      by auto
  qed
  then show ?case unfolding forE.simps using Cons by (intro ends_then) auto
qed (simp add: ends_def)

text \<open>The tray itself: at rest it changes nothing of its episodes; running, its fault moves on.\<close>

lemma tray_rest:
  assumes "k \<in> set ks"
  shows "ends (\<lambda>e. tick_inv st ks e \<and> at_rest k i E e) (advance_tray rnd False ts k) (\<lambda>_ e. tick_inv st ks e \<and> at_rest k i E e)"
proof (rule endsI, elim conjE)
  fix e
  assume inv: "tick_inv st ks e" and e: "at_rest k i E e"
  then obtain rt where rt: "map_of (em_trays e) k = Some rt" "\<not> running rt" "eps k i e = E" by (auto simp: at_rest_def)
  have ok: "profiles_ok (em_cluster_profile e)" using inv by (simp add: tick_inv_def emu_wf_def)
  have "\<not> running rt'" if "keeps_shape rt rt'" for rt' using that rt(2) by (auto simp: keeps_shape_def running_def)
  with advance_tray_run [OF inv rt(1) advance_elsewhere [OF ok disjI2 [OF rt(2)], where rnd = rnd and ts = ts] rt(3)]
  show "\<exists>u s'. advance_tray rnd False ts k e = (Inr u, s') \<and> tick_inv st ks s' \<and> at_rest k i E s'"
    by (fastforce simp: at_rest_def)
qed

lemma tray_hit:
  assumes "k \<in> set ks"
  shows "ends (\<lambda>e. tick_inv st ks e \<and> gpu_at k i E (Suc m) e) (advance_tray rnd False ts k)
    (\<lambda>_ e. tick_inv st ks e \<and> gpu_at k i (if m = 0 then closed_by ts st E else E) m e)"
proof (rule endsI, elim conjE)
  fix e
  let ?E = "if m = 0 then closed_by ts st E else E"
  assume inv: "tick_inv st ks e" and e: "gpu_at k i E (Suc m) e"
  then obtain rt where rt: "map_of (em_trays e) k = Some rt" "running rt" "eps k i e = E" "ttl_of i (rt_gpus rt) = Some (Suc m)"
    by (auto simp: gpu_at_def)
  have ok: "profiles_ok (em_cluster_profile e)" and wf: "rt_tray_id rt = k" "distinct (map gt_index (rt_gpus rt))"
    using inv rt(1) by (auto simp: tick_inv_def emu_wf_def)
  have adv: "ends (during st (em_trays e) (em_cluster_profile e) k i E) (advance rnd False ts rt)
     (\<lambda>rt' e'. keeps_shape rt rt' \<and> ttl_of i (rt_gpus rt') = Some m \<and> during st (em_trays e) (em_cluster_profile e) k i ?E e')"
    by (rule running_tray [OF ok rt(2)], rule gpus_hit) (use wf rt(4) in simp_all)
  have "running rt'" if "keeps_shape rt rt'" for rt' using that rt(2) by (auto simp: keeps_shape_def running_def)
  with advance_tray_run [OF inv rt(1) adv rt(3)]
  show "\<exists>u s'. advance_tray rnd False ts k e = (Inr u, s') \<and> tick_inv st ks s' \<and> gpu_at k i ?E m s'"
    by (fastforce simp: gpu_at_def)
qed

lemma eps_record [simp]: "eps k i (record_point s e) = eps k i e"
  by (simp add: record_point_def eps_def Let_def)

lemma record_fields [simp]:
  "em_trays (record_point s e) = em_trays e" "em_step (record_point s e) = em_step e"
  "em_cluster_profile (record_point s e) = em_cluster_profile e"
  by (simp_all add: record_point_def Let_def)

text \<open>A whole tick, given what the tray of interest does.\<close>

lemma tick_around:
  assumes tray: "\<And>ks. k \<in> set ks \<Longrightarrow>
      ends (\<lambda>e. tick_inv (Suc st) ks e \<and> X e) (advance_tray rnd False (now s) k) (\<lambda>_ e. tick_inv (Suc st) ks e \<and> Y e)"
    and X: "\<And>e e'. X e \<Longrightarrow> map_of (em_trays e') k = map_of (em_trays e) k \<Longrightarrow> eps k i e' = eps k i e \<Longrightarrow> X e'"
    and Y: "\<And>e e'. Y e \<Longrightarrow> map_of (em_trays e') k = map_of (em_trays e) k \<Longrightarrow> eps k i e' = eps k i e \<Longrightarrow> Y e'"
    and e: "emu_wf e" "em_step e = st" "X e" "k \<in> fst ` set (em_trays e)"
  shows "\<exists>e'. tick_once rnd False s e = (Inr (), e') \<and> emu_wf e' \<and> em_step e' = Suc st \<and> Y e' \<and> map fst (em_trays e') = map fst (em_trays e)"
proof -
  let ?ks = "map fst (em_trays e)"
  have dist: "distinct ?ks" using e(1) by (simp add: emu_wf_def)
  obtain xs ys where split: "?ks = xs @ k # ys" using e(4) by (metis image_set split_list)
  with dist have fresh: "k \<notin> set xs" "k \<notin> set ys" and k: "k \<in> set ?ks" and sub: "set xs \<subseteq> set ?ks" "set ys \<subseteq> set ?ks"
    by auto
  have others: "ends (\<lambda>e. tick_inv (Suc st) ?ks e \<and> Z e) (forE zs (advance_tray rnd False (now s))) (\<lambda>_ e. tick_inv (Suc st) ?ks e \<and> Z e)"
    if z: "set zs \<subseteq> set ?ks" "k \<notin> set zs"
      and Z: "\<And>e e'. Z e \<Longrightarrow> map_of (em_trays e') k = map_of (em_trays e) k \<Longrightarrow> eps k i e' = eps k i e \<Longrightarrow> Z e'" for zs Z
  proof (rule endsI, elim conjE)
    fix e1
    assume inv: "tick_inv (Suc st) ?ks e1" and "Z e1"
    with endsD [OF trays_other [OF z, of "Suc st" "map_of (em_trays e1) k" i "eps k i e1" rnd "now s"], of e1]
    show "\<exists>u s'. forE zs (advance_tray rnd False (now s)) e1 = (Inr u, s') \<and> tick_inv (Suc st) ?ks s' \<and> Z s'"
      using Z by blast
  qed
  have app: "forE (as @ bs) f = thenE (forE as f) (forE bs f)" for as bs and f :: "'a \<Rightarrow> (emu, unit) prog"
    by (induction as) (simp_all add: thenE_def fun_eq_iff bindE_run split: prod.splits sum.splits)
  have loop: "ends (\<lambda>e. tick_inv (Suc st) ?ks e \<and> X e) (forE ?ks (advance_tray rnd False (now s))) (\<lambda>_ e. tick_inv (Suc st) ?ks e \<and> Y e)"
    unfolding split app forE.simps unfolding split [symmetric]
    by (rule ends_then [OF others [OF sub(1) fresh(1) X]] ends_then [OF tray [OF k]] others [OF sub(2) fresh(2) Y] | assumption)+
  have start: "tick_inv (Suc st) ?ks (e\<lparr>em_step := Suc st\<rparr>) \<and> X (e\<lparr>em_step := Suc st\<rparr>)"
    using e X [of e "e\<lparr>em_step := Suc st\<rparr>"] by (auto simp: tick_inv_def emu_wf_def eps_def)
  from endsD [OF loop start] obtain e1 where run: "forE ?ks (advance_tray rnd False (now s)) (e\<lparr>em_step := Suc st\<rparr>) = (Inr (), e1)"
      "tick_inv (Suc st) ?ks e1" "Y e1"
    by auto
  then have "tick_once rnd False s e = (Inr (), record_point s e1)" using e(2) by (simp add: tick_once_def bindE_run thenE_run)
  moreover have "Y (record_point s e1)" by (rule Y [OF run(3)]) simp_all
  ultimately show ?thesis using run(2) by (auto simp: tick_inv_def emu_wf_def)
qed

section \<open>Many ticks\<close>

lemma at_rest_key: "at_rest k i E e \<Longrightarrow> k \<in> fst ` set (em_trays e)"
  by (force simp: at_rest_def dest: map_of_SomeD)

lemma gpu_at_key: "gpu_at k i E m e \<Longrightarrow> k \<in> fst ` set (em_trays e)"
  by (force simp: gpu_at_def dest: map_of_SomeD)

lemma at_rest_cong: "at_rest k i E e \<Longrightarrow> map_of (em_trays e') k = map_of (em_trays e) k \<Longrightarrow> eps k i e' = eps k i e \<Longrightarrow> at_rest k i E e'"
  by (simp add: at_rest_def)

lemma gpu_at_cong: "gpu_at k i E m e \<Longrightarrow> map_of (em_trays e') k = map_of (em_trays e) k \<Longrightarrow> eps k i e' = eps k i e \<Longrightarrow> gpu_at k i E m e'"
  by (simp add: gpu_at_def)

lemma ticks_rest:
  assumes "emu_wf e" "at_rest k i E e"
  shows "\<exists>e'. ticks rnd False s n e = (Inr (), e') \<and> emu_wf e' \<and> at_rest k i E e'"
  using assms
proof (induction n arbitrary: e)
  case (Suc n)
  have "\<exists>e'. tick_once rnd False s e = (Inr (), e') \<and> emu_wf e' \<and> em_step e' = Suc (em_step e) \<and> at_rest k i E e'
      \<and> map fst (em_trays e') = map fst (em_trays e)"
    by (rule tick_around [OF tray_rest at_rest_cong at_rest_cong Suc.prems(1) refl Suc.prems(2) at_rest_key [OF Suc.prems(2)]])
  then show ?case using Suc.IH by (fastforce simp: thenE_run)
qed simp

lemma tick_hit:
  assumes "emu_wf e" "gpu_at k i E (Suc m) e"
  shows "\<exists>e'. tick_once rnd False s e = (Inr (), e') \<and> emu_wf e' \<and> em_step e' = Suc (em_step e)
     \<and> gpu_at k i (if m = 0 then closed_by (now s) (Suc (em_step e)) E else E) m e'"
proof -
  have "\<exists>e'. tick_once rnd False s e = (Inr (), e') \<and> emu_wf e' \<and> em_step e' = Suc (em_step e)
     \<and> gpu_at k i (if m = 0 then closed_by (now s) (Suc (em_step e)) E else E) m e' \<and> map fst (em_trays e') = map fst (em_trays e)"
    by (rule tick_around [OF tray_hit gpu_at_cong gpu_at_cong assms(1) refl assms(2) gpu_at_key [OF assms(2)]])
  then show ?thesis by blast
qed

lemma ticks_before:
  assumes "emu_wf e" "gpu_at k i E (Suc m) e" "j \<le> m"
  shows "\<exists>e'. ticks rnd False s j e = (Inr (), e') \<and> emu_wf e' \<and> em_step e' = em_step e + j \<and> gpu_at k i E (Suc m - j) e'"
  using assms
proof (induction j arbitrary: e m)
  case (Suc j)
  then obtain m' where m: "m = Suc m'" by (cases m) auto
  with tick_hit [OF Suc.prems(1,2), of rnd s] obtain e1 where "tick_once rnd False s e = (Inr (), e1)" "emu_wf e1"
      "em_step e1 = Suc (em_step e)" "gpu_at k i E (Suc m') e1" by auto
  moreover from Suc.IH [OF this(2,4)] Suc.prems(3) m obtain e2 where "ticks rnd False s j e1 = (Inr (), e2)" "emu_wf e2"
      "em_step e2 = em_step e1 + j" "gpu_at k i E (Suc m' - j) e2" by auto
  ultimately show ?case using m by (auto simp: thenE_run)
qed auto

lemma ticks_append: "ticks rnd b s (m + n) e = thenE (ticks rnd b s m) (ticks rnd b s n) e"
  by (induction m arbitrary: e) (simp_all add: thenE_run split: prod.splits sum.splits)

lemma ticks_after:
  assumes "emu_wf e" "gpu_at k i E (Suc m) e"
  shows "\<exists>e'. ticks rnd False s (Suc m) e = (Inr (), e') \<and> emu_wf e' \<and> gpu_at k i (closed_by (now s) (em_step e + Suc m) E) 0 e'"
proof -
  obtain e1 where e1: "ticks rnd False s m e = (Inr (), e1)" "emu_wf e1" "em_step e1 = em_step e + m" "gpu_at k i E (Suc 0) e1"
    using ticks_before [OF assms order_refl, of rnd s] by auto
  obtain e2 where "tick_once rnd False s e1 = (Inr (), e2)" "emu_wf e2" "gpu_at k i (closed_by (now s) (em_step e + Suc m) E) 0 e2"
    using tick_hit [OF e1(2,4), of rnd s] e1(3) by auto
  then show ?thesis using e1(1) ticks_append [of rnd False s m 1 e] by (simp add: thenE_run)
qed

section \<open>Alignment keeps the invariant\<close>

lemma bind_runtime_shape:
  "bind_runtime s rt ps = (rt', ps') \<Longrightarrow> rt_tray_id rt' = rt_tray_id rt \<and> map gt_index (rt_gpus rt') = map gt_index (rt_gpus rt)"
  by (auto simp: bind_runtime_def clear_gpu_def Let_def split: option.splits if_splits)

lemma bind_runtime_profiles: "bind_runtime s rt ps = (rt', ps') \<Longrightarrow> profiles_ok ps \<Longrightarrow> profiles_ok ps'"
proof -
  assume run: "bind_runtime s rt ps = (rt', ps')" and ok: "profiles_ok ps"
  have "profiles_ok (AList.update tid ''training'' ps)" for tid
  proof -
    have "set (dict_values (AList.update tid ''training'' ps)) \<subseteq> insert ''training'' (set (dict_values ps))"
      by (induction ps) (auto simp: dict_values_def)
    moreover have "has_key PROFILES ''training''" by (simp add: PROFILES_def has_key_def)
    ultimately show ?thesis using ok by (auto simp: profiles_ok_def)
  qed
  with run ok show "profiles_ok ps'" by (auto simp: bind_runtime_def Let_def split: option.splits if_splits)
qed

lemma new_runtime_shape: "rt_tray_id (new_runtime s t) = tray_id t" "distinct (map gt_index (rt_gpus (new_runtime s t)))"
  by (auto simp: new_runtime_def Let_def new_gpu_def comp_def split: option.splits)

lemma sync_tray_wf: "emu_wf e \<Longrightarrow> emu_wf (sync_tray s t e)"
proof -
  assume wf: "emu_wf e"
  let ?rt = "case map_of (em_trays e) (tray_id t) of Some rt \<Rightarrow> rt | None \<Rightarrow> new_runtime s t"
  obtain rt ps where b: "bind_runtime s ?rt (em_cluster_profile e) = (rt, ps)" by (cases "bind_runtime s ?rt (em_cluster_profile e)")
  have "rt_tray_id ?rt = tray_id t \<and> distinct (map gt_index (rt_gpus ?rt))"
    using wf new_runtime_shape by (auto simp: emu_wf_def split: option.splits)
  with bind_runtime_shape [OF b] have "rt_tray_id rt = tray_id t" "distinct (map gt_index (rt_gpus rt))" by auto
  then show ?thesis using wf bind_runtime_profiles [OF b] b by (auto simp: sync_tray_def Let_def emu_wf_def distinct_update)
qed

lemma map_of_filter_key: "map_of (filter (\<lambda>(k, _). P k) d) k = (if P k then map_of d k else None)"
  by (induction d) auto

lemma sync_wf:
  assumes "emu_wf e"
  shows "emu_wf (sync_from_store s e)"
proof -
  have "emu_wf (fold (sync_tray s) ts e)" for ts using assms by (induction ts arbitrary: e) (auto intro: sync_tray_wf)
  moreover have "emu_wf (prune_emu s e)" if "emu_wf e" for e
    using that by (auto simp: prune_emu_def emu_wf_def profiles_ok_def dict_values_def Let_def distinct_map_filter map_of_filter_key split: if_splits)
  ultimately show ?thesis by (simp add: sync_from_store_def)
qed

section \<open>The life of an injected fault\<close>

lemma closed_by_last:
  "ep_resolved_at ep = None \<Longrightarrow> closed_by ts st (E @ [ep]) = E @ [ep\<lparr>ep_resolved_at := Some ts,
     ep_ttr_s := Some (round_dp 1 (of_nat (st - ep_started_step ep) * TICK_S)), ep_state := ''resolved''\<rparr>]"
  by (simp add: closed_by_def)

lemma round_dp_int: "round_dp k (of_int z) = of_int z"
proof -
  have "of_int z * 10 ^ k = (of_int (z * 10 ^ k) :: rat)" by simp
  then show ?thesis by (simp only: round_dp_def round_even_def Let_def floor_of_int) simp
qed

lemma eps_log:
  "eps (ep_tray_id ep) (ep_gpu ep) (e\<lparr>em_trays := T, em_fault_log := push_bounded FAULT_LOG_LEN ep (em_fault_log e)\<rparr>)
     = (filter (\<lambda>x. ep_tray_id x = ep_tray_id ep \<and> ep_gpu x = ep_gpu ep) (drop (length (em_fault_log e) + 1 - FAULT_LOG_LEN) (em_fault_log e))) @ [ep]"
  by (simp add: eps_def push_bounded_def FAULT_LOG_LEN_def)

text \<open>What an injection leaves behind.\<close>

lemma inject_effect:
  assumes wf: "emu_wf e" and inj: "inject_fault s k g xid ttl e = (Inr ep, e1)"
    and rt: "map_of (em_trays (sync_from_store s e)) k = Some rt"
  shows "emu_wf e1" "ep_tray_id ep = k" "ep_resolved_at ep = None" "ep_started_step ep = em_step e1"
    "\<exists>E. eps k (ep_gpu ep) e1 = E @ [ep]"
    "\<exists>rt1. map_of (em_trays e1) k = Some rt1 \<and> rt_tenant_id rt1 = rt_tenant_id rt \<and> rt_workload rt1 = rt_workload rt
       \<and> ttl_of (ep_gpu ep) (rt_gpus rt1) = Some (nat (max 1 (min ttl 300)))"
proof -
  let ?e = "sync_from_store s e" and ?i = "nat g" and ?n = "nat (max 1 (min ttl 300))"
  let ?gs = "(rt_gpus rt)[?i := mark_fault xid ?n (rt_gpus rt ! ?i)]"
  have wf1: "emu_wf ?e" by (rule sync_wf [OF wf])
  then have sh: "rt_tray_id rt = k" "distinct (map gt_index (rt_gpus rt))" using rt by (auto simp: emu_wf_def)
  have run: "0 \<le> g" "g < int (length (rt_gpus rt))"
      "ep = open_episode rt (gt_index (rt_gpus rt ! ?i)) xid (Some ''injected'') (now s) (em_step ?e)"
      "e1 = ?e\<lparr>em_trays := AList.update k (rt\<lparr>rt_gpus := ?gs\<rparr>) (em_trays ?e),
         em_fault_log := push_bounded FAULT_LOG_LEN ep (em_fault_log ?e)\<rparr>"
    using inj rt by (auto simp: inject_fault_def emu_tray_def log_episode_def bindE_run thenE_run Let_def split: if_splits)
  have i: "?i < length (rt_gpus rt)" using run(1,2) by linarith
  have idx: "map gt_index ?gs = map gt_index (rt_gpus rt)"
    using i by (intro nth_equalityI) (auto simp: nth_list_update mark_fault_def)
  show "ep_tray_id ep = k" "ep_resolved_at ep = None" "ep_started_step ep = em_step e1" using run(3,4) sh(1) by (simp_all add: open_episode_def)
  show "\<exists>E. eps k (ep_gpu ep) e1 = E @ [ep]" using eps_log [of ep ?e] run(3,4) sh(1) by (auto simp: open_episode_def)
  show "emu_wf e1" using wf1 idx sh run(4) by (auto simp: emu_wf_def distinct_update)
  have "ttl_of (gt_index (rt_gpus rt ! ?i)) ?gs = Some ?n"
  proof -
    have "List.find (\<lambda>x. gt_index x = gt_index (?gs ! ?i)) ?gs = Some (?gs ! ?i)"
      unfolding find_Some_iff using i sh(2) idx
      by (intro exI [of _ ?i]) (auto simp del: nth_list_update_eq simp: distinct_conv_nth, metis (no_types, lifting) length_map less_trans nth_map order.strict_implies_not_eq)
    then show ?thesis using i by (simp add: ttl_of_def mark_fault_def)
  qed
  then show "\<exists>rt1. map_of (em_trays e1) k = Some rt1 \<and> rt_tenant_id rt1 = rt_tenant_id rt \<and> rt_workload rt1 = rt_workload rt
       \<and> ttl_of (ep_gpu ep) (rt_gpus rt1) = Some ?n"
    using run(3,4) by (simp add: open_episode_def)
qed

text \<open>
  C34. The life of an injected fault. On a tray that runs a tenant's workload the GPU recovers after exactly as many ticks as the
  injection asked for, between 1 and 300: until then the episode stays open, then it is resolved with a time to repair
  of two seconds per tick. On a tray that is not in service no number of ticks closes the episode, although the injection promises
  recovery after its time: a standby tray does not count its faults down.
\<close>

theorem injected_fault_life:
  assumes "emu_wf e" and "inject_fault s k g xid ttl e = (Inr ep, e1)"
    and "map_of (em_trays (sync_from_store s e)) k = Some rt"
  shows "if running rt
    then (\<exists>e2. ticks rnd False s (nat (max 1 (min ttl 300))) e1 = (Inr (), e2) \<and> last (eps k (ep_gpu ep) e2) =
            ep\<lparr>ep_resolved_at := Some (now s), ep_ttr_s := Some (2 * of_int (max 1 (min ttl 300))), ep_state := ''resolved''\<rparr>)
      \<and> (\<forall>j < nat (max 1 (min ttl 300)). \<exists>e2. ticks rnd False s j e1 = (Inr (), e2) \<and> last (eps k (ep_gpu ep) e2) = ep)
    else \<forall>j. \<exists>e2. ticks rnd False s j e1 = (Inr (), e2) \<and> last (eps k (ep_gpu ep) e2) = ep"
proof -
  note eff = inject_effect [OF assms]
  obtain E where E: "eps k (ep_gpu ep) e1 = E @ [ep]" using eff(5) by blast
  obtain rt1 where rt1: "map_of (em_trays e1) k = Some rt1" "rt_tenant_id rt1 = rt_tenant_id rt" "rt_workload rt1 = rt_workload rt"
      "ttl_of (ep_gpu ep) (rt_gpus rt1) = Some (nat (max 1 (min ttl 300)))"
    using eff(6) by blast
  have same: "running rt1 = running rt" using rt1(2,3) by (simp add: running_def)
  show ?thesis
  proof (cases "running rt")
    case True
    obtain m where m: "nat (max 1 (min ttl 300)) = Suc m" by (cases "nat (max 1 (min ttl 300))") auto
    have at: "gpu_at k (ep_gpu ep) (E @ [ep]) (Suc m) e1" using True E rt1 same m by (auto simp: gpu_at_def)
    have "2 * of_int (max 1 (min ttl 300)) = (of_int (2 * int (Suc m)) :: rat)" using m by simp
    then have ttr: "round_dp 1 (of_nat (em_step e1 + Suc m - ep_started_step ep) * TICK_S) = 2 * of_int (max 1 (min ttl 300))"
      using eff(4) round_dp_int [of 1 "2 * int (Suc m)"] by (simp add: TICK_S_def mult.commute)
    obtain e2 where "ticks rnd False s (Suc m) e1 = (Inr (), e2)" "eps k (ep_gpu ep) e2 = closed_by (now s) (em_step e1 + Suc m) (E @ [ep])"
      using ticks_after [OF eff(1) at, of rnd s] by (auto simp: gpu_at_def)
    moreover have "\<exists>e2. ticks rnd False s j e1 = (Inr (), e2) \<and> last (eps k (ep_gpu ep) e2) = ep" if "j < Suc m" for j
      using ticks_before [OF eff(1) at, of j rnd s] that by (auto simp: gpu_at_def)
    ultimately show ?thesis using True unfolding m closed_by_last [OF eff(3)] ttr by auto
  next
    case False
    then have "at_rest k (ep_gpu ep) (E @ [ep]) e1" using E rt1 same by (auto simp: at_rest_def)
    then have "\<exists>e2. ticks rnd False s j e1 = (Inr (), e2) \<and> last (eps k (ep_gpu ep) e2) = ep" for j
      using ticks_rest [OF eff(1), of k "ep_gpu ep" "E @ [ep]" rnd s j] by (auto simp: at_rest_def)
    then show ?thesis using False by simp
  qed
qed

definition demo_serving :: store where
  "demo_serving = (empty_store 0)\<lparr>
     st_trays := [(''t'', \<lparr>tray_id = ''t'', tray_rack_id = ''r'', tray_index = 0, tray_gpu_ids = [], tray_cpu_ids = [], tray_dpu_id = None,
        connectx_supernics = 8, tray_state = Hw_allocated, tray_tenant_id = Some ''tnt-a''\<rparr>)],
     st_node_instances := [(''ni-t'', \<lparr>node_id = ''ni-t'', node_tray_id = ''t'', node_rack_id = ''r'', node_su_id = ''su-1'',
        node_blueprint_key = ''vr-nvl72'', nico_host_id = ''nh-t'', nico_instance_id = None, node_tenant_id = Some ''tnt-a'',
        node_order_id = None, node_state = N_in_service, node_history = []\<rparr>)]\<rparr>"

definition demo_emu :: emu where
  "demo_emu = \<lparr>em_trays = [], em_cluster_profile = [], em_step = 0, em_history_global = [], em_history_tenants = [],
     em_fault_log = [], em_drawn = 0\<rparr>"

lemma demo_serving_tray:
  "\<exists>rt. map_of (em_trays (sync_from_store demo_serving demo_emu)) ''t'' = Some rt \<and> running rt \<and> length (rt_gpus rt) = 4"
  by (simp add: sync_from_store_def prune_emu_def sync_tray_def bind_runtime_def serving_def new_runtime_def demo_serving_def demo_emu_def
      empty_store_def dict_values_def Let_def truthy_def profile_of_def has_key_def running_def)

theorem injected_fault_life_witness:
  "\<exists>ep e1 e2. inject_fault demo_serving ''t'' 0 79 3 demo_emu = (Inr ep, e1) \<and> ticks (\<lambda>_. 0) False demo_serving 3 e1 = (Inr (), e2)
     \<and> ep_ttr_s (last (eps ''t'' (ep_gpu ep) e2)) = Some 6"
proof -
  obtain rt where rt: "map_of (em_trays (sync_from_store demo_serving demo_emu)) ''t'' = Some rt" "running rt" "length (rt_gpus rt) = 4"
    using demo_serving_tray by blast
  then have nonempty: "rt_gpus rt \<noteq> []" by auto
  have wf: "emu_wf demo_emu" by (simp add: emu_wf_def demo_emu_def profiles_ok_def dict_values_def)
  obtain ep e1 where inj: "inject_fault demo_serving ''t'' 0 79 3 demo_emu = (Inr ep, e1)"
    using rt(1) nonempty by (simp add: inject_fault_def emu_tray_def log_episode_def bindE_run thenE_run Let_def)
  have "\<exists>e2. ticks (\<lambda>_. 0) False demo_serving 3 e1 = (Inr (), e2) \<and> ep_ttr_s (last (eps ''t'' (ep_gpu ep) e2)) = Some 6"
    using injected_fault_life [OF wf inj rt(1), of "\<lambda>_. 0"] rt(2) by auto
  with inj show ?thesis by blast
qed

end
