(* ===== verification/Fabric_Views.thy ===== *)
theory Fabric_Views
  imports Topology_Views Customer_Ops
begin

text \<open>
  \<open>app/fabric.py\<close>: the InfiniBand fabric of each site and the tenants on it, and what it shows of a tenant's isolation:
  every site has spines of its own, and a rack is counted for the tenant that holds it.
\<close>

definition CORE_SPINES :: nat where "CORE_SPINES = 4"

record fabric_rack =
  fr_rack_id :: string
  fr_tenant_id :: "string option"
  fr_trays :: nat
  fr_gpus :: nat

record fabric_su =
  fs_su_id :: string
  fs_index :: nat
  fs_blueprint_key :: string
  fs_rails :: nat
  fs_rails_per_network :: nat
  fs_leaves_per_network :: nat
  fs_links_800g :: nat
  fs_racks :: "fabric_rack list"

record fabric_site =
  fx_factory_id :: string
  fx_name :: string
  fx_site :: string
  fx_ib_tier :: string
  fx_converged_tier :: string
  fx_ufm_ha_sets :: nat
  fx_networks :: "(string \<times> string list) list"
  fx_sus :: "fabric_su list"

record fabric_tenant =
  ft_tenant_id :: string
  ft_name :: string
  ft_pkey :: "string option"
  ft_racks :: nat
  ft_gpus :: nat
  ft_sus :: "string list"
  ft_site :: string

record fabric_report =
  fb_sites :: "fabric_site list"
  fb_tenants :: "fabric_tenant list"
  fb_selected :: "fabric_tenant option"

definition rails_of :: "string \<Rightarrow> nat" where
  "rails_of k = (case map_of BLUEPRINTS k of Some bp \<Rightarrow> connectx_supernics_per_tray bp | None \<Rightarrow> 8)"

definition fabric_rack_of :: "store \<Rightarrow> rack \<Rightarrow> fabric_rack" where
  "fabric_rack_of s r = \<lparr>fr_rack_id = rack_id r, fr_tenant_id = rack_tenant_id r, fr_trays = length (rack_tray_ids r),
     fr_gpus = sum_list (map (\<lambda>t. length (tray_gpu_ids t)) (trays_of_rack s (rack_id r)))\<rparr>"

definition fabric_su_of :: "store \<Rightarrow> scalable_unit \<Rightarrow> fabric_su" where
  "fabric_su_of s su = (let rails = rails_of (su_blueprint_key su); racks = map (fabric_rack_of s) (racks_of_su s (su_id su)) in
     \<lparr>fs_su_id = su_id su, fs_index = su_index su, fs_blueprint_key = su_blueprint_key su, fs_rails = rails,
      fs_rails_per_network = max 1 (rails div length (ib_networks IB_FABRIC)),
      fs_leaves_per_network = leaves_per_network_per_su IB_FABRIC,
      fs_links_800g = sum_list (map fr_trays racks) * rails, fs_racks = racks\<rparr>)"

text \<open>The last word, \<open>name.split()[-1]\<close>; a blank text has none.\<close>

definition last_word :: "string \<Rightarrow> ('s, string) prog" where
  "last_word name = (let w = rev (takeWhile (\<lambda>c. \<not> is_blank c) (dropWhile is_blank (rev name))) in
     if w = [] then raiseE (PyError ''IndexError'') else returnE w)"

definition site_tag :: "ai_factory \<Rightarrow> ('s, string) prog" where
  "site_tag f = (if factory_site f = [] then returnE (factory_id f) else last_word (factory_site f))"

definition spines :: "string \<Rightarrow> string \<Rightarrow> string list" where
  "spines tag net = map (\<lambda>i. tag @ ''-'' @ map to_lower net @ ''-core-'' @ dec (i + 1)) [0..<CORE_SPINES]"

definition tier :: "nat \<Rightarrow> nat \<Rightarrow> string" where
  "tier n most = (if n \<le> most then ''2-tier'' else ''3-tier'')"

definition fabric_site_of :: "ai_factory \<Rightarrow> fabric_site sprog" where
  "fabric_site_of f =
     bindE (factory_su_ids f) (\<lambda>ids.
     bindE (getsE (\<lambda>s. sort_key fs_index (map (fabric_su_of s) (dict_pick (st_sus s) ids)))) (\<lambda>sus.
     bindE (site_tag f) (\<lambda>tag.
     returnE \<lparr>fx_factory_id = factory_id f, fx_name = factory_name f, fx_site = factory_site f,
        fx_ib_tier = tier (length sus) (ib_tier2_max_su IB_FABRIC),
        fx_converged_tier = tier (length sus) (cv_tier2_max_su CONVERGED_FABRIC),
        fx_ufm_ha_sets = length (ib_networks IB_FABRIC),
        fx_networks = map (\<lambda>net. (net, spines tag net)) (ib_networks IB_FABRIC), fx_sus = sus\<rparr>)))"

definition su_sites :: "fabric_site list \<Rightarrow> string dict" where
  "su_sites sites = fold (\<lambda>(k, v). AList.update k v) (concat (map (\<lambda>x. map (\<lambda>u. (fs_su_id u, fx_name x)) (fx_sus x)) sites)) []"

definition joined :: "string \<Rightarrow> string list \<Rightarrow> string" where
  "joined sep xs = concat (case xs of [] \<Rightarrow> [] | y # ys \<Rightarrow> y # map (\<lambda>z. sep @ z) ys)"

definition fabric_tenant_of :: "store \<Rightarrow> fabric_site list \<Rightarrow> tenant \<Rightarrow> fabric_tenant option" where
  "fabric_tenant_of s sites t =
     (let racks = filter (\<lambda>r. fr_tenant_id r = Some (tn_id t)) (concat (map fs_racks (concat (map fx_sus sites))));
          sus = sort (remdups (map (\<lambda>r. rsplit_head ''-rack-'' (fr_rack_id r)) racks)) in
      if racks = [] then None
      else Some \<lparr>ft_tenant_id = tn_id t, ft_name = tn_name t,
        ft_pkey = (case Option.bind (map_of (st_netiso s) (tn_id t)) ib_pkey of None \<Rightarrow> None
           | Some p \<Rightarrow> if p = 0 then None else Some (''0x'' @ hex p)),
        ft_racks = length racks, ft_gpus = sum_list (map fr_gpus racks), ft_sus = sus,
        ft_site = joined '' / '' (sort (remdups (map (\<lambda>u. case map_of (su_sites sites) u of Some n \<Rightarrow> n | None \<Rightarrow> ''?'') sus)))\<rparr>)"

definition ib_fabric_report :: "string option \<Rightarrow> fabric_report sprog" where
  "ib_fabric_report tid =
     bindE (getsE (\<lambda>s. dict_values (st_factories s))) (\<lambda>fs.
     bindE (collectE fs fabric_site_of) (\<lambda>sites.
     getsE (\<lambda>s. let ts = List.map_filter (fabric_tenant_of s sites) (dict_values (st_tenants s)) in
       \<lparr>fb_sites = sites, fb_tenants = ts,
        fb_selected = (if truthy tid then List.find (\<lambda>t. ft_tenant_id t = the tid) ts else None)\<rparr>)))"

end
