(* ===== verification/Telemetry_Views.thy ===== *)
theory Telemetry_Views
  imports Tray_Emu Fabric_Views
begin

text \<open>
  The pages that show the tray emulator and the site controller: the metrics of a cluster (\<open>app/k8s_api.py\<close>) and the read routes
  of \<open>app/nico_fake.py\<close>. Fixed texts are left out; SHA-256, which fakes the TPM registers, is an argument.
\<close>

section \<open>Cluster metrics\<close>

record metrics_view =
  mv_gpu_util_pct :: rat
  mv_gpu_temp_max_c :: rat
  mv_ecc_correctable :: nat
  mv_ib_bw_tbs :: rat
  mv_gpus_total :: nat
  mv_dcgm_mode :: string
  mv_ticks :: "(int \<times> rat \<times> rat) list"

definition cluster_metrics :: "emu \<Rightarrow> string \<Rightarrow> metrics_view sprog" where
  "cluster_metrics e cid =
     bindE (cluster_or_404 cid) (\<lambda>c.
     getsE (\<lambda>s. let sum = List.find (\<lambda>x. cs_tenant_id x = kc_tenant_id c) (clusters s e);
                   show_or = (\<lambda>f. case sum of Some x \<Rightarrow> f x | None \<Rightarrow> 0);
                   hist = (if kc_tenant_id c = [] then map (\<lambda>p. (gp_at p, gp_avg_util_pct p, gp_max_gpu_temp_c p)) (py_last 60 (em_history_global e))
                           else map (\<lambda>p. (tp_at p, cs_avg_util_pct (tp_summary p), cs_max_gpu_temp_c (tp_summary p)))
                             (py_last 60 (case map_of (em_history_tenants e) (kc_tenant_id c) of Some xs \<Rightarrow> xs | None \<Rightarrow> []))) in
       \<lparr>mv_gpu_util_pct = show_or cs_avg_util_pct, mv_gpu_temp_max_c = show_or cs_max_gpu_temp_c,
        mv_ecc_correctable = (case sum of Some x \<Rightarrow> cs_ecc_corrected_total x | None \<Rightarrow> 0), mv_ib_bw_tbs = show_or cs_nvlink_tbps,
        mv_gpus_total = kc_gpus_total c, mv_dcgm_mode = kc_dcgm_mode c, mv_ticks = hist\<rparr>))"

section \<open>Health of a host\<close>

record host_health =
  hh_host_id :: string
  hh_tray_id :: string
  hh_tenant_ref :: "string option"
  hh_instance_id :: "string option"
  hh_nico_state :: NicoHostState
  hh_state :: string
  hh_power_w :: rat
  hh_gpu_temp_c :: "rat list"
  hh_coolant_supply_c :: "rat option"
  hh_coolant_return_c :: "rat option"

definition max_or :: "rat \<Rightarrow> rat list \<Rightarrow> rat" where
  "max_or d xs = (case xs of [] \<Rightarrow> d | y # ys \<Rightarrow> fold max ys y)"

definition health_payload :: "emu \<Rightarrow> nico_host \<Rightarrow> host_health" where
  "health_payload e h =
     (let base = (\<lambda>st pw temps supply. \<lparr>hh_host_id = nh_host_id h, hh_tray_id = nh_tray_id h, hh_tenant_ref = nh_tenant_ref h,
            hh_instance_id = nh_instance_id h, hh_nico_state = nh_state h, hh_state = st, hh_power_w = pw, hh_gpu_temp_c = temps,
            hh_coolant_supply_c = supply, hh_coolant_return_c = map_option (\<lambda>c. round_dp 1 (c + pw / 1400)) supply\<rparr>);
          standby = base ''standby'' 420 (map (\<lambda>i. round_dp 1 (32 + of_nat i * (7 / 10))) [0..<4]) (Some 43) in
      if nh_sku h = ''cpu-epyc'' then
        (if nh_state h = H_allocated then base ''ok'' 780 [] None else base ''standby'' 180 [] None)
      else (case map_of (em_trays e) (nh_tray_id h) of
          None \<Rightarrow> standby
        | Some rt \<Rightarrow> if \<not> truthy (rt_tenant_id rt) then standby
            else (let temps = map gt_temp_c (rt_gpus rt) in
              base (if list_ex (\<lambda>g. gt_state g \<in> {''fault'', ''throttled''}) (rt_gpus rt) then ''warning'' else ''ok'') (rt_power_w rt) temps
                (Some (round_dp 1 (43 + max_or 40 temps * (2 / 100)))))))"

definition bulk_health :: "emu \<Rightarrow> string option \<Rightarrow> int \<Rightarrow> nico \<Rightarrow> host_health list" where
  "bulk_health e ref k n = map (health_payload e) (py_take (min k 3000)
     (sort_key nh_host_id (filter (\<lambda>h. ref = None \<or> nh_tenant_ref h = ref) (dict_values (nk_hosts n)))))"

definition host_health_route :: "emu \<Rightarrow> string \<Rightarrow> host_health nprog" where
  "host_health_route e hid = bindE (nico_get_host hid) (\<lambda>h. returnE (health_payload e h))"

section \<open>Inventory of the site controller\<close>

definition FIRMWARE :: "(string \<times> string) list dict" where
  "FIRMWARE =
     [(''vr-nvl72'', [(''bios'', ''VR01.04''), (''bmc'', ''3.02''), (''cpld'', ''0x21''), (''dpu_bfb'', ''bf-bundle-3.1.0''), (''gpu_vbios'', ''99.10.2F'')]),
      (''gb300-nvl72'', [(''bios'', ''GB03.11''), (''bmc'', ''2.18''), (''cpld'', ''0x1c''), (''dpu_bfb'', ''bf-bundle-2.9.1''), (''gpu_vbios'', ''98.00.4A'')]),
      (''gb200-nvl72'', [(''bios'', ''GB02.27''), (''bmc'', ''2.14''), (''cpld'', ''0x1a''), (''dpu_bfb'', ''bf-bundle-2.7.0''), (''gpu_vbios'', ''97.00.1A'')])]"

definition hex2 :: "nat \<Rightarrow> string" where "hex2 n = zfill 2 (hex n)"

definition mac_for_tray :: "string \<Rightarrow> string" where
  "mac_for_tray t = (case match_tray t of None \<Rightarrow> ''0c:42:a1:00:00:00''
     | Some (su, rk, tr) \<Rightarrow> ''0c:42:a1:'' @ hex2 su @ '':'' @ hex2 rk @ '':'' @ hex2 tr)"

text \<open>\<open>Counter\<close>: the distinct values in order of first occurrence, with their numbers.\<close>

definition counter :: "'a list \<Rightarrow> ('a \<times> nat) list" where
  "counter xs = map (\<lambda>x. (x, count_list xs x)) (rev (remdups (rev xs)))"

record nico_site =
  ns_site_id :: string
  ns_name :: string
  ns_hosts :: nat
  ns_hosts_by_state :: "(NicoHostState \<times> nat) list"
  ns_instances :: nat
  ns_racks :: nat

record site_info =
  si_sites :: "nico_site list"
  si_hosts_by_state :: "(NicoHostState \<times> nat) list"
  si_instances :: nat
  si_segments :: nat
  si_jobs :: nat

definition instances_in :: "nico_host list \<Rightarrow> nat" where
  "instances_in hs = length (filter (\<lambda>h. truthy (nh_instance_id h)) hs)"

definition nico_site_of :: "nico_host list \<Rightarrow> string \<Rightarrow> ('s, nico_site) prog" where
  "nico_site_of hosts name = (let hs = filter (\<lambda>h. nh_site h = name) hosts in
     bindE (last_word name) (\<lambda>w.
     returnE \<lparr>ns_site_id = ''nico-'' @ map to_lower w, ns_name = name, ns_hosts = length hs, ns_hosts_by_state = counter (map nh_state hs),
       ns_instances = instances_in hs,
       ns_racks = length (remdups (map (\<lambda>h. rsplit_head ''-tray-'' (nh_tray_id h)) (filter (\<lambda>h. nh_tray_id h \<noteq> []) hs)))\<rparr>))"

definition site_info_route :: "site_info nprog" where
  "site_info_route =
     bindE (getsE (\<lambda>n. dict_values (nk_hosts n))) (\<lambda>hosts.
     bindE (collectE (sort (remdups (filter (\<lambda>x. x \<noteq> []) (map nh_site hosts)))) (nico_site_of hosts)) (\<lambda>sites.
     getsE (\<lambda>n. \<lparr>si_sites = sites, si_hosts_by_state = counter (map nh_state hosts), si_instances = instances_in hosts,
        si_segments = length (nk_segments n), si_jobs = length (nk_jobs n)\<rparr>)))"

definition instance_types :: "nico \<Rightarrow> (rack_blueprint \<times> nat \<times> nat) list" where
  "instance_types n = map (\<lambda>(k, bp). let hs = filter (\<lambda>h. nh_sku h = k) (dict_values (nk_hosts n)) in
     (bp, length hs, length (filter (\<lambda>h. nh_state h = H_pool_ready) hs))) BLUEPRINTS"

definition list_instances :: "nico \<Rightarrow> nico_host list" where
  "list_instances n = filter (\<lambda>h. truthy (nh_instance_id h)) (dict_values (nk_hosts n))"

text \<open>The number in \<open>job_id.split("-")[1]\<close>.\<close>

definition job_number :: "nico_job \<Rightarrow> ('s, nat) prog" where
  "job_number j = (case dropWhile (\<lambda>c. c \<noteq> CHR ''-'') (jb_job_id j) of [] \<Rightarrow> raiseE (PyError ''IndexError'')
     | _ # rest \<Rightarrow> someE (PyError ''ValueError'') (undec (takeWhile (\<lambda>c. c \<noteq> CHR ''-'') rest)))"

definition list_jobs :: "int \<Rightarrow> nico_job list nprog" where
  "list_jobs k =
     bindE (getsE (\<lambda>n. dict_values (nk_jobs n))) (\<lambda>jobs.
     bindE (collectE jobs job_number) (\<lambda>ns. returnE (py_take (min k 200) (map snd (sort_desc fst (zip ns jobs))))))"

record lease =
  le_host_id :: string
  le_tray_id :: string
  le_ip :: string
  le_mac :: string
  le_lease_s :: nat
  le_dhcp_server :: string

definition dhcp_leases :: "nico \<Rightarrow> lease list" where
  "dhcp_leases n = map (\<lambda>h. \<lparr>le_host_id = nh_host_id h, le_tray_id = nh_tray_id h, le_ip = nh_host_ip h, le_mac = mac_for_tray (nh_tray_id h),
     le_lease_s = 86400, le_dhcp_server = nh_dpu_ip h\<rparr>) (filter (\<lambda>h. nh_host_ip h \<noteq> []) (dict_values (nk_hosts n)))"

record hardware =
  hd_host_id :: string
  hd_sku :: string
  hd_gpus :: "gpu list"
  hd_cpus :: "cpu list"
  hd_dpu :: "dpu option"
  hd_connectx_supernics :: nat
  hd_firmware :: "(string \<times> string) list"
  hd_bmc_ip :: string
  hd_dpu_ip :: string
  hd_mac :: string

definition host_hardware :: "store \<Rightarrow> string \<Rightarrow> hardware nprog" where
  "host_hardware s hid =
     bindE (nico_get_host hid) (\<lambda>h.
     bindE (someE (HTTPException 404 ''nico: no hardware map'') (map_of (st_trays s) (nh_tray_id h))) (\<lambda>t.
     returnE \<lparr>hd_host_id = hid, hd_sku = nh_sku h, hd_gpus = dict_pick (st_gpus s) (tray_gpu_ids t), hd_cpus = dict_pick (st_cpus s) (tray_cpu_ids t),
       hd_dpu = (if truthy (tray_dpu_id t) then map_of (st_dpus s) (the (tray_dpu_id t)) else None),
       hd_connectx_supernics = connectx_supernics t, hd_firmware = (case map_of FIRMWARE (nh_sku h) of Some f \<Rightarrow> f | None \<Rightarrow> []),
       hd_bmc_ip = nh_bmc_ip h, hd_dpu_ip = nh_dpu_ip h, hd_mac = mac_for_tray (nh_tray_id h)\<rparr>))"

record attestation =
  at_host_id :: string
  at_attested :: bool
  at_measured_boot :: string
  at_pcrs :: "(nat \<times> string) list"

definition host_attestation :: "(string \<Rightarrow> string) \<Rightarrow> string \<Rightarrow> attestation nprog" where
  "host_attestation sha hid = bindE (nico_get_host hid) (\<lambda>h.
     returnE \<lparr>at_host_id = hid, at_attested = attested h, at_measured_boot = (if attested h then ''passed'' else ''pending''),
       at_pcrs = map (\<lambda>k. (k, take 32 (sha (hid @ '':pcr'' @ dec k)))) [0, 2, 4, 7]\<rparr>)"

definition sanitize_reports :: "nico \<Rightarrow> sanitize_report list" where
  "sanitize_reports n = dict_values (nk_sanitize_reports n)"

end
