(* ===== verification/Json.thy ===== *)
theory Json
  imports Prelude
begin

text \<open>
  JSON values as Python sees them after \<open>json.loads\<close>, the accessors the code uses on them, and the codecs of the
  pydantic models that cross a REST boundary. A decoder answers \<open>None\<close> where validation raises. Values are taken in
  their exact type: the coercions pydantic would try on a wrong type (\<open>"3"\<close> for 3) are failures here.
\<close>

datatype json = JNull | JBool bool | JInt int | JFloat rat | JStr string | JArr "json list" | JObj "(string \<times> json) list"

section \<open>Reading a value\<close>

fun as_str :: "json \<Rightarrow> string option" where
  "as_str (JStr s) = Some s"
| "as_str _ = None"

fun as_bool :: "json \<Rightarrow> bool option" where
  "as_bool (JBool b) = Some b"
| "as_bool _ = None"

fun as_int :: "json \<Rightarrow> int option" where
  "as_int (JInt i) = Some i"
| "as_int _ = None"

text \<open>A non-negative integer: the VNIs and partition keys, which are \<open>nat\<close> in the model.\<close>

fun as_nat :: "json \<Rightarrow> nat option" where
  "as_nat (JInt i) = (if 0 \<le> i then Some (nat i) else None)"
| "as_nat _ = None"

fun as_list :: "(json \<Rightarrow> 'a option) \<Rightarrow> json \<Rightarrow> 'a list option" where
  "as_list f (JArr xs) = those (map f xs)"
| "as_list f _ = None"

fun as_opt :: "(json \<Rightarrow> 'a option) \<Rightarrow> json \<Rightarrow> 'a option option" where
  "as_opt f JNull = Some None"
| "as_opt f j = map_option Some (f j)"

fun jmembers :: "json \<Rightarrow> (string \<times> json) list option" where
  "jmembers (JObj kvs) = Some kvs"
| "jmembers _ = None"

text \<open>A field of a model: required, or with the default that stands for an absent key.\<close>

definition need :: "(json \<Rightarrow> 'a option) \<Rightarrow> (string \<times> json) list \<Rightarrow> string \<Rightarrow> 'a option" where
  "need f kvs k = Option.bind (map_of kvs k) f"

definition with_default :: "'a \<Rightarrow> (json \<Rightarrow> 'a option) \<Rightarrow> (string \<times> json) list \<Rightarrow> string \<Rightarrow> 'a option" where
  "with_default d f kvs k = (case map_of kvs k of None \<Rightarrow> Some d | Some j \<Rightarrow> f j)"

section \<open>Writing a value\<close>

definition opt_json :: "('a \<Rightarrow> json) \<Rightarrow> 'a option \<Rightarrow> json" where
  "opt_json f x = (case x of None \<Rightarrow> JNull | Some v \<Rightarrow> f v)"

definition list_json :: "('a \<Rightarrow> json) \<Rightarrow> 'a list \<Rightarrow> json" where
  "list_json f xs = JArr (map f xs)"

definition nat_json :: "nat \<Rightarrow> json" where
  "nat_json n = JInt (int n)"

section \<open>Python's view of a decoded body\<close>

text \<open>\<open>bool(x)\<close>, and \<open>d.get(k)\<close>: \<open>None\<close> (null) for an absent key, an \<open>AttributeError\<close> on anything but an object.\<close>

fun truth :: "json \<Rightarrow> bool" where
  "truth JNull = False"
| "truth (JBool b) = b"
| "truth (JInt i) = (i \<noteq> 0)"
| "truth (JFloat x) = (x \<noteq> 0)"
| "truth (JStr s) = (s \<noteq> [])"
| "truth (JArr xs) = (xs \<noteq> [])"
| "truth (JObj kvs) = (kvs \<noteq> [])"

definition jmember :: "(string \<times> json) list \<Rightarrow> string \<Rightarrow> json" where
  "jmember kvs k = (case map_of kvs k of None \<Rightarrow> JNull | Some j \<Rightarrow> j)"

definition jget :: "json \<Rightarrow> string \<Rightarrow> ('s, json) prog" where
  "jget j k = (case jmembers j of None \<Rightarrow> raiseE (PyError ''AttributeError'') | Some kvs \<Rightarrow> returnE (jmember kvs k))"

text \<open>\<open>x or d\<close>.\<close>

definition jor :: "json \<Rightarrow> json \<Rightarrow> json" where
  "jor j d = (if truth j then j else d)"

section \<open>Splitting text\<close>

text \<open>\<open>s.split(c)\<close> with one separator character.\<close>

fun split_on :: "char \<Rightarrow> string \<Rightarrow> string list" where
  "split_on c [] = [[]]"
| "split_on c (x # xs) =
     (if x = c then [] # split_on c xs
      else case split_on c xs of [] \<Rightarrow> [[x]] | y # ys \<Rightarrow> (x # y) # ys)"

section \<open>Codecs\<close>

locale codec =
  fixes enc :: "'a \<Rightarrow> json" and decode :: "json \<Rightarrow> 'a option"
  assumes decode_enc: "decode (enc x) = Some x"
begin

lemma decode_list: "as_list decode (list_json enc xs) = Some xs"
  by (induction xs) (simp_all add: list_json_def decode_enc)

lemma enc_inject: "enc x = enc y \<longleftrightarrow> x = y"
  by (metis decode_enc option.inject)

end

text \<open>An encoding that never produces null can be made optional.\<close>

locale total_codec = codec +
  assumes enc_nonnull: "enc x \<noteq> JNull"
begin

lemma decode_opt: "as_opt decode (opt_json enc x) = Some x"
proof (cases x)
  case None
  then show ?thesis by (simp add: opt_json_def)
next
  case (Some v)
  then show ?thesis using enc_nonnull [of v] decode_enc [of v] by (cases "enc v") (simp_all add: opt_json_def)
qed

end

interpretation str_codec: total_codec JStr as_str
  by unfold_locales simp_all

interpretation nat_codec: total_codec nat_json as_nat
  by unfold_locales (simp_all add: nat_json_def)

interpretation bool_codec: total_codec JBool as_bool
  by unfold_locales simp_all

interpretation int_codec: total_codec JInt as_int
  by unfold_locales simp_all

lemmas leaf_codecs = str_codec.decode_opt str_codec.decode_list nat_codec.decode_opt nat_codec.decode_enc

end
