(* ===== verification/Nico_Rest.thy ===== *)
theory Nico_Rest
  imports Adapters Json
begin

text \<open>
  The REST seam to the site controller, both ends: \<open>NicoHttpAdapter\<close> of \<open>app/adapters.py\<close>, which turns every adapter
  call into an HTTP request and the answer back into a model, and the \<open>/fake-nico\<close> router of \<open>app/nico_fake.py\<close>,
  which turns the request into the controller call. What lies between them (httpx, the ASGI server, FastAPI's
  dispatch of a URL) is the parameter \<open>send\<close>. The read-only dashboard routes and the demo endpoints of the router
  are the parameter \<open>other\<close>. The purpose of an attachment and the reason of a cordon only appear in trace texts: the calls carry them as fixed
  values.
\<close>

section \<open>Requests and responses\<close>

datatype http_method = GET | POST | PATCH | DELETE

record rest_call =
  rc_method :: http_method
  rc_path :: string
  rc_json :: "json option"

text \<open>A response: its status and its body, \<open>None\<close> when the body is not JSON.\<close>

record rest_reply =
  rr_status :: nat
  rr_json :: "json option"

definition rest_call :: "http_method \<Rightarrow> string \<Rightarrow> json option \<Rightarrow> rest_call" where
  "rest_call m p b = \<lparr>rc_method = m, rc_path = p, rc_json = b\<rparr>"

definition rest_reply :: "nat \<Rightarrow> json option \<Rightarrow> rest_reply" where
  "rest_reply c b = \<lparr>rr_status = c, rr_json = b\<rparr>"

section \<open>The models on the wire\<close>

definition host_states :: "(NicoHostState \<times> string) list" where
  "host_states = [(H_discovered, ''discovered''), (H_quarantined, ''quarantined''), (H_pool_ready, ''pool_ready''),
     (H_reserved, ''reserved''), (H_provisioning, ''provisioning''), (H_provisioned, ''provisioned''),
     (H_allocated, ''allocated''), (H_released, ''released''), (H_sanitizing, ''sanitizing''), (H_rma, ''rma'')]"

definition host_state_json :: "NicoHostState \<Rightarrow> json" where
  "host_state_json st = JStr (the (map_of host_states st))"

definition as_host_state :: "json \<Rightarrow> NicoHostState option" where
  "as_host_state j = Option.bind (as_str j) (\<lambda>s. map_option fst (List.find (\<lambda>(_, v). v = s) host_states))"

definition host_json :: "nico_host \<Rightarrow> json" where
  "host_json h = JObj [(''host_id'', JStr (nh_host_id h)), (''tray_id'', JStr (nh_tray_id h)), (''sku'', JStr (nh_sku h)),
     (''site'', JStr (nh_site h)), (''state'', host_state_json (nh_state h)), (''firmware_ok'', JBool (firmware_ok h)),
     (''attested'', JBool (attested h)), (''cordoned'', JBool (nh_cordoned h)),
     (''instance_id'', opt_json JStr (nh_instance_id h)), (''tenant_ref'', opt_json JStr (nh_tenant_ref h)),
     (''image_ref'', opt_json JStr (nh_image_ref h)), (''bmc_ip'', JStr (nh_bmc_ip h)), (''dpu_ip'', JStr (nh_dpu_ip h)),
     (''host_ip'', JStr (nh_host_ip h)), (''segment_id'', opt_json JStr (nh_segment_id h))]"

definition as_host :: "json \<Rightarrow> nico_host option" where
  "as_host j =
     Option.bind (jmembers j) (\<lambda>o'.
     Option.bind (need as_str o' ''host_id'') (\<lambda>hid.
     Option.bind (with_default '''' as_str o' ''tray_id'') (\<lambda>tid.
     Option.bind (with_default '''' as_str o' ''sku'') (\<lambda>sku.
     Option.bind (with_default '''' as_str o' ''site'') (\<lambda>sit.
     Option.bind (with_default H_pool_ready as_host_state o' ''state'') (\<lambda>st.
     Option.bind (with_default True as_bool o' ''firmware_ok'') (\<lambda>fw.
     Option.bind (with_default True as_bool o' ''attested'') (\<lambda>att.
     Option.bind (with_default False as_bool o' ''cordoned'') (\<lambda>crd.
     Option.bind (with_default None (as_opt as_str) o' ''instance_id'') (\<lambda>iid.
     Option.bind (with_default None (as_opt as_str) o' ''tenant_ref'') (\<lambda>tn.
     Option.bind (with_default None (as_opt as_str) o' ''image_ref'') (\<lambda>img.
     Option.bind (with_default '''' as_str o' ''bmc_ip'') (\<lambda>bmc.
     Option.bind (with_default '''' as_str o' ''dpu_ip'') (\<lambda>dpu.
     Option.bind (with_default '''' as_str o' ''host_ip'') (\<lambda>ip.
     Option.bind (with_default None (as_opt as_str) o' ''segment_id'') (\<lambda>seg.
     Some \<lparr>nh_host_id = hid, nh_tray_id = tid, nh_sku = sku, nh_site = sit, nh_state = st, firmware_ok = fw,
       attested = att, nh_cordoned = crd, nh_instance_id = iid, nh_tenant_ref = tn, nh_image_ref = img,
       nh_bmc_ip = bmc, nh_dpu_ip = dpu, nh_host_ip = ip, nh_segment_id = seg\<rparr>))))))))))))))))"

text \<open>The \<open>virtualizer\<close> of a segment is always \<open>fnn\<close>.\<close>

definition segment_json :: "nico_segment \<Rightarrow> json" where
  "segment_json g = JObj [(''segment_id'', JStr (sg_segment_id g)), (''tenant_ref'', JStr (sg_tenant_ref g)),
     (''vrf'', JStr (sg_vrf g)), (''l3vni'', nat_json (sg_l3vni g)), (''converged_vni'', nat_json (sg_converged_vni g)),
     (''virtualizer'', JStr ''fnn''), (''vrf_dataplane'', JStr (sg_vrf_dataplane g)),
     (''host_ids'', list_json JStr (sg_host_ids g)), (''allocation_id'', opt_json JStr (sg_allocation_id g)),
     (''ib_pkey'', opt_json nat_json (sg_ib_pkey g)), (''state'', JStr (sg_state g))]"

definition as_segment :: "json \<Rightarrow> nico_segment option" where
  "as_segment j =
     Option.bind (jmembers j) (\<lambda>o'.
     Option.bind (need as_str o' ''segment_id'') (\<lambda>sid.
     Option.bind (need as_str o' ''tenant_ref'') (\<lambda>tn.
     Option.bind (need as_str o' ''vrf'') (\<lambda>vrf.
     Option.bind (need as_nat o' ''l3vni'') (\<lambda>l3.
     Option.bind (need as_nat o' ''converged_vni'') (\<lambda>cv.
     Option.bind (with_default '''' as_str o' ''vrf_dataplane'') (\<lambda>dp.
     Option.bind (with_default [] (as_list as_str) o' ''host_ids'') (\<lambda>hids.
     Option.bind (with_default None (as_opt as_str) o' ''allocation_id'') (\<lambda>aid.
     Option.bind (with_default None (as_opt as_nat) o' ''ib_pkey'') (\<lambda>pk.
     Option.bind (with_default ''active'' as_str o' ''state'') (\<lambda>st.
     Some \<lparr>sg_segment_id = sid, sg_tenant_ref = tn, sg_vrf = vrf, sg_l3vni = l3, sg_converged_vni = cv,
       sg_vrf_dataplane = dp, sg_host_ids = hids, sg_allocation_id = aid, sg_ib_pkey = pk, sg_state = st\<rparr>)))))))))))"

text \<open>The state of a job is one of three words in the code of the controller.\<close>

definition job_states :: "(job_state \<times> string) list" where
  "job_states = [(J_running, ''running''), (J_succeeded, ''succeeded''), (J_failed, ''failed'')]"

definition job_state_json :: "job_state \<Rightarrow> json" where
  "job_state_json st = JStr (the (map_of job_states st))"

definition as_job_state :: "json \<Rightarrow> job_state option" where
  "as_job_state j = Option.bind (as_str j) (\<lambda>s. map_option fst (List.find (\<lambda>(_, v). v = s) job_states))"

definition job_json :: "nico_job \<Rightarrow> json" where
  "job_json b = JObj [(''job_id'', JStr (jb_job_id b)), (''op'', JStr (jb_op b)), (''host_id'', JStr (jb_host_id b)),
     (''state'', job_state_json (jb_state b)), (''detail'', JStr (jb_detail b)), (''remaining_polls'', JInt (jb_remaining_polls b))]"

definition as_job :: "json \<Rightarrow> nico_job option" where
  "as_job j =
     Option.bind (jmembers j) (\<lambda>o'.
     Option.bind (need as_str o' ''job_id'') (\<lambda>jid.
     Option.bind (need as_str o' ''op'') (\<lambda>op.
     Option.bind (need as_str o' ''host_id'') (\<lambda>hid.
     Option.bind (with_default J_running as_job_state o' ''state'') (\<lambda>st.
     Option.bind (with_default '''' as_str o' ''detail'') (\<lambda>d.
     Option.bind (with_default 0 as_int o' ''remaining_polls'') (\<lambda>rp.
     Some \<lparr>jb_job_id = jid, jb_op = op, jb_host_id = hid, jb_state = st, jb_detail = d, jb_remaining_polls = rp\<rparr>)))))))"

definition step_json :: "string \<times> bool \<Rightarrow> json" where
  "step_json st = JObj [(''step'', JStr (fst st)), (''ok'', JBool (snd st))]"

definition as_step :: "json \<Rightarrow> (string \<times> bool) option" where
  "as_step j = Option.bind (jmembers j) (\<lambda>o'. Option.bind (need as_str o' ''step'') (\<lambda>st.
     Option.bind (need as_bool o' ''ok'') (\<lambda>ok. Some (st, ok))))"

definition report_json :: "sanitize_report \<Rightarrow> json" where
  "report_json r = JObj [(''host_id'', JStr (rp_host_id r)), (''passed'', JBool (rp_passed r)),
     (''steps'', list_json step_json (rp_steps r))]"

definition as_report :: "json \<Rightarrow> sanitize_report option" where
  "as_report j =
     Option.bind (jmembers j) (\<lambda>o'.
     Option.bind (need as_str o' ''host_id'') (\<lambda>hid.
     Option.bind (need as_bool o' ''passed'') (\<lambda>p.
     Option.bind (with_default [] (as_list as_step) o' ''steps'') (\<lambda>sts.
     Some \<lparr>rp_host_id = hid, rp_passed = p, rp_steps = sts\<rparr>))))"

section \<open>The router\<close>

text \<open>
  FastAPI around a handler: its result is serialised with the status of the route, an \<open>HTTPException\<close> becomes a
  response with its status and detail, and any other exception a plain-text 500.
\<close>

definition respond :: "nat \<Rightarrow> ('a \<Rightarrow> json) \<Rightarrow> ('s, 'a) prog \<Rightarrow> ('s, rest_reply) prog" where
  "respond code enc m s =
     (case m s of
        (Inr x, s') \<Rightarrow> (Inr (rest_reply code (Some (enc x))), s')
      | (Inl (HTTPException c d), s') \<Rightarrow> (Inr (rest_reply c (Some (JObj [(''detail'', JStr d)]))), s')
      | (Inl (PyError _), s') \<Rightarrow> (Inr (rest_reply 500 None), s'))"

definition unprocessable :: rest_reply where
  "unprocessable = rest_reply 422 (Some (JObj [(''detail'', JArr [])]))"

definition with_body :: "(json \<Rightarrow> 'b option) \<Rightarrow> rest_call \<Rightarrow> ('b \<Rightarrow> ('s, rest_reply) prog) \<Rightarrow> ('s, rest_reply) prog" where
  "with_body f rq k = (case Option.bind (rc_json rq) f of None \<Rightarrow> returnE unprocessable | Some b \<Rightarrow> k b)"

record segment_body =
  sb_tenant_ref :: string
  sb_vrf :: string
  sb_l3vni :: nat
  sb_converged_vni :: nat
  sb_host_ids :: "string list"
  sb_allocation_id :: "string option"
  sb_ib_pkey :: "nat option"

definition as_segment_body :: "json \<Rightarrow> segment_body option" where
  "as_segment_body j =
     Option.bind (jmembers j) (\<lambda>o'.
     Option.bind (need as_str o' ''tenant_ref'') (\<lambda>tn.
     Option.bind (need as_str o' ''vrf'') (\<lambda>vrf.
     Option.bind (need as_nat o' ''l3vni'') (\<lambda>l3.
     Option.bind (need as_nat o' ''converged_vni'') (\<lambda>cv.
     Option.bind (with_default [] (as_list as_str) o' ''host_ids'') (\<lambda>hids.
     Option.bind (with_default None (as_opt as_str) o' ''allocation_id'') (\<lambda>aid.
     Option.bind (with_default None (as_opt as_nat) o' ''ib_pkey'') (\<lambda>pk.
     Some \<lparr>sb_tenant_ref = tn, sb_vrf = vrf, sb_l3vni = l3, sb_converged_vni = cv, sb_host_ids = hids,
       sb_allocation_id = aid, sb_ib_pkey = pk\<rparr>))))))))"

definition as_allocate_body :: "json \<Rightarrow> (string \<times> string) option" where
  "as_allocate_body j = Option.bind (jmembers j) (\<lambda>o'. Option.bind (need as_str o' ''host_id'') (\<lambda>hid.
     Option.bind (need as_str o' ''tenant_ref'') (\<lambda>tn. Some (hid, tn))))"

definition as_provision_body :: "json \<Rightarrow> string option" where
  "as_provision_body j = Option.bind (jmembers j) (\<lambda>o'. need as_str o' ''image_ref'')"

definition as_inject_body :: "json \<Rightarrow> string option" where
  "as_inject_body j = Option.bind (jmembers j) (\<lambda>o'. need as_str o' ''op'')"

definition as_attach_body :: "json \<Rightarrow> (string list \<times> string) option" where
  "as_attach_body j = Option.bind (jmembers j) (\<lambda>o'. Option.bind (with_default [] (as_list as_str) o' ''host_ids'') (\<lambda>hids.
     Option.bind (with_default ''converged'' as_str o' ''purpose'') (\<lambda>p. Some (hids, p))))"

text \<open>The routes below one path segment, two and three; a path parameter is a non-empty segment.\<close>

definition route1 :: "nico compute_adapter \<Rightarrow> (rest_call \<Rightarrow> rest_reply nprog) \<Rightarrow> rest_call \<Rightarrow> string \<Rightarrow> rest_reply nprog" where
  "route1 active other rq a =
     (if rc_method rq = GET \<and> a = ''hosts'' then respond 200 (list_json host_json) (catch_all (ca_list_hosts active) nico_list_hosts)
      else if rc_method rq = POST \<and> a = ''instances'' then
        with_body as_allocate_body rq (\<lambda>(hid, tn). respond 201 host_json (nico_allocate hid tn))
      else if rc_method rq = GET \<and> a = ''segments'' then respond 200 (list_json segment_json) nico_list_segments
      else if rc_method rq = POST \<and> a = ''segments'' then
        with_body as_segment_body rq (\<lambda>b. respond 201 segment_json (nico_create_segment (sb_tenant_ref b) (sb_vrf b)
          (sb_l3vni b) (sb_converged_vni b) (sb_host_ids b) (sb_allocation_id b) (sb_ib_pkey b)))
      else other rq)"

definition route2 :: "nico compute_adapter \<Rightarrow> (rest_call \<Rightarrow> rest_reply nprog) \<Rightarrow> rest_call \<Rightarrow> string \<Rightarrow> string \<Rightarrow> rest_reply nprog" where
  "route2 active other rq a x =
     (if x = [] then other rq
      else if rc_method rq = GET \<and> a = ''hosts'' then
        respond 200 host_json (catch_all (ca_get_host active x) (nico_get_host x))
      else if rc_method rq = DELETE \<and> a = ''instances'' then respond 200 job_json (nico_release x)
      else if rc_method rq = GET \<and> a = ''jobs'' then respond 200 job_json (nico_get_job x)
      else if rc_method rq = DELETE \<and> a = ''segments'' then respond 200 segment_json (nico_delete_segment x)
      else other rq)"

definition inject_json :: "string \<Rightarrow> string \<Rightarrow> unit \<Rightarrow> json" where
  "inject_json hid op _ = JObj [(''injected'', JStr op), (''host_id'', JStr hid)]"

text \<open>\<open>cordon\<close> takes an optional object; its reason is not kept.\<close>

definition cordon_body :: "json option \<Rightarrow> bool" where
  "cordon_body b = (case b of None \<Rightarrow> True | Some JNull \<Rightarrow> True | Some (JObj _) \<Rightarrow> True | _ \<Rightarrow> False)"

definition route3 :: "(rest_call \<Rightarrow> rest_reply nprog) \<Rightarrow> rest_call \<Rightarrow> string \<Rightarrow> string \<Rightarrow> string \<Rightarrow> rest_reply nprog" where
  "route3 other rq a x b =
     (if x = [] then other rq
      else if a = ''hosts'' \<and> rc_method rq = POST then
        (if b = ''reserve'' then respond 200 host_json (nico_reserve x)
         else if b = ''unreserve'' then respond 200 host_json (nico_unreserve x)
         else if b = ''provision'' then with_body as_provision_body rq (\<lambda>img. respond 200 job_json (nico_provision x img))
         else if b = ''abort-provision'' then respond 200 host_json (nico_abort_provision x)
         else if b = ''cordon'' then
           (if cordon_body (rc_json rq) then respond 200 host_json (nico_cordon x) else returnE unprocessable)
         else if b = ''sanitize'' then respond 200 job_json (nico_sanitize x)
         else if b = ''inject'' then with_body as_inject_body rq (\<lambda>op. respond 200 (inject_json x op) (inject_failure x op))
         else other rq)
      else if a = ''hosts'' \<and> rc_method rq = GET \<and> b = ''sanitize-report'' then
        respond 200 report_json (nico_get_sanitize_report x)
      else if a = ''segments'' \<and> rc_method rq = PATCH \<and> b = ''hosts'' then
        with_body as_attach_body rq (\<lambda>(hids, _). respond 200 segment_json (nico_attach_hosts x hids))
      else other rq)"

definition nico_router :: "nico compute_adapter \<Rightarrow> (rest_call \<Rightarrow> rest_reply nprog) \<Rightarrow> rest_call \<Rightarrow> rest_reply nprog" where
  "nico_router active other rq =
     (case split_on CHR ''/'' (rc_path rq) of
        [e, a] \<Rightarrow> if e = [] then route1 active other rq a else other rq
      | [e, a, x] \<Rightarrow> if e = [] then route2 active other rq a x else other rq
      | [e, a, x, b] \<Rightarrow> if e = [] then route3 other rq a x b else other rq
      | _ \<Rightarrow> other rq)"

section \<open>The client\<close>

text \<open>
  \<open>_unwrap\<close>: an error status raises \<open>HTTPException\<close> with the detail of the body; a body that is not JSON makes
  \<open>resp.json()\<close> raise. A detail that is not a text, or is absent, gets a fixed tag.
\<close>

definition unwrap :: "rest_reply \<Rightarrow> ('n, json) prog" where
  "unwrap r =
     bindE (if rr_status r \<ge> 400 then
        bindE (someE (PyError ''JSONDecodeError'') (rr_json r)) (\<lambda>j.
        bindE (jget j ''detail'') (\<lambda>d.
        raiseE (HTTPException (rr_status r) (case d of JStr t \<Rightarrow> t | _ \<Rightarrow> ''detail''))))
      else returnE ()) (\<lambda>_.
     someE (PyError ''JSONDecodeError'') (rr_json r))"

text \<open>A call: the request is sent, the answer unwrapped and validated as a model.\<close>

definition rest_request ::
    "(rest_call \<Rightarrow> ('n, rest_reply) prog) \<Rightarrow> (json \<Rightarrow> 'a option) \<Rightarrow> http_method \<Rightarrow> string \<Rightarrow> json option \<Rightarrow> ('n, 'a) prog" where
  "rest_request send f m p b =
     bindE (send (rest_call m p b)) (\<lambda>r.
     bindE (unwrap r) (\<lambda>j.
     someE (PyError ''ValidationError'') (f j)))"

definition host_path :: "string \<Rightarrow> string \<Rightarrow> string" where
  "host_path hid verb = ''/hosts/'' @ hid @ ''/'' @ verb"

definition NicoHttpAdapter ::
    "(rest_call \<Rightarrow> ('n, rest_reply) prog) \<Rightarrow> ('n, nico_segment list) prog \<Rightarrow> 'n compute_adapter" where
  "NicoHttpAdapter send local_segments = (let host_op = (\<lambda>verb hid. rest_request send as_host POST (host_path hid verb) None) in
     \<lparr>ca_list_hosts = rest_request send (as_list as_host) GET ''/hosts'' None,
      ca_get_host = (\<lambda>hid. rest_request send as_host GET (''/hosts/'' @ hid) None),
      ca_reserve = host_op ''reserve'',
      ca_unreserve = host_op ''unreserve'',
      ca_provision = (\<lambda>hid img. rest_request send as_job POST (host_path hid ''provision'')
         (Some (JObj [(''image_ref'', JStr img)]))),
      ca_allocate = (\<lambda>hid tn. rest_request send as_host POST ''/instances''
         (Some (JObj [(''host_id'', JStr hid), (''tenant_ref'', JStr tn)]))),
      ca_release = (\<lambda>iid. rest_request send as_job DELETE (''/instances/'' @ iid) None),
      ca_abort_provision = host_op ''abort-provision'',
      ca_sanitize = (\<lambda>hid. rest_request send as_job POST (host_path hid ''sanitize'') None),
      ca_get_sanitize_report = (\<lambda>hid. rest_request send as_report GET (host_path hid ''sanitize-report'') None),
      ca_get_job = (\<lambda>jid. rest_request send as_job GET (''/jobs/'' @ jid) None),
      ca_cordon = (\<lambda>hid. rest_request send as_host POST (host_path hid ''cordon'') (Some (JObj [(''reason'', JStr '''')]))),
      ca_create_segment = (\<lambda>tn vrf l3 cv hids aid pk. rest_request send as_segment POST ''/segments''
         (Some (JObj [(''tenant_ref'', JStr tn), (''vrf'', JStr vrf), (''l3vni'', nat_json l3), (''converged_vni'', nat_json cv),
            (''host_ids'', list_json JStr hids), (''allocation_id'', opt_json JStr aid), (''ib_pkey'', opt_json nat_json pk)]))),
      ca_delete_segment = (\<lambda>sid. rest_request send as_segment DELETE (''/segments/'' @ sid) None),
      ca_list_segments = rest_request send (as_list as_segment) GET ''/segments'' None,
      ca_attach_hosts = (\<lambda>sid hids. rest_request send as_segment PATCH (''/segments/'' @ sid @ ''/hosts'')
         (Some (JObj [(''host_ids'', list_json JStr hids), (''purpose'', JStr ''converged'')]))),
      ca_local_segments = local_segments\<rparr>)"

section \<open>The codecs are inverse\<close>

lemma host_state_codec: "as_host_state (host_state_json st) = Some st"
  by (cases st) (simp_all add: as_host_state_def host_state_json_def host_states_def)

lemma job_state_codec: "as_job_state (job_state_json st) = Some st"
  by (cases st) (simp_all add: as_job_state_def job_state_json_def job_states_def)

lemmas field_simps_wire = need_def with_default_def host_state_codec job_state_codec leaf_codecs

interpretation host_codec: codec host_json as_host
  by unfold_locales (simp add: as_host_def host_json_def field_simps_wire)

interpretation segment_codec: codec segment_json as_segment
  by unfold_locales (simp add: as_segment_def segment_json_def field_simps_wire)

interpretation job_codec: codec job_json as_job
  by unfold_locales (simp add: as_job_def job_json_def field_simps_wire)

interpretation step_codec: codec step_json as_step
  by unfold_locales (simp add: as_step_def step_json_def field_simps_wire)

interpretation report_codec: codec report_json as_report
  by unfold_locales (simp add: as_report_def report_json_def field_simps_wire step_codec.decode_list)

end
