(* ===== verification/Nico_Rest_Spec.thy ===== *)
theory Nico_Rest_Spec
  imports Nico_Rest Demo
begin

text \<open>
  The REST adapter implements the in-process one: against a controller process that serves the \<open>/fake-nico\<close> router,
  every adapter call has the result, the error and the effect of the direct call. The transport is any function that
  delivers a request with a plain URL unchanged.
\<close>

section \<open>Plain URLs\<close>

text \<open>The characters RFC 3986 leaves unreserved travel in a URL path as they are; \<open>.\<close> and \<open>..\<close> are normalised away.\<close>

definition unreserved :: "char \<Rightarrow> bool" where
  "unreserved c \<longleftrightarrow> (let n = (of_char c :: nat) in is_digit c \<or> 65 \<le> n \<and> n \<le> 90 \<or> 97 \<le> n \<and> n \<le> 122) \<or> c \<in> set ''-._~''"

definition url_safe :: "string \<Rightarrow> bool" where
  "url_safe s \<longleftrightarrow> s \<noteq> [] \<and> list_all unreserved s \<and> s \<noteq> ''.'' \<and> s \<noteq> ''..''"

definition plain_path :: "string \<Rightarrow> bool" where
  "plain_path p \<longleftrightarrow> (case split_on CHR ''/'' p of [] \<Rightarrow> False | e # segs \<Rightarrow> e = [] \<and> list_all url_safe segs)"

lemma slash_reserved: "\<not> unreserved CHR ''/''"
  by (simp add: unreserved_def is_digit_def)

lemma url_safe_no_slash: "url_safe s \<Longrightarrow> CHR ''/'' \<notin> set s"
  using slash_reserved by (auto simp: url_safe_def list_all_iff)

lemma url_safe_nonempty: "url_safe s \<Longrightarrow> s \<noteq> []"
  by (simp add: url_safe_def)

lemma split_on_free: "c \<notin> set s \<Longrightarrow> split_on c s = [s]"
  by (induction s) auto

lemma split_on_append: "c \<notin> set s \<Longrightarrow> split_on c (s @ c # t) = s # split_on c t"
  by (induction s) auto

lemma dec_url_safe: "url_safe (''job-'' @ dec n)" "url_safe (''inst-'' @ dec n)" "url_safe (''seg-'' @ dec n)"
  using dec_digits [of n]
  by (auto simp: url_safe_def list_all_iff unreserved_def is_digit_def)

section \<open>What the client sees of a call\<close>

text \<open>An internal error of the server reaches the client as a reply it cannot decode; all else is as at the server.\<close>

definition over_wire :: "('s, 'a) prog \<Rightarrow> ('s, 'a) prog" where
  "over_wire m s = (case m s of (Inl (PyError _), s') \<Rightarrow> (Inl (PyError ''JSONDecodeError''), s') | r \<Rightarrow> r)"

text \<open>Error statuses are error statuses: no handler raises \<open>HTTPException\<close> with a status below 400.\<close>

definition http_errors :: "('s, 'a) prog \<Rightarrow> bool" where
  "http_errors m \<longleftrightarrow> (\<forall>s c d. fst (m s) = Inl (HTTPException c d) \<longrightarrow> 400 \<le> c)"

named_theorems error_rules \<open>structural rules: the errors of a program have error statuses\<close>

lemma http_errors_basic [error_rules]:
  "http_errors (returnE x)" "http_errors (getsE f)" "http_errors (modifyE g)"
  "http_errors (raiseE (PyError e))" "400 \<le> c \<Longrightarrow> http_errors (raiseE (HTTPException c d))"
  by (simp_all add: http_errors_def)

lemma http_errors_someE [error_rules]: "http_errors (raiseE e :: ('s, 'a) prog) \<Longrightarrow> http_errors (someE e (x :: 'a option) :: ('s, 'a) prog)"
  by (auto simp: http_errors_def someE_run split: option.splits)

lemma http_errors_raise_if [error_rules]: "http_errors (raiseE e :: ('s, unit) prog) \<Longrightarrow> http_errors (raise_if b e :: ('s, unit) prog)"
  by (auto simp: http_errors_def)

lemma http_errors_bindE [error_rules]: "http_errors m \<Longrightarrow> (\<And>x. http_errors (f x)) \<Longrightarrow> http_errors (bindE m f)"
  unfolding http_errors_def by (auto simp: bindE_def split: prod.splits sum.splits) (metis fst_conv)+

lemma http_errors_thenE [error_rules]: "http_errors m \<Longrightarrow> http_errors k \<Longrightarrow> http_errors (thenE m k)"
  unfolding thenE_def by (rule http_errors_bindE)

lemma http_errors_forE [error_rules]: "(\<And>x. http_errors (f x)) \<Longrightarrow> http_errors (forE xs f)"
  by (induction xs) (auto intro: error_rules)

lemma http_errors_if [error_rules]: "http_errors m \<Longrightarrow> http_errors k \<Longrightarrow> http_errors (if b then m else k)"
  by simp

lemma http_errors_option [error_rules]:
  "http_errors m \<Longrightarrow> (\<And>x. http_errors (f x)) \<Longrightarrow> http_errors (case y of None \<Rightarrow> m | Some x \<Rightarrow> f x)"
  by (simp split: option.splits)

lemma http_errors_prod [error_rules]: "(\<And>x y. http_errors (f x y)) \<Longrightarrow> http_errors (case p of (x, y) \<Rightarrow> f x y)"
  by (simp split: prod.splits)

lemma http_errors_consume [error_rules]: "http_errors (consume_failure hid op)"
  by (auto simp: http_errors_def consume_failure_def split: option.splits if_splits)

lemma http_errors_hosts [error_rules]:
  "http_errors (nico_host_or_404 hid)" "http_errors (nico_require h sts)" "http_errors (upd_host hid f)"
  "http_errors (upd_job jid g)" "http_errors (read_job jid)" "http_errors (nico_segment_or_404 sid)"
  "http_errors (trailing_index x)"
  by (simp_all add: nico_host_or_404_def nico_require_def upd_host_def upd_job_def read_job_def nico_segment_or_404_def
       trailing_index_def error_rules)

lemma http_errors_jobs [error_rules]: "http_errors (finish_job job fail)" "http_errors (new_job op hid fail)"
  by (auto simp: finish_job_def new_job_def Let_def intro!: error_rules)

lemma controller_errors:
  "http_errors (nico_reserve hid)" "http_errors (nico_unreserve hid)" "http_errors (nico_provision hid img)"
  "http_errors (nico_allocate hid tn)" "http_errors (nico_release iid)" "http_errors (nico_abort_provision hid)"
  "http_errors (nico_sanitize hid)" "http_errors (nico_get_job jid)" "http_errors (nico_cordon hid)"
  "http_errors (nico_create_segment tn vrf l3 cv hids aid pk)" "http_errors (nico_attach_hosts sid hids)"
  "http_errors (nico_delete_segment sid)" "http_errors nico_list_segments" "http_errors nico_list_hosts"
  "http_errors (nico_get_host hid)" "http_errors (nico_get_sanitize_report hid)"
  by (auto simp: nico_reserve_def nico_unreserve_def nico_provision_def provision_ip_def nico_allocate_def nico_release_def
       nico_abort_provision_def nico_sanitize_def nico_get_job_def nico_cordon_def nico_create_segment_def Let_def
       nico_attach_hosts_def nico_delete_segment_def nico_list_segments_def nico_list_hosts_def nico_get_host_def
       nico_get_sanitize_report_def intro!: error_rules)

lemma wire_call:
  assumes "http_errors m" "code < 400" "\<And>x. f (enc x) = Some x"
  shows "bindE (respond code enc m) (\<lambda>r. bindE (unwrap r) (\<lambda>j. someE (PyError ''ValidationError'') (f j))) = over_wire m"
proof (rule ext)
  fix s
  obtain r s' where ms: "m s = (r, s')" by (cases "m s")
  show "bindE (respond code enc m) (\<lambda>r. bindE (unwrap r) (\<lambda>j. someE (PyError ''ValidationError'') (f j))) s = over_wire m s"
  proof (cases r)
    case (Inr x)
    with ms assms(2,3) show ?thesis by (simp add: bindE_run respond_def over_wire_def unwrap_def rest_reply_def)
  next
    case (Inl e)
    show ?thesis
    proof (cases e)
      case (HTTPException c d)
      with assms(1) ms Inl have "400 \<le> c" unfolding http_errors_def by (metis fst_conv)
      with ms Inl HTTPException show ?thesis
        by (simp add: bindE_run respond_def over_wire_def unwrap_def rest_reply_def jget_def jmember_def)
    next
      case (PyError t)
      with ms Inl show ?thesis by (simp add: bindE_run respond_def over_wire_def unwrap_def rest_reply_def)
    qed
  qed
qed

section \<open>Client and server joined by a transport\<close>

locale rest_link =
  fixes send :: "rest_call \<Rightarrow> ('n, rest_reply) prog" and serve :: "rest_call \<Rightarrow> ('n, rest_reply) prog"
  assumes delivered: "plain_path (rc_path rq) \<Longrightarrow> send rq = serve rq"
begin

lemma request_agrees:
  assumes "plain_path p" "serve (rest_call mth p b) = respond code enc m" "http_errors m" "code < 400" "\<And>x. f (enc x) = Some x"
  shows "rest_request send f mth p b = over_wire m"
proof -
  have "send (rest_call mth p b) = respond code enc m" using assms(1,2) delivered [of "rest_call mth p b"] by (simp add: rest_call_def)
  then show ?thesis unfolding rest_request_def by (simp only: wire_call [OF assms(3-5)])
qed

end

text \<open>Splitting the paths the client builds; the parameter is one segment when it is safe in a URL.\<close>

lemma split_host_path:
  assumes "url_safe x" "url_safe verb"
  shows "split_on CHR ''/'' (host_path x verb) = [[], ''hosts'', x, verb]"
  using split_on_append [of "CHR ''/''" x verb] split_on_free [of "CHR ''/''" verb] assms [THEN url_safe_no_slash]
  by (simp add: host_path_def)

lemmas split_paths = split_on_free [OF url_safe_no_slash] split_on_append [OF url_safe_no_slash] split_host_path

lemma verb_safe [simp]:
  "url_safe ''hosts''" "url_safe ''instances''" "url_safe ''jobs''" "url_safe ''segments''" "url_safe ''reserve''"
  "url_safe ''unreserve''" "url_safe ''provision''" "url_safe ''abort-provision''" "url_safe ''cordon''" "url_safe ''sanitize''" "url_safe ''sanitize-report''"
  by (simp_all add: url_safe_def unreserved_def is_digit_def)

text \<open>The fallback of the read routes is the same call again.\<close>

lemma catch_all_twice: "keeps (\<lambda>t. t = s) m \<Longrightarrow> catch_all m m s = m s"
proof -
  assume "keeps (\<lambda>t. t = s) m"
  then have "snd (m s) = s" by (simp add: keeps_def)
  then show ?thesis by (cases "m s") (auto simp: catch_all_def split: sum.splits)
qed

lemma catch_reads: "catch_all nico_list_hosts nico_list_hosts = nico_list_hosts"
  "catch_all (nico_get_host hid) (nico_get_host hid) = nico_get_host hid"
  by (rule ext, rule catch_all_twice, simp add: keeps_def nico_list_hosts_def nico_get_host_def host_or_404_run split: option.splits)+

lemma router_hosts:
  assumes "url_safe x"
  shows "nico_router LocalNicoAdapter other (rest_call GET (''/hosts/'' @ x) b) = respond 200 host_json (nico_get_host x)"
    "nico_router A other (rest_call POST (host_path x ''reserve'') b) = respond 200 host_json (nico_reserve x)"
    "nico_router A other (rest_call POST (host_path x ''unreserve'') b) = respond 200 host_json (nico_unreserve x)"
    "nico_router A other (rest_call POST (host_path x ''abort-provision'') b) = respond 200 host_json (nico_abort_provision x)"
    "nico_router A other (rest_call POST (host_path x ''sanitize'') b) = respond 200 job_json (nico_sanitize x)"
    "nico_router A other (rest_call GET (host_path x ''sanitize-report'') b) = respond 200 report_json (nico_get_sanitize_report x)"
    "nico_router A other (rest_call POST (host_path x ''cordon'') (Some (JObj [(''reason'', r)]))) = respond 200 host_json (nico_cordon x)"
    "nico_router A other (rest_call POST (host_path x ''provision'') (Some (JObj [(''image_ref'', JStr img)]))) = respond 200 job_json (nico_provision x img)"
  using assms url_safe_nonempty [OF assms]
  by (simp_all add: nico_router_def rest_call_def split_paths route2_def route3_def LocalNicoAdapter_def
       catch_reads cordon_body_def with_body_def as_provision_body_def need_def)

lemma router_collections:
  "nico_router LocalNicoAdapter other (rest_call GET ''/hosts'' b) = respond 200 (list_json host_json) nico_list_hosts"
  "nico_router A other (rest_call GET ''/segments'' b) = respond 200 (list_json segment_json) nico_list_segments"
  "nico_router A other (rest_call POST ''/instances'' (Some (JObj [(''host_id'', JStr hid), (''tenant_ref'', JStr tn)])))
     = respond 201 host_json (nico_allocate hid tn)"
  "nico_router A other (rest_call POST ''/segments'' (Some (JObj [(''tenant_ref'', JStr tn), (''vrf'', JStr vrf), (''l3vni'', nat_json l3),
     (''converged_vni'', nat_json cv), (''host_ids'', list_json JStr hids), (''allocation_id'', opt_json JStr aid), (''ib_pkey'', opt_json nat_json pk)])))
     = respond 201 segment_json (nico_create_segment tn vrf l3 cv hids aid pk)"
  by (simp_all add: nico_router_def rest_call_def route1_def LocalNicoAdapter_def catch_reads with_body_def
       as_allocate_body_def as_segment_body_def field_simps_wire)

lemma router_items:
  assumes "url_safe x"
  shows "nico_router A other (rest_call DELETE (''/instances/'' @ x) b) = respond 200 job_json (nico_release x)"
    "nico_router A other (rest_call GET (''/jobs/'' @ x) b) = respond 200 job_json (nico_get_job x)"
    "nico_router A other (rest_call DELETE (''/segments/'' @ x) b) = respond 200 segment_json (nico_delete_segment x)"
    "nico_router A other (rest_call PATCH (''/segments/'' @ x @ ''/hosts'') (Some (JObj [(''host_ids'', list_json JStr hids), (''purpose'', JStr p)])))
       = respond 200 segment_json (nico_attach_hosts x hids)"
  using assms url_safe_nonempty [OF assms]
  by (simp_all add: nico_router_def rest_call_def split_paths route2_def route3_def with_body_def
       as_attach_body_def field_simps_wire)

lemma plain_paths:
  "plain_path ''/hosts''" "plain_path ''/segments''" "plain_path ''/instances''"
  "url_safe x \<Longrightarrow> plain_path (''/hosts/'' @ x)" "url_safe x \<Longrightarrow> plain_path (''/instances/'' @ x)"
  "url_safe x \<Longrightarrow> plain_path (''/jobs/'' @ x)" "url_safe x \<Longrightarrow> plain_path (''/segments/'' @ x)"
  "url_safe x \<Longrightarrow> plain_path (''/segments/'' @ x @ ''/hosts'')"
  "url_safe x \<Longrightarrow> url_safe verb \<Longrightarrow> plain_path (host_path x verb)"
  by (simp_all add: plain_path_def split_paths)

text \<open>
  A controller process that uses its own in-process controller, reached by a faithful transport: the client of a test,
  which calls the application directly, is the identity.
\<close>

interpretation test_client: rest_link "nico_router LocalNicoAdapter other" "nico_router LocalNicoAdapter other" for other
  by unfold_locales simp

section \<open>Polling a job over the wire\<close>

lemma over_wire_bindE: "over_wire (bindE m f) = bindE (over_wire m) (\<lambda>x. over_wire (f x))"
proof (rule ext)
  fix s
  show "over_wire (bindE m f) s = bindE (over_wire m) (\<lambda>x. over_wire (f x)) s"
    by (cases "m s"; cases "fst (m s)"; cases "\<exists>t. fst (m s) = Inl (PyError t)") (auto simp: over_wire_def bindE_run split: sum.splits err.splits)
qed

lemma over_wire_known [simp]: "over_wire (returnE x) = returnE x" "over_wire (raiseE (HTTPException c d)) = raiseE (HTTPException c d)"
  by (auto simp: over_wire_def fun_eq_iff)

text \<open>Jobs are stored under their ids, and asking for one returns that one.\<close>

definition jobs_keyed :: "nico \<Rightarrow> bool" where
  "jobs_keyed n \<longleftrightarrow> (\<forall>k j. map_of (nk_jobs n) k = Some j \<longrightarrow> jb_job_id j = k)"

lemma keyed_writes [keeps_rules]:
  "keeps jobs_keyed (upd_host hid f)" "keeps jobs_keyed (nico_host_or_404 hid)" "keeps jobs_keyed (read_job jid)"
  "keeps jobs_keyed (modifyE (\<lambda>n. n\<lparr>nk_sanitize_reports := g n\<rparr>))"
  by (simp_all add: keeps_def jobs_keyed_def upd_host_def host_or_404_run read_job_def someE_run bindE_run split: option.splits)

lemma keyed_upd_job [keeps_rules]: "(\<And>j. jb_job_id (f j) = jb_job_id j) \<Longrightarrow> keeps jobs_keyed (upd_job jid f)"
  by (auto simp: keeps_def jobs_keyed_def upd_job_def)

lemma keyed_get_job: "keeps jobs_keyed (nico_get_job jid)"
  unfolding nico_get_job_def finish_job_def Let_def
  by (intro keeps_rules) simp_all

lemma get_job_id: "jobs_keyed n \<Longrightarrow> nico_get_job jid n = (Inr j, n') \<Longrightarrow> jb_job_id j = jid"
proof -
  assume n: "jobs_keyed n" and run: "nico_get_job jid n = (Inr j, n')"
  then have n': "jobs_keyed n'" using keepsD [OF keyed_get_job n, of jid] by simp
  from run have "\<exists>s. read_job jid s = (Inr j, n')"
    unfolding nico_get_job_def by (auto dest!: bindE_ok thenE_ok)
  with n' show ?thesis by (auto simp: read_job_def bindE_run someE_run jobs_keyed_def split: option.splits)
qed

lemma poll_over_wire:
  assumes "ca_get_job A (jb_job_id job) = over_wire (nico_get_job (jb_job_id job))" "jobs_keyed n"
  shows "poll_job A k job n = over_wire (poll_job LocalNicoAdapter k job) n"
  using assms
proof (induction k arbitrary: job n)
  case 0
  then show ?case by (simp add: over_wire_def)
next
  case (Suc k)
  show ?case
  proof (cases "jb_state job = J_running")
    case False
    then show ?thesis by (simp add: over_wire_def)
  next
    case True
    let ?get = "nico_get_job (jb_job_id job)"
    have "bindE (over_wire ?get) (poll_job A k) n = bindE (over_wire ?get) (\<lambda>x. over_wire (poll_job LocalNicoAdapter k x)) n"
    proof (cases "?get n")
      case (Pair r n')
      show ?thesis
      proof (cases r)
        case (Inl e)
        with Pair show ?thesis by (cases e) (simp_all add: bindE_run over_wire_def)
      next
        case (Inr j)
        with Pair have get: "?get n = (Inr j, n')" by simp
        have "jobs_keyed n'" using keepsD [OF keyed_get_job Suc.prems(2), of "jb_job_id job"] get by simp
        moreover have "jb_job_id j = jb_job_id job" by (rule get_job_id [OF Suc.prems(2) get])
        ultimately have "poll_job A k j n' = over_wire (poll_job LocalNicoAdapter k j) n'" using Suc.IH [of j n'] Suc.prems(1) by simp
        then show ?thesis using get by (simp add: bindE_run over_wire_def)
      qed
    qed
    then show ?thesis using True Suc.prems(1) by (simp add: over_wire_bindE ca_get_job_local)
  qed
qed

section \<open>The refinement\<close>

lemmas local_ops = LocalNicoAdapter_def compute_adapter.select_convs

lemma rest_ops:
  fixes send loc defines "H \<equiv> NicoHttpAdapter send loc"
  shows "ca_list_hosts H = rest_request send (as_list as_host) GET ''/hosts'' None"
    "ca_get_host H x = rest_request send as_host GET (''/hosts/'' @ x) None"
    "ca_reserve H x = rest_request send as_host POST (host_path x ''reserve'') None"
    "ca_unreserve H x = rest_request send as_host POST (host_path x ''unreserve'') None"
    "ca_provision H x img = rest_request send as_job POST (host_path x ''provision'') (Some (JObj [(''image_ref'', JStr img)]))"
    "ca_allocate H hid tn = rest_request send as_host POST ''/instances'' (Some (JObj [(''host_id'', JStr hid), (''tenant_ref'', JStr tn)]))"
    "ca_release H x = rest_request send as_job DELETE (''/instances/'' @ x) None"
    "ca_abort_provision H x = rest_request send as_host POST (host_path x ''abort-provision'') None"
    "ca_sanitize H x = rest_request send as_job POST (host_path x ''sanitize'') None"
    "ca_get_sanitize_report H x = rest_request send as_report GET (host_path x ''sanitize-report'') None"
    "ca_get_job H x = rest_request send as_job GET (''/jobs/'' @ x) None"
    "ca_cordon H x = rest_request send as_host POST (host_path x ''cordon'') (Some (JObj [(''reason'', JStr [])]))"
    "ca_create_segment H tn vrf l3 cv hids aid pk = rest_request send as_segment POST ''/segments''
       (Some (JObj [(''tenant_ref'', JStr tn), (''vrf'', JStr vrf), (''l3vni'', nat_json l3), (''converged_vni'', nat_json cv),
          (''host_ids'', list_json JStr hids), (''allocation_id'', opt_json JStr aid), (''ib_pkey'', opt_json nat_json pk)]))"
    "ca_delete_segment H x = rest_request send as_segment DELETE (''/segments/'' @ x) None"
    "ca_list_segments H = rest_request send (as_list as_segment) GET ''/segments'' None"
    "ca_attach_hosts H x hids = rest_request send as_segment PATCH (''/segments/'' @ x @ ''/hosts'')
       (Some (JObj [(''host_ids'', list_json JStr hids), (''purpose'', JStr ''converged'')]))"
  unfolding H_def by (simp_all add: NicoHttpAdapter_def Let_def)

text \<open>
  C20. The REST adapter, talking to the \<open>/fake-nico\<close> router through a transport that delivers requests with plain
  paths, behaves as the in-process adapter: all sixteen operations have the same result, the same
  \<open>HTTPException\<close> and the same effect on the controller, an internal error of the server being one the client
  cannot decode; and so does waiting for a job. Ids that go into a URL must be safe there.
\<close>

theorem rest_adapter_refines_local:
  assumes "\<And>rq. plain_path (rc_path rq) \<Longrightarrow> send rq = nico_router LocalNicoAdapter other rq" and x: "url_safe x"
    and "url_safe (jb_job_id job)" "jobs_keyed n"
  shows "ca_list_hosts (NicoHttpAdapter send loc) = over_wire (ca_list_hosts LocalNicoAdapter)
    \<and> ca_get_host (NicoHttpAdapter send loc) x = over_wire (ca_get_host LocalNicoAdapter x)
    \<and> ca_reserve (NicoHttpAdapter send loc) x = over_wire (ca_reserve LocalNicoAdapter x)
    \<and> ca_unreserve (NicoHttpAdapter send loc) x = over_wire (ca_unreserve LocalNicoAdapter x)
    \<and> ca_provision (NicoHttpAdapter send loc) x img = over_wire (ca_provision LocalNicoAdapter x img)
    \<and> ca_allocate (NicoHttpAdapter send loc) hid tn = over_wire (ca_allocate LocalNicoAdapter hid tn)
    \<and> ca_release (NicoHttpAdapter send loc) x = over_wire (ca_release LocalNicoAdapter x)
    \<and> ca_abort_provision (NicoHttpAdapter send loc) x = over_wire (ca_abort_provision LocalNicoAdapter x)
    \<and> ca_sanitize (NicoHttpAdapter send loc) x = over_wire (ca_sanitize LocalNicoAdapter x)
    \<and> ca_get_sanitize_report (NicoHttpAdapter send loc) x = over_wire (ca_get_sanitize_report LocalNicoAdapter x)
    \<and> ca_get_job (NicoHttpAdapter send loc) x = over_wire (ca_get_job LocalNicoAdapter x)
    \<and> ca_cordon (NicoHttpAdapter send loc) x = over_wire (ca_cordon LocalNicoAdapter x)
    \<and> ca_create_segment (NicoHttpAdapter send loc) tn vrf l3 cv hids aid pk
        = over_wire (ca_create_segment LocalNicoAdapter tn vrf l3 cv hids aid pk)
    \<and> ca_delete_segment (NicoHttpAdapter send loc) x = over_wire (ca_delete_segment LocalNicoAdapter x)
    \<and> ca_list_segments (NicoHttpAdapter send loc) = over_wire (ca_list_segments LocalNicoAdapter)
    \<and> ca_attach_hosts (NicoHttpAdapter send loc) x hids = over_wire (ca_attach_hosts LocalNicoAdapter x hids)
    \<and> wait_job (NicoHttpAdapter send loc) job n = over_wire (wait_job LocalNicoAdapter job) n"
proof -
  have "rest_link send (nico_router LocalNicoAdapter other)" using assms(1) by (simp add: rest_link_def)
  note agree = rest_link.request_agrees [OF this]
  note host = agree [OF _ _ _ _ host_codec.decode_enc] and job = agree [OF _ _ _ _ job_codec.decode_enc]
    and segment = agree [OF _ _ _ _ segment_codec.decode_enc] and report = agree [OF _ _ _ _ report_codec.decode_enc]
    and hosts = agree [OF _ _ _ _ host_codec.decode_list] and segments = agree [OF _ _ _ _ segment_codec.decode_list]
  have get_job: "ca_get_job (NicoHttpAdapter send loc) y = over_wire (nico_get_job y)" if "url_safe y" for y
    unfolding rest_ops by (rule job [OF plain_paths(6) [OF that] router_items(2) [OF that] controller_errors(8)]) simp
  have wait: "wait_job (NicoHttpAdapter send loc) job n = over_wire (wait_job LocalNicoAdapter job) n"
    unfolding wait_job_def using assms(3,4) by (intro poll_over_wire get_job)
  show ?thesis
    unfolding rest_ops local_ops
    by (intro conjI wait [unfolded local_ops]
      hosts [OF plain_paths(1) router_collections(1) controller_errors(14)]
      host [OF plain_paths(4) [OF x] router_hosts(1) [OF x] controller_errors(15)]
      host [OF plain_paths(9) [OF x] router_hosts(2) [OF x] controller_errors(1)]
      host [OF plain_paths(9) [OF x] router_hosts(3) [OF x] controller_errors(2)]
      job [OF plain_paths(9) [OF x] router_hosts(8) [OF x] controller_errors(3)]
      host [OF plain_paths(3) router_collections(3) controller_errors(4)]
      job [OF plain_paths(5) [OF x] router_items(1) [OF x] controller_errors(5)]
      host [OF plain_paths(9) [OF x] router_hosts(4) [OF x] controller_errors(6)]
      job [OF plain_paths(9) [OF x] router_hosts(5) [OF x] controller_errors(7)]
      report [OF plain_paths(9) [OF x] router_hosts(6) [OF x] controller_errors(16)]
      job [OF plain_paths(6) [OF x] router_items(2) [OF x] controller_errors(8)]
      host [OF plain_paths(9) [OF x] router_hosts(7) [OF x] controller_errors(9)]
      segment [OF plain_paths(2) router_collections(4) controller_errors(10)]
      segment [OF plain_paths(7) [OF x] router_items(3) [OF x] controller_errors(12)]
      segments [OF plain_paths(2) router_collections(2) controller_errors(13)]
      segment [OF plain_paths(8) [OF x] router_items(4) [OF x] controller_errors(11)]) simp_all
qed

definition demo_send :: "rest_call \<Rightarrow> rest_reply nprog" where
  "demo_send = nico_router LocalNicoAdapter (\<lambda>_. returnE (rest_reply 404 (Some (JObj [(''detail'', JStr ''Not Found'')]))))"

definition demo_job :: nico_job where
  "demo_job = \<lparr>jb_job_id = ''job-1'', jb_op = ''provision'', jb_host_id = ''h-1'', jb_state = J_running, jb_detail = [],
     jb_remaining_polls = 1\<rparr>"

theorem rest_adapter_refines_local_witness:
  "ca_reserve (NicoHttpAdapter demo_send nico_list_segments) ''h-1'' (demo_fleet H_pool_ready)
     = (Inr (demo_host H_reserved), demo_fleet H_reserved)
   \<and> wait_job (NicoHttpAdapter demo_send nico_list_segments) demo_job (demo_fleet H_provisioning\<lparr>nk_jobs := [(''job-1'', demo_job)]\<rparr>)
     = (Inr (demo_job\<lparr>jb_state := J_succeeded, jb_remaining_polls := 0\<rparr>),
        demo_fleet H_provisioned\<lparr>nk_jobs := [(''job-1'', demo_job\<lparr>jb_state := J_succeeded, jb_remaining_polls := 0\<rparr>)]\<rparr>)"
proof -
  let ?n = "demo_fleet H_provisioning\<lparr>nk_jobs := [(''job-1'', demo_job)]\<rparr>"
  have safe: "url_safe ''h-1''" "url_safe (jb_job_id demo_job)" "jobs_keyed ?n"
    by (simp_all add: url_safe_def unreserved_def is_digit_def demo_job_def jobs_keyed_def)
  note rest = rest_adapter_refines_local [OF fun_cong [OF demo_send_def] safe, of nico_list_segments]
  have "ca_reserve LocalNicoAdapter ''h-1'' (demo_fleet H_pool_ready) = (Inr (demo_host H_reserved), demo_fleet H_reserved)"
    by (simp add: LocalNicoAdapter_def nico_reserve_run demo_fleet_def demo_host_def dict_mod_def demo_nico_def)
  moreover have "wait_job LocalNicoAdapter demo_job ?n = (Inr (demo_job\<lparr>jb_state := J_succeeded, jb_remaining_polls := 0\<rparr>),
      demo_fleet H_provisioned\<lparr>nk_jobs := [(''job-1'', demo_job\<lparr>jb_state := J_succeeded, jb_remaining_polls := 0\<rparr>)]\<rparr>)"
    by (simp add: wait_job_def MAX_POLLS_def numeral_eq_Suc demo_job_def LocalNicoAdapter_def nico_get_job_def read_job_def bindE_run
        thenE_run someE_run upd_job_def upd_host_def finish_job_def Let_def host_or_404_run demo_fleet_def demo_host_def demo_nico_def
        dict_mod_def)
  ultimately show ?thesis using rest by (simp add: over_wire_def)
qed

end
