(* ===== verification/Integration.thy ===== *)
theory Integration
  imports Json Metrics
begin

text \<open>
  \<open>app/integration.py\<close>: how the control plane is wired to the site-controller emulator and to the AI infrastructure
  emulator, the connection diagram, the comparison of the tenants the layers know, and the live call statistics.
  The network is an argument: what an HTTP GET of a URL answers within a handler. Bodies are JSON values read as Python
  reads them, with the exceptions this may raise. Free text shown beside a status is left out where it does not decide
  anything; what evaluating it may raise is kept. Lists of tenants hold texts, as the emulators document; any other
  element is a \<open>TypeError\<close>.
\<close>

section \<open>Settings and probes\<close>

record settings =
  se_nocp_nico_url :: "string option"
  se_nico_emulator_url :: "string option"
  se_ai_infra_url :: "string option"
  se_console_url :: "string option"

definition env_or :: "string option \<Rightarrow> string \<Rightarrow> string" where
  "env_or v d = (case v of None \<Rightarrow> d | Some x \<Rightarrow> x)"

definition nico_base :: "settings \<Rightarrow> string" where
  "nico_base se = (let env = env_or (se_nocp_nico_url se) '''' in
     if env \<noteq> [] then rsplit_head ''/nico-bridge'' env
     else env_or (se_nico_emulator_url se) ''http://127.0.0.1:9000'')"

definition ai_infra_base :: "settings \<Rightarrow> string" where
  "ai_infra_base se = env_or (se_ai_infra_url se) ''http://127.0.0.1:9100''"

definition console_base :: "settings \<Rightarrow> string" where
  "console_base se = env_or (se_console_url se) ''http://127.0.0.1:8090''"

definition adapter_mode :: "settings \<Rightarrow> string" where
  "adapter_mode se = (if env_or (se_nocp_nico_url se) '''' \<noteq> [] then ''http'' else ''local'')"

text \<open>
  An answer: its status, whether its content type names JSON, its body (\<open>None\<close> when it does not parse) and the time it
  took; no answer at all is an exception of the client.
\<close>

record net_reply =
  nr_status :: nat
  nr_json_type :: bool
  nr_body :: "json option"

type_synonym net = "string \<Rightarrow> rat \<times> net_reply option"

record probe =
  pb_reachable :: bool
  pb_status :: "nat option"
  pb_latency_ms :: rat
  pb_body :: json

definition probe_url :: "net \<Rightarrow> string \<Rightarrow> probe" where
  "probe_url net url = (let (t, r) = net url; failed = \<lparr>pb_reachable = False, pb_status = None, pb_latency_ms = round_dp 1 t, pb_body = JNull\<rparr> in
     case r of None \<Rightarrow> failed
     | Some a \<Rightarrow>
         if nr_json_type a then
           (case nr_body a of None \<Rightarrow> failed
            | Some j \<Rightarrow> \<lparr>pb_reachable = nr_status a < 400, pb_status = Some (nr_status a), pb_latency_ms = round_dp 1 t, pb_body = j\<rparr>)
         else \<lparr>pb_reachable = nr_status a < 400, pb_status = Some (nr_status a), pb_latency_ms = round_dp 1 t, pb_body = JNull\<rparr>)"

section \<open>Reading bodies\<close>

text \<open>\<open>for x in j\<close>, \<open>len(j)\<close>, \<open>j[k]\<close> with a text \<open>k\<close>, and \<open>sum\<close> over numbers.\<close>

fun jiter :: "json \<Rightarrow> ('s, json list) prog" where
  "jiter (JArr xs) = returnE xs"
| "jiter (JObj kvs) = returnE (map (\<lambda>kv. JStr (fst kv)) kvs)"
| "jiter (JStr t) = returnE (map (\<lambda>c. JStr [c]) t)"
| "jiter _ = raiseE (PyError ''TypeError'')"

definition jlen :: "json \<Rightarrow> ('s, nat) prog" where
  "jlen j = bindE (jiter j) (\<lambda>xs. returnE (length xs))"

definition jitem :: "json \<Rightarrow> string \<Rightarrow> ('s, json) prog" where
  "jitem j k = (case jmembers j of None \<Rightarrow> raiseE (PyError ''TypeError'')
     | Some kvs \<Rightarrow> someE (PyError ''KeyError'') (map_of kvs k))"

fun jnum :: "json \<Rightarrow> ('s, rat) prog" where
  "jnum (JInt i) = returnE (of_int i)"
| "jnum (JFloat x) = returnE x"
| "jnum (JBool b) = returnE (if b then 1 else 0)"
| "jnum _ = raiseE (PyError ''TypeError'')"

fun jtext :: "json \<Rightarrow> ('s, string) prog" where
  "jtext (JStr t) = returnE t"
| "jtext _ = raiseE (PyError ''TypeError'')"

definition jget_or :: "json \<Rightarrow> string \<Rightarrow> json \<Rightarrow> ('s, json) prog" where
  "jget_or j k d = bindE (jget j k) (\<lambda>v. returnE (jor v d))"

text \<open>\<open>trays * 4\<close>: a number, or a repeated sequence.\<close>

fun times4 :: "json \<Rightarrow> ('s, json) prog" where
  "times4 (JInt i) = returnE (JInt (4 * i))"
| "times4 (JFloat x) = returnE (JFloat (4 * x))"
| "times4 (JBool b) = returnE (JInt (if b then 4 else 0))"
| "times4 (JStr t) = returnE (JStr (t @ t @ t @ t))"
| "times4 (JArr xs) = returnE (JArr (xs @ xs @ xs @ xs))"
| "times4 _ = raiseE (PyError ''TypeError'')"

section \<open>The site-controller emulator\<close>

record nico_status =
  ns_adapter_mode :: string
  ns_adapter_active :: bool
  ns_nico_url :: string
  ns_bridge_url :: string
  ns_reachable :: bool
  ns_latency_ms :: rat
  ns_version :: json
  ns_sites :: "json list"
  ns_managed_hosts :: rat
  ns_active_jobs :: rat
  ns_tenants :: "string list"
  ns_rack :: json
  ns_model :: "string option"
  ns_compute_trays :: json
  ns_gpus :: json
  ns_dpus :: json
  ns_ai_infra_reachable :: bool

definition sum_field :: "json list \<Rightarrow> string \<Rightarrow> ('s, rat) prog" where
  "sum_field os k = bindE (collectE os (\<lambda>o'. bindE (jget_or o' k (JInt 0)) jnum)) (\<lambda>xs. returnE (sum_list xs))"

definition tenants_served :: "json list \<Rightarrow> ('s, string list) prog" where
  "tenants_served os =
     bindE (collectE os (\<lambda>o'. bindE (jget_or o' ''tenants_served'' (JArr [])) (\<lambda>ts. bindE (jiter ts) (\<lambda>xs. collectE xs jtext)))) (\<lambda>tss.
     returnE (sort (remdups (concat tss))))"

definition nico_status :: "net \<Rightarrow> settings \<Rightarrow> ('s, nico_status) prog" where
  "nico_status net se =
     (let health = probe_url net (nico_base se @ ''/healthz''); hb = jor (pb_body health) (JObj []) in
      bindE (jget_or hb ''ai_infra'' (JObj [])) (\<lambda>ai.
      let sites = (if pb_reachable health then pb_body (probe_url net (nico_base se @ ''/emulator/v1/sites'')) else JNull) in
      bindE (jget_or (jor sites (JObj [])) ''sites'' (JArr [])) (\<lambda>sb0.
      bindE (jiter sb0) (\<lambda>sb.
      bindE (collectE sb (\<lambda>s. jget_or s ''orchestration'' (JObj []))) (\<lambda>orch.
      bindE (tenants_served orch) (\<lambda>tenants.
      bindE (jget ai ''compute_trays'') (\<lambda>trays.
      bindE (jget hb ''version'') (\<lambda>version.
      bindE (collectE sb (\<lambda>s. jget s ''site_id'')) (\<lambda>ids.
      bindE (sum_field orch ''managed_hosts'') (\<lambda>hosts.
      bindE (sum_field orch ''active_jobs'') (\<lambda>jobs.
      bindE (jget ai ''rack'') (\<lambda>rack.
      bindE (if truth trays then times4 trays else returnE JNull) (\<lambda>gpus.
      bindE (jget ai ''dpus'') (\<lambda>dpus.
      bindE (jget ai ''reachable'') (\<lambda>reach.
      returnE \<lparr>ns_adapter_mode = adapter_mode se, ns_adapter_active = adapter_mode se = ''http'', ns_nico_url = nico_base se,
        ns_bridge_url = (let env = env_or (se_nocp_nico_url se) '''' in if env \<noteq> [] then env else nico_base se @ ''/nico-bridge''),
        ns_reachable = pb_reachable health, ns_latency_ms = pb_latency_ms health, ns_version = version, ns_sites = ids,
        ns_managed_hosts = hosts, ns_active_jobs = jobs, ns_tenants = tenants, ns_rack = rack,
        ns_model = (if truth trays then Some ''VR NVL72'' else None), ns_compute_trays = trays, ns_gpus = gpus,
        ns_dpus = dpus, ns_ai_infra_reachable = truth reach\<rparr>)))))))))))))))"

section \<open>The connection diagram\<close>

record graph_node =
  gn_id :: string
  gn_kind :: string
  gn_status :: string
  gn_url :: "string option"

record graph_edge =
  ge_from :: string
  ge_to :: string
  ge_status :: string

text \<open>
  How each plane describes itself: its status, and the exceptions of evaluating its detail text. \<open>links_degraded\<close> and
  \<open>links_down\<close> are read left to right, the second only when the first is false.
\<close>

definition either :: "json \<Rightarrow> string \<Rightarrow> string \<Rightarrow> ('s, bool) prog" where
  "either b k l = bindE (jget b k) (\<lambda>x. if truth x then returnE True else bindE (jget b l) (\<lambda>y. returnE (truth y)))"

definition describe_ufm :: "json \<Rightarrow> ('s, string) prog" where
  "describe_ufm b =
     bindE (either b ''links_degraded'' ''links_down'') (\<lambda>bad.
     bindE (jitem b ''switches'') (\<lambda>sw.
     thenE (jitem sw ''total'') (thenE (jitem b ''links_active'') (thenE (jitem b ''links_total'')
     (returnE (if bad then ''unknown'' else ''up''))))))"

definition describe_netq :: "json \<Rightarrow> ('s, string) prog" where
  "describe_netq b =
     bindE (jitem b ''summary'') (\<lambda>sm.
     bindE (either sm ''fail'' ''warn'') (\<lambda>bad. returnE (if bad then ''unknown'' else ''up'')))"

definition describe_dlc :: "json \<Rightarrow> ('s, string) prog" where
  "describe_dlc b =
     bindE (jiter b) (\<lambda>cdus.
     bindE (collectE cdus (\<lambda>c. jget_or c ''alarms'' (JArr []))) (\<lambda>alarms.
     thenE (collectE alarms jlen)
     (returnE (if list_ex truth alarms then ''unknown'' else ''up''))))"

definition describe_vast :: "json \<Rightarrow> ('s, string) prog" where
  "describe_vast b =
     (case jmembers b of None \<Rightarrow> raiseE (PyError ''AttributeError'')
      | Some kvs \<Rightarrow> thenE (jlen (jor (case map_of kvs ''clusters'' of None \<Rightarrow> b | Some c \<Rightarrow> c) (JArr []))) (returnE ''up''))"

definition describe_converged :: "json \<Rightarrow> ('s, string) prog" where
  "describe_converged b = returnE ''up''"

definition PLANES :: "(string \<times> string \<times> (json \<Rightarrow> (unit, string) prog)) list" where
  "PLANES = [(''ufm'', ''/ufm/v1/fabric/health'', describe_ufm), (''netq'', ''/netq/v1/validation'', describe_netq),
     (''dlc'', ''/emulator/v1/obs/dlc/cdus'', describe_dlc), (''vast'', ''/vast/v1/clusters'', describe_vast),
     (''converged'', ''/converged/v1/overview'', describe_converged)]"

definition plane_status :: "net \<Rightarrow> settings \<Rightarrow> bool \<Rightarrow> string \<Rightarrow> (json \<Rightarrow> (unit, string) prog) \<Rightarrow> string" where
  "plane_status net se up pth describe =
     (if \<not> up then ''down''
      else (let p = probe_url net (ai_infra_base se @ pth) in
        if \<not> pb_reachable p then ''down''
        else (case fst (describe (pb_body p) ()) of Inr st \<Rightarrow> st | Inl _ \<Rightarrow> ''unknown'')))"

definition component_nodes :: "net \<Rightarrow> settings \<Rightarrow> bool \<Rightarrow> (string \<times> string) list" where
  "component_nodes net se up = map (\<lambda>(cid, pth, describe). (cid, plane_status net se up pth describe)) PLANES"

definition NODE_URLS :: "settings \<Rightarrow> string dict" where
  "NODE_URLS se = (let ai = ai_infra_base se in
     [(''customer'', ''http://127.0.0.1:8090/customer/''), (''ops'', ''http://127.0.0.1:8090/ops/''),
      (''biz'', ''http://127.0.0.1:8090/biz/''), (''cp'', ''http://127.0.0.1:8000/''), (''nico'', ''http://127.0.0.1:9000/''),
      (''twin'', ai @ ''/#sec=control''), (''ufm'', ai @ ''/#sec=fabric''), (''netq'', ai @ ''/#sec=fabric''),
      (''dlc'', ''http://127.0.0.1:8090/ops/#/obs-dlc''), (''vast'', ai @ ''/#sec=storage''), (''converged'', ai @ ''/#sec=fabric'')])"

definition plane_edge :: "(string \<times> string) list" where
  "plane_edge = [(''ufm'', ''twin''), (''netq'', ''twin''), (''dlc'', ''twin''), (''converged'', ''vast'')]"

definition up_down :: "bool \<Rightarrow> string" where
  "up_down b = (if b then ''up'' else ''down'')"

definition shown_edge :: "(string \<times> string) list \<Rightarrow> string \<Rightarrow> string \<Rightarrow> string \<Rightarrow> graph_edge" where
  "shown_edge comps cid src dst = (let st = (case map_of comps cid of None \<Rightarrow> ''down'' | Some x \<Rightarrow> x) in
     \<lparr>ge_from = src, ge_to = dst, ge_status = (if st \<noteq> ''unknown'' then st else ''up'')\<rparr>)"

text \<open>
  The status of the twin: when the emulator is up, an open alert or a rack that is off makes it \<open>unknown\<close>, and
  \<open>down\<close> when as many racks are off as there are (140 when the summary does not say).
\<close>

definition twin_status :: "net \<Rightarrow> settings \<Rightarrow> bool \<Rightarrow> ('s, string) prog" where
  "twin_status net se up =
     (let ob = jor (if up then pb_body (probe_url net (ai_infra_base se @ ''/emulator/v1/obs/summary'')) else JNull) (JObj []) in
      bindE (jget_or ob ''racks_off'' (JInt 0)) (\<lambda>off.
      bindE (jget_or ob ''alerts_open'' (JInt 0)) (\<lambda>alerts.
      bindE (jget_or ob ''gpus'' (JObj [])) (\<lambda>g.
      if \<not> up then returnE ''unknown''
      else
        thenE (jget g ''total'')
        (bindE (case jmembers ob of None \<Rightarrow> raiseE (PyError ''AttributeError'')
                | Some kvs \<Rightarrow> returnE (case map_of kvs ''cooling'' of None \<Rightarrow> JObj [] | Some c \<Rightarrow> c)) (\<lambda>cooling.
         thenE (jget cooling ''cdus'')
         (if truth off \<or> truth alerts then
            bindE (jnum off) (\<lambda>o'. bindE (bindE (jget_or ob ''racks'' (JInt 140)) jnum) (\<lambda>n.
            returnE (if o' \<ge> n then ''down'' else ''unknown'')))
          else returnE ''up'')))))))"

record topology_graph =
  tg_nodes :: "graph_node list"
  tg_edges :: "graph_edge list"
  tg_nico :: nico_status

definition diagram :: "settings \<Rightarrow> nico_status \<Rightarrow> string \<Rightarrow> bool \<Rightarrow> (string \<times> string) list \<Rightarrow> topology_graph" where
  "diagram se nico twin con_up comps =
     (let up = ns_reachable nico; consoles = [''customer'', ''ops'', ''biz''];
          node = (\<lambda>i k st. \<lparr>gn_id = i, gn_kind = k, gn_status = st, gn_url = map_of (NODE_URLS se) i\<rparr>);
          edge = (\<lambda>a b st. \<lparr>ge_from = a, ge_to = b, ge_status = st\<rparr>) in
      \<lparr>tg_nodes = [node ''twin'' ''infra'' twin, node ''nico'' ''emulator'' (up_down up), node ''cp'' ''control'' ''up'']
         @ map (\<lambda>c. node c ''console'' (up_down con_up)) consoles @ map (\<lambda>c. node (fst c) ''plane'' (snd c)) comps,
       tg_edges = [edge ''cp'' ''nico'' (if ns_adapter_active nico then up_down up else ''local'')]
         @ map (\<lambda>c. edge c ''cp'' (up_down con_up)) consoles @ [edge ''nico'' ''twin'' (up_down up)]
         @ map (\<lambda>c. shown_edge comps (fst c) (fst c) (snd c)) plane_edge @ [shown_edge comps ''converged'' ''twin'' ''converged''],
       tg_nico = nico\<rparr>)"

definition integration_topology :: "net \<Rightarrow> settings \<Rightarrow> ('s, topology_graph) prog" where
  "integration_topology net se =
     bindE (nico_status net se) (\<lambda>nico.
     bindE (twin_status net se (ns_reachable nico)) (\<lambda>twin.
     returnE (diagram se nico twin (pb_reachable (probe_url net (console_base se @ ''/ops/'')))
       (component_nodes net se (ns_reachable nico)))))"

section \<open>Do the layers know the same tenants?\<close>

text \<open>The tenants the control plane serves: those with an allocation or a general CPU node.\<close>

definition nocp_tenants :: "store \<Rightarrow> string list" where
  "nocp_tenants s = sort (remdups (map alloc_tenant_id (dict_values (st_allocations s))
     @ concat (map (\<lambda>c. if truthy (cn_tenant_id c) then [the (cn_tenant_id c)] else []) (dict_values (st_cpu_nodes s)))))"

text \<open>\<open>_get\<close>: the body of a good answer, \<open>None\<close> for every failure.\<close>

definition get_json :: "net \<Rightarrow> string \<Rightarrow> json option" where
  "get_json net url = (case snd (net url) of None \<Rightarrow> None | Some a \<Rightarrow> if nr_status a < 400 then nr_body a else None)"

definition nico_tenants :: "json option \<Rightarrow> ('s, string list option) prog" where
  "nico_tenants segs = (case segs of
     Some (JArr xs) \<Rightarrow>
       bindE (collectE xs (\<lambda>s. bindE (jget s ''tenant_ref'') (\<lambda>t.
          if truth t then bindE (jtext t) (\<lambda>x. returnE [x]) else returnE []))) (\<lambda>ts.
       returnE (Some (sort (remdups (concat ts)))))
   | _ \<Rightarrow> returnE None)"

definition ai_tenants :: "json option \<Rightarrow> ('s, string list option) prog" where
  "ai_tenants twin = (case twin of
     Some (JObj kvs) \<Rightarrow>
       bindE (jiter (jor (jmember kvs ''tenants'') (JArr []))) (\<lambda>xs.
       bindE (collectE xs jtext) (\<lambda>ts. returnE (Some (sort ts))))
   | _ \<Rightarrow> returnE None)"

datatype severity = Info | Warn | Fail

record consistency_finding =
  cf_severity :: severity
  cf_kind :: string
  cf_layer :: string
  cf_tenants :: "string list"

record consistency_report =
  cr_ok :: bool
  cr_adapter :: string
  cr_nocp :: "string list"
  cr_nico_emulator :: "string list option"
  cr_ai_infra :: "string list option"
  cr_findings :: "consistency_finding list"

definition layer_findings :: "string \<Rightarrow> string list \<Rightarrow> string \<Rightarrow> string list option \<Rightarrow> consistency_finding list" where
  "layer_findings adapter nocp name remote = (case remote of
     None \<Rightarrow> [\<lparr>cf_severity = Warn, cf_kind = ''UNREACHABLE'', cf_layer = name, cf_tenants = []\<rparr>]
   | Some ts \<Rightarrow>
       (let orphan = filter (\<lambda>t. t \<notin> set nocp) ts; missing = filter (\<lambda>t. t \<notin> set ts) nocp in
        (if orphan \<noteq> [] then [\<lparr>cf_severity = Fail, cf_kind = ''ORPHAN_TENANT'', cf_layer = name, cf_tenants = orphan\<rparr>] else [])
        @ (if missing \<noteq> [] \<and> adapter = ''http''
           then [\<lparr>cf_severity = Warn, cf_kind = ''MISSING_TENANT'', cf_layer = name, cf_tenants = missing\<rparr>] else [])))"

definition consistency_of :: "string \<Rightarrow> string list \<Rightarrow> string list option \<Rightarrow> string list option \<Rightarrow> consistency_report" where
  "consistency_of adapter nocp nico ai =
     (let findings = (if adapter = ''local'' then [\<lparr>cf_severity = Info, cf_kind = ''ADAPTER_LOCAL'', cf_layer = [], cf_tenants = []\<rparr>] else [])
           @ layer_findings adapter nocp ''nico_emulator'' nico @ layer_findings adapter nocp ''ai_infra'' ai in
      \<lparr>cr_ok = \<not> list_ex (\<lambda>f. cf_severity f = Fail) findings, cr_adapter = adapter, cr_nocp = nocp,
       cr_nico_emulator = nico, cr_ai_infra = ai, cr_findings = findings\<rparr>)"

definition consistency :: "net \<Rightarrow> settings \<Rightarrow> consistency_report sprog" where
  "consistency net se =
     bindE (getsE nocp_tenants) (\<lambda>nocp.
     bindE (nico_tenants (get_json net (nico_base se @ ''/nico-bridge/segments''))) (\<lambda>nico.
     bindE (ai_tenants (get_json net (ai_infra_base se @ ''/emulator/v1/twin''))) (\<lambda>ai.
     returnE (consistency_of (adapter_mode se) nocp nico ai))))"

section \<open>Live statistics\<close>

text \<open>The summary of the twin, probed at most every five seconds.\<close>

record twin_cache =
  tw_at :: rat
  tw_data :: "(string \<times> json) list option"

definition twin_data :: "net \<Rightarrow> settings \<Rightarrow> (string \<times> json) list option" where
  "twin_data net se = (let p = probe_url net (ai_infra_base se @ ''/emulator/v1/obs/summary'') in
     if \<not> pb_reachable p then None
     else (case pb_body p of
         JObj kvs \<Rightarrow> Some (map (\<lambda>k. (k, jmember kvs k)) [''alerts_open'', ''racks_off'', ''racks'', ''tenants''])
       | _ \<Rightarrow> None))"

definition twin_summary :: "net \<Rightarrow> settings \<Rightarrow> rat \<Rightarrow> twin_cache \<Rightarrow> (string \<times> json) list option \<times> twin_cache" where
  "twin_summary net se t c =
     (if t - tw_at c < 5 then (tw_data c, c)
      else (let d = twin_data net se in (d, \<lparr>tw_at = t, tw_data = d\<rparr>)))"

text \<open>Events of modules that only emit traces: a count and the time of the last one (microseconds) per module.\<close>

definition supplement_event :: "trace_event \<Rightarrow> nat dict \<times> int dict \<Rightarrow> nat dict \<times> int dict" where
  "supplement_event ev cl = (case module_for_trace_src (te_src ev) of None \<Rightarrow> cl
     | Some mid \<Rightarrow> (AList.update mid (dget 0 (fst cl) mid + 1) (fst cl), AList.update mid (te_at ev) (snd cl)))"

definition trace_supplement :: "tracer \<Rightarrow> nat dict \<times> int dict" where
  "trace_supplement tr = fold supplement_event (trace_query None None None 0 2000 tr) ([], [])"

definition merged_stat :: "rat \<Rightarrow> nat dict \<Rightarrow> int dict \<Rightarrow> module_stat \<Rightarrow> module_stat" where
  "merged_stat t counts lasts m = m\<lparr>ms_calls := ms_calls m + dget 0 counts (ms_id m),
     ms_last_active_s := (case map_of lasts (ms_id m) of None \<Rightarrow> ms_last_active_s m
       | Some l \<Rightarrow> (let sup = round1 (t - of_int l / 1000000) in
           case ms_last_active_s m of None \<Rightarrow> Some sup | Some x \<Rightarrow> Some (min x sup)))\<rparr>"

record module_totals =
  mt_calls :: nat
  mt_eps :: rat
  mt_active_orders :: nat
  mt_active_jobs :: nat
  mt_tenants :: nat
  mt_pipeline_events :: nat

definition module_totals_of :: "store \<Rightarrow> nat \<Rightarrow> rat \<Rightarrow> nat \<Rightarrow> module_totals" where
  "module_totals_of s calls eps events = (let os = dict_values (st_orders s) in
     \<lparr>mt_calls = calls, mt_eps = eps,
      mt_active_orders = length (filter (\<lambda>x. order_state x \<notin> {O_delivered, O_closed, O_rejected, O_failed}) os),
      mt_active_jobs = length (filter (\<lambda>x. order_state x \<in> {O_provisioning, O_isolating, O_storage_binding, O_k8s_installing}) os),
      mt_tenants = length (nocp_tenants s), mt_pipeline_events = events\<rparr>)"

definition module_stats ::
    "net \<Rightarrow> settings \<Rightarrow> rat \<Rightarrow> store \<Rightarrow> tracer \<Rightarrow> collector \<times> twin_cache \<Rightarrow>
       (module_stat list \<times> module_totals \<times> (string \<times> json) list option) \<times> collector \<times> twin_cache" where
  "module_stats net se t s tr cc =
     (let ((mods, calls, eps), c) = metrics_snapshot t (fst cc);
          (counts, lasts) = trace_supplement tr;
          (twin, cache) = twin_summary net se t (snd cc) in
      ((map (merged_stat t counts lasts) mods, module_totals_of s calls eps (trace_count tr), twin), c, cache))"

end
