(* ===== verification/Integration_Spec.thy ===== *)
theory Integration_Spec
  imports Integration Demo
begin

text \<open>
  What the integration reports promise: the comparison of the layers flags exactly the tenants that do not belong, the
  diagram is a well-formed graph that never shows an unreachable part as up, and the twin is not probed more often than
  every five seconds.
\<close>

section \<open>The comparison of the layers\<close>

text \<open>The tenants the findings of a severity name for a layer.\<close>

definition flagged :: "severity \<Rightarrow> string \<Rightarrow> consistency_finding list \<Rightarrow> string set" where
  "flagged sv l fs = {t. \<exists>f \<in> set fs. cf_severity f = sv \<and> cf_layer f = l \<and> t \<in> set (cf_tenants f)}"

lemma flagged_simps [simp]: "flagged sv l [] = {}"
  "flagged sv l (f # fs) = (if cf_severity f = sv \<and> cf_layer f = l then set (cf_tenants f) else {}) \<union> flagged sv l fs"
  "flagged sv l (fs @ gs) = flagged sv l fs \<union> flagged sv l gs"
  by (auto simp: flagged_def)

text \<open>What a layer is found to know, as a set of at most one set.\<close>

definition knows :: "string list option \<Rightarrow> string set set" where
  "knows r = {S. \<exists>ts. r = Some ts \<and> S = set ts}"

lemma knows_simps [simp]: "knows None = {}" "knows (Some ts) = {set ts}"
  by (simp_all add: knows_def)

lemma layer_fails: "flagged Fail l (layer_findings ad nocp nm r) = (if l = nm then \<Union>S \<in> knows r. S - set nocp else {})"
  by (auto simp: layer_findings_def Let_def filter_empty_conv split: option.splits)

lemma layer_warns:
  "flagged Warn l (layer_findings ad nocp nm r) = (if l = nm \<and> ad = ''http'' then \<Union>S \<in> knows r. set nocp - S else {})"
  by (auto simp: layer_findings_def Let_def filter_empty_conv split: option.splits)

lemma layer_fail_iff: "list_ex (\<lambda>f. cf_severity f = Fail) (layer_findings ad nocp nm r) \<longleftrightarrow> \<not> (\<forall>S \<in> knows r. S \<subseteq> set nocp)"
  by (auto simp: layer_findings_def Let_def filter_empty_conv split: option.splits)

lemma layer_silent:
  "(\<exists>f \<in> set (layer_findings ad nocp nm r). cf_kind f = ''UNREACHABLE'' \<and> cf_layer f = l) \<longleftrightarrow> l = nm \<and> knows r = {}"
  by (auto simp: layer_findings_def Let_def split: option.splits)

text \<open>The layers by name, with what the answers say.\<close>

definition two_layers :: "string set set \<Rightarrow> string set set \<Rightarrow> string \<Rightarrow> string set set" where
  "two_layers K T l = (if l = ''nico_emulator'' then K else if l = ''ai_infra'' then T else {})"

lemma consistency_of_decides:
  defines "rep ad nocp nico ai \<equiv> consistency_of ad nocp nico ai"
  shows "flagged Fail l (cr_findings (rep ad nocp nico ai)) = (\<Union>S \<in> two_layers (knows nico) (knows ai) l. S - set nocp)"
    "flagged Warn l (cr_findings (rep ad nocp nico ai)) = (if ad = ''http'' then \<Union>S \<in> two_layers (knows nico) (knows ai) l. set nocp - S else {})"
    "cr_ok (rep ad nocp nico ai) \<longleftrightarrow> (\<forall>S \<in> knows nico \<union> knows ai. S \<subseteq> set nocp)"
    "(\<exists>f \<in> set (cr_findings (rep ad nocp nico ai)). cf_kind f = ''UNREACHABLE'' \<and> cf_layer f = l)
       \<longleftrightarrow> l = ''nico_emulator'' \<and> knows nico = {} \<or> l = ''ai_infra'' \<and> knows ai = {}"
  unfolding rep_def consistency_of_def
  by (simp_all add: Let_def layer_fails layer_warns layer_fail_iff layer_silent two_layers_def bex_Un ball_Un)

section \<open>What the layers serve\<close>

text \<open>A GET is answered with a body when the answer is no error and parses.\<close>

definition answers :: "net \<Rightarrow> string \<Rightarrow> json \<Rightarrow> bool" where
  "answers net url b \<longleftrightarrow> (\<exists>a. snd (net url) = Some a \<and> nr_status a < 400 \<and> nr_body a = Some b)"

text \<open>
  The site controller serves a list of segments, each for a tenant or for none; the twin serves an object whose
  \<open>tenants\<close>, if there, lists texts.
\<close>

definition plain_segments :: "json \<Rightarrow> bool" where
  "plain_segments b \<longleftrightarrow> (\<forall>xs. b = JArr xs \<longrightarrow> (\<forall>x \<in> set xs. \<exists>kvs. x = JObj kvs \<and> jmember kvs ''tenant_ref'' \<in> insert JNull (range JStr)))"

definition plain_twin :: "json \<Rightarrow> bool" where
  "plain_twin b \<longleftrightarrow> (\<forall>kvs. b = JObj kvs \<longrightarrow> jmember kvs ''tenants'' \<in> insert JNull (range (\<lambda>ts. JArr (map JStr ts))))"

definition controller_tenants :: "net \<Rightarrow> settings \<Rightarrow> string set set" where
  "controller_tenants net se = {S. \<exists>xs. answers net (nico_base se @ ''/nico-bridge/segments'') (JArr xs)
     \<and> S = {t. t \<noteq> [] \<and> (\<exists>kvs. JObj kvs \<in> set xs \<and> map_of kvs ''tenant_ref'' = Some (JStr t))}}"

definition twin_tenants :: "net \<Rightarrow> settings \<Rightarrow> string set set" where
  "twin_tenants net se = {S. \<exists>kvs. answers net (ai_infra_base se @ ''/emulator/v1/twin'') (JObj kvs)
     \<and> S = {t. \<exists>xs. map_of kvs ''tenants'' = Some (JArr xs) \<and> JStr t \<in> set xs}}"

definition served_here :: "store \<Rightarrow> string set" where
  "served_here s = {t. (\<exists>a \<in> set (dict_values (st_allocations s)). alloc_tenant_id a = t)
     \<or> t \<noteq> [] \<and> (\<exists>c \<in> set (dict_values (st_cpu_nodes s)). cn_tenant_id c = Some t)}"

lemma set_nocp_tenants: "set (nocp_tenants s) = served_here s"
  by (auto simp: nocp_tenants_def served_here_def truthy_def split: if_splits)

lemma get_json_answers: "get_json net url = Some b \<longleftrightarrow> answers net url b"
  by (auto simp: get_json_def answers_def split: option.splits)

lemma collect_texts: "collectE (map JStr ts) jtext s = (Inr ts, s)"
  by (induction ts) (simp_all add: bindE_run)

lemma collect_segments:
  assumes "\<forall>x \<in> set xs. \<exists>kvs. x = JObj kvs \<and> jmember kvs ''tenant_ref'' \<in> insert JNull (range JStr)"
  shows "\<exists>ts. collectE xs (\<lambda>x. bindE (jget x ''tenant_ref'') (\<lambda>t. if truth t then bindE (jtext t) (\<lambda>x. returnE [x]) else returnE [])) s = (Inr ts, s)
     \<and> set (concat ts) = {t. t \<noteq> [] \<and> (\<exists>kvs. JObj kvs \<in> set xs \<and> map_of kvs ''tenant_ref'' = Some (JStr t))}"
  using assms
proof (induction xs)
  case Nil
  then show ?case by simp
next
  case (Cons x xs)
  from Cons obtain ts where ts: "collectE xs (\<lambda>x. bindE (jget x ''tenant_ref'') (\<lambda>t. if truth t then bindE (jtext t) (\<lambda>x. returnE [x]) else returnE [])) s = (Inr ts, s)"
      "set (concat ts) = {t. t \<noteq> [] \<and> (\<exists>kvs. JObj kvs \<in> set xs \<and> map_of kvs ''tenant_ref'' = Some (JStr t))}" by auto
  from Cons.prems obtain kvs where x: "x = JObj kvs" "jmember kvs ''tenant_ref'' \<in> insert JNull (range JStr)" by auto
  let ?h = "if truth (jmember kvs ''tenant_ref'') then [the (as_str (jmember kvs ''tenant_ref''))] else []"
  have "set ?h = {t. t \<noteq> [] \<and> map_of kvs ''tenant_ref'' = Some (JStr t)}"
    using x(2) by (auto simp: jmember_def split: option.splits)
  moreover have "collectE (x # xs) (\<lambda>x. bindE (jget x ''tenant_ref'') (\<lambda>t. if truth t then bindE (jtext t) (\<lambda>x. returnE [x]) else returnE [])) s
      = (Inr (?h # ts), s)"
    using x ts(1) by (auto simp: jget_def bindE_run)
  ultimately show ?case using ts(2) x(1) by (intro exI [of _ "?h # ts"]) auto
qed

lemma nico_tenants_served:
  assumes "\<And>b. answers net (nico_base se @ ''/nico-bridge/segments'') b \<Longrightarrow> plain_segments b"
  shows "\<exists>r. nico_tenants (get_json net (nico_base se @ ''/nico-bridge/segments'')) s = (Inr r, s) \<and> knows r = controller_tenants net se"
proof (cases "\<exists>xs. get_json net (nico_base se @ ''/nico-bridge/segments'') = Some (JArr xs)")
  case True
  then obtain xs where xs: "get_json net (nico_base se @ ''/nico-bridge/segments'') = Some (JArr xs)" by blast
  then have a: "answers net (nico_base se @ ''/nico-bridge/segments'') b \<longleftrightarrow> b = JArr xs" for b by (auto simp: get_json_answers [symmetric])
  with assms collect_segments [of xs s] show ?thesis
    by (auto simp: xs nico_tenants_def plain_segments_def controller_tenants_def a bindE_run)
next
  case False
  then have "controller_tenants net se = {}" by (simp add: controller_tenants_def get_json_answers)
  with False show ?thesis by (auto simp: nico_tenants_def split: option.splits json.splits)
qed

lemma ai_tenants_served:
  assumes "\<And>b. answers net (ai_infra_base se @ ''/emulator/v1/twin'') b \<Longrightarrow> plain_twin b"
  shows "\<exists>r. ai_tenants (get_json net (ai_infra_base se @ ''/emulator/v1/twin'')) s = (Inr r, s) \<and> knows r = twin_tenants net se"
proof (cases "\<exists>kvs. get_json net (ai_infra_base se @ ''/emulator/v1/twin'') = Some (JObj kvs)")
  case True
  then obtain kvs where kvs: "get_json net (ai_infra_base se @ ''/emulator/v1/twin'') = Some (JObj kvs)" by blast
  then have a: "answers net (ai_infra_base se @ ''/emulator/v1/twin'') b \<longleftrightarrow> b = JObj kvs" for b by (auto simp: get_json_answers [symmetric])
  with assms have "jmember kvs ''tenants'' \<in> insert JNull (range (\<lambda>ts. JArr (map JStr ts)))" by (simp add: plain_twin_def)
  moreover have "twin_tenants net se = {{t. \<exists>xs. map_of kvs ''tenants'' = Some (JArr xs) \<and> JStr t \<in> set xs}}" by (auto simp: twin_tenants_def a)
  ultimately show ?thesis
    by (auto simp: kvs ai_tenants_def jmember_def jor_def bindE_run collect_texts split: option.splits)
next
  case False
  then have "twin_tenants net se = {}" by (simp add: twin_tenants_def get_json_answers)
  with False show ?thesis by (auto simp: ai_tenants_def split: option.splits json.splits)
qed

text \<open>
  C15. In every reachable state, when the answers of the two emulators have their documented shape, the consistency report
  is produced, changes nothing and decides exactly this, from what the two emulators serve: it is ok if and only if every tenant a layer
  serves (a segment's tenant, an entry of the twin's tenants, in an answer that is no error) has an allocation or a CPU node here; the tenants
  it fails a layer for are exactly the others; with the bridge configured, the tenants it warns about for a layer are exactly those served here
  and not there; it says which layers gave no usable answer. A tenant that holds a rack counts as served here.
\<close>

theorem consistency_report_decides:
  assumes "reachable A w"
    and "\<And>b. answers net (nico_base se @ ''/nico-bridge/segments'') b \<Longrightarrow> plain_segments b"
    and "\<And>b. answers net (ai_infra_base se @ ''/emulator/v1/twin'') b \<Longrightarrow> plain_twin b"
  shows "\<exists>rep. consistency net se (w_store w) = (Inr rep, w_store w)
    \<and> (cr_ok rep \<longleftrightarrow> (\<forall>S \<in> controller_tenants net se \<union> twin_tenants net se. S \<subseteq> served_here (w_store w)))
    \<and> (\<forall>l. flagged Fail l (cr_findings rep)
         = (\<Union>S \<in> two_layers (controller_tenants net se) (twin_tenants net se) l. S - served_here (w_store w)))
    \<and> (\<forall>l. flagged Warn l (cr_findings rep) = (if se_nocp_nico_url se \<in> {None, Some []} then {}
         else \<Union>S \<in> two_layers (controller_tenants net se) (twin_tenants net se) l. served_here (w_store w) - S))
    \<and> (\<forall>l. (\<exists>f \<in> set (cr_findings rep). cf_kind f = ''UNREACHABLE'' \<and> cf_layer f = l)
         \<longleftrightarrow> l = ''nico_emulator'' \<and> controller_tenants net se = {} \<or> l = ''ai_infra'' \<and> twin_tenants net se = {})
    \<and> (\<forall>rid r t. map_of (st_racks (w_store w)) rid = Some r \<longrightarrow> rack_tenant_id r = Some t \<longrightarrow> t \<in> served_here (w_store w))"
proof -
  let ?s = "w_store w"
  from nico_tenants_served [where s = ?s, OF assms(2)] obtain nico where
    nico: "nico_tenants (get_json net (nico_base se @ ''/nico-bridge/segments'')) ?s = (Inr nico, ?s)" "knows nico = controller_tenants net se" by blast
  from ai_tenants_served [where s = ?s, OF assms(3)] obtain ai where
    ai: "ai_tenants (get_json net (ai_infra_base se @ ''/emulator/v1/twin'')) ?s = (Inr ai, ?s)" "knows ai = twin_tenants net se" by blast
  have run: "consistency net se ?s = (Inr (consistency_of (adapter_mode se) (nocp_tenants ?s) nico ai), ?s)"
    using nico(1) ai(1) by (simp add: consistency_def bindE_run)
  have mode: "adapter_mode se = ''http'' \<longleftrightarrow> se_nocp_nico_url se \<notin> {None, Some []}"
    by (auto simp: adapter_mode_def env_or_def split: option.splits)
  have "t \<in> served_here ?s" if "map_of (st_racks ?s) rid = Some r" "rack_tenant_id r = Some t" for rid r t
  proof -
    have "alloc_ok ?s" using reachable_invs [OF assms(1)] by (simp add: tenancy_inv_def)
    with that obtain k a where "map_of (st_allocations ?s) k = Some a" "alloc_tenant_id a = t" unfolding alloc_ok_def by blast
    then show ?thesis unfolding served_here_def using map_of_dict_values by fast
  qed
  then show ?thesis
    unfolding run by (intro exI [of _ "consistency_of (adapter_mode se) (nocp_tenants ?s) nico ai"])
      (simp add: consistency_of_decides mode set_nocp_tenants nico(2) ai(2))
qed

definition demo_settings :: settings where
  "demo_settings = \<lparr>se_nocp_nico_url = None, se_nico_emulator_url = None, se_ai_infra_url = None, se_console_url = None\<rparr>"

text \<open>The controller knows one tenant; the twin another, but it answers with an error.\<close>

definition demo_net :: net where
  "demo_net url = (1, if url = ''http://127.0.0.1:9000/nico-bridge/segments''
     then Some \<lparr>nr_status = 200, nr_json_type = True, nr_body = Some (JArr [JObj [(''tenant_ref'', JStr ''tnt-old'')]])\<rparr>
     else if url = ''http://127.0.0.1:9100/emulator/v1/twin''
     then Some \<lparr>nr_status = 500, nr_json_type = True, nr_body = Some (JObj [(''tenants'', JArr [JStr ''tnt-x''])])\<rparr> else None)"

theorem consistency_report_decides_witness:
  "\<exists>rep. consistency demo_net demo_settings (empty_store 0) = (Inr rep, empty_store 0) \<and> \<not> cr_ok rep
     \<and> flagged Fail ''nico_emulator'' (cr_findings rep) = {''tnt-old''} \<and> flagged Fail ''ai_infra'' (cr_findings rep) = {}"
proof -
  let ?w = "demo_world (empty_store 0) demo_nico"
  have start: "reachable LocalNicoAdapter ?w" "w_store ?w = empty_store 0" by (rule reachable.start) (simp_all add: demo_world_def)
  have urls: "nico_base demo_settings = ''http://127.0.0.1:9000''" "ai_infra_base demo_settings = ''http://127.0.0.1:9100''"
    by (simp_all add: demo_settings_def nico_base_def ai_infra_base_def env_or_def)
  have served: "answers demo_net (nico_base demo_settings @ ''/nico-bridge/segments'') b \<longleftrightarrow> b = JArr [JObj [(''tenant_ref'', JStr ''tnt-old'')]]"
      "\<not> answers demo_net (ai_infra_base demo_settings @ ''/emulator/v1/twin'') b" for b
    by (auto simp: urls answers_def demo_net_def)
  then have sets: "controller_tenants demo_net demo_settings = {{''tnt-old''}}" "twin_tenants demo_net demo_settings = {}"
    by (auto simp: controller_tenants_def twin_tenants_def)
  have "plain_segments b" if "answers demo_net (nico_base demo_settings @ ''/nico-bridge/segments'') b" for b
    using that unfolding served by (simp add: plain_segments_def jmember_def)
  moreover have "plain_twin b" if "answers demo_net (ai_infra_base demo_settings @ ''/emulator/v1/twin'') b" for b
    using that served by simp
  ultimately obtain rep where "consistency demo_net demo_settings (empty_store 0) = (Inr rep, empty_store 0)"
      "cr_ok rep \<longleftrightarrow> (\<forall>S \<in> {{''tnt-old''}}. S \<subseteq> served_here (empty_store 0))"
      "\<forall>l. flagged Fail l (cr_findings rep) = (\<Union>S \<in> two_layers {{''tnt-old''}} {} l. S - served_here (empty_store 0))"
    using consistency_report_decides [OF start(1), of demo_net demo_settings] unfolding start(2) sets by auto
  moreover have "served_here (empty_store 0) = {}" by (simp add: served_here_def empty_store_def dict_values_def)
  ultimately show ?thesis by (auto simp: two_layers_def)
qed

section \<open>The diagram\<close>

text \<open>The planes, their order and their names; an unreachable emulator shows all of them down.\<close>

lemma plane_ids: "map fst (component_nodes net se up) = [''ufm'', ''netq'', ''dlc'', ''vast'', ''converged'']"
  by (simp add: component_nodes_def PLANES_def)

lemma diagram_closed:
  assumes "map fst comps = [''ufm'', ''netq'', ''dlc'', ''vast'', ''converged'']"
  shows "distinct (map gn_id (tg_nodes (diagram se nico twin con comps)))"
    "\<forall>e \<in> set (tg_edges (diagram se nico twin con comps)).
       {ge_from e, ge_to e} \<subseteq> gn_id ` set (tg_nodes (diagram se nico twin con comps))"
    "\<forall>n \<in> set (tg_nodes (diagram se nico twin con comps)). gn_url n \<noteq> None"
proof -
  from assms obtain a b c d e where "comps = [(''ufm'', a), (''netq'', b), (''dlc'', c), (''vast'', d), (''converged'', e)]"
    by (auto simp: map_eq_Cons_conv)
  then show "distinct (map gn_id (tg_nodes (diagram se nico twin con comps)))"
    "\<forall>e \<in> set (tg_edges (diagram se nico twin con comps)).
       {ge_from e, ge_to e} \<subseteq> gn_id ` set (tg_nodes (diagram se nico twin con comps))"
    "\<forall>n \<in> set (tg_nodes (diagram se nico twin con comps)). gn_url n \<noteq> None"
    by (simp_all add: diagram_def Let_def plane_edge_def shown_edge_def NODE_URLS_def)
qed

lemma integration_graph_sound:
  assumes "integration_topology net se s = (Inr g, s')"
  shows "distinct (map gn_id (tg_nodes g))"
    and "\<forall>e \<in> set (tg_edges g). {ge_from e, ge_to e} \<subseteq> gn_id ` set (tg_nodes g)"
    and "\<forall>n \<in> set (tg_nodes g). gn_url n \<noteq> None"
    and "\<not> ns_reachable (tg_nico g) \<Longrightarrow> n \<in> set (tg_nodes g) \<Longrightarrow> gn_kind n \<in> {''infra'', ''emulator'', ''plane''} \<Longrightarrow> gn_status n \<noteq> ''up''"
proof -
  from bindE_ok [OF assms [unfolded integration_topology_def]] obtain nico t where
    "bindE (twin_status net se (ns_reachable nico)) (\<lambda>twin. returnE (diagram se nico twin
       (pb_reachable (probe_url net (console_base se @ ''/ops/''))) (component_nodes net se (ns_reachable nico)))) t = (Inr g, s')" by blast
  from bindE_ok [OF this] obtain twin t' con where tw: "twin_status net se (ns_reachable nico) t = (Inr twin, t')"
      and g: "g = diagram se nico twin con (component_nodes net se (ns_reachable nico))" by auto
  note closed = diagram_closed [OF plane_ids, of se nico twin con net se "ns_reachable nico", folded g]
  from closed show "distinct (map gn_id (tg_nodes g))" "\<forall>e \<in> set (tg_edges g). {ge_from e, ge_to e} \<subseteq> gn_id ` set (tg_nodes g)"
    "\<forall>n \<in> set (tg_nodes g). gn_url n \<noteq> None" by blast+
  assume down: "\<not> ns_reachable (tg_nico g)" and n: "n \<in> set (tg_nodes g)" and kind: "gn_kind n \<in> {''infra'', ''emulator'', ''plane''}"
  have r: "\<not> ns_reachable nico" using down by (simp add: g diagram_def Let_def)
  with tw have "twin = ''unknown''" by (auto simp: twin_status_def jor_def jget_or_def jget_def bindE_run jmember_def Let_def)
  with n kind r show "gn_status n \<noteq> ''up''"
    by (auto simp: g diagram_def Let_def up_down_def component_nodes_def PLANES_def plane_status_def)
qed

section \<open>The probe of the twin\<close>

text \<open>Calls at the given times, each with the network of its moment: the times at which the twin was really probed.\<close>

primrec twin_probes :: "settings \<Rightarrow> (rat \<times> net) list \<Rightarrow> twin_cache \<Rightarrow> rat list" where
  "twin_probes se [] c = []"
| "twin_probes se (x # calls) c =
     (if fst x - tw_at c < 5 then [] else [fst x]) @ twin_probes se calls (snd (twin_summary (snd x) se (fst x) c))"

lemma twin_probes_spaced: "successively (\<lambda>a b. b - a \<ge> 5) (tw_at c # twin_probes se calls c)"
proof (induction calls arbitrary: c)
  case Nil
  then show ?case by simp
next
  case (Cons x calls)
  obtain t net where x: "x = (t, net)" by (cases x)
  show ?case
  proof (cases "t - tw_at c < 5")
    case True
    with Cons.IH [of c] show ?thesis by (simp add: x twin_summary_def)
  next
    case False
    let ?c = "\<lparr>tw_at = t, tw_data = twin_data net se\<rparr>"
    from False have "twin_probes se (x # calls) c = t # twin_probes se calls ?c" by (simp add: x twin_summary_def Let_def)
    with Cons.IH [of ?c] False show ?thesis by simp
  qed
qed

text \<open>Within the five seconds the answer does not depend on the network.\<close>

lemma twin_summary_cached: "t - tw_at c < 5 \<Longrightarrow> twin_summary net se t c = twin_summary net' se t c"
  by (simp add: twin_summary_def)

end
