(* ===== verification/Application.thy ===== *)
theory Application
  imports Telemetry_Views Integration
begin

text \<open>
  \<open>app/main.py\<close> and the demo samples of \<open>app/seed.py\<close>: the application as a whole, with the in-process adapter. Its
  state joins the control plane with the trace bus, the tray emulator and the call counters; startup, reseed and reset
  run over all of them. The middleware stack is the call counter around the tenancy guard around the routes, which are a
  parameter; CORS headers and preflight answers are Starlette's, and static pages are files. The remote emulators that
  \<open>reset-all\<close> posts to are an argument.
\<close>

section \<open>State\<close>

record app =
  ap_world :: "nico world"
  ap_tracer :: tracer
  ap_emu :: emu
  ap_metrics :: collector

type_synonym 'a aprog = "(app, 'a) prog"

definition onWorld :: "(nico, 'a) wprog \<Rightarrow> 'a aprog" where
  "onWorld = focusE ap_world (\<lambda>w a. a\<lparr>ap_world := w\<rparr>)"

definition onEmu :: "(emu, 'a) prog \<Rightarrow> 'a aprog" where
  "onEmu = focusE ap_emu (\<lambda>e a. a\<lparr>ap_emu := e\<rparr>)"

abbreviation app_store :: "app \<Rightarrow> store" where
  "app_store a \<equiv> w_store (ap_world a)"

definition VERSION :: string where "VERSION = ''0.2.1''"

section \<open>Demo samples\<close>

text \<open>Subjects and texts are ASCII renderings; the sample tickets belong to a fixed tenant id.\<close>

definition SAMPLE_TENANT :: string where "SAMPLE_TENANT = ''tnt-fin-corp''"

definition SAMPLE_TICKETS :: "(string \<times> string \<times> string \<times> string) list" where
  "SAMPLE_TICKETS = [(''GPU node check requested'', ''critical'', ''open'', ''XID 79 during a training job (sample)''),
     (''Storage mount delay'', ''medium'', ''resolved'', ''VAST view mount delay, fine after a retry (sample)'')]"

definition sample_ticket :: "string \<Rightarrow> string \<times> string \<times> string \<times> string \<Rightarrow> int \<Rightarrow> ticket" where
  "sample_ticket k x t = (case x of (subject, sev, status, txt) \<Rightarrow>
     \<lparr>tk_id = k, tk_tenant_id = SAMPLE_TENANT, tk_subject = subject, tk_body = txt, tk_severity = sev, tk_status = status,
      tk_type = ''tech'', tk_routed_to = ''ops'', tk_change_scope = None, tk_policy = None, tk_ref = None,
      tk_created_at = t, tk_updated_at = t, tk_comments = []\<rparr>)"

definition add_sample_ticket :: "string \<times> string \<times> string \<times> string \<Rightarrow> unit sprog" where
  "add_sample_ticket x =
     bindE (next_seq ''ticket'') (\<lambda>n.
     modifyE (\<lambda>s. s\<lparr>st_tickets := AList.update (''tck-'' @ dec n) (sample_ticket (''tck-'' @ dec n) x (now s)) (st_tickets s)\<rparr>))"

definition seed_demo_samples :: "unit aprog" where
  "seed_demo_samples =
     thenE (bindE (getsE app_store) (\<lambda>s. onEmu (seed_sample_faults s)))
     (bindE (getsE (\<lambda>a. st_tickets (app_store a) = [])) (\<lambda>none.
      if none then onWorld (onStore (forE SAMPLE_TICKETS add_sample_ticket)) else returnE ()))"

section \<open>Startup, reseed and health\<close>

definition mirror_topology :: "unit aprog" where
  "mirror_topology =
     thenE (bindE (getsE app_store) (\<lambda>s. onWorld (onNico (seed_from_store s))))
     (thenE (onWorld (onVast vast_reset))
     (thenE (onWorld (onShared shared_reset))
            (modifyE (\<lambda>a. a\<lparr>ap_tracer := trace_clear (ap_tracer a)\<rparr>))))"

definition mirror_nodes :: "unit aprog" where
  "mirror_nodes =
     thenE (onWorld (doE (bootstrap_nodes LocalNicoAdapter)))
           (modifyE (\<lambda>a. a\<lparr>ap_emu := sync_from_store (app_store a) (emu_reset (ap_emu a))\<rparr>))"

text \<open>\<open>lifespan\<close>, up to the start of the background ticker.\<close>

definition startup :: "unit aprog" where
  "startup =
     bindE (getsE (\<lambda>a. st_factories (app_store a) = [])) (\<lambda>fresh.
     thenE (if fresh then onWorld (onStore (seed_default [])) else returnE ())
     (thenE mirror_topology
     (thenE (modifyE (\<lambda>a. a\<lparr>ap_metrics := metrics_reset (ap_metrics a)\<rparr>))
     (thenE mirror_nodes
            (if fresh then seed_demo_samples else returnE ())))))"

record health_view =
  hv_status :: string
  hv_version :: string
  hv_seeded_sus :: nat

definition health :: "health_view aprog" where
  "health = getsE (\<lambda>a. \<lparr>hv_status = ''ok'', hv_version = VERSION, hv_seeded_sus = length (st_sus (app_store a))\<rparr>)"

definition blueprint_list :: "string option \<Rightarrow> string list option" where
  "blueprint_list p = (if truthy p then Some (map strip (split_on CHR '','' (the p))) else None)"

record reseed_view =
  rv_scalable_units :: nat
  rv_gpus :: nat
  rv_nodes :: nat

definition reseed :: "string option \<Rightarrow> reseed_view aprog" where
  "reseed blueprints =
     (let bps = blueprint_list blueprints in
      thenE (onWorld (onStore (seed_default (case bps of None \<Rightarrow> [] | Some bs \<Rightarrow> bs))))
      (thenE mirror_topology
      (thenE mirror_nodes
      (thenE (if bps = None then seed_demo_samples else returnE ())
             (getsE (\<lambda>a. \<lparr>rv_scalable_units = length (st_sus (app_store a)), rv_gpus = length (st_gpus (app_store a)),
                rv_nodes = length (st_node_instances (app_store a))\<rparr>))))))"

section \<open>Resetting the other layers\<close>

text \<open>
  \<open>_post_json\<close>: an error status is reported, the members of a good body are merged over \<open>status: reset\<close>, and every
  exception, a body that is no JSON object included, is \<open>unreachable\<close>. A reply is its status and, when it has content,
  what its body parses to.
\<close>

record post_reply =
  pr_status :: nat
  pr_content :: "json option option"

type_synonym post_net = "string \<Rightarrow> post_reply option"

definition post_json :: "post_net \<Rightarrow> string \<Rightarrow> (string \<times> json) list" where
  "post_json net url = (let unreachable = [(''status'', JStr ''unreachable'')] in
     case net url of None \<Rightarrow> unreachable
     | Some r \<Rightarrow>
         if pr_status r \<ge> 400 then [(''status'', JStr ''error'')]
         else (case pr_content r of None \<Rightarrow> [(''status'', JStr ''reset'')]
           | Some None \<Rightarrow> unreachable
           | Some (Some j) \<Rightarrow> (case jmembers j of None \<Rightarrow> unreachable
               | Some kvs \<Rightarrow> fold (\<lambda>(k, v). AList.update k v) kvs [(''status'', JStr ''reset'')])))"

definition emu_urls :: "settings \<Rightarrow> string \<times> string" where
  "emu_urls se = (env_or (se_nico_emulator_url se) ''http://127.0.0.1:9000'', ai_infra_base se)"

definition reset_nico :: "post_net \<Rightarrow> settings \<Rightarrow> (string \<times> json) list" where
  "reset_nico net se = post_json net (fst (emu_urls se) @ ''/emulator/v1/reset'')"

definition reset_ai_infra :: "post_net \<Rightarrow> settings \<Rightarrow> (string \<times> json) list" where
  "reset_ai_infra net se = post_json net (snd (emu_urls se) @ ''/emulator/v1/reset'')"

record reset_view =
  rz_nocp :: reseed_view
  rz_nico_emulator :: "(string \<times> json) list"
  rz_ai_infra :: "(string \<times> json) list"

text \<open>The cascade of the site-controller emulator is trusted only when it says \<open>reset\<close>; else AI Infra is asked directly.\<close>

definition cascade_result :: "post_net \<Rightarrow> settings \<Rightarrow> json \<Rightarrow> ('s, (string \<times> json) list) prog" where
  "cascade_result net se ai =
     (if \<not> truth ai then returnE (reset_ai_infra net se)
      else (case jmembers ai of None \<Rightarrow> raiseE (PyError ''AttributeError'')
        | Some kvs \<Rightarrow> returnE (if jmember kvs ''status'' \<noteq> JStr ''reset'' then reset_ai_infra net se else kvs)))"

definition reset_all :: "post_net \<Rightarrow> settings \<Rightarrow> string option \<Rightarrow> reset_view aprog" where
  "reset_all net se blueprints =
     bindE (reseed blueprints) (\<lambda>nocp.
     let nico = post_json net (fst (emu_urls se) @ ''/emulator/v1/reset?cascade=true'') in
     bindE (cascade_result net se (jmember nico ''ai_infra'')) (\<lambda>ai.
     returnE \<lparr>rz_nocp = nocp, rz_nico_emulator = AList.delete ''ai_infra'' nico, rz_ai_infra = ai\<rparr>))"

section \<open>The middleware stack\<close>

text \<open>\<open>count_api_calls\<close> around the guard; \<open>t\<close> is the time of the request.\<close>

definition counted :: "rat \<Rightarrow> string \<Rightarrow> app \<Rightarrow> app" where
  "counted t p a = a\<lparr>ap_metrics := record_call p t (ap_metrics a)\<rparr>"

definition serve_request :: "rat \<Rightarrow> (request \<Rightarrow> app \<Rightarrow> response \<times> app) \<Rightarrow> request \<Rightarrow> app \<Rightarrow> response \<times> app" where
  "serve_request t routes rq a = dispatch app_store routes rq (counted t (rq_path rq) a)"

text \<open>\<open>no_cache_pages\<close>: the header it sets on pages and scripts.\<close>

definition cache_control :: "string \<Rightarrow> string option" where
  "cache_control ctype = (if is_infix ''text/html'' ctype \<or> is_infix ''javascript'' ctype \<or> is_infix ''text/css'' ctype
     then Some ''no-cache, must-revalidate'' else None)"

end
