(* ===== verification/Seed_Links.thy ===== *)
theory Seed_Links
  imports Inventory_Safe
begin

text \<open>
  The topology the seed builds refers only to what exists, and the default seed leaves a site without customers: the
  facts that mirroring it into the site controller and the node inventory relies on.
\<close>

section \<open>The topology a seed builds is linked\<close>

text \<open>Every block, deployment unit and rack that is named exists, and every CPU node id ends in a number.\<close>

definition numbered_id :: "string \<Rightarrow> bool" where
  "numbered_id x \<longleftrightarrow> (\<exists>d n. after_last CHR ''-'' x = Some d \<and> undec d = Some n)"

definition linked :: "store \<Rightarrow> bool" where
  "linked s \<longleftrightarrow> (\<forall>(_, f) \<in> set (st_factories s). \<forall>b \<in> set (factory_block_ids f). has_key (st_blocks s) b)
     \<and> (\<forall>(_, b) \<in> set (st_blocks s). \<forall>d \<in> set (block_du_ids b). has_key (st_dus s) d)
     \<and> (\<forall>(_, t) \<in> set (st_trays s). has_key (st_racks s) (tray_rack_id t))
     \<and> (\<forall>(_, c) \<in> set (st_cpu_nodes s). numbered_id (cn_id c))"

lemma all_dict_mod:
  "\<forall>(_, v) \<in> set d. P v \<Longrightarrow> (\<And>v. P v \<Longrightarrow> Q v \<and> Q (f v)) \<Longrightarrow> \<forall>(_, v) \<in> set (dict_mod k f d). Q v"
  by (auto simp: dict_mod_def)

lemma all_update: "\<forall>(_, v) \<in> set d. P v \<Longrightarrow> P w \<Longrightarrow> \<forall>(_, v) \<in> set (AList.update k w d). P v"
  by (auto dest!: set_update_values)

lemma linked_empty: "linked (empty_store t)"
  by (simp add: linked_def empty_store_def)

text \<open>No customer on the site.\<close>

definition vacant :: "store \<Rightarrow> bool" where
  "vacant s \<longleftrightarrow> st_tenants s = [] \<and> st_allocations s = [] \<and> st_partitions s = [] \<and> st_netiso s = [] \<and> st_orders s = []
     \<and> st_k8s_clusters s = [] \<and> st_storage_allocs s = [] \<and> st_terminations s = [] \<and> st_node_instances s = [] \<and> st_tickets s = []"

definition fresh_site :: "store \<Rightarrow> bool" where
  "fresh_site s \<longleftrightarrow> linked s \<and> vacant s"

lemma fresh_empty: "fresh_site (empty_store t)"
  using linked_empty by (simp add: fresh_site_def vacant_def empty_store_def)

lemma linked_add_block: "linked s \<Longrightarrow> linked (snd (add_block fid bid i fl s))"
proof -
  assume s: "linked s"
  let ?s = "snd (add_block fid bid i fl s)"
  let ?b = "\<lparr>block_id = bid, block_factory_id = fid, block_index = i, block_name = fl_name fl, power_mw = fl_power_mw fl,
    block_ready = fl_ready fl, block_du_ids = []\<rparr>"
  have eqs: "st_factories ?s = dict_mod fid (\<lambda>f. f\<lparr>factory_block_ids := factory_block_ids f @ [bid]\<rparr>) (st_factories s)"
    "st_blocks ?s = AList.update bid ?b (st_blocks s)" "st_dus ?s = st_dus s" "st_trays ?s = st_trays s" "st_racks ?s = st_racks s"
    "st_cpu_nodes ?s = st_cpu_nodes s"
    by (simp_all add: add_block_def)
  have "\<forall>(_, f) \<in> set (st_factories ?s). \<forall>b \<in> set (factory_block_ids f). has_key (st_blocks ?s) b"
    unfolding eqs
    by (rule all_dict_mod [of _ "\<lambda>f. \<forall>b \<in> set (factory_block_ids f). has_key (st_blocks s) b"]) (use s in \<open>auto simp: linked_def\<close>)
  moreover have "\<forall>(_, b) \<in> set (st_blocks ?s). \<forall>d \<in> set (block_du_ids b). has_key (st_dus ?s) d"
    unfolding eqs by (rule all_update) (use s in \<open>auto simp: linked_def\<close>)
  ultimately show ?thesis using s unfolding linked_def by (simp add: eqs(4-6))
qed

lemma linked_add_du: "linked s \<Longrightarrow> linked (snd (add_du bid did i s))"
proof -
  assume s: "linked s"
  let ?s = "snd (add_du bid did i s)"
  have eqs: "st_blocks ?s = dict_mod bid (\<lambda>b. b\<lparr>block_du_ids := block_du_ids b @ [did]\<rparr>) (st_blocks s)"
    "st_dus ?s = AList.update did \<lparr>du_id = did, du_block_id = Some bid, du_index = i, du_su_ids = []\<rparr> (st_dus s)"
    "st_factories ?s = st_factories s" "st_trays ?s = st_trays s" "st_racks ?s = st_racks s" "st_cpu_nodes ?s = st_cpu_nodes s"
    by (simp_all add: add_du_def)
  have "\<forall>(_, b) \<in> set (st_blocks ?s). \<forall>d \<in> set (block_du_ids b). has_key (st_dus ?s) d"
    unfolding eqs
    by (rule all_dict_mod [of _ "\<lambda>b. \<forall>d \<in> set (block_du_ids b). has_key (st_dus s) d"]) (use s in \<open>auto simp: linked_def\<close>)
  moreover have "has_key (st_blocks ?s) b \<longleftrightarrow> has_key (st_blocks s) b" for b by (simp add: eqs(1))
  ultimately show ?thesis using s unfolding linked_def by (simp add: eqs(3-6))
qed

lemma linked_add_factory: "linked s \<Longrightarrow> linked (snd (add_factory fid nm st mw s))"
proof -
  assume s: "linked s"
  let ?s = "snd (add_factory fid nm st mw s)"
  have eqs: "st_factories ?s = AList.update fid \<lparr>factory_id = fid, factory_name = nm, factory_site = st, design_power_mw = mw, factory_block_ids = []\<rparr> (st_factories s)"
    "st_blocks ?s = st_blocks s" "st_dus ?s = st_dus s" "st_trays ?s = st_trays s" "st_racks ?s = st_racks s" "st_cpu_nodes ?s = st_cpu_nodes s"
    by (simp_all add: add_factory_def)
  have "\<forall>(_, f) \<in> set (st_factories ?s). \<forall>b \<in> set (factory_block_ids f). has_key (st_blocks s) b"
    unfolding eqs by (rule all_update) (use s in \<open>auto simp: linked_def\<close>)
  then show ?thesis using s unfolding linked_def by (simp add: eqs(2-6))
qed

lemma keeps_fresh_writes [keeps_rules]:
  "keeps fresh_site (add_factory fid nm st mw)" "keeps fresh_site (add_block fid bid i fl)" "keeps fresh_site (add_du bid did i)"
  using linked_add_factory [of _ fid nm st mw] linked_add_block [of _ fid bid i fl] linked_add_du [of _ bid did i]
  by (simp_all add: keeps_def fresh_site_def vacant_def add_factory_def add_block_def add_du_def)

lemma fold_provision_tray_trays:
  "x \<in> set (st_trays (fold (provision_tray bp rid) ts s)) \<Longrightarrow> x \<in> set (st_trays s) \<or> tray_rack_id (snd x) = rid"
proof (induction ts arbitrary: s)
  case Nil
  then show ?case by simp
next
  case (Cons t ts)
  from Cons.IH [of "provision_tray bp rid t s"] Cons.prems show ?case
    by (auto simp: provision_tray_def Let_def dest!: set_update_values)
qed

lemma provision_tray_vacant: "vacant (provision_tray bp rid t s) = vacant s"
  "st_cpu_nodes (provision_tray bp rid t s) = st_cpu_nodes s"
  by (simp_all add: vacant_def provision_tray_def Let_def)

lemma fold_provision_tray_vacant: "vacant (fold (provision_tray bp rid) ts s) = vacant s"
  "st_cpu_nodes (fold (provision_tray bp rid) ts s) = st_cpu_nodes s"
  "st_factories (fold (provision_tray bp rid) ts s) = st_factories s" "st_blocks (fold (provision_tray bp rid) ts s) = st_blocks s"
  "st_dus (fold (provision_tray bp rid) ts s) = st_dus s"
  by (induction ts arbitrary: s) (simp_all add: provision_tray_vacant)

lemma fresh_provision_rack: "fresh_site s \<Longrightarrow> fresh_site (provision_rack bp i cap r s)"
proof -
  assume s: "fresh_site s"
  let ?s1 = "fold (provision_tray bp (rack_key i r)) [0..<compute_trays bp] s"
  have "vacant ?s1" using s by (simp add: fresh_site_def fold_provision_tray_vacant)
  then have "vacant (provision_rack bp i cap r s)" by (simp add: provision_rack_def Let_def vacant_def)
  moreover have "has_key (st_racks (provision_rack bp i cap r s)) (tray_rack_id t)"
    if "(k, t) \<in> set (st_trays (provision_rack bp i cap r s))" for k t
    using fold_provision_tray_trays [of "(k, t)" bp "rack_key i r" "[0..<compute_trays bp]" s] that s
    by (auto simp: provision_rack_def Let_def fresh_site_def linked_def)
  moreover have "st_factories (provision_rack bp i cap r s) = st_factories s" "st_blocks (provision_rack bp i cap r s) = st_blocks s"
    "st_dus (provision_rack bp i cap r s) = st_dus s" "st_cpu_nodes (provision_rack bp i cap r s) = st_cpu_nodes s"
    by (simp_all add: provision_rack_def Let_def fold_provision_tray_vacant)
  ultimately show ?thesis using s unfolding fresh_site_def linked_def by auto
qed

lemma fresh_fold_racks: "fresh_site s \<Longrightarrow> fresh_site (fold (provision_rack bp i cap) rs s)"
  by (induction rs arbitrary: s) (simp_all add: fresh_provision_rack)

lemma fresh_add_to_du: "fresh_site s \<Longrightarrow> fresh_site (add_to_du du sid s)"
  by (auto simp: fresh_site_def linked_def vacant_def add_to_du_def split: option.splits)

lemma keeps_fresh_provision [keeps_rules]: "keeps fresh_site (provision_scalable_unit du i bk policy racks)"
proof -
  have "fresh_site (expanded s bp du i cap n)" if "fresh_site s" for s bp cap n
  proof -
    have "fresh_site (fold (provision_rack bp i cap) [0..<n] s)" using that by (rule fresh_fold_racks)
    then have "fresh_site ((fold (provision_rack bp i cap) [0..<n] s)\<lparr>st_sus := u\<rparr>)" for u
      by (simp add: fresh_site_def linked_def vacant_def)
    then show ?thesis unfolding expanded_def by (rule fresh_add_to_du)
  qed
  then show ?thesis by (auto simp: keeps_def provision_run Let_def split: option.splits)
qed

lemma keeps_fresh_units [keeps_rules]: "keeps fresh_site (seed_units did ns i)"
  by (induction ns arbitrary: i) (auto intro!: keeps_rules)

lemma keeps_fresh_floors [keeps_rules]: "keeps fresh_site (seed_floors fid no fls ib)"
proof (induction fls arbitrary: no ib)
  case Nil
  show ?case unfolding seed_floors.simps by (rule keeps_returnE)
next
  case (Cons fl fls)
  have "keeps fresh_site (get_blueprint k)" for k by (auto simp: get_blueprint_def intro!: keeps_rules)
  with Cons show ?case by (auto simp: Let_def intro!: keeps_rules)
qed

lemma keeps_fresh_sites [keeps_rules]: "keeps fresh_site (seed_sites xs ib)"
  by (induction xs arbitrary: ib) (auto intro!: keeps_rules)

lemma numbered_cpu: "numbered_id (''cpu-node-'' @ pad n)"
proof -
  have "CHR ''-'' \<notin> set (pad n)" using dec_no_char [of "CHR ''-''" n] by (simp add: pad_def zfill_def is_digit_def)
  then have "after_last CHR ''-'' (''cpu-node-'' @ pad n) = Some (pad n)"
    using after_last_append [of "CHR ''-''" "pad n" "''cpu-node''"] by simp
  then show ?thesis using undec_zfill by (auto simp: numbered_id_def pad_def)
qed

lemma fold_cpu_numbered:
  "\<forall>x \<in> set d. numbered_id (cn_id (snd x)) \<Longrightarrow>
   \<forall>x \<in> set (fold (\<lambda>n. AList.update (''cpu-node-'' @ pad n) (new_cpu_node n)) ns d). numbered_id (cn_id (snd x))"
proof (induction ns arbitrary: d)
  case Nil
  then show ?case by simp
next
  case (Cons n ns)
  have "\<forall>x \<in> set (AList.update (''cpu-node-'' @ pad n) (new_cpu_node n) d). numbered_id (cn_id (snd x))"
    using Cons.prems numbered_cpu by (auto simp: new_cpu_node_def Let_def dest!: set_update_values)
  from Cons.IH [OF this] show ?case by simp
qed

lemma keeps_fresh_cpu [keeps_rules]: "keeps fresh_site seed_cpu_nodes"
proof (unfold keeps_def, intro allI impI)
  fix s assume "fresh_site s"
  then show "fresh_site (snd (seed_cpu_nodes s))"
    using fold_cpu_numbered [of "st_cpu_nodes s" "[1..<61]"]
    by (simp add: seed_cpu_nodes_def fresh_site_def vacant_def linked_def case_prod_beta)
qed

text \<open>The default seed succeeds, and the site it leaves is complete and empty of customers.\<close>

lemma seed_default_site: "\<exists>s'. seed_default [] s = (Inr (), s') \<and> seeded 11 140 s' \<and> fresh_site s'"
proof -
  obtain s' where s': "seed_default [] s = (Inr (), s')" "seeded 11 140 s'" using seed_default_phase1 by blast
  have "keeps fresh_site (thenE (seed_sites PHASE1_SITES (0, 0)) seed_cpu_nodes)" by (intro keeps_rules)
  from keepsD [OF this fresh_empty, of "st_clock s"] s' show ?thesis
    by (auto simp: seed_default_def reset_def thenE_run)
qed

end
