(* ===== verification/Application_Spec.thy ===== *)
theory Application_Spec
  imports Application Seed_Links Demo
begin

text \<open>
  What the application promises as a whole: a reseed forgets everything, and from any state the default one succeeds
  with the full site and nothing on it; a request the guard refuses is counted and does nothing else.
\<close>

section \<open>Running on the parts of the application\<close>

lemma onWorld_run: "onWorld m a = (fst (m (ap_world a)), a\<lparr>ap_world := snd (m (ap_world a))\<rparr>)"
  by (simp add: onWorld_def focusE_def split: prod.splits)

lemma onEmu_run: "onEmu m a = (fst (m (ap_emu a)), a\<lparr>ap_emu := snd (m (ap_emu a))\<rparr>)"
  by (simp add: onEmu_def focusE_def split: prod.splits)

text \<open>What a reseed does not touch: the clock, the job latency of the controller, the sources of randomness, the capacity of the bus and the counters.\<close>

definition same_surroundings :: "app \<Rightarrow> app \<Rightarrow> bool" where
  "same_surroundings a b \<longleftrightarrow> st_clock (app_store a) = st_clock (app_store b)
     \<and> nk_job_latency (w_nico (ap_world a)) = nk_job_latency (w_nico (ap_world b))
     \<and> sh_entropy (w_shared (ap_world a)) = sh_entropy (w_shared (ap_world b))
     \<and> sh_drawn (w_shared (ap_world a)) = sh_drawn (w_shared (ap_world b))
     \<and> tc_capacity (ap_tracer a) = tc_capacity (ap_tracer b) \<and> em_drawn (ap_emu a) = em_drawn (ap_emu b)
     \<and> ap_metrics a = ap_metrics b"

lemma seed_default_forgets: "st_clock s = st_clock s' \<Longrightarrow> seed_default bks s = seed_default bks s'"
  by (simp add: seed_default_def thenE_run reset_def)

lemma seed_from_store_forgets:
  "nk_job_latency n = nk_job_latency n' \<Longrightarrow> seed_from_store s n = seed_from_store s n'"
  by (cases n; cases n') (simp add: seed_from_store_def thenE_run)

lemma shared_reset_forgets:
  "sh_entropy h = sh_entropy h' \<Longrightarrow> sh_drawn h = sh_drawn h' \<Longrightarrow> shared_reset h = shared_reset h'"
  by (cases h; cases h') (simp add: shared_reset_def)

lemma vast_reset_forgets: "vast_reset v = vast_reset v'"
  by (cases v; cases v') (simp add: vast_reset_def)

lemma trace_clear_forgets: "tc_capacity t = tc_capacity t' \<Longrightarrow> trace_clear t = trace_clear t'"
  by (cases t; cases t') (simp add: trace_clear_def)

lemma emu_reset_forgets: "em_drawn e = em_drawn e' \<Longrightarrow> emu_reset e = emu_reset e'"
  by (simp add: emu_reset_def)

section \<open>Mirroring a linked topology cannot fail\<close>

definition total_prog :: "('s, 'a) prog \<Rightarrow> bool" where
  "total_prog m \<longleftrightarrow> (\<forall>s. \<exists>x. fst (m s) = Inr x)"

lemma total_basic: "total_prog (returnE x)" "total_prog (getsE f)" "total_prog (modifyE g)" "total_prog (someE e (Some v))"
  by (simp_all add: total_prog_def)

lemma total_bind: "total_prog m \<Longrightarrow> (\<And>x. total_prog (f x)) \<Longrightarrow> total_prog (bindE m f)"
  unfolding total_prog_def by (auto simp: bindE_run split: prod.splits sum.splits) (metis fst_conv sum.distinct(1))+

lemma total_then: "total_prog m \<Longrightarrow> total_prog k \<Longrightarrow> total_prog (thenE m k)"
  unfolding thenE_def by (rule total_bind)

lemma total_for: "(\<And>x. x \<in> set xs \<Longrightarrow> total_prog (f x)) \<Longrightarrow> total_prog (forE xs f)"
proof (induction xs)
  case Nil
  show ?case unfolding forE.simps by (rule total_basic)
next
  case (Cons x xs)
  then show ?case unfolding forE.simps by (intro total_then) simp_all
qed

lemmas total_rules = total_basic total_bind total_then total_for

lemma total_run: "total_prog m \<Longrightarrow> \<exists>x. m s = (Inr x, snd (m s))"
  unfolding total_prog_def by (metis prod.collapse)

lemma build_total: "linked s \<Longrightarrow> total_prog (build_su_site s)"
proof -
  assume s: "linked s"
  have units: "total_prog (bindE (someE e (map_of (st_dus s) d)) (\<lambda>du. forE (du_su_ids du) (\<lambda>sid. modifyE (g sid))))"
    if "b \<in> snd ` set (st_blocks s)" "d \<in> set (block_du_ids b)" for b d e and g :: "string \<Rightarrow> string dict \<Rightarrow> string dict"
  proof -
    from that s obtain du where "map_of (st_dus s) d = Some du" by (fastforce simp: linked_def has_key_def)
    then show ?thesis by (auto intro!: total_rules simp del: returnE_run)
  qed
  have "total_prog (bindE (someE e (map_of (st_blocks s) bid)) (\<lambda>b. forE (block_du_ids b) (\<lambda>did.
      bindE (someE e' (map_of (st_dus s) did)) (\<lambda>du. forE (du_su_ids du) (\<lambda>sid. modifyE (g sid))))))"
    if "f \<in> snd ` set (st_factories s)" "bid \<in> set (factory_block_ids f)" for f bid e e' and g :: "string \<Rightarrow> string dict \<Rightarrow> string dict"
  proof -
    from that s obtain b where b: "map_of (st_blocks s) bid = Some b" by (fastforce simp: linked_def has_key_def)
    then have "b \<in> snd ` set (st_blocks s)" by (force dest: map_of_SomeD)
    then show ?thesis unfolding b someE_Some bindE_returnE by (intro total_for units)
  qed
  then show ?thesis unfolding build_su_site_def by (intro total_for) (auto simp: dict_values_def)
qed

lemma seed_cpu_total: "numbered_id (cn_id c) \<Longrightarrow> total_prog (seed_cpu_node c)"
  by (auto simp: numbered_id_def seed_cpu_node_def trailing_index_def put_host_def Let_def total_prog_def bindE_run)

text \<open>Every host a seed registers is in the pool.\<close>

definition hosts_ready :: "nico \<Rightarrow> bool" where
  "hosts_ready n \<longleftrightarrow> (\<forall>(_, h) \<in> set (nk_hosts n). nh_state h = H_pool_ready \<and> nh_tenant_ref h = None)"

lemma keeps_ready_put: "keeps hosts_ready (put_host hid (mk_host a b c d e f))"
proof (unfold keeps_def, intro allI impI)
  fix n assume "hosts_ready n"
  then show "hosts_ready (snd (put_host hid (mk_host a b c d e f) n))"
    using all_update [of "nk_hosts n" "\<lambda>h. nh_state h = H_pool_ready \<and> nh_tenant_ref h = None" "mk_host a b c d e f" hid]
    by (simp add: hosts_ready_def put_host_def mk_host_def)
qed

lemma mirror_hosts:
  assumes "linked s"
  shows "\<exists>n'. seed_from_store s n = (Inr (), n') \<and> hosts_ready n' \<and> nk_jobs n' = [] \<and> nk_segments n' = []"
proof -
  let ?n0 = "n\<lparr>nk_hosts := [], nk_jobs := [], nk_segments := [], nk_sanitize_reports := [], nk_fail_flags := [], nk_seq := 0\<rparr>"
  obtain d where d: "build_su_site s [] = (Inr (), d)" using total_run [OF build_total [OF assms], of "[]"] by auto
  let ?m = "thenE (forE (dict_values (st_trays s)) (seed_tray s d)) (forE (dict_values (st_cpu_nodes s)) seed_cpu_node)"
  have "total_prog ?m"
  proof (intro total_then total_for)
    show "total_prog (seed_tray s d t)" for t by (simp add: seed_tray_def put_host_def Let_def total_basic)
    show "total_prog (seed_cpu_node c)" if "c \<in> set (dict_values (st_cpu_nodes s))" for c
      using that assms by (intro seed_cpu_total) (auto simp: linked_def dict_values_def)
  qed
  from total_run [OF this, of ?n0] obtain n' where run: "?m ?n0 = (Inr (), n')" by auto
  define clean where "clean = (\<lambda>n. hosts_ready n \<and> nk_jobs n = [] \<and> nk_segments n = [])"
  have put: "keeps clean (put_host hid (mk_host a b c d e f))" for hid a b c d e f
    using keeps_ready_put [of hid a b c d e f] by (simp add: keeps_def clean_def put_host_def)
  have "keeps clean ?m"
    by (intro keeps_rules) (auto simp: seed_tray_def seed_cpu_node_def trailing_index_def Let_def intro!: keeps_rules put)
  then have "clean n'" using run by (auto simp: keeps_def clean_def hosts_ready_def dest!: spec [of _ ?n0])
  with run d show ?thesis by (simp add: seed_from_store_def thenE_run clean_def)
qed

definition nodes_ready :: "store \<Rightarrow> bool" where
  "nodes_ready s \<longleftrightarrow> (\<forall>(_, n) \<in> set (st_node_instances s). node_state n = N_pool_ready \<and> node_tenant_id n = None)"

lemma mirror_nodes_run:
  assumes "linked s" "nodes_ready s"
  shows "\<exists>k ni. bootstrap_hosts hs c s = (Inr k, s\<lparr>st_node_instances := ni\<rparr>) \<and> nodes_ready (s\<lparr>st_node_instances := ni\<rparr>)"
  using assms
proof (induction hs arbitrary: c s)
  case Nil
  then have "bootstrap_hosts [] c s = (Inr c, s\<lparr>st_node_instances := st_node_instances s\<rparr>)" by simp
  with Nil show ?case by (metis store.surjective store.update_convs(15))
next
  case (Cons h hs)
  show ?case
  proof (cases "map_of (st_trays s) (nh_tray_id h)")
    case None
    with Cons show ?thesis by (simp add: bindE_run)
  next
    case (Some tr)
    let ?nid = "''ni-'' @ tray_id tr"
    show ?thesis
    proof (cases "has_key (st_node_instances s) ?nid")
      case True
      with Some Cons show ?thesis by (simp add: bindE_run Let_def)
    next
      case False
      from Some Cons.prems(1) obtain r where r: "map_of (st_racks s) (tray_rack_id tr) = Some r"
        by (fastforce simp: linked_def has_key_def dest: map_of_SomeD)
      let ?s = "s\<lparr>st_node_instances := AList.update ?nid (new_node ?nid tr r (nh_host_id h) (now s)) (st_node_instances s)\<rparr>"
      have "linked ?s" using Cons.prems(1) by (simp add: linked_def)
      moreover have "nodes_ready ?s"
        using Cons.prems(2) all_update [of "st_node_instances s" "\<lambda>n. node_state n = N_pool_ready \<and> node_tenant_id n = None"
            "new_node ?nid tr r (nh_host_id h) (now s)" ?nid]
        by (simp add: nodes_ready_def new_node_def)
      ultimately obtain k ni where "bootstrap_hosts hs (c + 1) ?s = (Inr k, ?s\<lparr>st_node_instances := ni\<rparr>)"
          "nodes_ready (?s\<lparr>st_node_instances := ni\<rparr>)" using Cons.IH by blast
      with Some False r show ?thesis by (auto simp: bindE_run thenE_run Let_def)
    qed
  qed
qed

section \<open>Reseeding\<close>

lemma sample_tickets_run:
  assumes "st_tickets s = []"
  shows "fst (forE SAMPLE_TICKETS add_sample_ticket s) = Inr ()"
    "snd (forE SAMPLE_TICKETS add_sample_ticket s) = s\<lparr>st_counters := st_counters (snd (forE SAMPLE_TICKETS add_sample_ticket s)),
       st_tickets := st_tickets (snd (forE SAMPLE_TICKETS add_sample_ticket s))\<rparr>"
    "\<forall>(_, t) \<in> set (st_tickets (snd (forE SAMPLE_TICKETS add_sample_ticket s))). tk_tenant_id t = SAMPLE_TENANT"
    "length (st_tickets (snd (forE SAMPLE_TICKETS add_sample_ticket s))) = 2"
  using assms
  by (simp_all add: SAMPLE_TICKETS_def add_sample_ticket_def next_seq_run seq_of_def bindE_run thenE_run sample_ticket_def)

lemma sample_faults_run: "fst (seed_sample_faults s e) = Inr ()"
  by (simp add: seed_sample_faults_def log_episode_def thenE_run split: list.splits)

lemma mirror_run:
  assumes "fresh_site (app_store a)" "safe (app_store a)"
  shows "\<exists>a'. thenE mirror_topology mirror_nodes a = (Inr (), a') \<and> safe (app_store a')
     \<and> app_store a' = (app_store a)\<lparr>st_node_instances := st_node_instances (app_store a')\<rparr> \<and> nodes_ready (app_store a') \<and> hosts_ready (w_nico (ap_world a')) \<and> va_views (w_vast (ap_world a')) = []
     \<and> sh_realms (w_shared (ap_world a')) = [] \<and> sh_secrets (w_shared (ap_world a')) = []"
proof -
  let ?s = "app_store a"
  have s: "linked ?s" "nodes_ready ?s" using assms(1) by (auto simp: fresh_site_def vacant_def nodes_ready_def)
  from mirror_hosts [OF s(1)] obtain n' where n': "seed_from_store ?s (w_nico (ap_world a)) = (Inr (), n')" "hosts_ready n'" by blast
  obtain k ni where ni: "bootstrap_hosts (dict_values (nk_hosts n')) 0 ?s = (Inr k, ?s\<lparr>st_node_instances := ni\<rparr>)"
      "nodes_ready (?s\<lparr>st_node_instances := ni\<rparr>)" using mirror_nodes_run [OF s] by blast
  have "safe (?s\<lparr>st_node_instances := ni\<rparr>)"
    using keepsD [OF keeps_bootstrap_hosts assms(2), of "dict_values (nk_hosts n')" 0] ni(1) by simp
  with n' ni show ?thesis
    by (simp add: mirror_topology_def mirror_nodes_def thenE_run onWorld_run onNico_run onVast_run onShared_run onStore_run
        vast_reset_def shared_reset_def bootstrap_nodes_def catch_all_def LocalNicoAdapter_def nico_list_hosts_def doE_run bindE_run)
qed

text \<open>Stage by stage: the mirrors depend on the topology and the surroundings, and the node mirror ends with a fresh emulator.\<close>

lemma seed_stage: "onWorld (onStore (seed_default bks)) a =
    (fst (seed_default bks (app_store a)), a\<lparr>ap_world := (ap_world a)\<lparr>w_store := snd (seed_default bks (app_store a))\<rparr>\<rparr>)"
  by (simp add: onWorld_run onStore_run)

lemma mirror_topology_run: "mirror_topology a = (case seed_from_store (app_store a) (w_nico (ap_world a)) of
      (Inl e, n) \<Rightarrow> (Inl e, a\<lparr>ap_world := (ap_world a)\<lparr>w_nico := n\<rparr>\<rparr>)
    | (Inr _, n) \<Rightarrow> (Inr (), a\<lparr>ap_world := \<lparr>w_store = app_store a, w_nico = n, w_vast = snd (vast_reset (w_vast (ap_world a))),
          w_shared = snd (shared_reset (w_shared (ap_world a)))\<rparr>, ap_tracer := trace_clear (ap_tracer a)\<rparr>))"
  by (cases "ap_world a") (simp add: mirror_topology_def thenE_run onWorld_run onNico_run onVast_run onShared_run vast_reset_def
      shared_reset_def bindE_run split: prod.splits sum.splits)

lemma mirror_topology_forgets:
  assumes "same_surroundings a b" "app_store a = app_store b"
  shows "fst (mirror_topology a) = fst (mirror_topology b)"
    and "fst (mirror_topology a) = Inr x \<Longrightarrow> snd (mirror_topology a) = (snd (mirror_topology b))\<lparr>ap_emu := ap_emu a\<rparr>"
    and "fst (mirror_topology a) = Inr x \<Longrightarrow> ap_emu (snd (mirror_topology b)) = ap_emu b"
proof -
  note eqs = seed_from_store_forgets [of "w_nico (ap_world a)" "w_nico (ap_world b)" "app_store b"]
    vast_reset_forgets [of "w_vast (ap_world a)" "w_vast (ap_world b)"]
    shared_reset_forgets [of "w_shared (ap_world a)" "w_shared (ap_world b)"] trace_clear_forgets [of "ap_tracer a" "ap_tracer b"]
  show "fst (mirror_topology a) = fst (mirror_topology b)"
    "fst (mirror_topology a) = Inr x \<Longrightarrow> snd (mirror_topology a) = (snd (mirror_topology b))\<lparr>ap_emu := ap_emu a\<rparr>"
    "fst (mirror_topology a) = Inr x \<Longrightarrow> ap_emu (snd (mirror_topology b)) = ap_emu b"
    using eqs assms by (auto simp: mirror_topology_run same_surroundings_def split: prod.splits sum.splits)
qed

lemma mirror_nodes_forgets:
  assumes "em_drawn e = em_drawn (ap_emu b)"
  shows "fst (mirror_nodes (b\<lparr>ap_emu := e\<rparr>)) = fst (mirror_nodes b)"
    and "fst (mirror_nodes b) = Inr x \<Longrightarrow> mirror_nodes (b\<lparr>ap_emu := e\<rparr>) = mirror_nodes b"
  using emu_reset_forgets [OF assms] by (auto simp: mirror_nodes_def thenE_run onWorld_run split: prod.splits sum.splits)

lemma reseed_forgets:
  assumes same: "same_surroundings a b"
  shows "fst (reseed bl a) = fst (reseed bl b)" and "fst (reseed bl a) = Inr v \<Longrightarrow> reseed bl a = reseed bl b"
proof -
  define bks where "bks = (case blueprint_list bl of None \<Rightarrow> [] | Some bs \<Rightarrow> bs)"
  define k where "k = thenE (if blueprint_list bl = None then seed_demo_samples else returnE ()) (getsE (\<lambda>a. \<lparr>rv_scalable_units = length (st_sus (app_store a)),
    rv_gpus = length (st_gpus (app_store a)), rv_nodes = length (st_node_instances (app_store a))\<rparr>))"
  have reseed: "reseed bl c = thenE (onWorld (onStore (seed_default bks))) (thenE mirror_topology (thenE mirror_nodes k)) c" for c
    by (simp add: reseed_def bks_def k_def Let_def)
  have seed: "seed_default bks (app_store a) = seed_default bks (app_store b)"
    using same by (intro seed_default_forgets) (simp add: same_surroundings_def)
  obtain r s where rs: "seed_default bks (app_store b) = (r, s)" by fastforce
  let ?a = "a\<lparr>ap_world := (ap_world a)\<lparr>w_store := s\<rparr>\<rparr>" and ?b = "b\<lparr>ap_world := (ap_world b)\<lparr>w_store := s\<rparr>\<rparr>"
  have ab: "same_surroundings ?a ?b" "app_store ?a = app_store ?b" using same by (simp_all add: same_surroundings_def)
  note top = mirror_topology_forgets [OF ab]
  have nodes: "thenE mirror_nodes k (snd (mirror_topology ?a)) = thenE mirror_nodes k (snd (mirror_topology ?b))
      \<or> (\<exists>e. fst (thenE mirror_nodes k (snd (mirror_topology ?a))) = Inl e \<and> fst (thenE mirror_nodes k (snd (mirror_topology ?b))) = Inl e)"
    if "fst (mirror_topology ?a) = Inr x" for x
  proof -
    have "em_drawn (ap_emu ?a) = em_drawn (ap_emu (snd (mirror_topology ?b)))"
      using top(3) [OF that] ab(1) by (simp add: same_surroundings_def)
    from mirror_nodes_forgets [OF this, folded top(2) [OF that]] show ?thesis
      by (cases "fst (mirror_nodes (snd (mirror_topology ?b)))") (auto simp: thenE_run split: prod.splits)
  qed
  have "reseed bl a = reseed bl b \<or> (\<exists>e. fst (reseed bl a) = Inl e \<and> fst (reseed bl b) = Inl e)"
  proof (cases r)
    case (Inl e)
    then show ?thesis by (simp add: reseed thenE_run seed_stage seed rs)
  next
    case (Inr u)
    show ?thesis
    proof (cases "fst (mirror_topology ?a)")
      case (Inl e)
      with top(1) Inr show ?thesis
        by (cases "mirror_topology ?a"; cases "mirror_topology ?b") (simp add: reseed thenE_run seed_stage seed rs)
    next
      case x: (Inr x)
      with top(1) have "fst (mirror_topology ?b) = Inr x" by simp
      with x Inr have "reseed bl a = thenE mirror_nodes k (snd (mirror_topology ?a))"
          "reseed bl b = thenE mirror_nodes k (snd (mirror_topology ?b))"
        by (cases "mirror_topology ?a"; cases "mirror_topology ?b", simp add: reseed thenE_run seed_stage seed rs)+
      then show ?thesis using nodes [OF x] by simp
    qed
  qed
  then show "fst (reseed bl a) = fst (reseed bl b)" "fst (reseed bl a) = Inr v \<Longrightarrow> reseed bl a = reseed bl b" by auto
qed

text \<open>What the default reseed leaves.\<close>

definition baseline :: "app \<Rightarrow> bool" where
  "baseline a \<longleftrightarrow> length (st_sus (app_store a)) = 11 \<and> length (st_racks (app_store a)) = 140 \<and> safe (app_store a)
     \<and> nodes_ready (app_store a) \<and> hosts_ready (w_nico (ap_world a))
     \<and> st_tenants (app_store a) = [] \<and> st_allocations (app_store a) = [] \<and> st_partitions (app_store a) = []
     \<and> st_netiso (app_store a) = [] \<and> st_orders (app_store a) = [] \<and> st_k8s_clusters (app_store a) = []
     \<and> va_views (w_vast (ap_world a)) = [] \<and> sh_realms (w_shared (ap_world a)) = []"

lemma safe_samples: "safe s \<Longrightarrow> safe (snd (forE SAMPLE_TICKETS add_sample_ticket s))"
proof -
  have "keeps safe (add_sample_ticket x)" for x
    unfolding add_sample_ticket_def
    by (intro keeps_bindE keeps_next_seq keeps_side_write) (simp add: side_write_def)
  then have "keeps safe (forE SAMPLE_TICKETS add_sample_ticket)" by (intro keeps_forE)
  then show "safe s \<Longrightarrow> ?thesis" by (rule keepsD)
qed

lemma samples_stage: "seed_demo_samples a =
    (Inr (), a\<lparr>ap_emu := snd (seed_sample_faults (app_store a) (ap_emu a)),
       ap_world := (ap_world a)\<lparr>w_store := (if st_tickets (app_store a) = [] then snd (forE SAMPLE_TICKETS add_sample_ticket (app_store a)) else app_store a)\<rparr>\<rparr>)"
  using sample_faults_run [of "app_store a" "ap_emu a"] sample_tickets_run(1) [of "app_store a"]
  by (simp add: seed_demo_samples_def thenE_run bindE_run onEmu_run onWorld_run onStore_run)

lemma default_reseed:
  "\<exists>v a'. reseed None a = (Inr v, a') \<and> rv_scalable_units v = 11 \<and> baseline a' \<and> length (st_tickets (app_store a')) = 2
     \<and> (\<forall>(_, t) \<in> set (st_tickets (app_store a')). tk_tenant_id t = SAMPLE_TENANT)"
proof -
  obtain s1 where s1: "seed_default [] (app_store a) = (Inr (), s1)" "seeded 11 140 s1" "fresh_site s1" using seed_default_site by blast
  let ?a1 = "a\<lparr>ap_world := (ap_world a)\<lparr>w_store := s1\<rparr>\<rparr>"
  obtain a2 where a2: "thenE mirror_topology mirror_nodes ?a1 = (Inr (), a2)"
      and safe: "safe (app_store a2)" and st: "app_store a2 = s1\<lparr>st_node_instances := st_node_instances (app_store a2)\<rparr>"
      and ready: "nodes_ready (app_store a2)" "hosts_ready (w_nico (ap_world a2))" "va_views (w_vast (ap_world a2)) = []" "sh_realms (w_shared (ap_world a2)) = []"
    using mirror_run [of ?a1] s1(2,3) by (auto simp: seeded_def)
  let ?t = "snd (forE SAMPLE_TICKETS add_sample_ticket (app_store a2))"
  have fields: "st_sus (app_store a2) = st_sus s1" "st_racks (app_store a2) = st_racks s1" "st_tickets (app_store a2) = st_tickets s1"
    "st_tenants (app_store a2) = st_tenants s1" "st_allocations (app_store a2) = st_allocations s1" "st_partitions (app_store a2) = st_partitions s1"
    "st_netiso (app_store a2) = st_netiso s1" "st_orders (app_store a2) = st_orders s1" "st_k8s_clusters (app_store a2) = st_k8s_clusters s1"
    by (subst st, simp)+
  have none: "st_tickets (app_store a2) = []" using fields s1(3) by (simp add: fresh_site_def vacant_def)
  note tk = sample_tickets_run [OF none]
  let ?a3 = "snd (seed_demo_samples a2)"
  have a3: "ap_world ?a3 = (ap_world a2)\<lparr>w_store := ?t\<rparr>" using none by (simp add: samples_stage)
  have "reseed None a = (Inr \<lparr>rv_scalable_units = length (st_sus ?t), rv_gpus = length (st_gpus ?t), rv_nodes = length (st_node_instances ?t)\<rparr>, ?a3)"
    using a2 s1(1) none
    by (auto simp: reseed_def blueprint_list_def truthy_def Let_def thenE_run seed_stage samples_stage split: prod.splits sum.splits)
  moreover have "st_sus ?t = st_sus s1" "st_racks ?t = st_racks s1" "st_tenants ?t = []" "st_allocations ?t = []" "st_partitions ?t = []"
    "st_netiso ?t = []" "st_orders ?t = []" "st_k8s_clusters ?t = []" "nodes_ready ?t"
    using s1(3) fields ready(1) by (subst tk(2), simp add: fresh_site_def vacant_def nodes_ready_def)+
  moreover from this have "baseline ?a3"
    using ready s1(2) safe_samples [OF safe] by (simp add: baseline_def a3 seeded_def)
  ultimately show ?thesis using tk(3,4) a3 s1(2) by (auto simp: seeded_def)
qed

text \<open>
  C27. A reseed depends on nothing that was in the control plane: from two states that agree on the clock, the job latency
  of the controller, the randomness, the capacity of the trace bus and the call counters, a reseed has the same answer and,
  when it succeeds, leaves the same state. The default reseed succeeds from every state and leaves eleven scalable units
  with 140 racks, the invariants, every host and node in the pool, and no customer object. The two sample tickets it adds
  belong to a tenant that does not exist.
\<close>

theorem reseed_forgets_and_restores:
  assumes "same_surroundings a b"
  shows "fst (reseed blueprints a) = fst (reseed blueprints b)
    \<and> (\<forall>v. fst (reseed blueprints a) = Inr v \<longrightarrow> reseed blueprints a = reseed blueprints b)
    \<and> (\<exists>v a'. reseed None a = (Inr v, a') \<and> rv_scalable_units v = 11 \<and> baseline a' \<and> length (st_tickets (app_store a')) = 2
        \<and> (\<forall>(_, t) \<in> set (st_tickets (app_store a')). \<not> has_key (st_tenants (app_store a')) (tk_tenant_id t)))"
proof -
  obtain v a' where "reseed None a = (Inr v, a')" "rv_scalable_units v = 11" "baseline a'" "length (st_tickets (app_store a')) = 2"
    using default_reseed by blast
  moreover from this(3) have "\<not> has_key (st_tenants (app_store a')) x" for x by (simp add: baseline_def has_key_def)
  ultimately show ?thesis using reseed_forgets [OF assms] by blast
qed

definition demo_app :: app where
  "demo_app = \<lparr>ap_world = demo_world (empty_store 0) demo_nico, ap_tracer = new_tracer 25000,
     ap_emu = \<lparr>em_trays = [], em_cluster_profile = [], em_step = 0, em_history_global = [], em_history_tenants = [], em_fault_log = [], em_drawn = 0\<rparr>,
     ap_metrics = new_collector\<rparr>"

definition used_app :: app where
  "used_app = demo_app\<lparr>ap_world := demo_world ((empty_store 0)\<lparr>st_counters := [(''order'', 7)]\<rparr>) (demo_fleet H_allocated)\<rparr>"

theorem reseed_forgets_and_restores_witness:
  "w_nico (ap_world used_app) \<noteq> w_nico (ap_world demo_app) \<and> reseed None used_app = reseed None demo_app"
proof -
  have "same_surroundings used_app demo_app"
    by (simp add: same_surroundings_def used_app_def demo_app_def demo_world_def demo_fleet_def empty_store_def)
  from reseed_forgets_and_restores [OF this, of None] have "reseed None used_app = reseed None demo_app" by force
  then show ?thesis by (simp add: used_app_def demo_app_def demo_world_def demo_fleet_def demo_nico_def)
qed

text \<open>
  An unknown blueprint is an internal error in the middle: the store is wiped already, and the controller still holds the
  hosts of the old fleet.
\<close>

lemma reseed_unknown_blueprint:
  assumes "blueprint_list bl = Some (bk # bks)" "map_of BLUEPRINTS bk = None"
  shows "\<exists>a'. reseed bl a = (Inl (PyError ''KeyError''), a') \<and> st_sus (app_store a') = [] \<and> st_tenants (app_store a') = []
     \<and> w_nico (ap_world a') = w_nico (ap_world a)"
proof -
  have "fst (seed_default (bk # bks) s) = Inl (PyError ''KeyError'') \<and> st_sus (snd (seed_default (bk # bks) s)) = []
      \<and> st_tenants (snd (seed_default (bk # bks) s)) = []" for s
    using assms(2)
    by (simp add: seed_default_def thenE_run reset_def add_factory_def add_block_def add_du_def provision_run empty_store_def)
  with assms(1) show ?thesis by (simp add: reseed_def thenE_run seed_stage Let_def)
qed

section \<open>Resetting every layer\<close>

text \<open>The local reset stands whatever the other layers answer.\<close>

lemma reset_all_local: "snd (reset_all net se bl a) = snd (reseed bl a)"
  by (auto simp: reset_all_def cascade_result_def Let_def bindE_run split: prod.splits sum.splits option.splits)

text \<open>AI Infra is asked directly unless the cascade reported that it was reset.\<close>

lemma reset_all_reaches_ai:
  assumes "reset_all net se bl a = (Inr v, a')"
  shows "rz_ai_infra v = reset_ai_infra net se \<or> jmember (rz_ai_infra v) ''status'' = JStr ''reset''"
  using assms by (auto simp: reset_all_def cascade_result_def Let_def bindE_run split: prod.splits sum.splits option.splits if_splits)

section \<open>The middleware stack\<close>

text \<open>A request the guard refuses is answered 403, counted, and does nothing else.\<close>

lemma refused_request_only_counted:
  assumes "\<not> unguarded rq"
    and "starts_with ''/api/v1/admin'' (rq_path rq) \<or> scope_violation (app_store a) rq (the (rq_tenant rq))
       \<or> role_of rq = ''viewer'' \<and> rq_method rq \<notin> set READ_METHODS \<or> body_tenant_mismatch rq (the (rq_tenant rq))"
  shows "rs_status (fst (serve_request t routes rq a)) = 403 \<and> snd (serve_request t routes rq a) = counted t (rq_path rq) a
     \<and> mc_grand_total (ap_metrics (snd (serve_request t routes rq a))) = mc_grand_total (ap_metrics a) + 1"
proof -
  have "mc_grand_total (fold (count_module t) ms c) = mc_grand_total c" for ms c
    by (induction ms arbitrary: c) (simp_all add: count_module_def)
  with assms show ?thesis
    by (auto simp: serve_request_def dispatch_def Let_def forbidden_def counted_def record_call_def)
qed

end
