(* ===== verification/Public_Routes.thy ===== *)
theory Public_Routes
  imports Application Nico_Rest K8s_Views
begin

text \<open>
  Settings that choose the adapter and the pace of the workflows, the catalogue pages (product, blueprints, roles, known
  vulnerabilities), the read routes of the shared services, and the remaining read routes of the portals. The value of an
  environment variable that is read with \<open>float\<close> is \<open>None\<close> when the variable is not set and \<open>Some None\<close> when it does not
  parse. Texts that are only displayed are left out.
\<close>

section \<open>Settings\<close>

type_synonym env_float = "rat option option"

text \<open>Set to a true value means not empty.\<close>

definition http_mode :: "settings \<Rightarrow> bool" where
  "http_mode se \<longleftrightarrow> env_or (se_nocp_nico_url se) '''' \<noteq> []"

definition paced :: "rat \<Rightarrow> settings \<Rightarrow> env_float \<Rightarrow> rat" where
  "paced d se raw = (case raw of Some (Some x) \<Rightarrow> max 0 x | Some None \<Rightarrow> 0 | None \<Rightarrow> if http_mode se then d else 0)"

definition k8s_stage_delay :: "settings \<Rightarrow> env_float \<Rightarrow> rat" where
  "k8s_stage_delay = paced (5 / 2)"

definition upgrade_step_delay :: "settings \<Rightarrow> env_float \<Rightarrow> rat" where
  "upgrade_step_delay = paced (15 / 100)"

definition termination_stage_delay :: "settings \<Rightarrow> env_float \<Rightarrow> rat" where
  "termination_stage_delay = paced (3 / 2)"

definition random_faults_enabled :: "string option \<Rightarrow> bool" where
  "random_faults_enabled v \<longleftrightarrow> env_or v '''' = ''1''"

text \<open>
  The adapter the routes use. \<open>send\<close> is the HTTP client for a base URL; both adapters act on the state of the
  controller behind them.
\<close>

definition get_adapter ::
    "(string \<Rightarrow> rest_call \<Rightarrow> rest_reply nprog) \<Rightarrow> nico_segment list nprog \<Rightarrow> settings \<Rightarrow> nico compute_adapter" where
  "get_adapter send local_segments se =
     (if http_mode se then NicoHttpAdapter (send (the (se_nocp_nico_url se))) local_segments else LocalNicoAdapter)"

record 'v storage_adapter =
  sta_create_view :: "string \<Rightarrow> string \<Rightarrow> string \<Rightarrow> string option \<Rightarrow> ('v, vast_view) prog"
  sta_set_quota :: "string \<Rightarrow> rat \<Rightarrow> ('v, vast_view) prog"
  sta_set_qos :: "string \<Rightarrow> rat \<Rightarrow> rat \<Rightarrow> ('v, vast_view) prog"
  sta_delete_view :: "string \<Rightarrow> ('v, vast_view) prog"
  sta_list_views :: "('v, vast_view list) prog"

definition LocalVastAdapter :: "vast storage_adapter" where
  "LocalVastAdapter = \<lparr>sta_create_view = vast_create_view, sta_set_quota = vast_set_quota, sta_set_qos = vast_set_qos,
     sta_delete_view = vast_delete_view, sta_list_views = vast_list_views\<rparr>"

lemma adapter_follows_mode: "adapter_mode se = ''http'' \<longleftrightarrow> http_mode se"
  by (simp add: adapter_mode_def http_mode_def)

lemma in_process_is_synchronous: "\<not> http_mode se \<Longrightarrow> paced d se None = 0"
  by (simp add: paced_def)

lemma paced_not_negative: "0 \<le> d \<Longrightarrow> 0 \<le> paced d se raw"
  by (simp add: paced_def split: option.splits)

section \<open>The fault feed of the AI infrastructure emulator\<close>

text \<open>Best effort: any exception, a body that is no object included, is the empty list.\<close>

definition ai_infra_faults :: "net \<Rightarrow> settings \<Rightarrow> nat \<Rightarrow> json" where
  "ai_infra_faults net se k =
     (if \<not> http_mode se then JArr []
      else (case snd (net (ai_infra_base se @ ''/emulator/v1/faults?limit='' @ dec k)) of None \<Rightarrow> JArr []
        | Some r \<Rightarrow>
            if nr_status r \<noteq> 200 then JArr []
            else (case Option.bind (nr_body r) jmembers of None \<Rightarrow> JArr []
              | Some kvs \<Rightarrow> (case map_of kvs ''recent'' of None \<Rightarrow> JArr [] | Some j \<Rightarrow> j))))"

section \<open>Managed Kubernetes\<close>

record rbac_template =
  rb_role :: string
  rb_cluster_role :: string
  rb_scope :: string

definition K8S_RBAC_TEMPLATES :: "rbac_template list" where
  "K8S_RBAC_TEMPLATES =
     [\<lparr>rb_role = ''admin'', rb_cluster_role = ''cluster-admin'', rb_scope = ''cluster''\<rparr>,
      \<lparr>rb_role = ''edit'', rb_cluster_role = ''edit'', rb_scope = ''namespace''\<rparr>,
      \<lparr>rb_role = ''view'', rb_cluster_role = ''view'', rb_scope = ''namespace''\<rparr>,
      \<lparr>rb_role = ''batch-operator'', rb_cluster_role = ''edit + kueue-batch-admin'', rb_scope = ''namespace''\<rparr>]"

definition rbac_templates :: "rbac_template list" where
  "rbac_templates = K8S_RBAC_TEMPLATES"

record cve =
  cve_id :: string
  cve_component :: string
  cve_severity :: string
  cve_cvss :: rat
  cve_affects_clusters :: "string list"
  cve_published :: string

definition K8S_CVES :: "cve list" where
  "K8S_CVES =
     [\<lparr>cve_id = ''CVE-2026-32871'', cve_component = ''containerd'', cve_severity = ''critical'', cve_cvss = 91 / 10,
       cve_affects_clusters = [''v1.32.4''], cve_published = ''2026-05-18''\<rparr>,
      \<lparr>cve_id = ''CVE-2025-1974'', cve_component = ''ingress-nginx'', cve_severity = ''critical'', cve_cvss = 98 / 10,
       cve_affects_clusters = [''v1.32.4'', ''v1.33.2''], cve_published = ''2025-03-24''\<rparr>,
      \<lparr>cve_id = ''CVE-2026-0192'', cve_component = ''gpu-operator'', cve_severity = ''high'', cve_cvss = 78 / 10,
       cve_affects_clusters = [], cve_published = ''2026-01-29''\<rparr>,
      \<lparr>cve_id = ''CVE-2026-1288'', cve_component = ''kube-apiserver'', cve_severity = ''medium'', cve_cvss = 53 / 10,
       cve_affects_clusters = [''v1.32.4''], cve_published = ''2026-04-07''\<rparr>]"

definition list_cves :: "cve list" where
  "list_cves = K8S_CVES"

definition K8S_CP_SLA :: string where "K8S_CP_SLA = ''99.9%''"

record product =
  pd_supported_versions :: "string list"
  pd_nkd_version :: string
  pd_cp_nodes :: nat
  pd_cp_sla :: string
  pd_cp_image :: string
  pd_managed_addons :: "(string \<times> string) list"
  pd_optional_addons :: "(string \<times> string) list"
  pd_install_stages :: "string list"

definition k8s_spec :: product where
  "k8s_spec = \<lparr>pd_supported_versions = K8S_SUPPORTED_VERSIONS, pd_nkd_version = K8S_NKD_VERSION,
     pd_cp_nodes = K8S_CP_NODES_PER_CLUSTER, pd_cp_sla = K8S_CP_SLA, pd_cp_image = K8S_CP_IMAGE,
     pd_managed_addons = K8S_MANAGED_ADDONS, pd_optional_addons = K8S_OPTIONAL_ADDONS,
     pd_install_stages = K8S_INSTALL_STAGES\<rparr>"

definition addon_view :: "addon \<Rightarrow> addon" where
  "addon_view a = a\<lparr>ad_status := (if ad_status a = ''running'' then ''installed'' else ad_status a)\<rparr>"

text \<open>A kubeconfig is issued for exactly the roles that the template page offers.\<close>

lemma templates_are_roles: "map rb_role rbac_templates = K8S_RBAC_ROLES"
  by (simp add: rbac_templates_def K8S_RBAC_TEMPLATES_def K8S_RBAC_ROLES_def)

lemma role_offered_or_refused:
  assumes "role \<notin> rb_role ` set rbac_templates"
  shows "\<exists>c d. issue_kubeconfig serial cid role ttl s = (Inl (HTTPException c d), s)"
proof -
  have "role \<notin> set K8S_RBAC_ROLES" using assms arg_cong [OF templates_are_roles, of set] by simp
  then show ?thesis
    by (simp add: issue_kubeconfig_def cluster_or_404_def bindE_run thenE_run someE_run raise_if_run split: option.splits)
qed

text \<open>Known vulnerabilities name only supported versions, and an upgrade to the newest version leaves one of them.\<close>

lemma cves_of_supported:
  "list_all (\<lambda>c. set (cve_affects_clusters c) \<subseteq> set K8S_SUPPORTED_VERSIONS) list_cves
   \<and> map cve_id (filter (\<lambda>c. last K8S_SUPPORTED_VERSIONS \<in> set (cve_affects_clusters c)) list_cves) = [''CVE-2025-1974'']"
  by (simp add: list_cves_def K8S_CVES_def K8S_SUPPORTED_VERSIONS_def)

section \<open>The facility page\<close>

definition TCS_MAX_SUPPLY_C :: rat where "TCS_MAX_SUPPLY_C = 45"

definition ISOLATION_LAYERS :: "string list" where
  "ISOLATION_LAYERS = [''identity'', ''process'', ''compute_virtualization'', ''compute_isolation'']"

record facility =
  fc_racks_per_su :: "(string \<times> nat) list"
  fc_default_blueprint :: string
  fc_blueprints :: "string list"
  fc_ib_fabric :: ib_fabric
  fc_converged_fabric :: converged_fabric
  fc_tcs_max_supply_c :: rat
  fc_isolation_layers :: "string list"

definition get_spec :: facility where
  "get_spec = \<lparr>fc_racks_per_su = map (\<lambda>(k, bp). (k, racks_per_su bp)) BLUEPRINTS, fc_default_blueprint = DEFAULT_BLUEPRINT,
     fc_blueprints = sort (map fst BLUEPRINTS), fc_ib_fabric = IB_FABRIC, fc_converged_fabric = CONVERGED_FABRIC,
     fc_tcs_max_supply_c = TCS_MAX_SUPPLY_C, fc_isolation_layers = ISOLATION_LAYERS\<rparr>"

section \<open>Shared services\<close>

definition list_realms :: "iam_realm list shprog" where
  "list_realms = getsE (\<lambda>s. dict_values (sh_realms s))"

definition get_realm :: "string \<Rightarrow> iam_realm shprog" where
  "get_realm tid = bindE (getsE (\<lambda>s. map_of (sh_realms s) tid)) (someE (HTTPException 404 ''iam: realm not found''))"

definition list_secrets :: "string option \<Rightarrow> secret_entry list shprog" where
  "list_secrets tref = getsE (\<lambda>s. filter (\<lambda>e. \<not> truthy tref \<or> Some (se_tenant_ref e) = tref) (dict_values (sh_secrets s)))"

definition list_pam_sessions :: "pam_session list shprog" where
  "list_pam_sessions = getsE (\<lambda>s. dict_values (sh_pam_sessions s))"

definition audit_page :: "string option \<Rightarrow> int \<Rightarrow> audit_entry list shprog" where
  "audit_page tref k = getsE (\<lambda>s. rev (py_last k (filter (\<lambda>a. \<not> truthy tref \<or> au_tenant_ref a = tref) (sh_audit_log s))))"

section \<open>Portals\<close>

record acceptance_page =
  ap_order_id :: string
  ap_status :: string
  ap_report :: "acceptance_report option"
  ap_deemed_deadline :: "int option"
  ap_billing_start :: "int option"
  ap_reject_reason :: "string option"

definition acceptance_page_of :: "string \<Rightarrow> acceptance_rec option \<Rightarrow> acceptance_page" where
  "acceptance_page_of oid rec = (case rec of
     None \<Rightarrow> \<lparr>ap_order_id = oid, ap_status = ''pending'', ap_report = None, ap_deemed_deadline = None, ap_billing_start = None,
              ap_reject_reason = None\<rparr>
   | Some r \<Rightarrow> \<lparr>ap_order_id = oid, ap_status = acc_status r, ap_report = Some (acc_report r),
              ap_deemed_deadline = Some (acc_deemed_deadline r), ap_billing_start = acc_billing_start r,
              ap_reject_reason = acc_reject_reason r\<rparr>)"

end
