(* ===== verification/Paced_Install.thy ===== *)
theory Paced_Install
  imports Approval_Spec Reclaim_Frame
begin

text \<open>
  The paced mode of the Kubernetes install (\<open>_stage_k8s_install\<close> and \<open>run_new_order\<close> of \<open>app/lifecycle.py\<close> with a delay):
  the request opens the install record and returns, and a thread runs the stages, delivers, and compensates when one of
  them raises. The thread takes the lock once per stage, and what other requests do in between are steps of
  \<open>Control_Plane\<close>; here the thread runs undisturbed.
\<close>

definition background_install :: "'n compute_adapter \<Rightarrow> string \<Rightarrow> string \<Rightarrow> ('n, unit) wprog" where
  "background_install A oid iid =
     catchE (thenE (run_k8s_install A oid iid) (stage_delivered oid)) (\<lambda>_ d.
     bindE (orderW oid) (\<lambda>x. bindE (getsS (\<lambda>s. ctx_nodes s x)) (\<lambda>nids. compensate A oid nids d)))"

text \<open>The pipeline of an order in automatic mode: the install record of the thread it leaves behind, if any.\<close>

fun run_stages_paced ::
    "'n compute_adapter \<Rightarrow> string \<Rightarrow> OrderState list \<Rightarrow> ('n, service_order \<times> string option) wprog" where
  "run_stages_paced A oid [] = bindE (orderW oid) (\<lambda>x. returnE (x, None))"
| "run_stages_paced A oid (st # sts) =
     (if st = O_k8s_installing then
        bindE (onStore (begin_k8s_install oid)) (\<lambda>iid. bindE (orderW oid) (\<lambda>x. returnE (x, Some iid)))
      else
        thenE (stage_fn A st oid)
        (bindE (orderW oid) (\<lambda>x.
         if order_state x \<in> {O_rejected, O_failed} then returnE (x, None) else run_stages_paced A oid sts)))"

text \<open>The thread keeps the invariants of the control plane.\<close>

lemma keeps_background_install: "keeps safeW (background_install A oid iid)"
  unfolding background_install_def by (intro keeps_rules)

text \<open>Compensation that returns leaves the order failed.\<close>

definition order_is :: "string \<Rightarrow> OrderState \<Rightarrow> 'n world \<Rightarrow> bool" where
  "order_is oid st w \<longleftrightarrow> (\<exists>x. map_of (st_orders (w_store w)) oid = Some x \<and> order_state x = st)"

lemma advO_reaches: "on_return (\<lambda>_. True) (advO oid st d) (order_is oid st)"
  by (auto simp: triple_def onStore_run advance_order_run order_is_def step_order_def map_of_dict_mod split: prod.splits sum.splits option.splits if_splits)

lemma on_return_any: "on_return (\<lambda>_. True) m (\<lambda>_. True)"
  by (auto simp: triple_def split: prod.splits sum.splits)

lemma compensate_fails:
  assumes "compensate A oid nids d w = (Inr u, w')"
  shows "order_is oid O_failed w'"
proof -
  have "on_return (order_is oid O_failed) (updO oid (\<lambda>y. y\<lparr>order_error := Some d\<rparr>)) (order_is oid O_failed)"
    by (auto simp: triple_def updO_write order_is_def map_of_dict_mod)
  then have last: "on_return (\<lambda>_. True) (thenE (advO oid O_failed d) (updO oid (\<lambda>y. y\<lparr>order_error := Some d\<rparr>))) (order_is oid O_failed)"
    by (rule on_return_then [OF advO_reaches])
  have "on_return (\<lambda>_. True) (compensate A oid nids d) (order_is oid O_failed)"
    unfolding compensate_def by (rule last | rule on_return_then [OF on_return_any] | rule on_return_bind [OF on_return_any])+
  from on_returnD [OF this assms] show ?thesis by simp
qed

text \<open>
  An undisturbed thread ends in the state of the synchronous pipeline, when that delivers the order or the install
  fails and is compensated.
\<close>

lemma install_then_deliver:
  assumes begun: "onStore (begin_k8s_install oid) w = (Inr iid, w1)"
    and sync: "run_stages A oid [O_k8s_installing, O_delivered] w = (Inr z, w')"
    and ended: "order_state z = O_delivered \<or> isl (fst (run_k8s_install A oid iid w1))"
  shows "snd (background_install A oid iid w1) = w'"
proof (cases "run_k8s_install A oid iid w1")
  case (Pair r w2)
  have inst: "install_k8s A oid w = (r, w2)" by (simp add: install_k8s_def bindE_run begun Pair)
  show ?thesis
  proof (cases r)
    case (Inr u)
    with Pair ended sync inst show ?thesis
      by (auto simp: background_install_def stage_k8s_install_def catchE_run thenE_run bindE_run orderW_lookup
          split: option.splits if_splits prod.splits sum.splits)
  next
    case (Inl e)
    let ?undo = "\<lambda>d. bindE (orderW oid) (\<lambda>x. bindE (getsS (\<lambda>s. ctx_nodes s x)) (\<lambda>nids. compensate A oid nids d))"
    obtain c d where e: "e = HTTPException c d"
      using Inl sync inst by (cases e) (simp_all add: stage_k8s_install_def catchE_run thenE_run)
    obtain u w3 where undo: "?undo d w2 = (Inr u, w3)"
      using Inl e sync inst
      by (cases "?undo d w2") (auto simp: stage_k8s_install_def catchE_run thenE_run split: sum.splits)
    then have "order_is oid O_failed w3"
      by (auto simp: bindE_run orderW_lookup split: option.splits prod.splits sum.splits dest: compensate_fails)
    then have "w' = w3"
      using Inl e sync inst undo
      by (auto simp: stage_k8s_install_def catchE_run thenE_run bindE_run [of "orderW oid"] orderW_lookup order_is_def split: option.splits)
    then show ?thesis using Inl e Pair undo by (simp add: background_install_def catchE_run thenE_run)
  qed
qed

lemma paced_agrees:
  assumes "run_stages_paced A oid (pre @ [O_k8s_installing, O_delivered]) w = (Inr (x, Some iid), w1)"
    and "O_k8s_installing \<notin> set pre"
    and "run_stages A oid (pre @ [O_k8s_installing, O_delivered]) w = (Inr z, w')"
    and "order_state z = O_delivered \<or> isl (fst (run_k8s_install A oid iid w1))"
  shows "snd (background_install A oid iid w1) = w'"
  using assms
proof (induction pre arbitrary: w)
  case Nil
  then have "onStore (begin_k8s_install oid) w = (Inr iid, w1)"
    by (auto simp: bindE_run orderW_lookup split: prod.splits sum.splits option.splits)
  with Nil show ?case by (intro install_then_deliver) simp_all
next
  case (Cons st pre)
  then obtain w2 y where "stage_fn A st oid w = (Inr (), w2)" "map_of (st_orders (w_store w2)) oid = Some y"
      "order_state y \<notin> {O_rejected, O_failed}"
    by (auto simp: thenE_run bindE_run orderW_lookup split: prod.splits sum.splits option.splits if_splits)
  with Cons show ?case by (intro Cons.IH [of w2]) (auto simp: thenE_run bindE_run orderW_lookup)
qed

end
