(* ===== verification/Spec2Isabelle.thy ===== *)
theory Spec2Isabelle
  imports Access_Spec Controller_Spec Credentials_Spec Operations_Spec Acceptance_Spec Approval_Spec K8s_Spec
    Sla_Spec Typing_Spec K8s_Views Fault_Spec Telemetry_Views
    Nico_Rest_Spec Integration_Spec Application_Spec Public_Routes Paced_Install "HOL-Library.Sublist"
begin

text \<open>
  \<^bold>\<open>NeoCloud control plane.\<close> The program under \<open>src/app\<close> sells GPU racks: it keeps an inventory of AI factories,
  registers tenants with their own networks, allocates racks to them, runs orders through a pipeline that reserves and
  provisions hosts at a site controller (NICo), binds networks and storage, installs managed Kubernetes, hands over, bills,
  and at the end of a contract erases the hosts and certifies it. This library models it as functions on an explicit state
  and proves what a tenant relies on: that racks, partitions and networks are never shared by accident, that
  life cycles follow their tables, that a host is sanitized before the next tenant gets it, that one tenant cannot read or change
  what belongs to another, and that the long-running workflows end.

  \<^bold>\<open>State and effects.\<close> \<open>Store\<close> holds the record \<open>store\<close>, one association list per dictionary of \<open>store.py\<close> in insertion
  order (\<open>Entities\<close> and \<open>Portal_Entities\<close> are the classes of \<open>models.py\<close>; \<open>Catalog\<close> is \<open>spec.py\<close>). A \<open>world\<close> adds the site
  controller, the storage system and the shared services. A handler is a program \<open>'s \<Rightarrow> (err + 'a) \<times> 's\<close>
  (\<open>Prelude\<close>): \<open>HTTPException\<close> and Python's own exceptions (\<open>PyError\<close>) are values, and an exception keeps the writes made before
  it, as in the source. Time is a count of microseconds that only an outside step moves; floats are rationals rounded where
  the code rounds; detail texts are short ASCII tags.

  \<^bold>\<open>Theories and sources.\<close>
    \<^item> \<open>Nico\<close> (\<open>nico_fake.py\<close>), \<open>Vast\<close> (\<open>vast_fake.py\<close>), \<open>Shared\<close> (\<open>shared_services.py\<close>), \<open>Adapters\<close> (\<open>adapters.py\<close>):
      the systems behind the control plane. The adapter is a record of functions, an argument of every workflow; the
      theorems on the control plane hold for all adapters. The code ships two: \<open>LocalNicoAdapter\<close>, and \<open>NicoHttpAdapter\<close> of
      \<open>Nico_Rest\<close>, with the \<open>/fake-nico\<close> router at the other end and the models as JSON between them (\<open>Json\<close>).
    \<^item> \<open>Tenancy\<close>, \<open>Tenancy_Inv\<close>, \<open>Tenancy_Safe\<close> (\<open>tenancy.py\<close>): tenants, VNIs, allocations, partitions, the isolation report, and the
      invariant \<open>tenancy_inv\<close> with its preservation by each operation.
    \<^item> \<open>Lifecycle_FSM\<close>, \<open>Placement\<close>, \<open>Fulfillment\<close>, \<open>K8s_Install\<close>, \<open>Orders\<close>, \<open>Reconcile\<close> (\<open>lifecycle.py\<close>): the state machines with the
      locale of a tracked machine, placement, the stages of an order with compensation, the eight install stages, approval and
      reclaim, reconciliation with the site controller. \<open>Paced_Install\<close> has the install in a background thread and shows that an
      undisturbed thread ends where the synchronous pipeline does.
    \<^item> \<open>Inventory\<close> (\<open>seed.py\<close> and the writing routes of \<open>topology.py\<close>), \<open>Listings\<close>, \<open>Topology_Views\<close>, \<open>K8s_Views\<close>, \<open>Fabric_Views\<close>
      (\<open>fabric.py\<close>): seeding, equipment state, power policy and the reports.
    \<^item> \<open>Guard\<close> (\<open>tenancy_guard.py\<close>), \<open>Trace\<close>, \<open>Metrics\<close> (\<open>trace.py\<close>, \<open>metrics.py\<close>, over \<open>Bounded_Log\<close>): the middleware and the logs.
    \<^item> \<open>Tray_Emu\<close> (\<open>tray_emu.py\<close>), \<open>Telemetry_Views\<close> (the read routes of \<open>nico_fake.py\<close> and cluster metrics): the emulated trays, their
      faults and what the dashboards show.
    \<^item> \<open>Business\<close> (\<open>business.py\<close>), \<open>Scenario\<close>, \<open>Service_Levels\<close> (\<open>scenario_api.py\<close>), \<open>K8s_Api\<close> (\<open>k8s_api.py\<close>), \<open>Customer_Ops\<close>
      (\<open>customer_ops.py\<close>): billing, acceptance, termination with certificates, incidents and SLA credits, operations on
      clusters, the customer's own resources.
    \<^item> \<open>Integration\<close> (\<open>integration.py\<close>): probes of the other layers, the connection diagram, the comparison of the tenants each
      layer knows, live statistics. The network is a function from URLs to answers.
    \<^item> \<open>Application\<close> (\<open>main.py\<close>, the samples of \<open>seed.py\<close>), \<open>Public_Routes\<close> (settings, catalogue pages, read routes): startup, reseed,
      resets and the middleware stack over the state \<open>app\<close> that joins all components. \<open>Seed_Links\<close> shows that seeding cannot fail.

  \<^bold>\<open>Interleaving.\<close> \<open>Control_Plane\<close> is the transition system: one rule of \<open>api_step\<close> per route that changes state, with any parameters,
  plus steps of the environment (clock, site controller, storage and shared services may move to any state). Most handlers of the source hold
  the store's lock for the request or, in the background mode, for a stage, so stages are steps of their own and orders
  interleave between them. Some handlers hold no lock or take it several times (\<open>approve_next_stage\<close>, \<open>reject_fulfillment\<close>, ticket updates, several
  of \<open>customer_ops.py\<close> such as \<open>set_qos\<close> and \<open>delete_volume\<close>, the two halves of \<open>decide_acceptance\<close>): they are one step here, a simplification. \<open>Pipeline_Safe\<close>, \<open>Inventory_Safe\<close> and \<open>Portal_Safe\<close> show that every step keeps the invariants, by the
  rules collected in \<open>keeps_rules\<close>; \<open>reachable\<close> states satisfy them all.

  \<^bold>\<open>What the theorems show.\<close>
    \<^item> Here: ownership, partitions, networks and life cycles in every reachable state (C1 to C4), sanitizing before reuse and the six common stages
      before delivery (C5, C6); placement is sound, finds any capacity a site has and agrees with what tenancy grants (C7 to C9, from \<open>Placement_Spec\<close>).
    \<^item> \<open>Allocation_Spec\<close> (C10 to C14, C16): allocation is all or nothing and undone by release, VNIs are first fit, the isolation report decides
      isolation; and two places where the code does less than it means to. \<open>Integration_Spec\<close> (C15): the comparison of the layers finds,
      from what the emulators serve, exactly the tenants that one of them lacks.
    \<^item> \<open>Controller_Spec\<close> with \<open>Host_Contract\<close> (C17 to C19): sanitizing ends in a verdict within the polling bound, what waiting for a job answers by the
      polls it needs, and that the bound is off by one; reservations are exclusive, views round trip. \<open>Nico_Rest_Spec\<close> (C20): the REST adapter behaves as the in-process one.
    \<^item> \<open>Access_Spec\<close> (C21 to C24): the guard denies what is another tenant's and read-only roles their writes; behind it each
      list route shows exactly the customer's objects; deleting an allocation is not guarded.
    \<^item> \<open>Credentials_Spec\<close>, \<open>Operations_Spec\<close> with \<open>Reconcile_Spec\<close> (C25, C26, C28, C29): audit trail, revocation, secrets, reconciliation, and what a poll
      of the trace bus shows and loses.
      \<open>Application_Spec\<close> (C27): a reseed forgets everything and restores the seeded site.
    \<^item> \<open>Termination_Spec\<close> with \<open>Reclaim_Frame\<close>, \<open>Acceptance_Spec\<close> (C30 to C33): the end of a contract and the customer's acceptance.
    \<^item> \<open>Fault_Spec\<close> (C34): how long a GPU fault lives.
    \<^item> \<open>Approval_Spec\<close> (C35): the approval loop ends. \<open>K8s_Spec\<close> (C36, C37): the rolling upgrade refines one atomic change, and when it is admitted.
      \<open>Sla_Spec\<close> (C38): one credit per tenant and month, at the rate of the table. \<open>Typing_Spec\<close> (C39): the tenancy routes answer with their documented codes.
      \<open>Customer_Spec\<close> (C40): customers cannot touch each other's resources.
  \<open>Demo\<close> has the concrete states on which the properties are applied.

  \<^bold>\<open>Interfaces.\<close> Locales state what one part relies on and are interpreted on the model's definitions: a tracked state machine (nodes, orders),
  a bounded log (audit trail, trace), the host contract of the site controller, views that reclaim and release keep, the gate that stages keep,
  a storage system whose views come and go independently, numbered collections with owners (volumes, snapshots, keys, members, credits),
  codecs whose decoder inverts the encoder (the models on the wire), a link that delivers requests to a server.

  \<^bold>\<open>Bounds.\<close> \<open>poll_job\<close> makes \<open>MAX_POLLS\<close> = 60 rounds, the bound of \<open>wait_job\<close> itself. \<open>approve_rest\<close> has as many rounds as the longest pipeline has stages;
  C35 shows that more rounds change nothing, so this is the loop of the source. All other loops are structural or have a measure.

  \<^bold>\<open>Parameters.\<close> The compute adapter and the controller's state behind it, the HTTP transport and what the emulators behind it answer, random secrets
  (a stream), SHA-256 of the certificate, kubeconfig serials, the draws of the tray emulator, fault feeds, and the environment variables the handlers read.

  \<^bold>\<open>Not modelled.\<close> The demo scripts and the launcher, which drive a running server; static pages and CORS; the waiting of paced threads and of the
  background ticker (their steps are modelled, the time between them is not); the termination saga split over a thread (it is modelled as one run); the conversion of the site controller emulator's fault feed for the alarm
  list, which is an argument of the route; constants of \<open>spec.py\<close> that nothing reads; display texts. Calls that emit trace events are left out of the
  handlers: only the order flow report and the live statistics read the bus, and they take the events as an argument.
\<close>

section \<open>Isolation on every reachable state\<close>

text \<open>
  C1. In every state the control plane can reach, whatever the compute adapter answers and however
  requests interleave, a rack is bound to a tenant exactly when an allocation of that tenant holds
  it, and no rack is in two allocations.
\<close>

theorem ownership_agrees_with_allocations:
  assumes "reachable A w"
  shows "(\<forall>rid r t. map_of (st_racks (w_store w)) rid = Some r \<longrightarrow>
            (rack_tenant_id r = Some t \<longleftrightarrow> (\<exists>k a. map_of (st_allocations (w_store w)) k = Some a
               \<and> alloc_tenant_id a = t \<and> rid \<in> set (alloc_rack_ids a))))
       \<and> (\<forall>k l a b rid. map_of (st_allocations (w_store w)) k = Some a \<longrightarrow>
            map_of (st_allocations (w_store w)) l = Some b \<longrightarrow>
            rid \<in> set (alloc_rack_ids a) \<longrightarrow> rid \<in> set (alloc_rack_ids b) \<longrightarrow> k = l)"
proof -
  have al: "alloc_ok (w_store w)" using reachable_invs [OF assms] by (simp add: tenancy_inv_def)
  have "rack_tenant_id r = Some (alloc_tenant_id a)"
    if "map_of (st_racks (w_store w)) rid = Some r" "map_of (st_allocations (w_store w)) k = Some a"
      "rid \<in> set (alloc_rack_ids a)" for rid r k a
    using that al unfolding alloc_ok_def by fastforce
  moreover have "\<exists>k a. map_of (st_allocations (w_store w)) k = Some a \<and> alloc_tenant_id a = t \<and> rid \<in> set (alloc_rack_ids a)"
    if "map_of (st_racks (w_store w)) rid = Some r" "rack_tenant_id r = Some t" for rid r t
    using that al unfolding alloc_ok_def by blast
  moreover have "k = l" if "map_of (st_allocations (w_store w)) k = Some a" "map_of (st_allocations (w_store w)) l = Some b"
      "rid \<in> set (alloc_rack_ids a)" "rid \<in> set (alloc_rack_ids b)" for k l a b rid
    using that al unfolding alloc_ok_def by blast
  ultimately show ?thesis by blast
qed

theorem ownership_agrees_with_allocations_witness:
  "\<exists>k a. map_of (st_allocations (w_store run_alloc)) k = Some a \<and> alloc_tenant_id a = ''tnt-acme''
     \<and> ''su-1-rack-00'' \<in> set (alloc_rack_ids a)"
proof -
  have "rack_tenant_id (rebind (Some ''tnt-acme'') Hw_allocated (new_rack vr_nvl72 1 187 0)) = Some ''tnt-acme''" by simp
  with run_alloc_store(1) ownership_agrees_with_allocations [OF run_reachable(3), THEN conjunct1] show ?thesis by blast
qed

text \<open>
  C2. In every reachable state an NVLink partition lies on a rack bound to the partition's tenant,
  covers only trays of that rack, and shares no tray with another partition.
\<close>

theorem partitions_isolated:
  assumes "reachable A w"
  shows "(\<forall>k p. map_of (st_partitions (w_store w)) k = Some p \<longrightarrow>
            (\<exists>r. map_of (st_racks (w_store w)) (part_rack_id p) = Some r
               \<and> rack_tenant_id r = Some (part_tenant_id p) \<and> set (part_tray_ids p) \<subseteq> set (rack_tray_ids r)))
       \<and> (\<forall>k l p q t. map_of (st_partitions (w_store w)) k = Some p \<longrightarrow>
            map_of (st_partitions (w_store w)) l = Some q \<longrightarrow> part_rack_id p = part_rack_id q \<longrightarrow>
            t \<in> set (part_tray_ids p) \<longrightarrow> t \<in> set (part_tray_ids q) \<longrightarrow> k = l)"
proof -
  have "part_ok (w_store w)" using reachable_invs [OF assms] by (simp add: tenancy_inv_def)
  then show ?thesis unfolding part_ok_def by blast
qed

theorem partitions_isolated_witness:
  "\<exists>r. map_of (st_racks (w_store run_part)) ''su-1-rack-00'' = Some r \<and> rack_tenant_id r = Some ''tnt-acme''
     \<and> ''su-1-rack-00-tray-00'' \<in> set (rack_tray_ids r)"
  using partitions_isolated [OF run_reachable(4)] run_part_store by fastforce

text \<open>
  C3. In every reachable state each tenant's VNIs come from the pools of their fabrics, and no two
  tenants share a VNI or a VRF.
\<close>

theorem networks_disjoint:
  assumes "reachable A w"
    and "map_of (st_netiso (w_store w)) k = Some ni" and "map_of (st_netiso (w_store w)) l = Some nj" and "k \<noteq> l"
  shows "set (vnis ni) \<inter> set (vnis nj) = {} \<and> ni_vrf ni \<noteq> ni_vrf nj
     \<and> in_pool Compute (compute_l3vni ni) \<and> in_pool Converged (converged_vni ni) \<and> in_pool Oob (oob_vni ni)"
proof -
  have net: "net_ok (w_store w)" using reachable_invs [OF assms(1)] by (simp add: tenancy_inv_def)
  have "set (vnis ni) \<inter> set (vnis nj) = {}" using net assms(2-4) unfolding net_ok_def by blast
  moreover have "ni_vrf ni \<noteq> ni_vrf nj"
  proof -
    obtain a b where "k = ''tnt-'' @ a" "ni_vrf ni = ''VRF-'' @ a" "l = ''tnt-'' @ b" "ni_vrf nj = ''VRF-'' @ b"
      using net assms(2,3) unfolding net_ok_def by blast
    with assms(4) show ?thesis by auto
  qed
  moreover have "in_pool Compute (compute_l3vni ni) \<and> in_pool Converged (converged_vni ni) \<and> in_pool Oob (oob_vni ni)"
    using net assms(2) unfolding net_ok_def by blast
  ultimately show ?thesis by blast
qed

definition two_tenants :: "nico world" where
  "two_tenants = snd (create_tenant (demo_tenant_body\<lparr>tc_name := ''Beta''\<rparr>)
     (snd (create_tenant demo_tenant_body (demo_world (empty_store 0) demo_nico))))"

lemma two_tenants_reachable: "reachable LocalNicoAdapter two_tenants"
proof -
  have "reachable LocalNicoAdapter (demo_world (empty_store 0) demo_nico)"
    by (rule reachable.start) (simp add: demo_world_def)
  then show ?thesis unfolding two_tenants_def by (blast intro: reachable.step api_step.tenant)
qed

lemma two_tenants_netiso:
  "st_netiso (w_store two_tenants) =
     [(''tnt-acme'', \<lparr>ni_tenant_id = ''tnt-acme'', compute_l3vni = 10000, converged_vni = 20000, oob_vni = 30000,
        ni_vrf = ''VRF-acme'', ib_pkey = None\<rparr>),
      (''tnt-beta'', \<lparr>ni_tenant_id = ''tnt-beta'', compute_l3vni = 10001, converged_vni = 20001, oob_vni = 30001,
        ni_vrf = ''VRF-beta'', ib_pkey = None\<rparr>)]"
proof -
  have sl: "slug ''Acme'' = ''acme''" "slug ''Beta'' = ''beta''" by code_simp+
  show ?thesis
    by (simp add: two_tenants_def create_tenant_def demo_tenant_body_def demo_world_def sl Let_def bindE_run thenE_run
          on_runs alloc_vni_run used_vnis_def dict_values_def empty_store_def has_key_def vnis_def VNI_RANGES_def
          vni_scan.simps create_realm_def audit_def split: sum.splits prod.splits)
qed

theorem networks_disjoint_witness:
  "map_of (st_netiso (w_store two_tenants)) ''tnt-acme'' \<noteq> None \<and> map_of (st_netiso (w_store two_tenants)) ''tnt-beta'' \<noteq> None
   \<and> ni_vrf (the (map_of (st_netiso (w_store two_tenants)) ''tnt-acme''))
       \<noteq> ni_vrf (the (map_of (st_netiso (w_store two_tenants)) ''tnt-beta''))"
  using networks_disjoint [OF two_tenants_reachable, of "''tnt-acme''" _ "''tnt-beta''"]
  by (simp add: two_tenants_netiso)

section \<open>State machines\<close>

text \<open>
  The two asides of an order: a rejection takes a delivered order back to \<open>acceptance\<close>, and anywhere else it only leaves an
  entry. Without those entries a history is a path.
\<close>

lemma replays_retest:
  assumes "replays e retest x ys z"
  shows "\<exists>ps. path (\<lambda>a b. e a b \<or> a = O_delivered \<and> b = O_acceptance) (x # ps) \<and> last (x # ps) = z
     \<and> subseq ps ys \<and> filter (\<lambda>y. y \<noteq> O_acceptance) ps = filter (\<lambda>y. y \<noteq> O_acceptance) ys"
  using assms
proof (induction ys arbitrary: x)
  case Nil
  then show ?case by (intro exI [of _ "[]"]) simp
next
  case (Cons y ys)
  show ?case
  proof (cases "(x = y \<or> e x y \<or> x = O_delivered \<and> y = O_acceptance) \<and> replays e retest y ys z")
    case True
    with Cons.IH obtain ps where "path (\<lambda>a b. e a b \<or> a = O_delivered \<and> b = O_acceptance) (y # ps)" "last (y # ps) = z"
        "subseq ps ys" "filter (\<lambda>y. y \<noteq> O_acceptance) ps = filter (\<lambda>y. y \<noteq> O_acceptance) ys" by blast
    with True show ?thesis by (intro exI [of _ "y # ps"]) auto
  next
    case False
    have "retest x y = (if y = O_acceptance then Some (if x = O_delivered then O_acceptance else x) else None)" by (rule retest_def)
    with False Cons.prems have "y = O_acceptance" "replays e retest x ys z" by (auto split: option.splits if_splits)
    moreover from Cons.IH [OF this(2)] obtain ps where "path (\<lambda>a b. e a b \<or> a = O_delivered \<and> b = O_acceptance) (x # ps)" "last (x # ps) = z"
        "subseq ps ys" "filter (\<lambda>y. y \<noteq> O_acceptance) ps = filter (\<lambda>y. y \<noteq> O_acceptance) ys" by blast
    ultimately show ?thesis by (intro exI [of _ ps]) (simp add: list_emb_Cons)
  qed
qed

text \<open>
  C4. In every reachable state the history of every node is a path of the transition table from a
  legal start state to the current state. The history of every order starts with \<open>received\<close>, and after removing some of its
  \<open>acceptance\<close> entries it is a path from there to the current state along the table and one more edge, from \<open>delivered\<close> back to \<open>acceptance\<close>
  (the customer's rejection). The removed entries are rejections of an order that was not delivered: they record \<open>acceptance\<close> and leave the
  state alone, so the last entry of a history need not be the current state. A path may repeat a state (a note). No handler, on no error
  path, skips any other transition or rewrites a history.
\<close>

theorem histories_are_paths:
  assumes "reachable A w"
  shows "(\<forall>k n. map_of (st_node_instances (w_store w)) k = Some n \<longrightarrow>
            (\<exists>a sts. map ev_state (node_history n) = map node_state_value (a # sts) \<and> a \<in> {N_pool_ready, N_discovered}
               \<and> last (a # sts) = node_state n \<and> path (\<lambda>a b. b \<in> set (NODE_TRANSITIONS a)) (a # sts)))
       \<and> (\<forall>k x. map_of (st_orders (w_store w)) k = Some x \<longrightarrow>
            (\<exists>sts ps. map ev_state (order_history x) = map order_state_value (O_received # sts)
               \<and> subseq ps sts \<and> filter (\<lambda>st. st \<noteq> O_acceptance) ps = filter (\<lambda>st. st \<noteq> O_acceptance) sts
               \<and> last (O_received # ps) = order_state x
               \<and> path (\<lambda>a b. b \<in> set (ORDER_TRANSITIONS a) \<or> a = O_delivered \<and> b = O_acceptance) (O_received # ps)))"
proof (intro conjI allI impI)
  fix k n
  assume "map_of (st_node_instances (w_store w)) k = Some n"
  then have "node_tracked n" using reachable_invs [OF assms] by (simp add: life_inv_def)
  then obtain a sts where "map ev_state (node_history n) = node_state_value a # map node_state_value sts"
      "a \<in> {N_pool_ready, N_discovered}" "replays (\<lambda>a b. b \<in> set (NODE_TRANSITIONS a)) no_aside a sts (node_state n)"
    unfolding node_tracked_def tracked_def by (elim exE conjE)
  then show "\<exists>a sts. map ev_state (node_history n) = map node_state_value (a # sts) \<and> a \<in> {N_pool_ready, N_discovered}
               \<and> last (a # sts) = node_state n \<and> path (\<lambda>a b. b \<in> set (NODE_TRANSITIONS a)) (a # sts)"
    unfolding replays_path by (intro exI [of _ a] exI [of _ sts]) simp
next
  fix k x
  assume "map_of (st_orders (w_store w)) k = Some x"
  then have "order_tracked x" using reachable_invs [OF assms] by (simp add: life_inv_def)
  then obtain sts where h: "map ev_state (order_history x) = map order_state_value (O_received # sts)"
      and r: "replays (\<lambda>a b. b \<in> set (ORDER_TRANSITIONS a)) retest O_received sts (order_state x)"
    unfolding order_tracked_def tracked_def by (metis list.simps(9) singletonD)
  from replays_retest [OF r] h show "\<exists>sts ps. map ev_state (order_history x) = map order_state_value (O_received # sts)
       \<and> subseq ps sts \<and> filter (\<lambda>st. st \<noteq> O_acceptance) ps = filter (\<lambda>st. st \<noteq> O_acceptance) sts
       \<and> last (O_received # ps) = order_state x
       \<and> path (\<lambda>a b. b \<in> set (ORDER_TRANSITIONS a) \<or> a = O_delivered \<and> b = O_acceptance) (O_received # ps)"
    by blast
qed

theorem histories_are_paths_witness:
  "\<exists>a sts. map ev_state (node_history (ghost_node ''ni-t-1'' (demo_host H_pool_ready) (empty_store 0))) = map node_state_value (a # sts)
     \<and> last (a # sts) = node_state (ghost_node ''ni-t-1'' (demo_host H_pool_ready) (empty_store 0))"
proof -
  have "map_of (st_node_instances (w_store demo_ghost)) ''ni-t-1'' = Some (ghost_node ''ni-t-1'' (demo_host H_pool_ready) (empty_store 0))"
    by (simp add: demo_ghost_nodes)
  then show ?thesis using histories_are_paths [OF demo_ghost_reachable] by blast
qed

text \<open>
  C5. A node that has been handed to a tenant and is in the pool again was sanitized in between: in
  any history of the node table, between an \<open>allocated\<close> or \<open>in_service\<close> event and a later return to
  \<open>pool_ready\<close> there is a \<open>sanitizing\<close> event.
\<close>

theorem sanitized_before_reuse:
  assumes "node_tracked n" and "node_history n = pre @ ev # post"
    and "ev_state ev \<in> {node_state_value N_allocated, node_state_value N_in_service}"
    and "node_state n = N_pool_ready"
  shows "\<exists>ev' \<in> set post. ev_state ev' = node_state_value N_sanitizing"
proof -
  let ?A = "{N_allocated, N_in_service, N_cordoned, N_draining, N_releasing}"
  from assms(3) obtain a where a: "ev_state ev = node_state_value a" "a \<in> ?A" by blast
  have "q \<in> ?A \<or> q \<in> {N_sanitizing}" if "p \<in> ?A" "q \<in> set (NODE_TRANSITIONS p)" for p q
    using that by auto
  from node_fsm.exit_recorded [OF assms(1) [unfolded node_tracked_def] assms(2) a _ this] assms(4) show ?thesis by (simp add: no_aside_def)
qed

theorem sanitized_before_reuse_witness:
  "\<exists>ev' \<in> set (drop 4 (node_history (demo_node [N_pool_ready, N_reserved, N_provisioning, N_allocated, N_releasing,
      N_sanitizing, N_pool_ready]))). ev_state ev' = node_state_value N_sanitizing"
proof -
  let ?sts = "[N_pool_ready, N_reserved, N_provisioning, N_allocated, N_releasing, N_sanitizing, N_pool_ready]"
  have t: "node_tracked (demo_node ?sts)" by (rule demo_node_tracked) simp_all
  show ?thesis
    using sanitized_before_reuse [OF t, of "take 3 (node_history (demo_node ?sts))" "event (node_state_value N_allocated) [] 0"
        "drop 4 (node_history (demo_node ?sts))"]
    by (simp add: demo_node_def event_def)
qed

text \<open>
  Gates: a state \<open>b\<close> is the only way out of a set that the object is in and must leave. With a list of gates, one behind the other, the history
  has the gate states in this order.
\<close>

fun gates :: "('a \<Rightarrow> 'a \<Rightarrow> bool) \<Rightarrow> ('a \<Rightarrow> 'a \<Rightarrow> 'a option) \<Rightarrow> 'a \<Rightarrow> 'a \<Rightarrow> ('a set \<times> 'a) list \<Rightarrow> bool" where
  "gates e r x z [] \<longleftrightarrow> True"
| "gates e r x z ((A, b) # gs) \<longleftrightarrow> x \<in> A \<and> z \<notin> A \<and> (\<forall>p \<in> A. \<forall>q. e p q \<longrightarrow> q \<in> A \<or> q = b)
     \<and> (\<forall>p \<in> A. \<forall>y q. r p y = Some q \<longrightarrow> q \<in> A) \<and> gates e r b z gs"

lemma replays_crosses:
  assumes "replays e r x ys z" "x \<in> A" "z \<notin> A" "\<forall>p \<in> A. \<forall>q. e p q \<longrightarrow> q \<in> A \<or> q = b" "\<forall>p \<in> A. \<forall>y q. r p y = Some q \<longrightarrow> q \<in> A"
  shows "\<exists>us vs. ys = us @ b # vs \<and> replays e r b vs z"
  using assms(1,2)
proof (induction ys arbitrary: x)
  case Nil
  with assms(3) show ?case by simp
next
  case (Cons y ys)
  then consider "y = b" "replays e r y ys z" | x' where "x' \<in> A" "replays e r x' ys z"
    using assms(4,5) by (fastforce split: option.splits)
  then show ?case
  proof cases
    case 1
    then show ?thesis by (intro exI [of _ "[]"] exI [of _ ys]) simp
  next
    case (2 x')
    from Cons.IH [OF 2(2,1)] show ?thesis by (metis append_Cons)
  qed
qed

lemma replays_gates: "replays e r x ys z \<Longrightarrow> gates e r x z gs \<Longrightarrow> subseq (map snd gs) ys"
proof (induction gs arbitrary: x ys)
  case (Cons g gs)
  obtain A b where g: "g = (A, b)" by (cases g)
  from Cons.prems g obtain us vs where "ys = us @ b # vs" "replays e r b vs z" using replays_crosses [of e r x ys z A b] by auto
  moreover from this Cons g have "subseq (map snd gs) vs" by auto
  ultimately show ?case using g by (simp add: subseq_drop_many)
qed simp

lemma order_gates:
  defines "off \<equiv> {O_reclaiming, O_closed, O_rejected, O_compensating, O_failed}"
  shows "gates (\<lambda>a b. b \<in> set (ORDER_TRANSITIONS a)) retest O_received O_delivered
     [(insert O_received off, O_validated), (insert O_validated off, O_reserved), (insert O_reserved off, O_provisioning),
      (insert O_provisioning off, O_isolating), (insert O_isolating off, O_storage_binding), (insert O_storage_binding off, O_acceptance)]"
  unfolding off_def by (auto simp: retest_def split: if_splits)

text \<open>
  C6. A delivered order went through the six stages that all orders share, in their order: its history has entries for \<open>received\<close>, validation,
  reservation, provisioning, isolation, storage binding and acceptance, one after the other. (\<open>order_tracked\<close> holds of every order of a reachable
  state.) The seventh stage of an order with managed Kubernetes, \<open>k8s_installing\<close>, is not among them: \<open>finalize_skips_install\<close> of
  \<open>Acceptance_Spec\<close> shows an approval that delivers without it.
\<close>

theorem delivered_through_every_stage:
  assumes "order_tracked x" and "order_state x = O_delivered"
  shows "subseq (map order_state_value [O_received, O_validated, O_reserved, O_provisioning, O_isolating, O_storage_binding, O_acceptance])
     (map ev_state (order_history x))"
proof -
  from assms(1) obtain sts where h: "map ev_state (order_history x) = order_state_value O_received # map order_state_value sts"
      and r: "replays (\<lambda>a b. b \<in> set (ORDER_TRANSITIONS a)) retest O_received sts (order_state x)"
    unfolding order_tracked_def tracked_def by (metis singletonD)
  from replays_gates [OF r [unfolded assms(2)] order_gates]
  have "subseq [O_validated, O_reserved, O_provisioning, O_isolating, O_storage_binding, O_acceptance] sts" by simp
  from subseq_map [OF this, of order_state_value] show ?thesis unfolding h by simp
qed

theorem delivered_through_every_stage_witness:
  "subseq [''isolating'', ''storage_binding'', ''acceptance''] (map ev_state (order_history (demo_order [O_received, O_validated, O_reserved,
      O_provisioning, O_isolating, O_storage_binding, O_acceptance, O_delivered])))"
proof -
  let ?sts = "[O_received, O_validated, O_reserved, O_provisioning, O_isolating, O_storage_binding, O_acceptance, O_delivered]"
  have t: "order_tracked (demo_order ?sts)" by (rule demo_order_tracked) simp_all
  have "subseq [''isolating'', ''storage_binding'', ''acceptance'']
      (map order_state_value [O_received, O_validated, O_reserved, O_provisioning, O_isolating, O_storage_binding, O_acceptance])"
    by simp
  moreover have "order_state (demo_order ?sts) = O_delivered" by (simp add: demo_order_def)
  ultimately show ?thesis using delivered_through_every_stage [OF t] subseq_order.trans by blast
qed

section \<open>Placement\<close>

text \<open>
  C7. A placement returns exactly the requested number of racks, all of them free, ready and with every
  tray's node in the pool, in scalable units of the requested generation that the tenant's isolation tier may use, and all at one site.
\<close>

theorem placement_sound:
  assumes "0 < n" and "select_racks s bk (int n) tn = Some rs"
  shows "length rs = n \<and> (\<exists>fid. \<forall>r \<in> set rs.
     rack_tenant_id r = None \<and> rack_state r = Hw_ready \<and> length (nodes_of_rack s (rack_id r)) = length (rack_tray_ids r)
     \<and> list_all (\<lambda>n. node_state n = N_pool_ready) (nodes_of_rack s (rack_id r))
     \<and> (\<exists>su \<in> set (dict_values (st_sus s)).
          su_blueprint_key su = bk \<and> su_allowed_for s su tn \<and> r \<in> set (racks_of_su s (su_id su)) \<and> site_id s su = fid))"
proof -
  have "rack_tenant_id r = None \<and> rack_state r = Hw_ready \<and> length (nodes_of_rack s (rack_id r)) = length (rack_tray_ids r)
     \<and> list_all (\<lambda>n. node_state n = N_pool_ready) (nodes_of_rack s (rack_id r))" if "rack_sellable s r" for r
    using that unfolding rack_sellable_def Let_def by (auto split: if_splits)
  with select_racks_sound [OF assms] show ?thesis unfolding offered_def by meson
qed

theorem placement_sound_witness:
  "select_racks demo_store ''vr-nvl72'' (int 2) (Some demo_tenant) \<noteq> None \<and>
   nodes_of_rack demo_store ''su-1-rack-00'' = []"
  using placement_sound [OF _ demo_select] demo_select by (simp add: demo_rack_def)

text \<open>
  What a customer would count as capacity: a rack without a tenant that is ready, with the node of every tray in the pool, in a unit that
  the tenant may use, that is one where no other tenant is, or where nobody is dedicated.
\<close>

definition free_rack :: "store \<Rightarrow> rack \<Rightarrow> bool" where
  "free_rack s r \<longleftrightarrow> rack_tenant_id r = None \<and> rack_state r = Hw_ready \<and> length (nodes_of_rack s (rack_id r)) = length (rack_tray_ids r)
     \<and> (\<forall>n \<in> set (nodes_of_rack s (rack_id r)). node_state n = N_pool_ready)"

definition may_use :: "store \<Rightarrow> tenant option \<Rightarrow> scalable_unit \<Rightarrow> bool" where
  "may_use s tn su \<longleftrightarrow> (\<forall>t r x. tn = Some t \<longrightarrow> r \<in> set (racks_of_su s (su_id su)) \<longrightarrow> rack_tenant_id r = Some x \<longrightarrow> x \<notin> {[], tn_id t} \<longrightarrow>
     isolation_tier t \<noteq> bare_metal_dedicated \<and> (\<forall>t'. map_of (st_tenants s) x = Some t' \<longrightarrow> isolation_tier t' \<noteq> bare_metal_dedicated))"

lemma set_su_owners:
  "set (su_owners s su t) = {x. x \<notin> {[], tn_id t} \<and> (\<exists>r \<in> set (racks_of_su s (su_id su)). rack_tenant_id r = Some x)}"
  by (auto simp: su_owners_def split: option.splits if_splits)

lemma may_use_allowed:
  assumes "may_use s tn su"
  shows "su_allowed_for s su tn"
proof (cases tn)
  case None
  then show ?thesis by (simp add: su_allowed_for_def)
next
  case (Some t)
  have "isolation_tier t \<noteq> bare_metal_dedicated \<and> \<not> is_dedicated s x" if "x \<in> set (su_owners s su t)" for x
    using that assms Some unfolding set_su_owners may_use_def is_dedicated_def by (auto split: option.splits)
  with Some show ?thesis by (cases "su_owners s su t") (auto simp: su_allowed_for_def Let_def list_ex_iff)
qed

lemma free_rack_sellable: "free_rack s r \<Longrightarrow> rack_sellable s r"
  by (simp add: free_rack_def rack_sellable_def Let_def list_all_iff)

lemma pooled:
  assumes "su \<in> set (dict_values (st_sus s))" "su_blueprint_key su = bk" "may_use s tn su" "site_id s su = fid"
    "r \<in> set (racks_of_su s (su_id su))" "free_rack s r"
  shows "r \<in> set (concat (site_free s bk tn fid))"
proof -
  have "(su, filter (rack_sellable s) (racks_of_su s (su_id su)), fid) \<in> set (rack_pools s bk tn)"
    using assms(1,2,4) may_use_allowed [OF assms(3)] by (simp add: rack_pools_def image_iff)
  then have "filter (rack_sellable s) (racks_of_su s (su_id su)) \<in> set (site_free s bk tn fid)" by (force simp: site_free_def)
  moreover have "r \<in> set (filter (rack_sellable s) (racks_of_su s (su_id su)))" using assms(5) free_rack_sellable [OF assms(6)] by simp
  ultimately show ?thesis by (simp only: set_concat) blast
qed

text \<open>
  C8. Placement never refuses capacity that is there: whenever a site (a factory) has at least as many different free racks as requested, in units of
  the requested generation that the tenant may use, however they are spread over units, a selection of exactly that many racks is returned.
\<close>

theorem placement_complete:
  assumes "0 < n" and "distinct rs" and "n \<le> length rs"
    and "\<forall>r \<in> set rs. free_rack s r \<and> (\<exists>su \<in> set (dict_values (st_sus s)). su_blueprint_key su = bk \<and> may_use s tn su
       \<and> r \<in> set (racks_of_su s (su_id su)) \<and> map_option factory_id (factory_of_su s (su_id su)) = Some fid)"
  shows "\<exists>rs'. select_racks s bk (int n) tn = Some rs' \<and> length rs' = n"
proof -
  have "set rs \<subseteq> set (concat (site_free s bk tn fid))"
    using assms(4) by (fastforce intro: pooled simp: site_id_def)
  then have "length rs \<le> length (concat (site_free s bk tn fid))"
    using assms(2) by (metis card_length card_mono distinct_card finite_set le_trans)
  with assms(3) have "n \<le> total (site_free s bk tn fid)" by (simp add: total_def length_concat)
  from select_racks_complete [OF assms(1) this] show ?thesis using select_racks_sound [OF assms(1)] by blast
qed

theorem placement_complete_witness:
  "\<exists>rs. select_racks demo_store ''vr-nvl72'' (int 2) (Some demo_tenant) = Some rs \<and> length rs = 2"
proof -
  let ?r = "[demo_rack ''su-1-rack-00'', demo_rack ''su-1-rack-01'']"
  have racks: "racks_of_su demo_store (su_id demo_su) = ?r" by (simp add: racks_of_su_def demo_su_def)
  have free: "free_rack demo_store (demo_rack rid)" for rid by (simp add: free_rack_def demo_rack_def nodes_of_rack_def dict_values_def)
  have use: "may_use demo_store (Some demo_tenant) demo_su" unfolding may_use_def racks by (simp add: demo_rack_def)
  have site: "map_option factory_id (factory_of_su demo_store (su_id demo_su)) = Some ''f''"
    by (simp add: factory_of_su_def block_holds_def du_holds_def demo_su_def dict_values_def demo_store_def empty_store_def)
  have su: "demo_su \<in> set (dict_values (st_sus demo_store))" "su_blueprint_key demo_su = ''vr-nvl72''"
    by (simp_all add: dict_values_def demo_su_def)
  have "\<forall>r \<in> set ?r. free_rack demo_store r \<and> (\<exists>su \<in> set (dict_values (st_sus demo_store)). su_blueprint_key su = ''vr-nvl72''
      \<and> may_use demo_store (Some demo_tenant) su \<and> r \<in> set (racks_of_su demo_store (su_id su))
      \<and> map_option factory_id (factory_of_su demo_store (su_id su)) = Some ''f'')"
    using racks free use site su by auto
  from placement_complete [OF _ _ _ this, of 2] show ?thesis by (simp add: demo_rack_def)
qed

text \<open>
  C9. What placement selects, allocation grants: racks of one scalable unit that placement offers to a
  tenant are never refused by \<open>create_allocation\<close>, and the allocation holds exactly those racks.
\<close>

theorem placed_racks_are_granted:
  assumes "tenancy_inv s" and "map_of (st_tenants s) tid = Some t" and "map_of (st_sus s) k = Some su"
    and "su_allowed_for s su (Some t)" and "rids \<noteq> []"
    and "\<forall>rid \<in> set rids. \<exists>r \<in> set (racks_of_su s k). rack_id r = rid \<and> rack_sellable s r"
  shows "\<exists>a s'. create_allocation \<lparr>ac_tenant_id = tid, ac_scope = Scope_rack_set, ac_su_id = k,
            ac_rack_ids = Some rids, ac_dpu_mode = None\<rparr> s = (Inr a, s') \<and> alloc_rack_ids a = rids"
  by (rule placed_racks_allocate [OF assms])

theorem placed_racks_are_granted_witness:
  "\<exists>a s'. create_allocation \<lparr>ac_tenant_id = ''tnt-a'', ac_scope = Scope_rack_set, ac_su_id = ''su-1'',
      ac_rack_ids = Some [''su-1-rack-01''], ac_dpu_mode = None\<rparr> demo_store = (Inr a, s') \<and> alloc_rack_ids a = [''su-1-rack-01'']"
  by (rule placed_racks_are_granted [OF demo_inv, of _ demo_tenant _ demo_su])
     (simp_all add: su_allowed_for_def su_owners_def racks_of_su_def demo_su_def demo_rack_def rack_sellable_def
        nodes_of_rack_def dict_values_def)

end
